theory Spec2Isabelle
  imports Main "HOL-Library.Word"
begin

unbundle bit_operations_syntax

section \<open>Machine words and the carry primitives\<close>

text \<open>
  The header \<^verbatim>\<open>K12AndKeyUtil.h\<close> works on \<^verbatim>\<open>unsigned long long\<close> (64-bit) words and on
  bytes. A field element \<^verbatim>\<open>felm_t\<close> is an array of two words, least significant first; an
  element of the quadratic extension \<^verbatim>\<open>f2elm_t\<close> is an array of two field elements.
  Fixed-size arrays are modelled as tuples, in index order.
\<close>

type_synonym u8 = "8 word"
type_synonym u64 = "64 word"
type_synonym felm = "u64 \<times> u64"
type_synonym f2elm = "felm \<times> felm"
type_synonym u256 = "u64 \<times> u64 \<times> u64 \<times> u64"

text \<open>
  The header is compiled for two targets. Under \<^verbatim>\<open>__aarch64__\<close> it defines
  \<^verbatim>\<open>_addcarry_u64\<close> and \<^verbatim>\<open>_subborrow_u64\<close> itself (lines 1044-1056); otherwise they
  are the x86-64 compiler intrinsics (add/subtract with carry flag). Both are modelled, and
  every function that reaches them takes the target as its first argument.
\<close>

datatype arch = X86_64 | AArch64

definition addcarry_u64 :: "arch \<Rightarrow> u8 \<Rightarrow> u64 \<Rightarrow> u64 \<Rightarrow> u8 \<times> u64" where
  "addcarry_u64 t b_in src1 src2 =
     (case t of
        AArch64 \<Rightarrow>
          (let s2 = src2 + (if b_in \<noteq> 0 then 1 else 0)
           in (if (- 1) - src1 < s2 then 1 else 0, src1 + s2))
      | X86_64 \<Rightarrow>
          (let s = unat src1 + unat src2 + (if b_in \<noteq> 0 then 1 else 0)
           in (if 2 ^ 64 \<le> s then 1 else 0, of_nat s)))"

definition subborrow_u64 :: "arch \<Rightarrow> u8 \<Rightarrow> u64 \<Rightarrow> u64 \<Rightarrow> u8 \<times> u64" where
  "subborrow_u64 t b_in src1 src2 =
     (case t of
        AArch64 \<Rightarrow>
          (let s2 = src2 + (if b_in \<noteq> 0 then 1 else 0)
           in (if src1 < s2 then 1 else 0, src1 - s2))
      | X86_64 \<Rightarrow>
          (let s = unat src2 + (if b_in \<noteq> 0 then 1 else 0)
           in (if unat src1 < s then 1 else 0, of_nat (unat src1 + 2 ^ 64 - s))))"

text \<open>
  \<^verbatim>\<open>_umul128\<close> (line 1084) multiplies in \<^verbatim>\<open>unsigned __int128\<close> and returns the low word,
  storing the high word through the pointer. The model returns the pair (low, high).
\<close>

definition umul128 :: "u64 \<Rightarrow> u64 \<Rightarrow> u64 \<times> u64" where
  "umul128 a b =
     (let v = (ucast a :: 128 word) * ucast b in (ucast v, ucast (drop_bit 64 v)))"

text \<open>
  \<^verbatim>\<open>__shiftleft128\<close> and \<^verbatim>\<open>__shiftright128\<close> (lines 1095-1126), as the
  \<^verbatim>\<open>__uint128_t\<close> variant writes them. The \<^verbatim>\<open>shld\<close>/\<^verbatim>\<open>shrd\<close> variant computes the
  same word for the shift counts 1 and 63, the only ones the header uses.
\<close>

definition shiftleft128 :: "u64 \<Rightarrow> u64 \<Rightarrow> nat \<Rightarrow> u64" where
  "shiftleft128 LowPart HighPart Shift =
     (let a = push_bit 64 (ucast HighPart :: 128 word) OR ucast LowPart
      in ucast (drop_bit 64 (push_bit Shift a)))"

definition shiftright128 :: "u64 \<Rightarrow> u64 \<Rightarrow> nat \<Rightarrow> u64" where
  "shiftright128 LowPart HighPart Shift =
     (let a = push_bit 64 (ucast HighPart :: 128 word) OR ucast LowPart
      in ucast (drop_bit Shift a))"

section \<open>Arithmetic in GF(p), p = 2^127 - 1\<close>

definition mod1271 :: "arch \<Rightarrow> felm \<Rightarrow> felm" where
  "mod1271 t a =
     (let (a0, a1) = a;
          (k, a0) = subborrow_u64 t 0 a0 0xFFFFFFFFFFFFFFFF;
          (k, a1) = subborrow_u64 t k a1 0x7FFFFFFFFFFFFFFF;
          mask = 0 - drop_bit 63 a1;
          (k, a0) = addcarry_u64 t 0 a0 mask;
          (k, a1) = addcarry_u64 t k a1 (0x7FFFFFFFFFFFFFFF AND mask)
      in (a0, a1))"

definition fpadd1271 :: "arch \<Rightarrow> felm \<Rightarrow> felm \<Rightarrow> felm" where
  "fpadd1271 t a b =
     (let (a0, a1) = a; (b0, b1) = b;
          (k, c0) = addcarry_u64 t 0 a0 b0;
          (k, c1) = addcarry_u64 t k a1 b1;
          (k, c0) = addcarry_u64 t 0 c0 (drop_bit 63 c1);
          (k, c1) = addcarry_u64 t k (c1 AND 0x7FFFFFFFFFFFFFFF) 0
      in (c0, c1))"

definition fpsub1271 :: "arch \<Rightarrow> felm \<Rightarrow> felm \<Rightarrow> felm" where
  "fpsub1271 t a b =
     (let (a0, a1) = a; (b0, b1) = b;
          (k, c0) = subborrow_u64 t 0 a0 b0;
          (k, c1) = subborrow_u64 t k a1 b1;
          (k, c0) = subborrow_u64 t 0 c0 (drop_bit 63 c1);
          (k, c1) = subborrow_u64 t k (c1 AND 0x7FFFFFFFFFFFFFFF) 0
      in (c0, c1))"

definition fpneg1271 :: "felm \<Rightarrow> felm" where
  "fpneg1271 a = (let (a0, a1) = a in (NOT a0, 0x7FFFFFFFFFFFFFFF - a1))"

definition fpmul1271 :: "arch \<Rightarrow> felm \<Rightarrow> felm \<Rightarrow> felm" where
  "fpmul1271 t a b =
     (let (a0, a1) = a; (b0, b1) = b;
          (tt1_0, tt3_0) = umul128 a0 b0;
          (tt2_0, tt2_1) = umul128 a0 b1;
          (k, tt2_0) = addcarry_u64 t 0 tt2_0 tt3_0;
          (k, tt2_1) = addcarry_u64 t k tt2_1 0;
          (tt3_0, tt3_1) = umul128 a1 b0;
          (k, tt2_0) = addcarry_u64 t 0 tt2_0 tt3_0;
          (k, tt2_1) = addcarry_u64 t k tt2_1 tt3_1;
          (tt3_0, tt3_1) = umul128 a1 b1;
          tt3_1 = shiftleft128 tt3_0 tt3_1 1;
          (k, tt3_0) = addcarry_u64 t 0 (shiftright128 tt2_0 tt2_1 63) (push_bit 1 tt3_0);
          (k, tt3_1) = addcarry_u64 t k (drop_bit 63 tt2_1) tt3_1;
          (k, tt1_0) = addcarry_u64 t 0 tt1_0 tt3_0;
          (k, tt1_1) = addcarry_u64 t k (tt2_0 AND 0x7FFFFFFFFFFFFFFF) tt3_1;
          (k, c0) = addcarry_u64 t 0 tt1_0 (drop_bit 63 tt1_1);
          (k, c1) = addcarry_u64 t k (tt1_1 AND 0x7FFFFFFFFFFFFFFF) 0
      in (c0, c1))"

definition fpsqr1271 :: "arch \<Rightarrow> felm \<Rightarrow> felm" where
  "fpsqr1271 t a =
     (let (a0, a1) = a;
          (tt1_0, tt3_0) = umul128 a0 a0;
          (tt2_0, tt2_1) = umul128 a0 a1;
          (k, tt3_0) = addcarry_u64 t 0 tt2_0 tt3_0;
          (k, tt3_1) = addcarry_u64 t k tt2_1 0;
          (k, tt2_0) = addcarry_u64 t 0 tt2_0 tt3_0;
          (k, tt2_1) = addcarry_u64 t k tt2_1 tt3_1;
          (tt3_0, tt3_1) = umul128 a1 a1;
          tt3_1 = shiftleft128 tt3_0 tt3_1 1;
          (k, tt3_0) = addcarry_u64 t 0 (shiftright128 tt2_0 tt2_1 63) (push_bit 1 tt3_0);
          (k, tt3_1) = addcarry_u64 t k (drop_bit 63 tt2_1) tt3_1;
          (k, tt1_0) = addcarry_u64 t 0 tt1_0 tt3_0;
          (k, tt1_1) = addcarry_u64 t k (tt2_0 AND 0x7FFFFFFFFFFFFFFF) tt3_1;
          (k, c0) = addcarry_u64 t 0 tt1_0 (drop_bit 63 tt1_1);
          (k, c1) = addcarry_u64 t k (tt1_1 AND 0x7FFFFFFFFFFFFFFF) 0
      in (c0, c1))"

text \<open>The loops \<^verbatim>\<open>for (i = 0; i < n; i++) fpsqr1271(x, x)\<close>.\<close>

primrec fpsqr1271_times :: "arch \<Rightarrow> nat \<Rightarrow> felm \<Rightarrow> felm" where
  "fpsqr1271_times t 0 x = x"
| "fpsqr1271_times t (Suc n) x = fpsqr1271_times t n (fpsqr1271 t x)"

definition fpexp1251 :: "arch \<Rightarrow> felm \<Rightarrow> felm" where
  "fpexp1251 t a =
     (let t2 = fpsqr1271 t a;
          t2 = fpmul1271 t a t2;
          t3 = fpsqr1271 t t2;
          t3 = fpsqr1271 t t3;
          t3 = fpmul1271 t t2 t3;
          t4 = fpsqr1271 t t3;
          t4 = fpsqr1271 t t4;
          t4 = fpsqr1271 t t4;
          t4 = fpsqr1271 t t4;
          t4 = fpmul1271 t t3 t4;
          t5 = fpsqr1271 t t4;
          t5 = fpsqr1271_times t 7 t5;
          t5 = fpmul1271 t t4 t5;
          t2 = fpsqr1271 t t5;
          t2 = fpsqr1271_times t 15 t2;
          t2 = fpmul1271 t t5 t2;
          t1 = fpsqr1271 t t2;
          t1 = fpsqr1271_times t 31 t1;
          t1 = fpmul1271 t t2 t1;
          t1 = fpsqr1271_times t 32 t1;
          t1 = fpmul1271 t t1 t2;
          t1 = fpsqr1271_times t 16 t1;
          t1 = fpmul1271 t t5 t1;
          t1 = fpsqr1271_times t 8 t1;
          t1 = fpmul1271 t t4 t1;
          t1 = fpsqr1271_times t 4 t1;
          t1 = fpmul1271 t t3 t1;
          t1 = fpsqr1271 t t1
      in fpmul1271 t a t1)"

text \<open>
  \<^verbatim>\<open>fp2div1271\<close> halves both components with the same four statements; \<open>fpdiv1271\<close>
  names that statement group (it is also the inlined "x0 = x0/2" of \<^verbatim>\<open>decode\<close>).
\<close>

definition fpdiv1271 :: "arch \<Rightarrow> felm \<Rightarrow> felm" where
  "fpdiv1271 t a =
     (let (a0, a1) = a;
          mask = 0 - (1 AND a0);
          (k, temp0) = addcarry_u64 t 0 a0 mask;
          (k, temp1) = addcarry_u64 t k a1 (drop_bit 1 mask)
      in (shiftright128 temp0 temp1 1, drop_bit 1 temp1))"

definition fp2div1271 :: "arch \<Rightarrow> f2elm \<Rightarrow> f2elm" where
  "fp2div1271 t a = (let (a0, a1) = a in (fpdiv1271 t a0, fpdiv1271 t a1))"

definition fp2neg1271 :: "f2elm \<Rightarrow> f2elm" where
  "fp2neg1271 a = (let (a0, a1) = a in (fpneg1271 a0, fpneg1271 a1))"

definition fp2sqr1271 :: "arch \<Rightarrow> f2elm \<Rightarrow> f2elm" where
  "fp2sqr1271 t a =
     (let (a0, a1) = a;
          t1 = fpadd1271 t a0 a1;
          t2 = fpsub1271 t a0 a1;
          t3 = fpmul1271 t a0 a1;
          c0 = fpmul1271 t t1 t2;
          c1 = fpadd1271 t t3 t3
      in (c0, c1))"

definition fp2mul1271 :: "arch \<Rightarrow> f2elm \<Rightarrow> f2elm \<Rightarrow> f2elm" where
  "fp2mul1271 t a b =
     (let (a0, a1) = a; (b0, b1) = b;
          t1 = fpmul1271 t a0 b0;
          t2 = fpmul1271 t a1 b1;
          t3 = fpadd1271 t a0 a1;
          t4 = fpadd1271 t b0 b1;
          c0 = fpsub1271 t t1 t2;
          t3 = fpmul1271 t t3 t4;
          t3 = fpsub1271 t t3 t1;
          c1 = fpsub1271 t t3 t2
      in (c0, c1))"

definition fp2add1271 :: "arch \<Rightarrow> f2elm \<Rightarrow> f2elm \<Rightarrow> f2elm" where
  "fp2add1271 t a b =
     (let (a0, a1) = a; (b0, b1) = b in (fpadd1271 t a0 b0, fpadd1271 t a1 b1))"

definition fp2sub1271 :: "arch \<Rightarrow> f2elm \<Rightarrow> f2elm \<Rightarrow> f2elm" where
  "fp2sub1271 t a b =
     (let (a0, a1) = a; (b0, b1) = b in (fpsub1271 t a0 b0, fpsub1271 t a1 b1))"

text \<open>\<^verbatim>\<open>fp2addsub1271(a, b, c)\<close> doubles \<open>a\<close> in place, then \<open>c = a - b\<close>; every caller
  passes the same array for \<open>a\<close> and \<open>c\<close>, so the result is the only value left.\<close>

definition fp2addsub1271 :: "arch \<Rightarrow> f2elm \<Rightarrow> f2elm \<Rightarrow> f2elm" where
  "fp2addsub1271 t a b = (let a = fp2add1271 t a a in fp2sub1271 t a b)"

section \<open>Scalars: lattice decomposition\<close>

definition B11 :: u64 where "B11 = 0xF6F900D81F5F5E6A"
definition B12 :: u64 where "B12 = 0x1363E862C22A2DA0"
definition B13 :: u64 where "B13 = 0xF8BD9FCE1337FCF1"
definition B14 :: u64 where "B14 = 0x084F739986B9E651"
definition B21 :: u64 where "B21 = 0xE2B6A4157B033D2C"
definition B22 :: u64 where "B22 = 0x0000000000000001"
definition B23 :: u64 where "B23 = 0xFFFFFFFFFFFFFFFF"
definition B24 :: u64 where "B24 = 0xDA243A43722E9830"
definition B31 :: u64 where "B31 = 0xE85452E2DCE0FCFE"
definition B32 :: u64 where "B32 = 0xFD3BDEE51C7725AF"
definition B33 :: u64 where "B33 = 0x2E4D21C98927C49F"
definition B34 :: u64 where "B34 = 0xF56190BB3FD13269"
definition B41 :: u64 where "B41 = 0xEC91CBF56EF737C1"
definition B42 :: u64 where "B42 = 0xCEDD20D23C1F00CE"
definition B43 :: u64 where "B43 = 0x068A49F02AA8A9B5"
definition B44 :: u64 where "B44 = 0x18D5087896DE0AEA"
definition C1 :: u64 where "C1 = 0x72482C5251A4559C"
definition C2 :: u64 where "C2 = 0x59F95B0ADD276F6C"
definition C3 :: u64 where "C3 = 0x7DD2D17C4625FA78"
definition C4 :: u64 where "C4 = 0x6BC57DEF56CE8877"

definition ell1 :: u256 where
  "ell1 = (0x259686E09D1A7D4F, 0xF75682ACE6A6BD66, 0xFC5BB5C5EA2BE5DF, 0x07)"
definition ell2 :: u256 where
  "ell2 = (0xD1BA1D84DD627AFB, 0x2BD235580F468D8D, 0x8FD4B04CAA6C0F8A, 0x03)"
definition ell3 :: u256 where
  "ell3 = (0x9B291A33678C203C, 0xC42BD6C965DCA902, 0xD038BF8D0BFFBAF6, 0x00)"
definition ell4 :: u256 where
  "ell4 = (0x12E5666B77E7FDC0, 0x81CBDC3714983D82, 0x1B073877A22D8410, 0x03)"

text \<open>
  \<^verbatim>\<open>mul_truncate\<close> (line 1816). A carry returned by \<^verbatim>\<open>_addcarry_u64\<close> and stored in
  an \<^verbatim>\<open>unsigned long long\<close> is widened with \<open>ucast\<close>. In the return expression the
  call that stores \<open>high21\<close> is taken before \<open>high21\<close> is read (left to right).
\<close>

definition mul_truncate :: "arch \<Rightarrow> u256 \<Rightarrow> u256 \<Rightarrow> u64" where
  "mul_truncate t s C =
     (let (s0, s1, s2, s3) = s; (C0, C1, C2, C3) = C;
          (low00, high00) = umul128 s0 C0;
          (low10, high10) = umul128 s1 C0;
          (k, t0) = addcarry_u64 t 0 high00 low10;
          (k, t1) = addcarry_u64 t k high10 0;
          (low01, high01) = umul128 s0 C1;
          (k, t0) = addcarry_u64 t 0 t0 low01;
          (k, t3) = addcarry_u64 t k t1 high01;
          t2 = (ucast k :: u64);
          (low20, high20) = umul128 s2 C0;
          (k, t4) = addcarry_u64 t 0 t3 low20;
          (k, t5) = addcarry_u64 t k t2 high20;
          (low02, high02) = umul128 s0 C2;
          (k, t7) = addcarry_u64 t 0 t4 low02;
          (k, t8) = addcarry_u64 t k t5 high02;
          t6 = (ucast k :: u64);
          (low11, high11) = umul128 s1 C1;
          (k, t0) = addcarry_u64 t 0 t7 low11;
          (k, t10) = addcarry_u64 t k t8 high11;
          t9 = (ucast k :: u64);
          (low03, high03) = umul128 s0 C3;
          (k, t11) = addcarry_u64 t 0 t10 low03;
          (k, t12) = addcarry_u64 t k (t6 + t9) high03;
          (low30, high30) = umul128 s3 C0;
          (k, t13) = addcarry_u64 t 0 t11 low30;
          (k, t14) = addcarry_u64 t k t12 high30;
          (low12, high12) = umul128 s1 C2;
          (k, t15) = addcarry_u64 t 0 t13 low12;
          (k, t16) = addcarry_u64 t k t14 high12;
          (low21, high21) = umul128 s2 C1;
          (k, t0) = addcarry_u64 t 0 t15 low21
      in ucast k + t16 + high21 + s1 * C3 + s2 * C2 + s3 * C1)"

definition decompose :: "arch \<Rightarrow> u256 \<Rightarrow> u256" where
  "decompose t k =
     (let (k0, k1, k2, k3) = k;
          a1 = mul_truncate t k ell1;
          a2 = mul_truncate t k ell2;
          a3 = mul_truncate t k ell3;
          a4 = mul_truncate t k ell4;
          scalars0 = a1 * B11 + a2 * B21 + a3 * B31 + a4 * B41 + C1 + k0;
          scalars1 = a1 * B12 + a2 * B22 + a3 * B32 + a4 * B42 + C2;
          scalars2 = a1 * B13 + a2 * B23 + a3 * B33 + a4 * B43 + C3;
          scalars3 = a1 * B14 + a2 * B24 + a3 * B34 + a4 * B44 + C4
      in if scalars0 AND 1 = 0
         then (scalars0 - B41, scalars1 - B42, scalars2 - B43, scalars3 - B44)
         else (scalars0, scalars1, scalars2, scalars3))"

section \<open>Curve points\<close>

text \<open>
  The four point structures of the header (lines 628-666). The fields keep the order of the
  C structs; their names carry a prefix because a record field is a global name.
\<close>

record point_affine =
  ax :: f2elm
  ay :: f2elm

record point_extproj =
  ex :: f2elm
  ey :: f2elm
  ez :: f2elm
  eta :: f2elm
  etb :: f2elm

record point_extproj_precomp =
  rxy :: f2elm
  ryx :: f2elm
  rz2 :: f2elm
  rt2 :: f2elm

record point_precomp =
  pxy :: f2elm
  pyx :: f2elm
  pt2 :: f2elm

definition PARAMETER_d :: f2elm where
  "PARAMETER_d = ((0x0000000000000142, 0x00000000000000E4), (0xB3821488F1FC0C8D, 0x5E472F846657E0FC))"

text \<open>\<^verbatim>\<open>(felm_t*)&ONE\<close>: the four words \<open>{1, 0, 0, 0}\<close> read as an extension-field element.\<close>

definition ONE :: f2elm where
  "ONE = ((1, 0), (0, 0))"

definition ctau1 :: f2elm where
  "ctau1 = ((0x74DCD57CEBCE74C3, 0x1964DE2C3AFAD20C), (0x12, 0x0C))"
definition ctaudual1 :: f2elm where
  "ctaudual1 = ((0x9ECAA6D9DECDF034, 0x4AA740EB23058652), (0x11, 0x7FFFFFFFFFFFFFF4))"
definition cphi0 :: f2elm where
  "cphi0 = ((0xFFFFFFFFFFFFFFF7, 0x05), (0x4F65536CEF66F81A, 0x2553A0759182C329))"
definition cphi1 :: f2elm where
  "cphi1 = ((0x07, 0x05), (0x334D90E9E28296F9, 0x62C8CAA0C50C62CF))"
definition cphi2 :: f2elm where
  "cphi2 = ((0x15, 0x0F), (0x2C2CB7154F1DF391, 0x78DF262B6C9B5C98))"
definition cphi3 :: f2elm where
  "cphi3 = ((0x03, 0x02), (0x92440457A7962EA4, 0x5084C6491D76342A))"
definition cphi4 :: f2elm where
  "cphi4 = ((0x03, 0x03), (0xA1098C923AEC6855, 0x12440457A7962EA4))"
definition cphi5 :: f2elm where
  "cphi5 = ((0x0F, 0x0A), (0x669B21D3C5052DF3, 0x459195418A18C59E))"
definition cphi6 :: f2elm where
  "cphi6 = ((0x18, 0x12), (0xCD3643A78A0A5BE7, 0x0B232A8314318B3C))"
definition cphi7 :: f2elm where
  "cphi7 = ((0x23, 0x18), (0x66C183035F48781A, 0x3963BC1C99E2EA1A))"
definition cphi8 :: f2elm where
  "cphi8 = ((0xF0, 0xAA), (0x44E251582B5D0EF0, 0x1F529F860316CBE5))"
definition cphi9 :: f2elm where
  "cphi9 = ((0xBEF, 0x870), (0x14D3E48976E2505, 0xFD52E9CFE00375B))"
definition cpsi1 :: f2elm where
  "cpsi1 = ((0xEDF07F4767E346EF, 0x2AF99E9A83D54A02), (0x13A, 0xDE))"
definition cpsi2 :: f2elm where
  "cpsi2 = ((0x143, 0xE4), (0x4C7DEB770E03F372, 0x21B8D07B99A81F03))"
definition cpsi3 :: f2elm where
  "cpsi3 = ((0x09, 0x06), (0x3A6E6ABE75E73A61, 0x4CB26F161D7D6906))"
definition cpsi4 :: f2elm where
  "cpsi4 = ((0xFFFFFFFFFFFFFFF6, 0x7FFFFFFFFFFFFFF9), (0xC59195418A18C59E, 0x334D90E9E28296F9))"

definition eccnorm :: "arch \<Rightarrow> point_extproj \<Rightarrow> point_affine" where
  "eccnorm t P =
     (let (z0, z1) = ez P;
          t1_0 = fpsqr1271 t z0;
          t1_1 = fpsqr1271 t z1;
          t1_0 = fpadd1271 t t1_0 t1_1;
          t1_1 = fpexp1251 t t1_0;
          t1_1 = fpsqr1271 t t1_1;
          t1_1 = fpsqr1271 t t1_1;
          t1_0 = fpmul1271 t t1_0 t1_1;
          z1 = fpneg1271 z1;
          z0 = fpmul1271 t z0 t1_0;
          z1 = fpmul1271 t z1 t1_0;
          (x0, x1) = fp2mul1271 t (ex P) (z0, z1);
          (y0, y1) = fp2mul1271 t (ey P) (z0, z1)
      in \<lparr>ax = (mod1271 t x0, mod1271 t x1), ay = (mod1271 t y0, mod1271 t y1)\<rparr>)"

definition R1_to_R2 :: "arch \<Rightarrow> point_extproj \<Rightarrow> point_extproj_precomp" where
  "R1_to_R2 t P =
     (let t2 = fp2add1271 t (eta P) (eta P);
          xy = fp2add1271 t (ex P) (ey P);
          yx = fp2sub1271 t (ey P) (ex P);
          t2 = fp2mul1271 t t2 (etb P);
          z2 = fp2add1271 t (ez P) (ez P);
          t2 = fp2mul1271 t t2 PARAMETER_d
      in \<lparr>rxy = xy, ryx = yx, rz2 = z2, rt2 = t2\<rparr>)"

definition R1_to_R3 :: "arch \<Rightarrow> point_extproj \<Rightarrow> point_extproj_precomp" where
  "R1_to_R3 t P =
     (let xy = fp2add1271 t (ex P) (ey P);
          yx = fp2sub1271 t (ey P) (ex P);
          t2 = fp2mul1271 t (eta P) (etb P)
      in \<lparr>rxy = xy, ryx = yx, rz2 = ez P, rt2 = t2\<rparr>)"

text \<open>\<^verbatim>\<open>R2_to_R4\<close> writes \<open>x\<close>, \<open>y\<close> and \<open>z\<close> of \<open>Q\<close> and leaves \<open>ta\<close>, \<open>tb\<close> as they were.\<close>

definition R2_to_R4 :: "arch \<Rightarrow> point_extproj_precomp \<Rightarrow> point_extproj \<Rightarrow> point_extproj" where
  "R2_to_R4 t P Q =
     Q\<lparr>ex := fp2sub1271 t (rxy P) (ryx P), ey := fp2add1271 t (rxy P) (ryx P), ez := rz2 P\<rparr>"

definition eccdouble :: "arch \<Rightarrow> point_extproj \<Rightarrow> point_extproj" where
  "eccdouble t P =
     (let t1 = fp2sqr1271 t (ex P);
          t2 = fp2sqr1271 t (ey P);
          X = fp2add1271 t (ex P) (ey P);
          Tb = fp2add1271 t t1 t2;
          t1 = fp2sub1271 t t2 t1;
          Ta = fp2sqr1271 t X;
          t2 = fp2sqr1271 t (ez P);
          Ta = fp2sub1271 t Ta Tb;
          t2 = fp2addsub1271 t t2 t1;
          Y = fp2mul1271 t t1 Tb;
          X = fp2mul1271 t t2 Ta;
          Z = fp2mul1271 t t1 t2
      in \<lparr>ex = X, ey = Y, ez = Z, eta = Ta, etb = Tb\<rparr>)"

definition eccadd_core ::
  "arch \<Rightarrow> point_extproj_precomp \<Rightarrow> point_extproj_precomp \<Rightarrow> point_extproj" where
  "eccadd_core t P Q =
     (let Z = fp2mul1271 t (rt2 P) (rt2 Q);
          t1 = fp2mul1271 t (rz2 P) (rz2 Q);
          X = fp2mul1271 t (rxy P) (rxy Q);
          Y = fp2mul1271 t (ryx P) (ryx Q);
          t2 = fp2sub1271 t t1 Z;
          t1 = fp2add1271 t t1 Z;
          Tb = fp2sub1271 t X Y;
          Ta = fp2add1271 t X Y;
          X = fp2mul1271 t Tb t2;
          Z = fp2mul1271 t t1 t2;
          Y = fp2mul1271 t Ta t1
      in \<lparr>ex = X, ey = Y, ez = Z, eta = Ta, etb = Tb\<rparr>)"

definition eccadd :: "arch \<Rightarrow> point_extproj_precomp \<Rightarrow> point_extproj \<Rightarrow> point_extproj" where
  "eccadd t Q P = (let R = R1_to_R3 t P in eccadd_core t Q R)"

definition point_setup :: "point_affine \<Rightarrow> point_extproj" where
  "point_setup P = \<lparr>ex = ax P, ey = ay P, ez = ((1, 0), (0, 0)), eta = ax P, etb = ay P\<rparr>"

definition ecc_point_validate :: "arch \<Rightarrow> point_extproj \<Rightarrow> bool" where
  "ecc_point_validate t P =
     (let t1 = fp2sqr1271 t (ey P);
          t2 = fp2sqr1271 t (ex P);
          t3 = fp2sub1271 t t1 t2;
          t1 = fp2mul1271 t t1 t2;
          t2 = fp2mul1271 t t1 PARAMETER_d;
          t1 = ((1, 0), (0, 0));
          t2 = fp2add1271 t t2 t1;
          ((t1_00, t1_01), (t1_10, t1_11)) = fp2sub1271 t t3 t2
      in (t1_00 OR t1_01 = 0 \<or> (t1_00 + 1) OR (t1_01 + 1) = 0)
         \<and> (t1_10 OR t1_11 = 0 \<or> (t1_10 + 1) OR (t1_11 + 1) = 0))"

definition eccmadd :: "arch \<Rightarrow> point_precomp \<Rightarrow> point_extproj \<Rightarrow> point_extproj" where
  "eccmadd t Q P =
     (let Ta = fp2mul1271 t (eta P) (etb P);
          t1 = fp2add1271 t (ez P) (ez P);
          Ta = fp2mul1271 t Ta (pt2 Q);
          Z = fp2add1271 t (ex P) (ey P);
          Tb = fp2sub1271 t (ey P) (ex P);
          t2 = fp2sub1271 t t1 Ta;
          t1 = fp2add1271 t t1 Ta;
          Ta = fp2mul1271 t (pxy Q) Z;
          X = fp2mul1271 t (pyx Q) Tb;
          Z = fp2mul1271 t t1 t2;
          Tb = fp2sub1271 t Ta X;
          Ta = fp2add1271 t Ta X;
          X = fp2mul1271 t Tb t2;
          Y = fp2mul1271 t Ta t1
      in \<lparr>ex = X, ey = Y, ez = Z, eta = Ta, etb = Tb\<rparr>)"

section \<open>Point encoding and decoding\<close>

text \<open>
  A 32-byte encoded point is read and written through \<^verbatim>\<open>unsigned long long*\<close> casts and
  \<^verbatim>\<open>memcpy\<close>; both targets are little-endian. \<open>load64\<close> reads the word at byte offset
  \<open>i\<close>; \<open>store64\<close> gives the eight bytes of a word.
\<close>

definition load64 :: "u8 list \<Rightarrow> nat \<Rightarrow> u64" where
  "load64 bs i = horner_sum ucast (2 ^ 8) (take 8 (drop i bs))"

definition store64 :: "u64 \<Rightarrow> u8 list" where
  "store64 w = map (\<lambda>k. ucast (drop_bit (8 * k) w)) [0..<8]"

definition load_f2elm :: "u8 list \<Rightarrow> f2elm" where
  "load_f2elm bs = ((load64 bs 0, load64 bs 8), (load64 bs 16, load64 bs 24))"

definition store_f2elm :: "f2elm \<Rightarrow> u8 list" where
  "store_f2elm a =
     (let ((a00, a01), (a10, a11)) = a in store64 a00 @ store64 a01 @ store64 a10 @ store64 a11)"

definition load_u256 :: "u8 list \<Rightarrow> u256" where
  "load_u256 bs = (load64 bs 0, load64 bs 8, load64 bs 16, load64 bs 24)"

definition store_u256 :: "u256 \<Rightarrow> u8 list" where
  "store_u256 k = (let (k0, k1, k2, k3) = k in store64 k0 @ store64 k1 @ store64 k2 @ store64 k3)"

definition encode :: "point_affine \<Rightarrow> u8 list" where
  "encode P =
     (let ((x00, x01), (x10, x11)) = ax P;
          ((y00, y01), (y10, y11)) = ay P;
          temp1 = push_bit 1 (x11 AND 0x4000000000000000);
          temp2 = push_bit 1 (x01 AND 0x4000000000000000);
          w3 = (if x00 = 0 \<and> x01 = 0 then y11 OR temp1 else y11 OR temp2)
      in store_f2elm ((y00, y01), (y10, w3)))"

text \<open>
  \<^verbatim>\<open>decode\<close> (line 2205) returns \<^verbatim>\<open>false\<close> or fills \<open>P\<close> and returns \<^verbatim>\<open>true\<close>: \<open>None\<close>
  or \<open>Some P\<close>.
\<close>

definition decode :: "arch \<Rightarrow> u8 list \<Rightarrow> point_affine option" where
  "decode t Pencoded =
     (let ((y00, y01), (y10, y11)) = load_f2elm Pencoded;
          Py = ((y00, y01), (y10, y11 AND 0x7FFFFFFFFFFFFFFF));
          u = fp2sqr1271 t Py;
          v = fp2mul1271 t u PARAMETER_d;
          (u0, u1) = fp2sub1271 t u ONE;
          (v0, v1) = fp2add1271 t v ONE;
          t0 = fpsqr1271 t v0;
          t1 = fpsqr1271 t v1;
          t0 = fpadd1271 t t0 t1;
          t1 = fpmul1271 t u0 v0;
          t2 = fpmul1271 t u1 v1;
          t1 = fpadd1271 t t1 t2;
          t2 = fpmul1271 t u1 v0;
          t3 = fpmul1271 t u0 v1;
          t2 = fpsub1271 t t2 t3;
          t3 = fpsqr1271 t t1;
          t4 = fpsqr1271 t t2;
          t3 = fpadd1271 t t3 t4;
          t3 = fpsqr1271_times t 125 t3;
          tt = fpadd1271 t t1 t3;
          tt = mod1271 t tt;
          tt = (if fst tt = 0 \<and> snd tt = 0 then fpsub1271 t t1 t3 else tt);
          tt = fpadd1271 t tt tt;
          t3 = fpsqr1271 t t0;
          t3 = fpmul1271 t t0 t3;
          t3 = fpmul1271 t tt t3;
          r = fpexp1251 t t3;
          t3 = fpmul1271 t t0 r;
          x0 = fpmul1271 t tt t3;
          t1 = fpsqr1271 t x0;
          t1 = fpmul1271 t t0 t1;
          x0 = fpdiv1271 t x0;
          x1 = fpmul1271 t t2 t3;
          tt = fpsub1271 t tt t1;
          tt = mod1271 t tt;
          (x0, x1) = (if fst tt \<noteq> 0 \<or> snd tt \<noteq> 0 then (x1, x0) else (x0, x1));
          x0 = mod1271 t x0;
          sel = (if fst x0 = 0 \<and> snd x0 = 0 then x1 else x0);
          Px = (if (ucast (drop_bit 7 (Pencoded ! 31)) :: 32 word) \<noteq> ucast (drop_bit 62 (snd sel))
                then fp2neg1271 (x0, x1) else (x0, x1));
          P = \<lparr>ax = Px, ay = Py\<rparr>;
          R = point_setup P
      in if \<not> ecc_point_validate t R
         then (let Rx1 = fpneg1271 (snd (ex R));
                   R = R\<lparr>ex := (fst (ex R), Rx1)\<rparr>;
                   P = P\<lparr>ax := (fst (ax P), Rx1)\<rparr>
               in if \<not> ecc_point_validate t R then None else Some P)
         else Some P)"

section \<open>The permutation Keccak-p[1600, 12]\<close>

text \<open>
  The macros of lines 17-309. \<^verbatim>\<open>thetaRhoPiChiIotaPrepareTheta(i, A, E)\<close> reads the 25
  lanes \<open>A\<close> and the column parities \<open>C\<close>, and leaves the next state in \<open>E\<close> and its column
  parities in \<open>C\<close>; \<^verbatim>\<open>rounds12\<close> applies it eleven times, swapping the roles of the two
  lane sets, and ends with a last round that has no parity update. The bindings below are
  the statements of the macros, in their order.
\<close>

definition ROL64 :: "u64 \<Rightarrow> nat \<Rightarrow> u64" where
  "ROL64 a offset = push_bit offset a XOR drop_bit (64 - offset) a"

type_synonym lanes = "u64 \<times> u64 \<times> u64 \<times> u64 \<times> u64 \<times> u64 \<times> u64 \<times> u64 \<times> u64 \<times> u64 \<times> u64 \<times> u64 \<times> u64
  \<times> u64 \<times> u64 \<times> u64 \<times> u64 \<times> u64 \<times> u64 \<times> u64 \<times> u64 \<times> u64 \<times> u64 \<times> u64 \<times> u64"

type_synonym parities = "u64 \<times> u64 \<times> u64 \<times> u64 \<times> u64"

definition thetaRhoPiChiIotaPrepareTheta :: "u64 \<Rightarrow> lanes \<times> parities \<Rightarrow> lanes \<times> parities" where
  "thetaRhoPiChiIotaPrepareTheta rc S =
     (let ((Aba, Abe, Abi, Abo, Abu, Aga, Age, Agi, Ago, Agu, Aka, Ake, Aki, Ako, Aku, Ama, Ame, Ami, Amo, Amu, Asa, Ase, Asi, Aso, Asu),
           (Ca, Ce, Ci, Co, Cu)) = S;
          Da = Cu XOR ROL64 Ce 1;
          De = Ca XOR ROL64 Ci 1;
          Di = Ce XOR ROL64 Co 1;
          Do = Ci XOR ROL64 Cu 1;
          Du = Co XOR ROL64 Ca 1;
          Aba = Aba XOR Da;
          Bba = Aba;
          Age = Age XOR De;
          Bbe = ROL64 Age 44;
          Aki = Aki XOR Di;
          Bbi = ROL64 Aki 43;
          Amo = Amo XOR Do;
          Bbo = ROL64 Amo 21;
          Asu = Asu XOR Du;
          Bbu = ROL64 Asu 14;
          Eba = Bba XOR (NOT Bbe AND Bbi);
          Eba = Eba XOR rc;
          Ca = Eba;
          Ebe = Bbe XOR (NOT Bbi AND Bbo);
          Ce = Ebe;
          Ebi = Bbi XOR (NOT Bbo AND Bbu);
          Ci = Ebi;
          Ebo = Bbo XOR (NOT Bbu AND Bba);
          Co = Ebo;
          Ebu = Bbu XOR (NOT Bba AND Bbe);
          Cu = Ebu;
          Abo = Abo XOR Do;
          Bga = ROL64 Abo 28;
          Agu = Agu XOR Du;
          Bge = ROL64 Agu 20;
          Aka = Aka XOR Da;
          Bgi = ROL64 Aka 3;
          Ame = Ame XOR De;
          Bgo = ROL64 Ame 45;
          Asi = Asi XOR Di;
          Bgu = ROL64 Asi 61;
          Ega = Bga XOR (NOT Bge AND Bgi);
          Ca = Ca XOR Ega;
          Ege = Bge XOR (NOT Bgi AND Bgo);
          Ce = Ce XOR Ege;
          Egi = Bgi XOR (NOT Bgo AND Bgu);
          Ci = Ci XOR Egi;
          Ego = Bgo XOR (NOT Bgu AND Bga);
          Co = Co XOR Ego;
          Egu = Bgu XOR (NOT Bga AND Bge);
          Cu = Cu XOR Egu;
          Abe = Abe XOR De;
          Bka = ROL64 Abe 1;
          Agi = Agi XOR Di;
          Bke = ROL64 Agi 6;
          Ako = Ako XOR Do;
          Bki = ROL64 Ako 25;
          Amu = Amu XOR Du;
          Bko = ROL64 Amu 8;
          Asa = Asa XOR Da;
          Bku = ROL64 Asa 18;
          Eka = Bka XOR (NOT Bke AND Bki);
          Ca = Ca XOR Eka;
          Eke = Bke XOR (NOT Bki AND Bko);
          Ce = Ce XOR Eke;
          Eki = Bki XOR (NOT Bko AND Bku);
          Ci = Ci XOR Eki;
          Eko = Bko XOR (NOT Bku AND Bka);
          Co = Co XOR Eko;
          Eku = Bku XOR (NOT Bka AND Bke);
          Cu = Cu XOR Eku;
          Abu = Abu XOR Du;
          Bma = ROL64 Abu 27;
          Aga = Aga XOR Da;
          Bme = ROL64 Aga 36;
          Ake = Ake XOR De;
          Bmi = ROL64 Ake 10;
          Ami = Ami XOR Di;
          Bmo = ROL64 Ami 15;
          Aso = Aso XOR Do;
          Bmu = ROL64 Aso 56;
          Ema = Bma XOR (NOT Bme AND Bmi);
          Ca = Ca XOR Ema;
          Eme = Bme XOR (NOT Bmi AND Bmo);
          Ce = Ce XOR Eme;
          Emi = Bmi XOR (NOT Bmo AND Bmu);
          Ci = Ci XOR Emi;
          Emo = Bmo XOR (NOT Bmu AND Bma);
          Co = Co XOR Emo;
          Emu = Bmu XOR (NOT Bma AND Bme);
          Cu = Cu XOR Emu;
          Abi = Abi XOR Di;
          Bsa = ROL64 Abi 62;
          Ago = Ago XOR Do;
          Bse = ROL64 Ago 55;
          Aku = Aku XOR Du;
          Bsi = ROL64 Aku 39;
          Ama = Ama XOR Da;
          Bso = ROL64 Ama 41;
          Ase = Ase XOR De;
          Bsu = ROL64 Ase 2;
          Esa = Bsa XOR (NOT Bse AND Bsi);
          Ca = Ca XOR Esa;
          Ese = Bse XOR (NOT Bsi AND Bso);
          Ce = Ce XOR Ese;
          Esi = Bsi XOR (NOT Bso AND Bsu);
          Ci = Ci XOR Esi;
          Eso = Bso XOR (NOT Bsu AND Bsa);
          Co = Co XOR Eso;
          Esu = Bsu XOR (NOT Bsa AND Bse);
          Cu = Cu XOR Esu
      in ((Eba, Ebe, Ebi, Ebo, Ebu, Ega, Ege, Egi, Ego, Egu, Eka, Eke, Eki, Eko, Eku, Ema, Eme, Emi, Emo, Emu, Esa, Ese, Esi, Eso, Esu),
          (Ca, Ce, Ci, Co, Cu)))"

text \<open>The last round, written out in \<^verbatim>\<open>rounds12\<close> (lines 229-309).\<close>

definition thetaRhoPiChiIota_last :: "lanes \<times> parities \<Rightarrow> lanes" where
  "thetaRhoPiChiIota_last S =
     (let ((Eba, Ebe, Ebi, Ebo, Ebu, Ega, Ege, Egi, Ego, Egu, Eka, Eke, Eki, Eko, Eku, Ema, Eme, Emi, Emo, Emu, Esa, Ese, Esi, Eso, Esu),
           (Ca, Ce, Ci, Co, Cu)) = S;
          Da = Cu XOR ROL64 Ce 1;
          De = Ca XOR ROL64 Ci 1;
          Di = Ce XOR ROL64 Co 1;
          Do = Ci XOR ROL64 Cu 1;
          Du = Co XOR ROL64 Ca 1;
          Eba = Eba XOR Da;
          Bba = Eba;
          Ege = Ege XOR De;
          Bbe = ROL64 Ege 44;
          Eki = Eki XOR Di;
          Bbi = ROL64 Eki 43;
          Emo = Emo XOR Do;
          Bbo = ROL64 Emo 21;
          Esu = Esu XOR Du;
          Bbu = ROL64 Esu 14;
          Aba = Bba XOR (NOT Bbe AND Bbi);
          Aba = Aba XOR 0x8000000080008008;
          Abe = Bbe XOR (NOT Bbi AND Bbo);
          Abi = Bbi XOR (NOT Bbo AND Bbu);
          Abo = Bbo XOR (NOT Bbu AND Bba);
          Abu = Bbu XOR (NOT Bba AND Bbe);
          Ebo = Ebo XOR Do;
          Bga = ROL64 Ebo 28;
          Egu = Egu XOR Du;
          Bge = ROL64 Egu 20;
          Eka = Eka XOR Da;
          Bgi = ROL64 Eka 3;
          Eme = Eme XOR De;
          Bgo = ROL64 Eme 45;
          Esi = Esi XOR Di;
          Bgu = ROL64 Esi 61;
          Aga = Bga XOR (NOT Bge AND Bgi);
          Age = Bge XOR (NOT Bgi AND Bgo);
          Agi = Bgi XOR (NOT Bgo AND Bgu);
          Ago = Bgo XOR (NOT Bgu AND Bga);
          Agu = Bgu XOR (NOT Bga AND Bge);
          Ebe = Ebe XOR De;
          Bka = ROL64 Ebe 1;
          Egi = Egi XOR Di;
          Bke = ROL64 Egi 6;
          Eko = Eko XOR Do;
          Bki = ROL64 Eko 25;
          Emu = Emu XOR Du;
          Bko = ROL64 Emu 8;
          Esa = Esa XOR Da;
          Bku = ROL64 Esa 18;
          Aka = Bka XOR (NOT Bke AND Bki);
          Ake = Bke XOR (NOT Bki AND Bko);
          Aki = Bki XOR (NOT Bko AND Bku);
          Ako = Bko XOR (NOT Bku AND Bka);
          Aku = Bku XOR (NOT Bka AND Bke);
          Ebu = Ebu XOR Du;
          Bma = ROL64 Ebu 27;
          Ega = Ega XOR Da;
          Bme = ROL64 Ega 36;
          Eke = Eke XOR De;
          Bmi = ROL64 Eke 10;
          Emi = Emi XOR Di;
          Bmo = ROL64 Emi 15;
          Eso = Eso XOR Do;
          Bmu = ROL64 Eso 56;
          Ama = Bma XOR (NOT Bme AND Bmi);
          Ame = Bme XOR (NOT Bmi AND Bmo);
          Ami = Bmi XOR (NOT Bmo AND Bmu);
          Amo = Bmo XOR (NOT Bmu AND Bma);
          Amu = Bmu XOR (NOT Bma AND Bme);
          Ebi = Ebi XOR Di;
          Bsa = ROL64 Ebi 62;
          Ego = Ego XOR Do;
          Bse = ROL64 Ego 55;
          Eku = Eku XOR Du;
          Bsi = ROL64 Eku 39;
          Ema = Ema XOR Da;
          Bso = ROL64 Ema 41;
          Ese = Ese XOR De;
          Bsu = ROL64 Ese 2;
          Asa = Bsa XOR (NOT Bse AND Bsi);
          Ase = Bse XOR (NOT Bsi AND Bso);
          Asi = Bsi XOR (NOT Bso AND Bsu);
          Aso = Bso XOR (NOT Bsu AND Bsa);
          Asu = Bsu XOR (NOT Bsa AND Bse)
      in (Aba, Abe, Abi, Abo, Abu, Aga, Age, Agi, Ago, Agu, Aka, Ake, Aki, Ako, Aku, Ama, Ame, Ami, Amo, Amu, Asa, Ase, Asi, Aso, Asu))"

definition KeccakF1600RoundConstants :: "u64 list" where
  "KeccakF1600RoundConstants =
     [0x000000008000808b,
      0x800000000000008b,
      0x8000000000008089,
      0x8000000000008003,
      0x8000000000008002,
      0x8000000000000080,
      0x000000000000800a,
      0x800000008000000a,
      0x8000000080008081,
      0x8000000000008080,
      0x0000000080000001]"

definition rounds12 :: "lanes \<Rightarrow> lanes" where
  "rounds12 A =
     (let (Aba, Abe, Abi, Abo, Abu, Aga, Age, Agi, Ago, Agu, Aka, Ake, Aki, Ako, Aku, Ama, Ame, Ami, Amo, Amu, Asa, Ase, Asi, Aso, Asu) = A;
          Ca = Aba XOR Aga XOR Aka XOR Ama XOR Asa;
          Ce = Abe XOR Age XOR Ake XOR Ame XOR Ase;
          Ci = Abi XOR Agi XOR Aki XOR Ami XOR Asi;
          Co = Abo XOR Ago XOR Ako XOR Amo XOR Aso;
          Cu = Abu XOR Agu XOR Aku XOR Amu XOR Asu
      in thetaRhoPiChiIota_last
           (fold thetaRhoPiChiIotaPrepareTheta KeccakF1600RoundConstants (A, (Ca, Ce, Ci, Co, Cu))))"

section \<open>KangarooTwelve\<close>

text \<open>
  \<^verbatim>\<open>KangarooTwelve_F\<close> (line 318): 200 state bytes and a byte index of type
  \<^verbatim>\<open>uint8_t\<close>. The code reads and writes the state both as bytes and, through a cast, as
  25 little-endian 64-bit lanes.
\<close>

record KangarooTwelve_F =
  kstate :: "u8 list"
  byteIOIndex :: u8

definition K12_rateInBytes :: nat where "K12_rateInBytes = 168"
definition K12_capacityInBytes :: nat where "K12_capacityInBytes = 32"
definition K12_chunkSize :: nat where "K12_chunkSize = 8192"
definition K12_suffixLeaf :: u8 where "K12_suffixLeaf = 0x0B"

text \<open>\<^verbatim>\<open>memset(&node, 0, sizeof(KangarooTwelve_F))\<close>.\<close>

definition K12_zero :: KangarooTwelve_F where
  "K12_zero = \<lparr>kstate = replicate 200 0, byteIOIndex = 0\<rparr>"

definition lanes_of_state :: "u8 list \<Rightarrow> lanes" where
  "lanes_of_state st =
     (load64 st 0, load64 st 8, load64 st 16, load64 st 24, load64 st 32,
      load64 st 40, load64 st 48, load64 st 56, load64 st 64, load64 st 72,
      load64 st 80, load64 st 88, load64 st 96, load64 st 104, load64 st 112,
      load64 st 120, load64 st 128, load64 st 136, load64 st 144, load64 st 152,
      load64 st 160, load64 st 168, load64 st 176, load64 st 184, load64 st 192)"

definition state_of_lanes :: "lanes \<Rightarrow> u8 list" where
  "state_of_lanes A =
     (let (Aba, Abe, Abi, Abo, Abu, Aga, Age, Agi, Ago, Agu, Aka, Ake, Aki, Ako, Aku,
           Ama, Ame, Ami, Amo, Amu, Asa, Ase, Asi, Aso, Asu) = A
      in concat (map store64
           [Aba, Abe, Abi, Abo, Abu, Aga, Age, Agi, Ago, Agu, Aka, Ake, Aki, Ako, Aku,
            Ama, Ame, Ami, Amo, Amu, Asa, Ase, Asi, Aso, Asu]))"

definition KeccakP1600_Permute_12rounds :: "u8 list \<Rightarrow> u8 list" where
  "KeccakP1600_Permute_12rounds st = state_of_lanes (rounds12 (lanes_of_state st))"

text \<open>\<^verbatim>\<open>state[i] ^= v\<close> on one byte, and on a run of bytes starting at an offset.\<close>

definition xor_byte :: "u8 list \<Rightarrow> nat \<Rightarrow> u8 \<Rightarrow> u8 list" where
  "xor_byte st i v = st[i := st ! i XOR v]"

primrec xor_bytes :: "u8 list \<Rightarrow> nat \<Rightarrow> u8 list \<Rightarrow> u8 list" where
  "xor_bytes st off [] = st"
| "xor_bytes st off (b # bs) = xor_bytes (xor_byte st off b) (Suc off) bs"

text \<open>
  The inner loop of \<^verbatim>\<open>KangarooTwelve_F_Absorb\<close> (lines 342-368): while at least one
  whole block of 168 bytes is left, it is added to the first 21 lanes and the state is
  permuted. Returns the state and the data not yet consumed.
\<close>

function absorb_blocks :: "u8 list \<Rightarrow> u8 list \<Rightarrow> u8 list \<times> u8 list" where
  "absorb_blocks st data =
     (if K12_rateInBytes \<le> length data
      then absorb_blocks
             (KeccakP1600_Permute_12rounds (xor_bytes st 0 (take K12_rateInBytes data)))
             (drop K12_rateInBytes data)
      else (st, data))"
  by pat_completeness auto
termination
  by (relation "measure (\<lambda>(st, data). length data)") (simp_all add: K12_rateInBytes_def)

declare absorb_blocks.simps [simp del]

text \<open>
  \<^verbatim>\<open>KangarooTwelve_F_Absorb\<close> (line 332). The second argument is the data from position
  \<open>i\<close> on: the loop runs while it is not empty. In the branch that takes a partial block,
  the bytes are added to the state at \<open>byteIOIndex\<close> (the code does it lane by lane, which on
  a little-endian target is the same bytes); \<open>partialBlock\<close> and the index are
  \<^verbatim>\<open>uint8_t\<close> and wrap as such.
\<close>

function KangarooTwelve_F_Absorb :: "KangarooTwelve_F \<Rightarrow> u8 list \<Rightarrow> KangarooTwelve_F" where
  "KangarooTwelve_F_Absorb inst data =
     (if data = [] then inst
      else if byteIOIndex inst = 0 \<and> K12_rateInBytes \<le> length data
      then (let (st, rest) = absorb_blocks (kstate inst) data
            in KangarooTwelve_F_Absorb (inst\<lparr>kstate := st\<rparr>) rest)
      else (let partialBlock =
                  (if length data + unat (byteIOIndex inst) > K12_rateInBytes
                   then 168 - byteIOIndex inst
                   else (of_nat (length data) :: u8));
                st = xor_bytes (kstate inst) (unat (byteIOIndex inst))
                       (take (unat partialBlock) data);
                idx = byteIOIndex inst + partialBlock;
                inst = (if idx = 168
                        then \<lparr>kstate = KeccakP1600_Permute_12rounds st, byteIOIndex = 0\<rparr>
                        else \<lparr>kstate = st, byteIOIndex = idx\<rparr>)
            in KangarooTwelve_F_Absorb inst (drop (unat partialBlock) data)))"
  by pat_completeness auto

lemma absorb_blocks_rest:
  "absorb_blocks st data = (st', rest) \<Longrightarrow> length rest < K12_rateInBytes \<and> length rest \<le> length data"
proof (induction st data rule: absorb_blocks.induct)
  case (1 st data)
  show ?case
  proof (cases "K12_rateInBytes \<le> length data")
    case True
    then have "absorb_blocks
             (KeccakP1600_Permute_12rounds (xor_bytes st 0 (take K12_rateInBytes data)))
             (drop K12_rateInBytes data) = (st', rest)"
      using "1.prems" by (simp del: absorb_blocks.simps add: absorb_blocks.simps [of st data])
    from "1.IH" [OF True this]
    have "length rest < K12_rateInBytes \<and> length rest \<le> length data - K12_rateInBytes"
      by simp
    then show ?thesis by arith
  next
    case False
    then show ?thesis using "1.prems" by (simp add: absorb_blocks.simps [of st data])
  qed
qed

termination KangarooTwelve_F_Absorb
proof (relation "measures [\<lambda>(inst, data). length data,
                            \<lambda>(inst, data). if byteIOIndex inst = 168 then 1 else 0]",
       goal_cases)
  case 1
  show ?case by simp
next
  case (2 inst data x xa y)
  then have "absorb_blocks (kstate inst) data = (xa, y)" by simp
  from absorb_blocks_rest [OF this] 2 show ?case by (simp add: K12_rateInBytes_def)
next
  case (3 inst data x xa xb xc)
  show ?case
  proof (cases "x = 0")
    case True
    have "byteIOIndex inst = 168"
    proof (cases "K12_rateInBytes < length data + unat (byteIOIndex inst)")
      case True
      then have "168 - byteIOIndex inst = 0" using 3 \<open>x = 0\<close> by simp
      then show ?thesis by simp
    next
      case False
      then have n: "length data \<le> 168" and x: "x = of_nat (length data)"
        using 3 by (simp_all add: K12_rateInBytes_def)
      have "unat (of_nat (length data) :: u8) = length data"
        using n by (simp add: unat_of_nat)
      then have "length data = 0" using x True by simp
      then show ?thesis using 3 by simp
    qed
    then have "byteIOIndex xc = 0" using 3 True by simp
    then show ?thesis using True \<open>byteIOIndex inst = 168\<close> by simp
  next
    case False
    then have "unat x \<noteq> 0" by (simp add: unat_eq_zero)
    then have "length (drop (unat x) data) < length data" using 3 by simp
    then show ?thesis by simp
  qed
qed


declare KangarooTwelve_F_Absorb.simps [simp del]

text \<open>
  \<^verbatim>\<open>KangarooTwelve\<close> (line 459). The input length is an \<^verbatim>\<open>unsigned int\<close>; the model
  takes the input as a list (shorter than \<open>2^32\<close> bytes) and counts in natural numbers, which
  the block counter and the lengths never outgrow. The branch-free expression
  \<^verbatim>\<open>inputByteLen ^ ((K12_chunkSize ^ inputByteLen) & -(K12_chunkSize < inputByteLen))\<close> is
  the smaller of the two numbers. The local variables that the function carries from the
  first part (the nodes) to the second (the final node's padding) are a record;
  \<open>queueNode\<close>, \<open>blockNumber\<close> and \<open>queueAbsorbedLen\<close> are not initialised by the source and
  start here as zero.
\<close>

record K12_locals =
  finalNode :: KangarooTwelve_F
  queueNode :: KangarooTwelve_F
  blockNumber :: nat
  queueAbsorbedLen :: nat

text \<open>
  The statements after the first chunk when more data follows or the chunk is full: the
  suffix \<open>0x03\<close> is added to the final node and its index is advanced to the next multiple
  of 8.
\<close>

definition K12_first_chunk :: "KangarooTwelve_F \<Rightarrow> KangarooTwelve_F" where
  "K12_first_chunk f =
     (let st = xor_byte (kstate f) (unat (byteIOIndex f)) 0x03;
          idx = byteIOIndex f + 1
      in if idx = 168 then \<lparr>kstate = KeccakP1600_Permute_12rounds st, byteIOIndex = 0\<rparr>
         else \<lparr>kstate = st, byteIOIndex = (idx + 7) AND NOT 7\<rparr>)"

text \<open>
  Closing a leaf: the suffix \<^verbatim>\<open>K12_suffixLeaf\<close>, the last padding bit, the permutation.
  Its first \<^verbatim>\<open>K12_capacityInBytes\<close> bytes are then absorbed by the final node.
\<close>

definition K12_close_leaf :: "KangarooTwelve_F \<Rightarrow> u8 list" where
  "K12_close_leaf q =
     (let st = xor_byte (kstate q) (unat (byteIOIndex q)) K12_suffixLeaf;
          st = xor_byte st (K12_rateInBytes - 1) 0x80
      in KeccakP1600_Permute_12rounds st)"

text \<open>The loop \<^verbatim>\<open>while (inputByteLen > 0)\<close> over the chunks after the first.\<close>

function K12_chunks :: "K12_locals \<Rightarrow> u8 list \<Rightarrow> K12_locals" where
  "K12_chunks s input =
     (if input = [] then s
      else (let len = min K12_chunkSize (length input);
                q = KangarooTwelve_F_Absorb K12_zero (take len input);
                input = drop len input
            in if len = K12_chunkSize
               then (let st = K12_close_leaf q;
                         q = \<lparr>kstate = st, byteIOIndex = of_nat K12_capacityInBytes\<rparr>;
                         f = KangarooTwelve_F_Absorb (finalNode s) (take K12_capacityInBytes st)
                     in K12_chunks (s\<lparr>finalNode := f, queueNode := q,
                                       blockNumber := blockNumber s + 1\<rparr>) input)
               else K12_chunks (s\<lparr>queueNode := q, queueAbsorbedLen := len\<rparr>) input))"
  by pat_completeness auto
termination
proof (relation "measure (\<lambda>(s, input). length input)", goal_cases)
  case 1
  show ?case by simp
next
  case (2 s input len q input')
  then have "input \<noteq> []" and "input' = drop (min K12_chunkSize (length input)) input"
    by simp_all
  then show ?case by (cases input) (simp_all add: K12_chunkSize_def min_def)
next
  case (3 s input len q input')
  then have "input \<noteq> []" and "input' = drop (min K12_chunkSize (length input)) input"
    by simp_all
  then show ?case by (cases input) (simp_all add: K12_chunkSize_def min_def)
qed

declare K12_chunks.simps [simp del]

text \<open>The first part of \<^verbatim>\<open>KangarooTwelve\<close>, up to the test of \<open>blockNumber\<close> (lines 464-562).\<close>

definition K12_nodes :: "u8 list \<Rightarrow> K12_locals" where
  "K12_nodes input =
     (let len = min K12_chunkSize (length input);
          f = KangarooTwelve_F_Absorb K12_zero (take len input);
          input = drop len input
      in if len = K12_chunkSize \<and> input \<noteq> []
         then (let s = \<lparr>finalNode = K12_first_chunk f, queueNode = K12_zero,
                         blockNumber = 1, queueAbsorbedLen = 0\<rparr>;
                   s = K12_chunks s input
               in if queueAbsorbedLen s \<noteq> 0
                  then (let q = queueNode s;
                            idx = byteIOIndex q + 1;
                            q = (if idx = 168
                                 then \<lparr>kstate = KeccakP1600_Permute_12rounds (kstate q),
                                        byteIOIndex = 0\<rparr>
                                 else q\<lparr>byteIOIndex := idx\<rparr>);
                            n = queueAbsorbedLen s + 1
                        in if n = K12_chunkSize
                           then (let st = K12_close_leaf q;
                                     q = \<lparr>kstate = st, byteIOIndex = of_nat K12_capacityInBytes\<rparr>;
                                     f = KangarooTwelve_F_Absorb (finalNode s)
                                           (take K12_capacityInBytes st)
                                 in s\<lparr>finalNode := f, queueNode := q,
                                       blockNumber := blockNumber s + 1, queueAbsorbedLen := 0\<rparr>)
                           else s\<lparr>queueNode := q, queueAbsorbedLen := n\<rparr>)
                  else s\<lparr>queueNode := \<lparr>kstate = replicate 200 0, byteIOIndex = 1\<rparr>,
                         queueAbsorbedLen := 1\<rparr>)
         else if len = K12_chunkSize
         then \<lparr>finalNode = K12_first_chunk f,
               queueNode = \<lparr>kstate = replicate 200 0, byteIOIndex = 1\<rparr>,
               blockNumber = 1, queueAbsorbedLen = 1\<rparr>
         else (let idx = byteIOIndex f + 1;
                   f = (if idx = 168
                        then \<lparr>kstate = xor_byte (KeccakP1600_Permute_12rounds (kstate f)) 0 0x07,
                               byteIOIndex = idx\<rparr>
                        else \<lparr>kstate = xor_byte (kstate f) (unat idx) 0x07, byteIOIndex = idx\<rparr>)
               in \<lparr>finalNode = f, queueNode = K12_zero, blockNumber = 0,
                   queueAbsorbedLen = 0\<rparr>))"

text \<open>
  The length encoding of the block counter (lines 573-584): its bytes, most significant
  first and without leading zeros, then their number, then two bytes \<open>0xFF\<close>.
\<close>

function K12_byte_count :: "nat \<Rightarrow> nat \<Rightarrow> nat" where
  "K12_byte_count v n = (if v \<noteq> 0 \<and> n < 8 then K12_byte_count (v div 2 ^ 8) (n + 1) else n)"
  by pat_completeness auto
termination
  by (relation "measure (\<lambda>(v, n). 8 - n)") auto

declare K12_byte_count.simps [simp del]

definition K12_encbuf :: "nat \<Rightarrow> u8 list" where
  "K12_encbuf b =
     (let n = K12_byte_count b 0
      in map (\<lambda>i. of_nat (b div 2 ^ (8 * (n - i)))) [1..<Suc n]
         @ [of_nat n, 0xFF, 0xFF])"

text \<open>The second part (lines 564-594) and the function itself.\<close>

definition K12_final :: "K12_locals \<Rightarrow> nat \<Rightarrow> u8 list" where
  "K12_final s outputByteLen =
     (let f =
        (if blockNumber s \<noteq> 0
         then (let s = (if queueAbsorbedLen s \<noteq> 0
                        then (let st = K12_close_leaf (queueNode s)
                              in s\<lparr>finalNode := KangarooTwelve_F_Absorb (finalNode s)
                                                  (take K12_capacityInBytes st),
                                    queueNode := (queueNode s)\<lparr>kstate := st\<rparr>,
                                    blockNumber := blockNumber s + 1\<rparr>)
                        else s);
                   f = KangarooTwelve_F_Absorb (finalNode s) (K12_encbuf (blockNumber s - 1))
               in f\<lparr>kstate := xor_byte (kstate f) (unat (byteIOIndex f)) 0x06\<rparr>)
         else finalNode s);
          st = xor_byte (kstate f) (K12_rateInBytes - 1) 0x80
      in take outputByteLen (KeccakP1600_Permute_12rounds st))"

definition KangarooTwelve :: "u8 list \<Rightarrow> nat \<Rightarrow> u8 list" where
  "KangarooTwelve input outputByteLen = K12_final (K12_nodes input) outputByteLen"

text \<open>
  The reference for a short input, after the spec's words ("hashed directly with a
  short-input domain-separation suffix"): a single sponge. \<open>sponge_byte\<close> adds one byte to
  the state at the index and permutes when a block of \<^verbatim>\<open>K12_rateInBytes\<close> bytes is full;
  \<open>K12_single_node\<close> absorbs the input followed by the byte \<open>0x00\<close> (the length of the
  empty customisation string), adds the suffix \<open>0x07\<close> and the last padding bit, permutes
  and returns the first bytes of the state.
\<close>

definition sponge_byte :: "u8 \<Rightarrow> KangarooTwelve_F \<Rightarrow> KangarooTwelve_F" where
  "sponge_byte b f =
     (let st = xor_byte (kstate f) (unat (byteIOIndex f)) b;
          idx = byteIOIndex f + 1
      in if idx = 168 then \<lparr>kstate = KeccakP1600_Permute_12rounds st, byteIOIndex = 0\<rparr>
         else \<lparr>kstate = st, byteIOIndex = idx\<rparr>)"

definition K12_single_node :: "u8 list \<Rightarrow> nat \<Rightarrow> u8 list" where
  "K12_single_node input outputByteLen =
     (let f = fold sponge_byte (input @ [0]) K12_zero;
          st = xor_byte (kstate f) (unat (byteIOIndex f)) 0x07;
          st = xor_byte st (K12_rateInBytes - 1) 0x80
      in take outputByteLen (KeccakP1600_Permute_12rounds st))"

section \<open>Precomputed tables\<close>

text \<open>
  \<^verbatim>\<open>FIXED_BASE_TABLE[960]\<close> (line 700) and \<^verbatim>\<open>DOUBLE_SCALAR_TABLE[3072]\<close> (line 785), as
  lists of 64-bit words in the order of the source. The code reads both through a cast to
  \<^verbatim>\<open>point_precomp_t*\<close>: entry \<open>d\<close> is the twelve words from \<open>12 d\<close> on, four for each of
  \<open>xy\<close>, \<open>yx\<close> and \<open>t2\<close>. The lists are given in pieces of 48 words (four points).
\<close>

definition FBT_0 :: "u64 list" where
  "FBT_0 = [
     0xe18a34f3a703e631, 0x287460bf1d502b5f, 0xe02e62f7e4f90353, 0x0c3ba0378b86acde,
     0x90bf0f98b0937edc, 0x740b7c7824f0c555, 0xb321239123a01366, 0x4ffcf5b93a9557a5,
     0x297afccbabda42bb, 0x5948d137556c97c6, 0xa8189a393330684c, 0x0caf2b720a341f27,
     0x3a8ba018fd188787, 0x5546128188dd12a8, 0xb0b3cc33c09f9b77, 0x1baeeaf8b84d2049,
     0x006425a611faf900, 0x18f7cd12e1a6f789, 0x6dccf09a12556066, 0x448e05eeace7b6eb,
     0xbf2f33689d2829b0, 0x6d911dcb2957bdb4, 0x9f2353dbdc3c03ee, 0x06c54305babee501,
     0x2eaf45713dafa125, 0x72963058648a364d, 0x61b7771f9d313ef2, 0x4f41c7f8bfe2b069,
     0x408623ae599790ac, 0x4d33858644330a42, 0xfc5696649cdd7487, 0x74df72e0e598e114,
     0xc9a06325913c110b, 0x076bd4115fe4b0d8, 0x76619e65d6bff3d9, 0x249240147cee3a08,
     0xd695b96148965a73, 0x28aac8a28829f706, 0x41f1c05329f7a57b, 0x441ca9e89f03e00e,
     0xe1aa38ab8bf7241e, 0x58f28cafc832b7f4, 0xcadaf8b8fa5400c6, 0x34b6d106284e863e,
     0xf5498cab3af15097, 0x6dbe7790017d9c49, 0x63bf76a81448e8bc, 0x6371925bf23ae006]"

definition FBT_1 :: "u64 list" where
  "FBT_1 = [
     0xc5e2c721bded81fa, 0x4ede70eed68056ab, 0x8f3cd9b5b4975810, 0x4752fd192f0a9aa8,
     0x318794eb1f734414, 0x11ddf7d2c8468662, 0x2613b06f72b1a34e, 0x465575b37ab06770,
     0x40b9845f82638d2b, 0x48894050790298ce, 0xbedb93a501b4f131, 0x04f3560d2889b2fb,
     0x457dd875115b278b, 0x56f25ee54d92858a, 0x92d4c1cdce0c977e, 0x078fca4187d74996,
     0x3bbb2ded76cc22a1, 0x117b28853ddc2bf6, 0x43f3767cb9c2baa2, 0x73079e25e0ea8a8f,
     0x0177992b5a15796d, 0x2e77721480d9ef92, 0xbe09883567372916, 0x258f176b7af7576d,
     0x308338fd6168391b, 0x7285925f9a7353a4, 0x862c0fd04fe85114, 0x53259ee7423aeb51,
     0xfe0031a84b3b1a68, 0x1a4f1d661fa071fc, 0x2ddd54168dc928a7, 0x60185c1adf196a6a,
     0x49809717dc6da9b4, 0x6062094b4dcffc03, 0xa41ea6fa05fa7e8d, 0x4a4fe06f277148a0,
     0x7bb253a9ee9e80f0, 0x419a928bccb11733, 0x84323be66a9a039e, 0x01b2d1ae972814bb,
     0xa7588584d3051231, 0x54df1e20cc979dd7, 0x91d906fe3e2f22dd, 0x4e36e9975fdf1a0f,
     0xd81871746b747634, 0x3e5e31baeee13433, 0xe4da80979573baa3, 0x4b852ad97cfe77c6]"

definition FBT_2 :: "u64 list" where
  "FBT_2 = [
     0xe08b346714418b9e, 0x283d719b2fe6ef88, 0xb7339d2de45c180b, 0x75acfcef11d2d5c8,
     0x8f40777a8c561876, 0x0c54ac40a7134c4b, 0xb92e287d66baee08, 0x6f357e5006a188bf,
     0xc5903319ed1e6971, 0x747c45ef91dafd40, 0xde4086a91d2f816e, 0x5dcb27edb3b3ef7d,
     0x43fdc46cfa1dd2ee, 0x51551f9f70966498, 0xb54534f761ed9bdc, 0x453455b3073fb07f,
     0xf24773e383cab70b, 0x679be25e758cf4df, 0xda17edf2943eee29, 0x3dc9e5b8d6dc0f66,
     0x56a50cba413fb75b, 0x1e65315bc5a8537f, 0x5ff90242802c7213, 0x73c9d8c8f425252e,
     0x3c637b8633198c8f, 0x534f84b3ed414f33, 0xad313e72dedd6902, 0x5ed57e941cdf33af,
     0x5a6fe01d2a57306e, 0x73b63dea344713f9, 0x39cb70570f1c2bf3, 0x2df8c6e49f1a18db,
     0x661bc349677797e4, 0x501ae7cbbebe9062, 0x5b52a88de8959643, 0x0372752811c01d51,
     0x010c57a2301bb928, 0x378b317155554fc6, 0xf883fa4229a02cf1, 0x5f0047b850d7db29,
     0x4d247ae328402daa, 0x0d030627a850a2bc, 0xb4e65d9a88a443f5, 0x6ec9686b2d6db089,
     0xde202e08fea1d987, 0x5c64e1d3f28d7600, 0x157d17bef661bfb7, 0x56392d36dd75334c]"

definition FBT_3 :: "u64 list" where
  "FBT_3 = [
     0xe25478d8bd19155c, 0x146d4f2d3d336afd, 0x9bfbe00bf94e15e8, 0x2b185a9a6adf10c0,
     0x926527b3ed52ab7b, 0x67997e1473101e80, 0xb58f4ff4947cc541, 0x36f800c7fac99a7a,
     0xd0302e32400456d9, 0x4372e43640bc697b, 0x9144cabb4750d898, 0x75d25afac9a23cbf,
     0x794591767655cbfe, 0x74db216617fc4b07, 0x7057b2242566d0c9, 0x1d543b5908417b23,
     0x19c280b444428783, 0x352309fd8b6cc3ef, 0x37833d6ac068ae72, 0x4ec0671a23c019f4,
     0x9d9836e1a3d05bb5, 0x44fe1adff224efe3, 0xa296bc3ce57efb4a, 0x2efec86835a14150,
     0x2fe19c09fb194bca, 0x18cc07d3953cd206, 0x5bdff217c9c0b9e0, 0x671aa756581abcee,
     0xe1cc33ae28f7d1a2, 0x1b6f254937a0a3fe, 0x51503d1665babb83, 0x74b95636d5889211,
     0xbdb97ae4ea96f869, 0x1507ce189e2510bd, 0x796e4d54fab93b13, 0x6a81765f05960929,
     0x2e940521e5a833ed, 0x3bdea532b245f644, 0xbea76975ffd52693, 0x64b94848ba6d4ed6,
     0x9db52d0194e33ec7, 0x71cf65da55639f25, 0xede73b1fdb5a8138, 0x12e4d13b6c62dc22,
     0x9d19b0c265185517, 0x77a011d257b5fdd0, 0x1fedc5caaecd84e4, 0x46844e151e3492d1]"

definition FBT_4 :: "u64 list" where
  "FBT_4 = [
     0x7a423a31904220df, 0x5b3165c747e8f099, 0x1c665eeadf35e22e, 0x7802b556fc45595b,
     0x85a2def4015bd2de, 0x17f2ab87957166ad, 0x19cf6d352060c1e5, 0x122a7ad1be408e6a,
     0x5b79bbc8645bf766, 0x20fb009d4d0adacf, 0x97526a272ba28538, 0x7041b4e90d420bde,
     0x3b30113358dab057, 0x3d398b66f0d24243, 0x91a5999a03cd4708, 0x1eae2409cd938096,
     0x66dd6b604c36108c, 0x1713083789081968, 0x57cad6917125dcfd, 0x34b06cb89704f1ca,
     0xdcafe8e71f35abf2, 0x698331198d544db9, 0x6287676643af075b, 0x200950e5559d2b6d,
     0xd4f63fc3ecdd9074, 0x7473317142ac13a2, 0x96b0030805319356, 0x2c20ffe0244378ba,
     0x4889511ad26ac01a, 0x4ee327219997fcf6, 0x15ffe6e70f0bf8ea, 0x6b617fb4a6d0a6d7,
     0x4916dca1c52f7324, 0x3c8269f086468277, 0xc24210c4c837e04b, 0x4e480b4f915a542c,
     0xc5fef3b09a7fe35e, 0x31a501de44fd84b2, 0x79f29e4940a407b9, 0x0ba7e03ca5cce5ab,
     0xa7a8b2058a74d8ea, 0x46f4c7810e26dadc, 0x46171ace94a1128a, 0x44db55025495a811,
     0x7f889e1a4bf18d5c, 0x4d4f172a43f306b2, 0x33a99766bb1cffad, 0x6254775924d39aca]"

definition FBT_5 :: "u64 list" where
  "FBT_5 = [
     0xd855230ec225136e, 0x1c544dd078d9211d, 0x12fe9969f63f63ba, 0x069af1dc949dd382,
     0x305bcf40cfe5c256, 0x63ae90924bbbb595, 0xe451097793b7de06, 0x09780cf39fc0043e,
     0x827af8e7eb798871, 0x3ace8a6c77577a37, 0x79df061332e055ba, 0x561dc07aaacea92b,
     0x7e4422d9820d2673, 0x6b85df83e0af5348, 0x1f151ac1ded8526b, 0x35ead8e5157142bd,
     0x6da6ef6c33c79dd4, 0x5f2ea04d2594fde4, 0x91037d0cc027d5fa, 0x53b5401007b0331b,
     0x810f198a3d4ba5a3, 0x4463bd259ba94195, 0x32b894acec2acf9e, 0x78711761d64349ce,
     0x253ae1b3f51fe211, 0x409e4b3f535b6463, 0x3a236d10da5e49de, 0x19d2b1029c21336a,
     0x2835f40436aadd90, 0x0942a31505190b19, 0xc189131876828279, 0x3afe96c3ca8e1f9c,
     0x9f1801b491230693, 0x39e28db8625fd091, 0x9fab50355dd44c8e, 0x145155da729b280d,
     0xd3ccf8101d4d76d5, 0x5a0faa1a8c2b6c68, 0x3cc66c84cb54ea8a, 0x51052ce3f566c773,
     0x3bee14de65ae9ff5, 0x7586118a01ccf024, 0x089e791c896bf15e, 0x35ff022d261d93d6,
     0xcd3ce13d8f7d1cf9, 0x4f1de98f95b7b8f6, 0x51e68a2462dc41b4, 0x61ad9e3c23f6dd29]"

definition FBT_6 :: "u64 list" where
  "FBT_6 = [
     0x584fea6480ebdb51, 0x5d52fe073f9decf3, 0x9afe483eadf336d5, 0x1dfa03c980b1696a,
     0x55f73d47ff819a19, 0x697bf55d361100ed, 0xded4804446399419, 0x618c94467fce259f,
     0xf2597ff1f08ef50c, 0x07c935b98dd933c0, 0xbb758cbc78ded5f6, 0x1e9a0d06af13148f,
     0x879ce1457f4cd4db, 0x28396ca1962d4994, 0xf5095a3dc57605c3, 0x1e570f3da4c527b1,
     0x2af69a3904935787, 0x591ee376fdd01cce, 0xf77b58df88bc8633, 0x5464d651b2f395d1,
     0xafbc096b1e9a86ae, 0x6ce2df4bf65b6b28, 0x3b3a828d2e9d3e08, 0x6382011d8d2d66d0,
     0x94987ca64d3d193d, 0x50ddf70d3b6d56af, 0x8d5df67cc8ad15a9, 0x39208098bc5b1f92,
     0xce99f520dfd5a4fb, 0x323bbc87b86a7ba9, 0xe13f88a8d803c789, 0x56ffdcbdf2200055,
     0x3aff0da31b24c72d, 0x70011566460c0c16, 0x76f7b7f53ac46a13, 0x1c069bfeb7077bc2,
     0x8f47193ca14a3c36, 0x6d73e34af088de3d, 0x634b2bd9317d6634, 0x5b404738b77f1ec8,
     0xf34fabb71ca1cb1d, 0x054abbcaca546a46, 0xe8cdcadd08eda660, 0x6971abbf958bdef1,
     0x41338557dddb4eaf, 0x1e158585b079b67c, 0xd2270474cfa26068, 0x53b36d32b3cea469]"

definition FBT_7 :: "u64 list" where
  "FBT_7 = [
     0x011523c16c543d08, 0x4668e92c5f73314e, 0xbaef3ebe4117acd1, 0x04037d1aa713931a,
     0x68e118e4e390c68d, 0x6b80cd55a44c1575, 0x7307ea8a5729c032, 0x5cc5475feee99ab2,
     0x34450e424c14ac75, 0x3f09157e5db3dcd8, 0x62ce2b1b50588052, 0x27a899c54e652f8f,
     0x0acd039f2fc2a5ed, 0x4b4044ddd5813eec, 0xc04d189e90a75958, 0x242551bce71d33a1,
     0xd95af96b51f87f05, 0x02988820f809d815, 0xb27f65f73b9483c5, 0x2ef60745f4364b43,
     0xcb66bdc93f4fb8b9, 0x2b86c9b48756bb8a, 0xf8ebdae09b9867a1, 0x441e70184e6fe9aa,
     0xfdc2530330cc1289, 0x47d8d65a8b4d6992, 0x8c03b6fa30ae74be, 0x1ca8693cc3bd99d5,
     0x699eb1511018f2a6, 0x3da04764d9f4fff5, 0x361720433d3aab59, 0x2fa911612cb857ff,
     0xa4057da10c2f1cac, 0x48a219b933a5c619, 0x42341020d15f0bc5, 0x73f8895046a09dad,
     0x1bad5312c67421b8, 0x4194771b368e622e, 0x8cc71a79e44e0dff, 0x4b4564e45467f1c2,
     0x7759f16aafe52093, 0x391b71dcd75fbea9, 0x2a1c0694ab4ef798, 0x023087545444130d,
     0x4b7ae1ffcfaa1aa1, 0x64e26f32d73361e7, 0x8da47038bd0b54b9, 0x148cfa6feaecee15]"

definition FBT_8 :: "u64 list" where
  "FBT_8 = [
     0x3756d4d479c2cc3d, 0x25d44ea8d31543de, 0xd82c8bef26bb2c43, 0x2c2047033d27f37f,
     0x5bd33d9837dad260, 0x77943117a3383b7d, 0x12071d697ea583f2, 0x3c7c41272a225bf2,
     0x92ebbdfaf1f03ad3, 0x5d61030c68b63704, 0xca6e2853baee75d1, 0x12404b34771a3636,
     0xbe13c46326667e4f, 0x2bd261916f9be3b0, 0x86e3f8cbadc80f89, 0x74520d8a1794cb48,
     0x1e15c745024cf97e, 0x5cee741e1e53eb02, 0x8d088de0af99cda1, 0x625812961cc0862c,
     0x4313437321c0e934, 0x60bbc768c424f7a4, 0xaba71fbf3c10e143, 0x37b8ea9f14a915b8,
     0x8d96ec65c40213ff, 0x74a08828ff77845c, 0xbedb7194daf607a3, 0x17e86671161c8706,
     0xaceb98e0524059cf, 0x68552ac494916f09, 0x4cd2971baf1b3c47, 0x68442ebcdde21b70,
     0x19629b8c0e867595, 0x6a6955d3635fa47a, 0x6fab45e0f2e393ad, 0x66dd3ef4fcf050c4,
     0xbb0b7abcfddc7df1, 0x14eb5b751b0bcf9c, 0x1cf79f9ca2fd411d, 0x5c496f73fff0600a,
     0x49648d8555426d70, 0x46c1016a2322d8a9, 0xb57fdb870d9b6d4f, 0x609eb65209ddb633,
     0xe70f9166bedc82c5, 0x772fb5b5c8afaf27, 0x79a294d9b0227a20, 0x7f75b141112dbc8d]"

definition FBT_9 :: "u64 list" where
  "FBT_9 = [
     0x98d1c7f88e070020, 0x5953d0aac48217b1, 0xe28253ebe15f33ff, 0x267d1dc11e614c45,
     0xbe64f50ab99e2246, 0x4eaaab5c82fe5495, 0x927d5ac07e60bed0, 0x67d3786de6aa1b4d,
     0xa71962bf0f6e2945, 0x63d93844a35eea9b, 0xb34228c7d26640ac, 0x169c38d2eb28f5a1,
     0x4b7972b33439dc22, 0x71478457cdaa1e14, 0x5226e125ec1d58c7, 0x669d8796e78fd4f1,
     0x750dd1aaaa44a07f, 0x327c62b55aebbecf, 0x006b8e95b54fbd25, 0x2ab3f95d01eb364e,
     0xfcbe5080c0d5e196, 0x2a1b9bd75a57e725, 0x1d2b2b6758139b5d, 0x751cf4af849b7a73,
     0x164a7d2e337d00a5, 0x00cee3a4cb83a4bc, 0x3498e0366dbe28f9, 0x053d899148d28502,
     0x01665d64cab0fb69, 0x4a99132208d68e74, 0xba44bbd4bd3f915d, 0x1d34b0f9172122bb,
     0x5d114dc729e8a9f3, 0x08e7a43dd5334b60, 0x28db8e9232f0f3e8, 0x5cb7be1b80264f62,
     0x9af2c78782508f23, 0x336ae7ccf7e3a1b2, 0x7fe2d4ee2dd194be, 0x573d2e1b2b8a6872,
     0x3332ea3363b2ea36, 0x200bc1375b1f4243, 0x65c47c8c06b3260d, 0x42021fca53995c5e,
     0x2f7e6cf49bb19946, 0x311fba6a23196d2c, 0xc30c13b62be0d70d, 0x61eeac142711b0dc]"

definition FBT_10 :: "u64 list" where
  "FBT_10 = [
     0x88526996597d35d4, 0x70169bcbe6bd21d7, 0xa0f1b2d0ad29a510, 0x2ade531472c1b94d,
     0x11e320dc189873e7, 0x2d2a1794e85cdb38, 0xa0a8c453a6f621e3, 0x4b06d5b54525f6f7,
     0xf42916691848ec1c, 0x1d4216555d578730, 0xf8c60da7290a5b4e, 0x66dd9f39a1f3565f,
     0x55ac29d937b474a0, 0x4291967a4a369ee4, 0x918dacaa12e6bc89, 0x3d46e8900651c310,
     0xaf055430a00e90b1, 0x16f62bf56da5ca39, 0x1a021c33488c51e6, 0x0d64dadf63fbbcd5,
     0x0918ece59dbfea7c, 0x3b3319d7dd74203a, 0x1d88545b8b9fa90c, 0x13b792dc908c59e6,
     0x0a2d939a9c3d0979, 0x321a5dbeb74bf127, 0x5e5947fff66d8470, 0x22ec9ecafd26bc99,
     0xde17ca8293b10536, 0x593f56c0559dd846, 0x1148373375485023, 0x23c6b0fdf7448b1c,
     0x377904458a27804f, 0x573e91962726ea70, 0x35e1b24f3235ac70, 0x51ba082049f4f85e,
     0x4bc4918160d47194, 0x5d29a21e3308e1dd, 0x7e15894b3e6e4e33, 0x50dbbd2f4f31d0fb,
     0xef248bd235a9c9de, 0x3418add21b634710, 0x96c7233a52363bd2, 0x7c8414ad9a08c99f,
     0xbc6acb4a54e6c05c, 0x5729021a1193579a, 0x0627c3e00b08fa1c, 0x3d0b4ff9e17c2a73]"

definition FBT_11 :: "u64 list" where
  "FBT_11 = [
     0xd507e8755990317f, 0x75b27bb3bc7bfe48, 0x44a80f2c6ce651f5, 0x7b9795fc1b706e46,
     0x9de75bdefdf9a640, 0x75ade50ababffaa8, 0xce0ab116870889a0, 0x6f3ddcfcdd59ec6c,
     0x6e36833588de0674, 0x291d1129ea28a073, 0xf8b8e53864884d61, 0x706ef8f1ae854d76,
     0x137a8c6583753069, 0x01e45f1cc620f966, 0xe28e1ff82f76c7ba, 0x36d29eace3e89c54,
     0x83379f157f0b49cb, 0x65e9c39e2bacb937, 0x9b323c45070cda3e, 0x16e02f31ab7e2de5,
     0x53bcf346635122b7, 0x1fd7e207d6c2de09, 0x3a5f5f94ea1e57ac, 0x0cba06e8d0f0b4df,
     0x70b440c387a9c392, 0x1e7dc143dee1d800, 0x5498ba6d7239912b, 0x332870a017182d14,
     0x6be306fc672d794c, 0x2c2ce211245b2b4e, 0x109b722c8d2ba79f, 0x268520fa9c5f727a,
     0x515b300524fe78ee, 0x736201eccbaea698, 0x4608ac113210bf78, 0x32d8fd919c441843,
     0xc9557e1b04b8f2d8, 0x775437f798dc7459, 0x1200f5585ba417f5, 0x2e00ec5f3e7ad304,
     0xfc873d5f2b446288, 0x32270a93624876e4, 0xc646a47c08789b22, 0x2370d9fe925616be,
     0x430afa3619e671c4, 0x156468ceac1f5fb2, 0x3b84dec2f2417635, 0x31140e9017c0e58f]"

definition FBT_12 :: "u64 list" where
  "FBT_12 = [
     0x5c85f88ccb7443fa, 0x0da75f5d64d864ac, 0x295ff44871b0fb84, 0x1b79e10bad3336c3,
     0xffdf9942dd2977b3, 0x4c1b198d0f9a1a23, 0xba778a24c112864e, 0x74f66897f26d48d0,
     0x3fd5c06e867ab611, 0x4b98ce33ff7878b9, 0xf7db4dce75cb9165, 0x11665aa099ec5163,
     0x2a498f16ae7118b9, 0x265ec3dbb4eb509a, 0x3da4230668ce2c86, 0x36e62baab2e33385,
     0x99507d4a79ab4478, 0x25bfb2fc411e8875, 0xd7ac1ec933022ce1, 0x23d341ae033d0466,
     0xd295b465e962bc00, 0x23d0211ba2d73180, 0xa03ccd7aff922d4d, 0x1e767148de301514,
     0xc241ab36a894efab, 0x1c9fc2f343fc1e58, 0xca3b96562bd27a87, 0x53623e2285dd7015,
     0x557411f01c219420, 0x19265577096b42f9, 0xd3312d941b23592f, 0x30a9a9a1c3c51c06,
     0x3d89b0b3ea6e8f79, 0x7eab751dc5c77cb2, 0xc0a9b186e6df6e36, 0x4f844d583f155694,
     0x419018232793dffa, 0x2add440b6bd3854d, 0xd55480f131df6e32, 0x318ce3846ae3e417,
     0x0565062d1a0984f4, 0x6ebaec63d2bff9f6, 0x77075fe729e79790, 0x0dd9434624c8a4e7,
     0xbf8f11e2dfa9b062, 0x1b17d8255ee8b364, 0x62c2150cf72c6344, 0x28106880d081e8dc]"

definition FBT_13 :: "u64 list" where
  "FBT_13 = [
     0xf4a4af0ddfec91c1, 0x1a8f0e6c977e1f2e, 0x72a7a3a738b9316f, 0x323716728c4e22ec,
     0xc14069065ba4af3b, 0x081514248911d367, 0x51bd4afaa8b6c337, 0x50e77a9b513400e7,
     0x46c0051b2a822548, 0x024886e41a5edcfc, 0xa06b0efa41cac17f, 0x336a30b01b9c5675,
     0x74fb2c10ca097626, 0x2b204caa48e90981, 0x6902c952b9a17b74, 0x39c2e9b6b922303b,
     0xb9216b9b3c597419, 0x6d92930264f15f76, 0x7b1297d5eeae1427, 0x0f0744adfe1bd307,
     0x33b57e265be6a89d, 0x282fa2e533356c10, 0x3a03995c61dc772c, 0x4f5d8f5e893dcff5,
     0x4bfc927efc48023f, 0x596f2241d6a685ae, 0x3cb3e0afec29b8a2, 0x31018e0d10653842,
     0x2fd00fe944575626, 0x1241d8704982e011, 0x970d56664e6781a7, 0x1b05f49d0f3de2ce,
     0xa994ffdf63717e66, 0x416374a76ba88e98, 0x8b082ced53f1579a, 0x56781dfab5d2aa4b,
     0x8151defd1865b318, 0x64669b840d6081f7, 0xe436f4bb5f38e14e, 0x43d438410a974b40,
     0x5832ceb3d666be02, 0x06347d9e1ae1828e, 0x6979471b39e3ea86, 0x2cf2cf61cb4b5ae4,
     0xb7ab29eada5a6ee4, 0x12e75cb29aca5768, 0xe65b1109d30d1ffc, 0x71f9becd6b320e5a]"

definition FBT_14 :: "u64 list" where
  "FBT_14 = [
     0xdc8289026647eed9, 0x31d62d050ca5458f, 0xea2bbf523a54c1e5, 0x602bf0b9e3ee5491,
     0x25aa73622380ad4b, 0x2b6b1e3271df5f58, 0xdbc5efd86aa0470d, 0x05353c24b8c4354b,
     0xa3c7db3cf5e06bca, 0x288a1c8f2b4ea5f7, 0xd6152f5e12ce7ca1, 0x59d4c1b436673c7d,
     0x1e02554e521fcb95, 0x66d3980f240ad440, 0xabf16f6b39a4d9d1, 0x7fea351ca94c2f62,
     0x3d62b6f3389163ba, 0x0fc6b44f2e7895ea, 0xd5c64403cda7c669, 0x2e4099090e603193,
     0x9b5c0faf15fa4c2f, 0x46295c9d8e12b639, 0x5ce4add63a5b331b, 0x5fa7bd736c4c5879,
     0x47b3471447d1aef2, 0x28004c1c22325739, 0xd588437d9a3c5299, 0x2ab19c1812cd27e8,
     0x3ae700f680037802, 0x1ad163800b422b36, 0x45b7ef36fabc2139, 0x44bcdeff21dcbd1d,
     0x41c6da2171e11c7b, 0x2c35ee79f7c4cc14, 0x4852942759c13849, 0x6492d26f10be050a,
     0xa6f54e988c50f0d9, 0x6a2db2b6dd62181b, 0xf7d9806b2a5e57a3, 0x57526bdb3ba53d20,
     0x17ce6cb1f500e650, 0x05d841b042f8f345, 0xaa800a6c698de970, 0x04f4b559abe2cb8e,
     0xc050dfd7259ce49d, 0x213839bdf94db935, 0xb371258655306204, 0x7d323b8b19f9705a]"

definition FBT_15 :: "u64 list" where
  "FBT_15 = [
     0x26d4502b16b6c618, 0x79717069aa89595b, 0xf867c0e36db41872, 0x13d601d86c76e1d0,
     0x2dfc8b0d331b7383, 0x185472f3e42e8075, 0x05bd13e72b10eba0, 0x519a387490f79b95,
     0x8d09c1b2d3ad2500, 0x045da45d2cf0f733, 0x640181956862426c, 0x728d57f59bfe1b09,
     0xf9a99f878da2c585, 0x4fc4831e61dc4e10, 0x6dc602cc54394fe0, 0x0484566b67e9e8ae,
     0xc5fcf0474a93809b, 0x71c0c23a58f3e2bb, 0xb400fabe36fe6c43, 0x614c2f3eaee4c0a7,
     0x7610a980d0e1c6c1, 0x1ce8197c88885dcc, 0xeade1c9f3ac2cb2b, 0x471ad07baf2f341e,
     0xd67a837c6b01121b, 0x2a8e64281f59cb59, 0x52e701e42f3262ca, 0x19e0a27dece50580,
     0xb5691c17a7bda6ac, 0x43484c311b9df1f2, 0xa68155549bae49ea, 0x43a2c5dda225fae5,
     0xfa5e992aed700eef, 0x58911f5623918856, 0x648b81a1e48c4da9, 0x66e6e30cbdd0c3bd,
     0xf3ba209c169d266b, 0x20f7a86230447685, 0xd1bb5aaa1a0c3d2e, 0x366c29843d1111f1,
     0x06c78b642dcc9013, 0x27484a64e109e3fb, 0x8f8eacbca4677464, 0x0b6cb31b1dc24cc1,
     0xdf69c84f898f0fa0, 0x2dd426744920f2a2, 0xc0912a197d4c5c69, 0x489ade7f6a98d8d6]"

definition FBT_16 :: "u64 list" where
  "FBT_16 = [
     0x458769f47f203e28, 0x124f4123fc05ac97, 0x3bb936f4ad6d7d67, 0x330954fed4f00ff8,
     0xc2ce650046f90eaf, 0x7bf94762d4f9debd, 0x2e93172a586dfb83, 0x3c7a6062b4113d96,
     0x5ddb0397147f0d93, 0x08e3596fc6839034, 0x374e67ff67639bfa, 0x19021c2119888232,
     0x002f5d04fdd55efa, 0x05b4c6e079e1baa3, 0xe5678ea3ad74c84c, 0x1c42f7826a58a77d,
     0xe054668bd2cafacd, 0x237668d3ede4261c, 0xedf46a6374aebb32, 0x31ec8c5931cf0ef4,
     0x955c2e95c35b5825, 0x27d8b0ea68259603, 0xb7a8976e427d1ec0, 0x6b6cc5c07152bd13,
     0x03d88f0ca0b244cd, 0x001cae9a8cfed897, 0xa844b3a1f693a7fd, 0x676c9acb7abdec96,
     0x631b6bd5e0cdbd33, 0x29f289dc0cddd9b8, 0x0947d57536fb2eff, 0x1eb2ce650e3eb059,
     0x2139b3a40e8bf405, 0x4165edfb39f4ae8d, 0xe061eda67a70d6a6, 0x2e3cc0328c9084f6,
     0x1ef8329ed056063f, 0x6d4d01ce49e8b3d5, 0x0110c92f1656d34b, 0x6dad1c4e170829e0,
     0x584c56c590b477be, 0x597e5f0ad525e935, 0x6008264d8eb7d36d, 0x3f586754999c829e,
     0x3d7ea89df5546a1d, 0x41754f7d9a3f4364, 0x3b0796822ef879a7, 0x1ab2779598262872]"

definition FBT_17 :: "u64 list" where
  "FBT_17 = [
     0xdc37c9f0bbef7923, 0x256ec818ec35a097, 0x4a72da5c09dd5846, 0x51df6c61edcad45c,
     0xaef24fcdcf5ce819, 0x0ba6bb959ae689f1, 0xe667bd65a57b3a9e, 0x71ffd591a28a8e4a,
     0x06c325fa53a7fadf, 0x6667f2986b2dcf13, 0x3ef751a6d52a09e4, 0x517a104240b8c74a,
     0xd08cddfd8c8183f5, 0x59237cc71b8147f1, 0xfff94fd188395933, 0x538acc592d10ef67,
     0xac51ce386ff0eb1d, 0x69d42b8114c5fe65, 0xa17eda3995bfe8b9, 0x5dc6d98fdf05a341,
     0xf2304d375ce8be78, 0x31b58521ecc483ca, 0x04d2d8140780222a, 0x3dc18b2be3ed95c9,
     0xa48e1639f2d70d2b, 0x4ffd54a6bc0f38d0, 0x8ae3c65ba6b7143b, 0x482eb41f9178fa9d,
     0x240b8b4e87ad4f1d, 0x6d8532420059eb40, 0xc135f77e44275132, 0x6261076a0daae349,
     0x35316bdb3842765c, 0x246165ba3a8bfd92, 0x1c2d774bd5177a75, 0x045a2f991647e3b6,
     0xed3b5923594671a8, 0x0514fada5acd4db5, 0xe8297fc358a0f50f, 0x7cd2badcf2952a91,
     0x0da45130ea9ac266, 0x26a0d43c1e14c979, 0xbb62b729fe93a390, 0x360357aff7f67ccb,
     0x3ad4835d1c7c59e8, 0x570daffd86fa470b, 0xd7c4be698fa3bd96, 0x17e4bdec2ad76ffc]"

definition FBT_18 :: "u64 list" where
  "FBT_18 = [
     0x43ce4ea9ead7dc51, 0x58ba7ae0d64a518e, 0xe014cc7e64680555, 0x03abc953ce2630b8,
     0xa318620c7799be57, 0x2b258fa2e84da952, 0xdd88fdc5063b2ffd, 0x17371dd79a3aa556,
     0x927b837578981299, 0x554552101d90ab2d, 0xb45306218ce54bd0, 0x59109b65ffdb6235,
     0x8663e0c4a180a515, 0x41467fe41c6604f4, 0xae2c1aa4dcb73878, 0x19d3cb02c6c07517,
     0xaa147c97ea6745f1, 0x70dac71a31cac43c, 0xb9213ec26af87dfa, 0x67f228e9f60e7b25,
     0xbfb59b8cf78df3df, 0x36687792a4256fa3, 0xe1be5c1f23177544, 0x786a9e1b644b1c90,
     0x4172f47393ca7f5b, 0x62ae5bb4b8aaeb59, 0xbcd9c431fa631b6f, 0x1fbe20b2edc9cc6d,
     0x5fdd829fbc0ee085, 0x241dd315adc5dd59, 0xb4b688d625f7dbb6, 0x595a82fee5bed2d4,
     0x69653ae0cc11880d, 0x2b9e85fefc402f76, 0xbb2495b507770a81, 0x05d20c575fb34731,
     0x9d9e623436485ab2, 0x27012a9665f3febb, 0x586cfef484c04ff7, 0x44a5860cc0eabfbe,
     0x6fbfe6e2f3532e80, 0x05abeabaaf3220fe, 0x1bed21f2cb809678, 0x2aa62112b7eafed2,
     0xe298837cf610190b, 0x1ec8fbbcef9158f8, 0x1efe9b3aa4f96f6b, 0x6a3b842a068b0ef3]"

definition FBT_19 :: "u64 list" where
  "FBT_19 = [
     0x92dd4b7cd7f827f7, 0x605175bbf3fd1c97, 0x139bb6419c1f6d98, 0x3a3ab2e9978db310,
     0xc5c95941c9d5dd0b, 0x34c6c76025b2bce0, 0x0d44115a49bb8126, 0x7622cbeb11daf619,
     0x785bff93164ef5ad, 0x7191647d355cb45d, 0x117f255c4cce6e5c, 0x581b448b0e9aae3e,
     0x54a4f3cb36225414, 0x790180c539bc4685, 0x47064043b7c6b96f, 0x43cccf5b3a2c010b,
     0x1dfbf3afc14c3731, 0x1c368f3195572574, 0x00bc2ed3b5070b5a, 0x0332d8dd63b37f60,
     0x0744b1908c9bd8f0, 0x2d258e628dacb9ce, 0xbba5b4bdb9c61e14, 0x0bca12295a34e996,
     0x059c84c66f2175d4, 0x1a3bed438790be78, 0xdf394f577dabb5b0, 0x304777e63b3c33e4,
     0x59a29d4fe82c5a6a, 0x72e421d1e88e77a4, 0x69e6230313312959, 0x2da03aad8cf2bbb8,
     0x2858d8608fecb0b6, 0x343099e7a40243a6, 0xba29b675d29a8f63, 0x3d2028a4f6f15886,
     0xf068e2d286047d0a, 0x14999b5d6c770e20, 0xd1874a592385da79, 0x78aeb552c15a1cd9,
     0x482dcccc23e9c06e, 0x7b18a19fb54b5745, 0x036c896efe9a7a06, 0x2f2c2ce0d1871c13,
     0x3b2d9b9ed65492c7, 0x0649c7e50819d077, 0xcdab66ea7b65e3cb, 0x49b15b40c4aaf03f]"

definition FIXED_BASE_TABLE :: "u64 list" where
  "FIXED_BASE_TABLE = concat [
     FBT_0, FBT_1, FBT_2, FBT_3, FBT_4, FBT_5, FBT_6, FBT_7,
     FBT_8, FBT_9, FBT_10, FBT_11, FBT_12, FBT_13, FBT_14, FBT_15,
     FBT_16, FBT_17, FBT_18, FBT_19]"

definition DST_0 :: "u64 list" where
  "DST_0 = [
     0xe18a34f3a703e631, 0x287460bf1d502b5f, 0xe02e62f7e4f90353, 0x0c3ba0378b86acde,
     0x90bf0f98b0937edc, 0x740b7c7824f0c555, 0xb321239123a01366, 0x4ffcf5b93a9557a5,
     0x297afccbabda42bb, 0x5948d137556c97c6, 0xa8189a393330684c, 0x0caf2b720a341f27,
     0x892756b15bcf68c4, 0x5742f77c98a526ba, 0x340a5a1de9f89f9b, 0x14ef680aee75d0f7,
     0x84e770e14043a41f, 0x0212c41116c33c95, 0x35b791e6de4dc0e2, 0x5949df08518d5d28,
     0x6a0e120744ed10db, 0x5a5183ce844391d3, 0x6f618b158afdba50, 0x2ce2037e470e2088,
     0x1f49fa149a64ba3c, 0x5f9876d519670451, 0x030105056f55586b, 0x020f1a557d8fd726,
     0xdf4cb175b06d86c8, 0x694fbcbe7fe58390, 0x7933294a756a1b67, 0x09dbe9924b58f8ec,
     0x590f4403cdf197b6, 0x1c07969fc87a0ba7, 0xc496477712252367, 0x5508976022f1b096,
     0xefda361e452e1775, 0x7a0a0cccacc838fb, 0xb07e791c0be5dc5f, 0x24d9b6b418cbcb93,
     0x497970f3c6117e03, 0x3986a158cb96d595, 0x8f80586ce692612b, 0x305cafda7e4df9d6,
     0xc1a1c2e06452914a, 0x7ef989c0eb583079, 0x3a765b1f7364b099, 0x4fee236d58299c6b]"

definition DST_1 :: "u64 list" where
  "DST_1 = [
     0x6f81095f770e8419, 0x53bbd86b7396bc09, 0x2b72ba726b2b4210, 0x625dda1d2901c78b,
     0x0ff5bc7b18cd2b3e, 0x0556598c7358d332, 0x0991245f20ff50d7, 0x0e7f58e5e919a97e,
     0x5a0561373b758756, 0x6447bc93f87c198a, 0xf9230604c34c7520, 0x6b214425475c1bfa,
     0xe93de62d6a7f9497, 0x2129459d86f4493c, 0x456394c7c464cfe4, 0x612434fec3f4a1b3,
     0x1ed91eddf44261f3, 0x0c6d3854f9e0a3ff, 0xd3fd153188a7e4e3, 0x24691fbdca16910c,
     0xbe97465cd7625c9d, 0x2aa61cd373f759f4, 0x824d5763a326d62b, 0x1a0ae39e50da20ba,
     0x32d0c8481ee4c3b9, 0x6c3687109cdd18c6, 0xe52717142fbf95da, 0x67bfa41fb52ce9c6,
     0x4e24d6a088a01474, 0x49a6ca0ae3fb6626, 0xd67f8faa9103191e, 0x674888f5aa6d3062,
     0x4ba73824c2e85a99, 0x406b2fd18d35b314, 0xa7087b1bea728ac1, 0x11d2f222317b160e,
     0xf8946e007e23a469, 0x22a196fabbce31a2, 0x5309ee1bdc1216ba, 0x240fe9953827a324,
     0xf9fcb89b63aeb5c7, 0x603b8149ed16b1b0, 0xb1f1876c02cf61fb, 0x4a5e32af612f948b,
     0xfc491aede69a8813, 0x1ad9379136e53aa5, 0x5da50db1d5e6c123, 0x2f4014f7fe2c12ca]"

definition DST_2 :: "u64 list" where
  "DST_2 = [
     0xe4f6791d7685c3f5, 0x4c218521c3745a9b, 0x0c0521af98555f97, 0x1462a12953cada7b,
     0x0bb2ab63d6452c1b, 0x5783c531ec98bb87, 0x737def53605dbc9c, 0x49f982b930e86719,
     0x75b16790cb5211e3, 0x45ad6574cdbae99e, 0x1062b72dfeec9851, 0x45029a09cc468c88,
     0x532240de77f3a1f2, 0x17bd291eaa9ad0ea, 0xe0a2d7efc2f8a0a0, 0x3a7412052021778e,
     0xb0dfb0976acc90df, 0x7fd603b689a7b1f3, 0x1152579ccb00d6c6, 0x6340743b631849a3,
     0xebaa47290e0cda01, 0x143265a6d53fef0b, 0x45325d6fd981e75a, 0x0e9780cc39586f2a,
     0xa4f68d207a8628dd, 0x50d230b51893e841, 0xf3bd769a4bb504b6, 0x55975c063969292e,
     0x07727ba25fb8756f, 0x07ff86cf8ed731fd, 0xef57fa40cc35a1f0, 0x70753a70874218fc,
     0x615954e2342b973c, 0x5aa9d68f1a59df86, 0x3b8e9e9ff5e44468, 0x2e749114d60a3d23,
     0x14a1b91ec176db4b, 0x55f91a63d69aae6d, 0xf42382327b1b6d27, 0x2acf1f475facaafd,
     0xfd9069b479b58968, 0x3baaf4e5c4a45f77, 0xa2ac9ab98a7aaab6, 0x5466cb5018f50981,
     0x3e6ba27771ba3205, 0x31ea90cdea1bbbe4, 0x0000416b5c557393, 0x464cb0415a510d7d]"

definition DST_3 :: "u64 list" where
  "DST_3 = [
     0xd02087d206ff2bbf, 0x2b9c8ecd7fabe736, 0xb2b56d3842caab0d, 0x046ea0b7767700a7,
     0x113a7a889e317310, 0x5992a354bef7d0ca, 0x3edda94ed50388bd, 0x052661f767839154,
     0x4c28edf6e19e28e0, 0x1d19c2f2d2f644e5, 0x5d732148db35ab3d, 0x680c4714b83580f5,
     0xa374f282bb80ccec, 0x789e609bc77ae11c, 0x10d2577d599b45f2, 0x1c548b5b857721b1,
     0x7baea726b4543fdf, 0x3c1562912d1b4ed2, 0xd6362203b7e82082, 0x1414e523d3c7a900,
     0x7ca349951c1d23a9, 0x4da4265e3ce80fb4, 0x7981ebbcaca9ef36, 0x4ebac9e5b5bf980b,
     0xabd2c1dcf49cb5a4, 0x3f54acfc25c6340f, 0x202eeffabbd11cbd, 0x67216b7cb3695e8c,
     0xff7cbcf9b23fc9f1, 0x2eebebdff7fa7afb, 0x71156befa111f85e, 0x1b8fd98df522902c,
     0x6b28ebad62519791, 0x6cf0ea960e01d8ed, 0xb4617bc2006967d5, 0x323da065cb3df0ad,
     0x31687d0741e24d9c, 0x02db8f2b509a7cc2, 0x9243f85924320527, 0x68c360f01d6e6d2b,
     0x2351c5e877d5306a, 0x6f56ccfc85c5f3a9, 0x1b09652837c4928f, 0x0b3337554c83f971,
     0xe2931be2ccc783ec, 0x46829694ba08c64f, 0x9f35e36358e2c6ac, 0x1474b333b000d170]"

definition DST_4 :: "u64 list" where
  "DST_4 = [
     0x24d792756fc96640, 0x618fda9fef868c5e, 0xb7ff5b125afd9375, 0x778dd97e0440c258,
     0xfbff314886219627, 0x3417e1e1e2a7e811, 0x21e959a88f7b7bdc, 0x3508c2eb8c3c8672,
     0x827ecdde111c430f, 0x21bcb19fb07aa134, 0xe0c1fa50ab2f5746, 0x401e680b4e6658fa,
     0x2cc24bab313693cc, 0x20541c12b964447a, 0x374975b6fb81c3cc, 0x52905efb344e17f7,
     0x79c5c9b56d8b5f9e, 0x3390bf75d2b9a3ec, 0x7ef3807d895bf4e4, 0x2814165a42046b51,
     0x7f8cfd09326fe158, 0x3232fb4f4c9762ec, 0x5678d6dacc194d25, 0x6f7caffb0a7545e8,
     0xbd981637b23e7963, 0x691d7b7cb88a0ef5, 0x10ba319ae2062914, 0x06fb144f8295a85b,
     0x80e620976bf62f8f, 0x2a425971ec73d6b4, 0x800aa9e741d10b1c, 0x230d7d8bd1a0469b,
     0x65aace37428dfe8c, 0x0fcab5297f58b667, 0xcf0e9526943af7b8, 0x7d90915b75d4dae7,
     0x7455a46156259d6b, 0x29bcc06374cce1b5, 0xf2fb0ed3aa87aefd, 0x211a06af0e54dd58,
     0x6c0c95c5723de9bc, 0x6299b6ed25008ca7, 0x7fd63e784d4dfb18, 0x2cc93b4d9bc1db30,
     0xebc7e2d44c5d13ea, 0x3278e18d4d3d11a0, 0x349e3dd25a215f79, 0x7eb2a7150b30416d]"

definition DST_5 :: "u64 list" where
  "DST_5 = [
     0x05f3d7d5f6a094cb, 0x2a3771d48e331405, 0x08ef39e9dc96f009, 0x012248373a364992,
     0xf758f92fc9fd4d33, 0x2339d8c6dfd3ca6c, 0x8b000965962673b4, 0x746ff43eb99d9054,
     0x47ecdc054a422eff, 0x33d8f7c8267b7f0c, 0x22fe00ac921a42ae, 0x31e57f3d31fcd8e6,
     0xbb912315a1c50869, 0x4ac8cdb0fa7ebbaf, 0x0541d74a60973edf, 0x7234900334b2c5d7,
     0xf2e545f730adfa33, 0x224e44e63db5ac96, 0xfcba3d005c6fdeb9, 0x2c93a4e6559936b5,
     0x7727a0d7ad88d758, 0x2e33100216719cdd, 0x7b2ef89aeb2c0254, 0x1f6de5b74758afb4,
     0x6ae89047114fb321, 0x3d605e9a6ec6d80d, 0x18e915c727a874d8, 0x699088b5e9d0912f,
     0xaf9344618e056f10, 0x1b9169df8245e0b3, 0x5eb8c33d70f4c891, 0x1609ddfb222b13c3,
     0x8131c885d1b366ed, 0x7bc3cf9d9cb1a7b0, 0xd297478d2fc93968, 0x13cbb4573a4ea7f5,
     0xdd37b5cc64d5986b, 0x7ed3d1d7d81ab5dc, 0xac53485f23973c9e, 0x0705675d333b91d7,
     0xade5d213c43186c1, 0x6a8bdf57b4bfdf14, 0xa87f88a1de717963, 0x17f29220b519bce2,
     0x7af2d7fb0f95c610, 0x28d1d3923b144a7c, 0x8e73c3d8972813e1, 0x00100b40c62e72c1]"

definition DST_6 :: "u64 list" where
  "DST_6 = [
     0x84de7a81fa1f50da, 0x4fa391d6589d8244, 0xbcc3596f0834b285, 0x4d4acbd60a24e9ce,
     0x97fa98b8c1835a0d, 0x33abcf8e29901d0b, 0x60a73d1975b3d082, 0x60666aa4325b948d,
     0xad54adb769284a39, 0x227a98d113609b28, 0x4a1e1ffcae6a3872, 0x1e4ee44bd67f818c,
     0x5a74c6bb4387d315, 0x019428c0b1b18795, 0x5cc153e270bbb055, 0x2b3cabdf00dc4a61,
     0x834110c026924b57, 0x2d30e985f2d9f217, 0x47116979333389f5, 0x53e3fd6a18202417,
     0xb1393cd79c2e5864, 0x58d92935e4112e82, 0x86989a7ec8305b6d, 0x42a8fe4eee28f37a,
     0x74e212ef01591901, 0x3277917a0397b1b9, 0x7bbcbe6e3d687544, 0x0b8957701d09afb6,
     0x6cfbc8ee74503668, 0x48a9925ada9f8348, 0x57045753ba2d0f4e, 0x7d69ca3866223d66,
     0xc7054ce22917271f, 0x41bce1e1133b51de, 0x3a3ae42df81ec35e, 0x7eaada0f42d47cc3,
     0x13b138f1048a57cc, 0x64f98abd7e915a8f, 0x7af195eb16a0c732, 0x11be81a791d634d2,
     0x97d8df47430f61b8, 0x0767c7b381271004, 0x3e949136fb940aa6, 0x3bdee340cd956dba,
     0xb250ec4ff91d2602, 0x4cde2454d47f59db, 0xaf5e749530d978cb, 0x5a8e2f2119d4d835]"

definition DST_7 :: "u64 list" where
  "DST_7 = [
     0xdf1cb5425a0744df, 0x3d3b08a7bf35d055, 0xc6335e832de4719c, 0x6eb8d97e09154d42,
     0x2f6a3f8de3d20dd9, 0x13f23cfd276233da, 0xb4a6b80dfc0fa41c, 0x58d876403acfd7d7,
     0x2ad422078b8e139b, 0x73dbee2abbaf494d, 0x09a2758891eca3c8, 0x6ef9a9f1178b0938,
     0xfc7e9ecb90c637da, 0x3a04345fc10b1a7c, 0xc024e9cb62f9ff1f, 0x6c4f9c3aa4aa33d8,
     0x049d6995b95ac1f0, 0x2243845195763a1b, 0xa1466a31700ac276, 0x600fb7123a325905,
     0x9d391a64a0d35a24, 0x3b093b550641f108, 0x2275de5bfd2e221f, 0x25f5e7465963db1e,
     0x3e220107f7e7fb84, 0x6f06a23bc1b85a8e, 0xb4198d19f6eb0e48, 0x5dc11761dad45fda,
     0xba303e492ab52a0d, 0x127c69c73da9f528, 0xd3a5b70cf6c790be, 0x0d72b0c50819da5c,
     0x193f90d62ec2cdf7, 0x67f7d0cfc4f46daf, 0x7aec083d52f380ea, 0x7c0a1dda4a28bf4d,
     0x46fd20fe6008cba7, 0x7a588c914115d595, 0x8fb1d3daecf45f78, 0x0851dac094e7b036,
     0xcae0a76e2a32a892, 0x104f861322dddb2f, 0xb79d81e46e1f9006, 0x1e4d28d7a2498912,
     0xaf3175d3974b89bf, 0x613d00f9a69c55c2, 0x23f6883e8e65226f, 0x072f7ed65c6def05]"

definition DST_8 :: "u64 list" where
  "DST_8 = [
     0x6690e643bb38e243, 0x1a81c4a7c9189b15, 0x1056d1669e4749ae, 0x0137f2a7418f190c,
     0xed3192796e699d16, 0x3ed76db45c38a37c, 0x78e86d1475a88243, 0x45985aacc495b16e,
     0x47d5c8208e8f1030, 0x6dbe5f68b4d0e782, 0x08d3d0182cf7f26b, 0x64c375ce172fadbd,
     0xba0f6db3a20c2875, 0x57e1d90a53241250, 0x0315433fddf8e63e, 0x33344750e37dad9b,
     0x62cc0d28ae69b016, 0x435fe80f6100d547, 0x5874aea8669d3df5, 0x3b96913f8264d4a9,
     0x738067d6bb1314b0, 0x48cccf24cc6f4ccf, 0x6f5e2bbd68b777af, 0x34c2c37ba9635d66,
     0xd731534900fdbe5b, 0x4e4f9d97afe11d43, 0x81b41214351b73d7, 0x1d48d100ad11a5ae,
     0x2a4ee76628e2b151, 0x34902e901877efb8, 0xb5a8561a0fd45394, 0x44317af6d5cd5ac0,
     0x354c2469e9068bad, 0x0771fe2761cad022, 0xfda76ee8212d0f2b, 0x76cdeec6d4435495,
     0x55c98575b3e825fd, 0x2983325ed5d73a1b, 0x563c4c4fb3f466e7, 0x731b0fa413338bb0,
     0xdeb519ca57a05240, 0x7a7e909b5c4f7351, 0xefb7c153dd2ab28e, 0x11ca1c865dee30b3,
     0x013ca8348d9d7de1, 0x575e0bdaeee8cf9a, 0x464c98a21083af7f, 0x683ddcd85c212ee3]"

definition DST_9 :: "u64 list" where
  "DST_9 = [
     0x1171f0ab4cd02019, 0x22c7e01c7f4d64c8, 0x972ec0ef3f2e2ed3, 0x623f83c2611a476c,
     0x99b3f16be9aa25a1, 0x2d3ebc5468990e0b, 0x5d5fba8546a4d5f2, 0x4716e6919d2986e3,
     0x3ab2f2bc183f5d6c, 0x5f6257d3910cd4be, 0x341c6f2a78f94f2b, 0x6ee8390b8a5064f5,
     0x9d8640b9b83ca8e7, 0x033c5ad24466be3d, 0x6f6cd68db30dfd59, 0x52aa6b1c0f90f3f6,
     0xfe7bcd4c97403646, 0x11ab3fc960b05fb0, 0x24584b77575896da, 0x427f8deb932da137,
     0x928a28cb505306f0, 0x04ae916fe863820e, 0xaabaa98911b9cd3f, 0x59e588ba994d9145,
     0x9b8f1afabeee9e9f, 0x04ffc7ef3476ff8e, 0xe9cf53ce9937b146, 0x73fe42a801524448,
     0x224bda3cf3bbaaad, 0x5fa85056d59884a4, 0x8e6eead48345726b, 0x09230936d41736d2,
     0xe679eb58d1ad6be7, 0x08bb759b530b1eaf, 0x9688eb527860e24b, 0x13704d2daf9af278,
     0xd9273ac71b906f14, 0x57ee05fbbd40deb5, 0xb7788e19ba9e61eb, 0x7967b6dc1c5d9699,
     0x36e043fc230127c0, 0x2a716598bb2d519c, 0xc017b2840d4d1b07, 0x1d3bfa489f756a3f,
     0x4ad73abf24318d36, 0x1915e6f53e12625d, 0xb219a7c941f89084, 0x2280087a8f4762fc]"

definition DST_10 :: "u64 list" where
  "DST_10 = [
     0x8eb280345fd1b4e7, 0x55b8d4ee5772fd79, 0xc9e63a787e2ce2e1, 0x685741adbda93885,
     0xffb830ab11a3b491, 0x7e891121f9356428, 0xc03aea271a629078, 0x71c45932930a2639,
     0xe7df192a6bf81795, 0x704aee8f183aadf1, 0x06ddb55a8a7a63d7, 0x52556d8763f3033c,
     0xb76b458c6f0c33a7, 0x28666b87c362b95a, 0x365ae575a4c27b9b, 0x36ef35110562adfd,
     0x89955dd8d927f9c7, 0x526e787d6a586c9e, 0x762e0bc4eff988c1, 0x6c9523b4b5ae4946,
     0xe90a909688cfe95f, 0x658a7dc8b3ffada3, 0xbee148ba7a58520f, 0x6819007d8573d1cf,
     0x75d3b5ec141be9c5, 0x4bc236ae634f3c27, 0x1192fa9b8b30e894, 0x4129d43e1d092cbf,
     0xfcac068558bbea45, 0x513e8d87b8116534, 0x5377a179a155ecd4, 0x6c93531e5545572f,
     0x727df81ba09aad91, 0x07527139dbc96250, 0x150320b1d8ba172a, 0x2281e85f60a1809b,
     0x7164b7d524eba6af, 0x50d387163fea4ca8, 0xe90de17d62aebe78, 0x6ab369ba28c0410d,
     0x17d07e315a95d138, 0x58b496352453fefd, 0xb87a04dbbc101b92, 0x40a8f0fb757e9b0e,
     0x2148b48a696e64d1, 0x4e004a3a350c17d7, 0x17927e9f386b563e, 0x29da9cd441e3e3c5]"

definition DST_11 :: "u64 list" where
  "DST_11 = [
     0x883d2dc357417213, 0x2e94653ff7862644, 0x53a37af548453df1, 0x04475db3c300b93b,
     0x2d65fa4d815e7204, 0x231a2db74c2c3ccd, 0x1fd734c0cf4d97cd, 0x32d255c105f6d122,
     0xbb74fd9201eb07b0, 0x12e33f1c81ac6f60, 0xfb9a6439bea97072, 0x52e14b7db9cdcbc1,
     0x637ac1a91ae374cb, 0x1c8622c35adc8224, 0xeb786c50a64b7d33, 0x362823a7232a5893,
     0xf22dafca688d472a, 0x18598f0e0237f7c4, 0x97b8497bfff4bcf1, 0x7abf4cb27a9c5b7f,
     0xea47c44e3b3d95d3, 0x58728fe3e1827a43, 0x7fd3681a6df902c8, 0x6db1dbbdc413de79,
     0xbc4effed1ac3007f, 0x7f31a54744887cab, 0xe6559b4f8bd2519a, 0x18a78ec5b0c241db,
     0xf6e10285b15d2030, 0x5c1323ea219a8ff4, 0x134b6f20dd116b47, 0x5d0abddbc8998733,
     0xa3c993938702e151, 0x0ab6aeb494f6ad5d, 0x8cf3b4beda1815e6, 0x546ce323008c2fdc,
     0xa10eb5a6a78dbe39, 0x26d2e8a8b8457da4, 0x026ccbe31517d806, 0x2a35174b812f562c,
     0x57d70499dd7a374d, 0x3368f951acd3c5e5, 0x490b2515f901062c, 0x316109e7c315c377,
     0x32e20eba569535cf, 0x496a8c39d667d709, 0x5578096dc44d5e0f, 0x608a162ce73903b0]"

definition DST_12 :: "u64 list" where
  "DST_12 = [
     0x6b2e65852cb37cab, 0x75b09a2e6ed609a9, 0x7ac84b3082602455, 0x7690cbb594e84b94,
     0xfc85dad9511973fb, 0x738a74b08c9006d0, 0x83233fc939d5883e, 0x7fbfc08b5db3c9f4,
     0x81a0e493fb5f7749, 0x2c255ef7e69a77c1, 0x234f02e609cc656f, 0x5960cf0b961f3cec,
     0xac72940237b1f17a, 0x434e038a29d446ac, 0xca6a090e00d8b0c6, 0x1f1aad24001e473e,
     0x6d64b6dc133399fe, 0x0899ba41e9dd4607, 0xca590b3f25bbf5df, 0x57217978b0d8ce11,
     0xd6b4cb13da6de9ac, 0x3c88520cf564f75d, 0x649fbd5075a7757f, 0x3f2593b90fe72161,
     0xe1bee53e91dcc9a8, 0x010069dce4c74a92, 0xef83968978aa855c, 0x6cd8848183b53d73,
     0x0b3df59610e403eb, 0x713225d446180a7f, 0xcc23112cc59850e2, 0x105796b670a3730c,
     0xa147f4ec7a2fa4cf, 0x32da1f072d75b253, 0x4e7007455e85f560, 0x76a5376a771fdd60,
     0x47eb4fabdcc699f7, 0x4e45db6334c6ed96, 0x36066f2bab72546f, 0x04f48065593ecdec,
     0x3fec02793fbb5601, 0x122f74626b64a526, 0x21d0f66ff83b4dbd, 0x1370610ede647f1c,
     0x57b82242b88172c9, 0x527dcbadfdc65ade, 0x5e9c9a04385c93f5, 0x64d1cf9e52548a6c]"

definition DST_13 :: "u64 list" where
  "DST_13 = [
     0xba0073337865c994, 0x633ee14e50bcd615, 0xf840228ec4251095, 0x49bb96812a98f08d,
     0x82f57d0422f96678, 0x06d7e43bffe7e0e1, 0x33910cca752ae863, 0x04d46e7c66087e38,
     0xf14935c4167017c3, 0x3f22e2f44d03c9ac, 0xa6196244f2cd6164, 0x15a2b4ce514fa4db,
     0x5191a04c4abbd0c4, 0x0e763360ecc8a19d, 0xfef583c184a673c0, 0x75c2f30a7c7433e7,
     0xe947a55547c7c099, 0x245c7ae44f6e7a83, 0x67a666f9e6bec2d4, 0x5de0b922fa645ac8,
     0xdd9b3e4a5cb72e22, 0x0139c2c857adba8e, 0xa7feb68e863ac231, 0x501381ef88ec2da0,
     0xb2b8c6a470f40b01, 0x051d65bdb8363062, 0x4ce90414a6d65714, 0x1e510b525d19df0c,
     0x569e723f5d374cf6, 0x4bfe02fd38fde1f0, 0xae7459ebc50f9aa2, 0x0f7e2cb170dfde32,
     0x3c3da2326a7407cb, 0x0cfc50a85ffd1842, 0x62ab34c85e85c3c8, 0x22b4d9644bb37333,
     0x57d313b3d87c2d98, 0x4f432c1cba49133f, 0x6163d11fa4befc0c, 0x1ab94e122fddf12e,
     0xfb7c9358aefc85a8, 0x5b20068f81d949b1, 0xcf8ed6ff2145c810, 0x5794afc021932d00,
     0x5c8987ad9b6e35d5, 0x6bb1f4b836fda03e, 0x794f1fed4a3ea1d7, 0x0cf6d128deb0e7bf]"

definition DST_14 :: "u64 list" where
  "DST_14 = [
     0x54ec3e1c65878cf5, 0x002811763ba2200e, 0x382d917051e77b71, 0x49e00cbd013a9e7f,
     0xccf576e9a4cf019c, 0x4b4a66287970333a, 0xf772168915edfc1f, 0x278eb5eca6479685,
     0x8a95c8b9cf41cf06, 0x6e58c9c7826d39db, 0x478e119889f2fe75, 0x73ecd21991bd98d4,
     0x26e751fe9fbb9502, 0x29825b71b0632e95, 0x21668f96ef8bb5c5, 0x2f2a899e53c9a004,
     0x2803292ed4345ce8, 0x72731055c7c65dec, 0x3aaaca9c4b6fe9a5, 0x6228d3ceda8bd671,
     0x773e2c5effc48eaf, 0x017ab19e0fea9ac9, 0x9609e10496c8d766, 0x121e89f9b302c30f,
     0x4e87d00a0be96480, 0x09bd8d170ba9dbab, 0xc6756f947ecd4e52, 0x2c9e40bbbccd0f5b,
     0x42a5b77669fd812e, 0x66aba9583b080d9e, 0xee55df99d16e77c1, 0x4cc00c5c5eff2509,
     0x8c84d5e20ab7c16b, 0x00ae5c96184ffefb, 0xb295e90346dcef54, 0x5d1bda0a39dc3b72,
     0x75f92d72a89b5ef2, 0x259d998c9ff9ac0e, 0x8a1cfb72a6c433c1, 0x23f5b71d49d67604,
     0x478d8f30914f62ef, 0x08fe61135218eca9, 0x4da2ce9bc6488c4a, 0x15f1eafd35283e2e,
     0xc2d2be3ebc42ea0f, 0x2a5216539d6ee902, 0xa1e99052e7bdeeb2, 0x3a8f2631ec78290c]"

definition DST_15 :: "u64 list" where
  "DST_15 = [
     0xb71518a82ebfbfe4, 0x24700671c46ebddc, 0x6ef52d591a221f75, 0x4794614db6a67d92,
     0x761f5c8ee4bab607, 0x31d9dd8f2361b5d5, 0x1a45593be8db3b29, 0x7f06c365eb116260,
     0x9d305a66e52eb65b, 0x5edcfcb5613eac18, 0xef34fd28154adb75, 0x790f805753b9d742,
     0x6ecd5ac255dfb797, 0x0cbe14db5d9a88db, 0xc1c86c5efa815528, 0x2c636133ba59d887,
     0xc75d42c2d9f52297, 0x4bd3540c21e2ebd3, 0x32e7cdf790de6903, 0x1aae3c9837d3e30a,
     0xeed028e49d436f09, 0x779ae12351efed1c, 0x6e0145587d9797a5, 0x25156e4cee9a407b,
     0xac2fd82f2ac57119, 0x7f8c026f1d182ed2, 0xeacc0d8fb3241611, 0x5968db65d2d7545a,
     0x7d525846b1121dbe, 0x57949fd7b80339cf, 0x471fe9bec9b66c01, 0x5c270057f1268efa,
     0xce092463083f656e, 0x16e8241cdc862cf9, 0xb7cb2bbcaa06b312, 0x3c25936bd8863416,
     0x19b8ca966c4a3827, 0x1ae43badfd21e63e, 0x1dfd002b95a6ac6a, 0x4708e27f6d98e997,
     0xb5fd6322dc31ac7d, 0x53baf4d9a16dd550, 0x025aa2ea5463960c, 0x5b5b33c7a3cfa54f,
     0xdba287866ee96b90, 0x4748c1f3f3a6dc4f, 0x2333ec05a80c154b, 0x4a47745d5b99fb96]"

definition DST_16 :: "u64 list" where
  "DST_16 = [
     0x44955b062a6ecded, 0x7791feea9015f170, 0x736bf603d12fc35a, 0x2632adbca5388026,
     0x956e4c48e1697c4f, 0x4ee9adfe8600e32d, 0xa584042a0da56406, 0x34a3d7f4bf457353,
     0x8d4fd4fe00176fab, 0x15321ee855941f4e, 0x670701ef81f340a4, 0x0c7d7c618aed0ba8,
     0x73283131d9bfd9d6, 0x34935a39e31bac65, 0x466cfbbcaae8b991, 0x250dd54e18478ac6,
     0x659e46c51e40de4f, 0x618ea014fec50e04, 0xfe64d883080b877c, 0x572cabbb6688c4f7,
     0xa2c817493a834146, 0x06cd734876378120, 0xe3de0b717336a849, 0x36942f5191db53c4,
     0xa3f9adf66abf4d88, 0x2a9a144b8087fa96, 0xfe49fefcb78a5b4f, 0x1be40a8616928bab,
     0x07a901975521f7aa, 0x1fc66ea683693510, 0x4dbf0084ba42380e, 0x1f374495b918c737,
     0xb8346956a380a00a, 0x1346f4766fcdaa07, 0xb4db5689d46312c1, 0x775e7f3274dc1316,
     0x07898828f32341c0, 0x144390a33b3e86df, 0x70bc604ce1e9c5e4, 0x127652de00220873,
     0x2874bc669df50d45, 0x236f4585150161f4, 0x3bfa4ffd318214e2, 0x7cc92a6165059745,
     0x2fae0e92090ef72a, 0x26676bd59c4fcc3b, 0x220c030974d1d447, 0x66455887e98686e7]"

definition DST_17 :: "u64 list" where
  "DST_17 = [
     0x4164b8e4d8760ddc, 0x5517a86f840feb63, 0xd9b42c6c9371cade, 0x3a7f03ceecc160b9,
     0xdd4086d64cae366c, 0x1b6290c327842533, 0x144efcd2a7a0e82b, 0x16621925ca10d31e,
     0xa9dcd13118e208f1, 0x5a90f97edcb1c54e, 0x80c47331c8749d99, 0x6f061a3569a80b55,
     0x0f6abf619e2a15c5, 0x29106c98122245f4, 0x5860b10985c9b47f, 0x4f379a379e15f410,
     0x2dd6f45df68e1678, 0x2c475167ad9b283c, 0x23b7aa00952a6a3a, 0x5532bc26a40c5365,
     0xa5c0a8be3596ce22, 0x4fa3127a9aefa56f, 0x944e843aa973e67f, 0x3c7727d45ae87854,
     0x48fa2ce675117ea4, 0x7bca8e04ad3bbb9c, 0xd57439e4726f88e5, 0x3337d3a6a03b2286,
     0xb0b6172902005953, 0x514bd76734e6c0a1, 0xf97f8934eed7c6b4, 0x0abe13cee7f1b75e,
     0x6c88107a120e54a7, 0x634f966d7a6e11df, 0x5044c53109b94097, 0x68d49fc65522b73a,
     0x69e295cd8c444666, 0x542c4c5fd999a224, 0x13ff89418b5da76f, 0x7133fa786a87ecb4,
     0x2f180926456402b4, 0x52ddada7931c4dcc, 0x6eaf0d2130c71590, 0x014ec2a2ec231826,
     0xac05b61443b34dd6, 0x157acbfab118b219, 0xe4e2f4b84ad01099, 0x0abf4a4da29a0eb8]"

definition DST_18 :: "u64 list" where
  "DST_18 = [
     0x5f852b85b59eab1f, 0x1bd259c4726869ed, 0xce565d9287790a15, 0x17a48442bcf58a00,
     0x01e519522381363b, 0x2336d07a710da07a, 0xcfebf2fbdc714cb2, 0x2f7a51474c23b8a9,
     0x77db2a07d4e3716c, 0x40e8d8d2d0a09806, 0x644363ce6d401ae4, 0x53f9cae0470172fd,
     0x58d96ecd8ddadc53, 0x15028204f3d6d696, 0x6f40a09214439ce2, 0x738c5371236c3e56,
     0x64f87ee7a28bf9fc, 0x4f1899449a810fee, 0xd0aa95f4bf21e376, 0x6170cc24283856bc,
     0x9dfc4927d764ff75, 0x227ea1563fa2e012, 0xaddd3665622ce087, 0x473d3bea07a5285e,
     0xc0b986ee0d2b0eb2, 0x78e584c740dd18ed, 0xd5adbf30a04fd508, 0x1c6aed5ab59bedbb,
     0x25d05fccbddb5ba1, 0x4a58fb6b3f896319, 0xdb2f6343fd8144fa, 0x46a445de6d5b07e5,
     0xf67a06684fe9e1da, 0x57b2515923b15c9f, 0x50439940820a2a0c, 0x62f4b9b26f04dab5,
     0xe79ea601d01b033d, 0x009bc6176f10fffb, 0x333bff2f907ed39a, 0x253d0a9e626dd400,
     0x7a9bbedcfcbef06a, 0x2d1b6a7a5b39342d, 0xbadfb462a124cc9a, 0x2e8cde9d82c15cb0,
     0x7c3f81bcd6f1b2a1, 0x04cb0b8fa4075294, 0xfa36d3db38cbd304, 0x59fef93442883553]"

definition DST_19 :: "u64 list" where
  "DST_19 = [
     0x91982a741cb9342e, 0x7b9d63ac17b01982, 0x530b4ec25a293ece, 0x611069ad9fa0f0a4,
     0x7a262a59b656a79d, 0x6fe6f8f4d6d015b0, 0x2c2fd7641a5d4e50, 0x24b0c507058c911c,
     0x834882e492fe45ae, 0x68d0b01b13432761, 0x0eacaaaf94178b8c, 0x123e3a93006d7d01,
     0xecf2fe69377ff33c, 0x4fc960ab4408584b, 0x2adc445b1ee45654, 0x4989681cd1d09a93,
     0x79509599afe9e3b6, 0x7f6ffbbeee861c15, 0x2ed2859fd6391b25, 0x5e8bd52289b6ad27,
     0xc949280adbce7c79, 0x510999e865f0cd54, 0x7f957314ce7d373b, 0x4b2c0ea4bab08ef2,
     0x2d7cc08b5c05a8db, 0x4609a0ea23507697, 0xe204ba35182c55b8, 0x5e4d5903fdef61e6,
     0xfe63842f2826598b, 0x782a3fd3ab62a179, 0xd2f01a1979e5a0f3, 0x0fb4c6bdd637fba2,
     0xfbff4c192020c350, 0x14859008c3d223c0, 0x65ed7a889c1a2e55, 0x1d78daf483fa12cb,
     0x5b54d11b01bc09ca, 0x54fde75737306515, 0x89725231105b63a7, 0x712d1f394adcda99,
     0xb554006ee9abefab, 0x04dd8f7bbd4c5381, 0x98d22b3a31995549, 0x637a53de6b57122f,
     0x8367d69b4c92da63, 0x236f2a9514250df6, 0xb265509af63d7b7c, 0x08522e36bc4b65f8]"

definition DST_20 :: "u64 list" where
  "DST_20 = [
     0xabae725012ce8301, 0x493b257197a98ce9, 0x33185838570e5f0a, 0x65f5477ac414eb6c,
     0xd002a36854699753, 0x2be693b4d96efdb3, 0x3b32484119bdc53d, 0x55691ac09a8fae1e,
     0x0249e394514c047f, 0x765674c90b78171f, 0x1166f64638d6ab37, 0x746adba4cb52d18f,
     0x93e293653dda6cda, 0x5d004ed52ebf0b68, 0x65c7c42d0ad96cc2, 0x3350dbe11cafca74,
     0xc638cfa8942fef67, 0x0ff2dfffc5ac1164, 0x9e1b625e649aa471, 0x13a219d03d2eb86d,
     0xdb92859ebaf9f7f9, 0x645c50918f7d5abc, 0x25c10cfe99f7e5c6, 0x13d858b53f90170d,
     0xddb258b13ab1e7a6, 0x4849ff49f4e13fc4, 0x9ef87fa85511cda8, 0x48c50d4d3b4d2f7a,
     0x6c98422c8007c9ac, 0x3fdd72e65a3d3491, 0x56b18cb165b4ec3b, 0x6e2c6df9e3fc3daa,
     0xf6db5aa98ddc97a4, 0x423fd4082f3fb795, 0x42f8f5edf424d0a0, 0x1a091c2696139936,
     0x3161c2bbb3b2d58a, 0x2e8d339eb0fb9099, 0x45ef7d11f6fab685, 0x7f222a068db3da4b,
     0x9af96f9742549a7c, 0x55370df31dcec81c, 0xde98e81b131af02e, 0x58bd0622a474acee,
     0x8ab40fa7ca882e0d, 0x5b4db195655f2410, 0x4754eb479ada77fd, 0x67a8a437d6fc8a7d]"

definition DST_21 :: "u64 list" where
  "DST_21 = [
     0x9888254a4f0c9d58, 0x3232ba83bed0c618, 0x587b0de0207b57d9, 0x020df6becb096aa7,
     0xef9e41052a29a8ab, 0x4ae671ee70a15a69, 0x167ce954923ee086, 0x6878c3996c1de887,
     0xb29c711490ac097e, 0x1cf41a9c2577d144, 0x0590796ba46d8d29, 0x1c2e6dc8d4aebb65,
     0xbfb904f8ac9b4cb9, 0x4ea1742c786469e7, 0x5a422f48401be57d, 0x0be0afdc77d6d32f,
     0x5e8765cba2c738d3, 0x7dad0475059a089d, 0x9288ae0c40df7df6, 0x51c65f97715a16d5,
     0xa9615d4c786ff9d4, 0x507ffe03ec0189ef, 0x1c1f46684604e41f, 0x282fe9d567db0efc,
     0xebee7f8381fb8178, 0x5bd4b6045c208d57, 0xf35694743439ed71, 0x7cddd5a373ebc5ec,
     0xa58df33cc68e3b5f, 0x40e6714f5c5c8df3, 0xea881d4bfd489131, 0x6b36400b491c28c1,
     0xd4475cf594b6303b, 0x5b630cddc72e654a, 0xa0b587ad34394ce3, 0x3ea3ba6014f86275,
     0xc3deac125d20eeee, 0x2ef3568410a2b3bb, 0xee6ba3fac5d7ec00, 0x5fabcb3337aaa23c,
     0x6b1212e7b817889a, 0x0b37d285a9be51d1, 0x617ca543d762bf51, 0x0896b4ca694b01d0,
     0xe3add9718277a1fb, 0x553dee7dd4784865, 0x904b8f7e936cf430, 0x5b6a78f20b244b90]"

definition DST_22 :: "u64 list" where
  "DST_22 = [
     0xa2b876c2914b9bfa, 0x704de952e9d969f4, 0xb04ea1b54b7e7654, 0x5d307bb3949cf660,
     0xcee4c23ebd049d17, 0x7a88293bb1031063, 0x00b8432b8286f656, 0x260a9c86a16216e5,
     0xd140e6e6629d8686, 0x296011ff5601a000, 0x536f0f76cd9b2928, 0x267409c23a823dd4,
     0x0f041043797f8423, 0x3da6102605962ca9, 0x2e69dfeea02098ea, 0x427e7eeeecd3a0c5,
     0x75efa5e8a590793d, 0x1f5841df6dfdfc91, 0x1aa1e1b8b9f3c326, 0x07bd5b0983fcee91,
     0xd169420be9c48939, 0x7940334f0bb9023d, 0x9bb330fff113764f, 0x674ff1b0cfe246c7,
     0xe2083f8d7129cbab, 0x7e6223e3d9c04904, 0x9be411a7d5e883a3, 0x72642664e7c25590,
     0xbb1f783b5c412322, 0x46716e8fd737280b, 0xfa363eeaeffde271, 0x6c256c131fc2c3b9,
     0x13259abfcb2ce1d8, 0x53b96556e96aa708, 0xfaa7c8d25119da19, 0x05019f438e9f8995,
     0x05e1d55a9424f1ee, 0x63e8e14e6c2f3f09, 0xe9d844e997a10158, 0x51904ed1e94a0ca5,
     0xb09462d4df6bc6cc, 0x2ee5308e62172691, 0x3f8438484547187a, 0x62b92b8d9739ddd4,
     0x3ca54ab5d39f083c, 0x25b3336048a288d4, 0x7cab0fd67e296979, 0x58ba2e783962cbb7]"

definition DST_23 :: "u64 list" where
  "DST_23 = [
     0x77808f1a1b8f3515, 0x290c219ee7153bdd, 0x7584441f79128f01, 0x0442db406f5135e3,
     0xe741de52ec030a9d, 0x37469756586776b2, 0xbd64c2a7173adde0, 0x2280b66d20888d0c,
     0xdd1b53cb4adb0fb2, 0x3974964394c445be, 0x53b6a95e7c7fdd97, 0x6eacdc6f50496d95,
     0x178d04c0578a5bb3, 0x0d171a5f5215c9c8, 0xfe0d0171c504962e, 0x04eece54b220495e,
     0xac4d145001db67aa, 0x6577c466962160af, 0xcddae62d99686ad7, 0x7a053a048d230d89,
     0x1ff09aa0e605a880, 0x5d260426f355232f, 0xfbdaf7b0b53aab89, 0x5eef31b9eb0df78c,
     0xfb787e56b7276288, 0x4dcccba87d630d06, 0x415e4a4bc0a44b01, 0x0f0a981f71d8ae33,
     0xe0ebb786f98a1502, 0x0ea4aa3ce70dc628, 0x8d36240617ebe037, 0x2d20c0e1d2002b5b,
     0x336f8aa411a30282, 0x1d87c67d8178ec4c, 0xe468dff8ac26b63b, 0x266086bd7f11c9bc,
     0x05cfeedc80d829f8, 0x146902a029dd3355, 0x413db9327c068394, 0x55fa413791f64c38,
     0xe06395c10021bf9d, 0x18d66268cf79ce45, 0x9e7ae6858dcc21bf, 0x3ad51dbe97b558f7,
     0x06792c747aeef43c, 0x27ec9b782170abb7, 0x6aafca394a23e935, 0x18f7cbd98db64112]"

definition DST_24 :: "u64 list" where
  "DST_24 = [
     0x34146ce6b36edbfa, 0x1dcfb4eab7ccea23, 0x68498e1f45b35467, 0x1b20d71a3b71d412,
     0x7a875fc94e602e3e, 0x78c15fa449576c2b, 0xb52326d01ccafe8a, 0x3f53f57324d70666,
     0x3830836e39bcebaa, 0x27a30c73dd02c884, 0x5dfed73dedf2306f, 0x75ee4a8b6cf54f74,
     0x97ecc9c5851a8e3e, 0x496b581690c3df2d, 0xf7bba1fe2d169e7d, 0x4b06184810a77bd3,
     0x40e6d643b903c7bd, 0x3c90f63b5176906d, 0x92f47e1ac51f1ec6, 0x70c2454c53cc0dcf,
     0xb5a75d246c653b4e, 0x7e5173a420a8b0df, 0xcafb44c471d0f4a3, 0x69a3a4e92bbe5977,
     0x26e93183cdfeb424, 0x1e0489b56fa7e130, 0x669befa672fe9979, 0x0f8aea6a7ef65bf9,
     0xff0b883ea96b51ff, 0x31a668763c3c8867, 0x6887a0029701c9be, 0x545644cd70c87d63,
     0x537b6fb7db9410e0, 0x6ca227f10229b3b9, 0xc7d1b4d71ff22468, 0x522058d3b20569f9,
     0x5f4bfd813a51fb62, 0x105b94a3a42424a1, 0x96dfdb685825857b, 0x14d98588154500bf,
     0xb4db83514c7a9404, 0x67aaf998856faf37, 0x1229d7e95dbc821c, 0x7e617a17a2f72bd3,
     0xe964cdba7222695a, 0x677619cc40a07eaf, 0x7f82c099a8df7538, 0x2a219175ec95a1ad]"

definition DST_25 :: "u64 list" where
  "DST_25 = [
     0x755ac147b51ff3dc, 0x4a87f652f86823ec, 0x6d8d4a923f50278d, 0x4bb952ac98c0120a,
     0x968c57a6a31e482c, 0x0855a11481fd5653, 0x3f05db6ac608d16d, 0x33f9e5746e1079c6,
     0x1f3458e3ec51f53a, 0x4ae3fc836ceccf81, 0x3c0b2e2db5875ddf, 0x42336a1262cbb5e0,
     0xe3651453cadc3868, 0x25081cfd6e80a2de, 0xd4cb31092872e53a, 0x16ca9349a11a9c37,
     0xb1d3ae440d1cb675, 0x41b2d6ecbccbd6a4, 0x475e6a844c3d0ca1, 0x2cd0e0dedbf07023,
     0x85ad446ddb002a6e, 0x72a06e5419a64609, 0x9e779387e9a3276c, 0x414a8163a9408b10,
     0x25c7b53c1791333e, 0x3ea57190b42cd838, 0xbf20b346b094f121, 0x47570cba99b06c9d,
     0xe6bd01c8746cb5f2, 0x3c0b0b8c4c0968ef, 0xb22009690e243975, 0x251737e4a5643da2,
     0x3cdd49123ab89dea, 0x68748cd1e3cc45a6, 0x563746685effea7b, 0x4e4c5b1c86eb3a29,
     0xe1ba017516d32070, 0x5cdd35a0c4ba93a3, 0xdbc66a0c7de30288, 0x22107156a0f700f1,
     0x0fb69045aac0f647, 0x111dcb9763d08bc0, 0x266db39f6d78cced, 0x02a32587c7033892,
     0x76fc94ce6a2a4b19, 0x474db0f12fcfa96f, 0x0c44584c08377ac7, 0x5f435bf43140f4c0]"

definition DST_26 :: "u64 list" where
  "DST_26 = [
     0xb9741c3014eef7a3, 0x54596c23b536ff04, 0xeadf56bb6ea39450, 0x32f24f6e1a656b10,
     0x21422e4dd5f54e3f, 0x0d6ad57853660607, 0xf6f62ffdd0bf9928, 0x72569c930015caa7,
     0xf4293579931b9216, 0x049d6a4057e6827e, 0x6223e20060be0e05, 0x20d91ae969dfa9a4,
     0x02611b345456d47a, 0x601dd413d1bdea0f, 0xe6b017b26bbc9bf8, 0x63399ff3d6542359,
     0xdbdfe225045a9764, 0x10acd93346649beb, 0xc652d5a50e0535ce, 0x49efbd5639c4caf1,
     0x65a5dbd8a304de65, 0x08ddebed0e865be8, 0x5db8337d5e715261, 0x34cf4c75496807e2,
     0xd840c7416e44b56a, 0x10fd30d282d8b151, 0x36ffe6df2c1c9568, 0x66d8a38b6d31a2b1,
     0x01fad3aa61984774, 0x412a9fd87b303d90, 0x2720945ee0f0ec9e, 0x0c91b4c7ea84cf37,
     0x98462f25fd5832f0, 0x6f4cd578c490d842, 0xecc7d24c31ed3342, 0x580ab96994515fd8,
     0x6d8a97ed98465b3e, 0x16995dc010908ae3, 0x50626a4e555b774a, 0x082636e5a8a9b568,
     0xa99435cc4823b413, 0x41fc423d10eff4e7, 0x114236dce6f9f9dd, 0x6c3995c4bbe0aadc,
     0xf3f22c975935753d, 0x6b1b3f27edec2a78, 0xdbadaac32ccc292e, 0x3856036f8a3795aa]"

definition DST_27 :: "u64 list" where
  "DST_27 = [
     0x947154caaec01d73, 0x0a22e573e3f0f49b, 0xc50c949f39c184a3, 0x2aadd0868535d0c8,
     0x22bc5bbe5f992446, 0x15d36adfca3ace90, 0x038010e37a6308f9, 0x161b06d8d7180307,
     0xcfbf4e3abef8d056, 0x2a1765fe9c7696ba, 0x6a15d44ce18ef392, 0x5405239c0369de64,
     0x5fabda1210f58e29, 0x40cbb03974b37035, 0xa29fdf2875322520, 0x3b32ace85edac547,
     0x0f0c92b41d679df8, 0x7f07ecd47a7d2f0c, 0xb5fc65c05accc95a, 0x0e8b1da70636f221,
     0xb2ebd131f4e8a846, 0x7df51e4aba57f391, 0xaa2f3d40fef689ed, 0x0ee1e115fde5d582,
     0xf7d025b42e240ae6, 0x29fc1befeb526af2, 0x7c5ffcaff205e565, 0x4cf4d0d8840e2e1e,
     0xb8b00d1810ad0ff6, 0x44d3af686ba915ff, 0x86a8fd1eeea8d08c, 0x3eb300adcf6edc4f,
     0x8db03c266b588186, 0x289d0fd301e96881, 0xba83ba260cccc170, 0x26ee69546ceb0c77,
     0x1109d8bf92c4ea05, 0x033aa036671937d1, 0x4bd9902e5a664a0b, 0x42bd48ed44fdbb71,
     0x7359e19357a9622d, 0x0d6ee92855dae22f, 0xc24debb323643859, 0x4c60fee1e191766e,
     0x3beaec0e99faa328, 0x056c2ae1709c5b0a, 0x7fe89e0c62710909, 0x7e3b5cd3ac4e6ce1]"

definition DST_28 :: "u64 list" where
  "DST_28 = [
     0xe9d06486ac7370a4, 0x4b1a8c62e99f9429, 0xb11a50e20bc3197f, 0x75ec513c25dac300,
     0xfb9fd064b1466dca, 0x290379cfce59308c, 0xca3ee3fb7db99943, 0x2af7a3e930faea44,
     0x0d294e6d1505e35b, 0x7d534585181e001f, 0x90285700831d4cfe, 0x419f25105d06c90e,
     0x5f71e79f5f828172, 0x02921e2a43326798, 0xa0981553e84d4a6a, 0x220c82041938573d,
     0xfd2b5b78ef20c927, 0x3c99a2dc611caddb, 0xfb1247fd99ed2828, 0x4b3a3739f724890c,
     0x7775ea2d7d2d1017, 0x3ab07cb5ba8ac987, 0x82e5123a20a6b5c3, 0x44965098aa82161f,
     0x20948c77e9ac4c0c, 0x521e934ab214157d, 0xc8f4f4052dffedab, 0x1da963c2ef46f27f,
     0x3be7631e212fa2e0, 0x0d188e88d1a4184e, 0xb4483ed385de4bae, 0x4ffadfde83d2b0d9,
     0xacebd9a51a938608, 0x40968c0c9302b0e8, 0x85704404d06f3a5d, 0x3e9f477a61a26d37,
     0x1da1efc7cbd18d12, 0x4fb87a47b9f2cb04, 0x7556a45e8b5c8caf, 0x7f6991b7723b35cc,
     0x3fa10a169532635f, 0x15e61b1cd72bd52f, 0xe6b45dc3b4667c21, 0x45cf3bd4bbf39baf,
     0x7343b0636a9d63f9, 0x457551c49ac49567, 0x331e611a3fcec018, 0x7d19e2584756b92d]"

definition DST_29 :: "u64 list" where
  "DST_29 = [
     0x78951df174059655, 0x0573cd896a793337, 0xb3e37121fd458870, 0x3cc032b1a1bebc3c,
     0x2571dd06d24d5a41, 0x017382ec4aa29ffa, 0x6cda850c15a224ed, 0x6af59bee2d7586d4,
     0x287d3c4027f80ee9, 0x6aa570b9e51d4f25, 0xf29f327c5e0490d5, 0x00fb62f93f43edfb,
     0x7b06e602dc313277, 0x5d8dc98e723b039e, 0x5bb61813041a589a, 0x2a4c9f13eef7f1ec,
     0x9439edcb4bbaba6f, 0x027f4d494e7784ad, 0x087ae2a2fd6bbc8d, 0x230f37ba41aec2ff,
     0x63876e43daaac09c, 0x28abd7ae6e17dbe3, 0xd354d50cf000982a, 0x1dd774a1273aea75,
     0x243658930d4b0902, 0x0df50723a2da63d7, 0x22bc07b9ac9628c5, 0x134123d68aa939cc,
     0x4e84ee2cf0d450e2, 0x53a8c6dbd4aa9ed1, 0xd06e741c45610565, 0x608da7f96f2f7e19,
     0x59b7fc9fe6a0243c, 0x0da36bb46fd1eb3d, 0x09a11de836914182, 0x3becc1cc0b96f1e4,
     0x820b8a4cad71c17f, 0x2a425dd0204a843c, 0xf6f7fdaae1523c28, 0x5fb74c0c961e6fb1,
     0x0c76e0f72b7845a2, 0x273db117946ce778, 0x7a22d35cdea5934f, 0x73aeeb1b24265d5d,
     0x938a618552e4392d, 0x6050215beb6c1923, 0xf32f6ab781efbf2f, 0x2e4ece5c476e1354]"

definition DST_30 :: "u64 list" where
  "DST_30 = [
     0xf2a4a59613812356, 0x555185da018933fd, 0x2fffbf95863bce54, 0x72644f9c3181e7a6,
     0x98c6b1d509e3d624, 0x5bddd5730939d7d0, 0xdd197613d550fbad, 0x7671fafa1facb923,
     0x13dbb61148c5b802, 0x616bc5c73ccdc3bd, 0x0b175b4c46fd8871, 0x498a1eeb000ab870,
     0xa49f1ca2d7802521, 0x6906346cce00be5a, 0xf1bc33c727dd52b0, 0x5d005ff3122fd749,
     0x51318ad5d7c622e7, 0x50f93d6d15e46e82, 0x88dfa2123ffff3b9, 0x3848e6fce3cac6e5,
     0x6cefc31a33ea4f5e, 0x0cc5e7dc4e5e144f, 0xee2009402e59a7e2, 0x257679fdb86f4712,
     0x4cf68953d8b17e83, 0x710f970c16ce2070, 0x4000b8e9e51e6aad, 0x5af48dacd01f24f6,
     0x209679d5d3fcc916, 0x0a3538dd7cbe8232, 0x2d6d7aba44d990d2, 0x46c718f2d4b2c1a6,
     0x9953d799a378233c, 0x4f4e80f4a682e7a0, 0x9912f04acbb77eee, 0x317432079a195b2d,
     0xaccccda6a1c11e3b, 0x3fd895817d0f3be2, 0x016db17673f750ea, 0x635fc619a24009b6,
     0xb8447ab3370da1e7, 0x6c893aa19abf4221, 0x5f35ac703d8508d0, 0x13533d324d4adcb5,
     0x84610370dece8512, 0x2223f126f9a70f4b, 0x18f00d60f3bf6a04, 0x174bd78b20ef8543]"

definition DST_31 :: "u64 list" where
  "DST_31 = [
     0xeb179bc6a1698189, 0x732bf44a62015302, 0x98352342bc0e4bc6, 0x053f6640c1549e85,
     0x65eee8b0397c7ce8, 0x790451f39f2fa27b, 0x36ffa0cb286cdb97, 0x46d07cec4c967bf2,
     0x7c849ace30868412, 0x6dee239d339ef499, 0x8ab78548f273e57f, 0x01c5bebd8b7f5ef0,
     0xe440e5f042eae93b, 0x65583f57fe057db6, 0xe6d5d26c24a565c9, 0x6b3b87a0a6ad702f,
     0xd3f5d533117b8e64, 0x4addb9d0da92df89, 0xf1bd51990e0f9bfa, 0x30c624ec1dbcd0a4,
     0xafaf2f00da7023a0, 0x3086e132b54574e4, 0x93bdbd4bfd3dd8c7, 0x690976ee132c892e,
     0x86fc11c79524d198, 0x0f6b95662e02c734, 0x5b78bb385564f568, 0x55c9b3f55d7cd16b,
     0xdf1316434ad1c07f, 0x093d67d3fdf312de, 0xa1fd2257ea57b3d6, 0x4b5b18abe4b54439,
     0x66c28f5b59d796b2, 0x7baffe6e642fdea4, 0xb9d3753265e68ae4, 0x40903bd6dfb02d6f,
     0x357958d4d72d6bc8, 0x179330dea4659dd3, 0x5a9ca85bc8721aef, 0x0209f09e03c9b225,
     0xc0bf2e9738933495, 0x5e0dde4d715e50c5, 0x2743c96b66a6b951, 0x6af96188a0d6d358,
     0xb2f3c72820f2a709, 0x5e9b8fd43327d9a0, 0xf0b13f5324012177, 0x7abdeaf4f741bace]"

definition DST_32 :: "u64 list" where
  "DST_32 = [
     0x6f006249351471f7, 0x3204eb91cfe9ed6c, 0xe09af1c83c13afa2, 0x6d70ed88d5de535b,
     0x2078873d1a2faa1f, 0x5c73bedb8d96f3da, 0x41bbb407a3a1ce1d, 0x7a40ec2fb54eea85,
     0xd6d569cb9dd722e3, 0x10acf67805927b6a, 0x27c61d818cc0ea05, 0x57b175c9f59904e2,
     0x4f7b40bc92b5a60d, 0x51431f647b46b89a, 0xcd84dd55cc2a720e, 0x6b36059700809a1c,
     0x78e3e5dd060e9a0f, 0x630c0c1a146c77d4, 0xc9925b0dea8fee2b, 0x4728f0604b16a06d,
     0xb4601050635b2318, 0x2484f7281864709b, 0xbe2ed2a2523211db, 0x6425d4ff23dd3a5b,
     0xf0868c09017aef5e, 0x2733d1e1adc6d5ee, 0xa631db49f17f87e9, 0x36d753ced54d5727,
     0x451d17fb6c4af537, 0x1dcc4d611dd55b04, 0x0bb8de0c8d3e549b, 0x2fb2ca1271592c3d,
     0xd877914ffbc31ced, 0x190809a196504d10, 0x44bdd65a970277e3, 0x13195c678b4b01fa,
     0xe69a41a54f84d41f, 0x61c7c870565e4508, 0xeca2d2fc6f0e1c9b, 0x7f065480e257152a,
     0xfaaa9f7c3a8873b0, 0x43fcdb8db58a324a, 0x969a79026e9da7a2, 0x4eab135af328b9d9,
     0xb38aaafe87f85f7c, 0x69eba4fe1a6b6f32, 0x5607f6c6b4d27cbc, 0x273072bea774f9e7]"

definition DST_33 :: "u64 list" where
  "DST_33 = [
     0x3c1149e3c8d51db0, 0x161f8cd433c28bfa, 0x765a61f218fe70da, 0x442b5d405f2036bb,
     0x96f790271c564cc1, 0x3d5dbb33505cc956, 0x621a38b446af395c, 0x2da978b45bb70ce6,
     0x755aca711da49388, 0x46f2e33e55e86df8, 0xfc5b454d5cb7be24, 0x67df47d68d8f6d12,
     0x7a1e224893898aad, 0x0400219c89c2d13e, 0x6c969e4d63d460d9, 0x4df64d5df8b60ad2,
     0x1feed05a45ff89ed, 0x290c4b59e684b4ef, 0x97ffbc3df096adb6, 0x4ac6037e76561c96,
     0x1bc40299115e51b1, 0x7169e0a1d96aa1be, 0x43f55f8b6bac596c, 0x1cc6a0603081a178,
     0x8e1d2db69bc925d0, 0x6ffb86eed51d2931, 0x3ad1eb242e0af1b5, 0x338198152fcd6d7c,
     0xc1f381496df13943, 0x05d9242fe1c60b02, 0x39617510de7eec81, 0x24d8ba5ac76b12b8,
     0x280eb2db9e548483, 0x6c51317b3a8a93f0, 0xb2a9f90939bd1235, 0x2da9de86c39f9aa6,
     0x7f54917103127b97, 0x7be2be5ad3276169, 0xc969d703d31e9da7, 0x0500df3bbb1f8a4e,
     0xea05c77685795917, 0x049575a992d09345, 0xd567f8de2daabe35, 0x383fad35a8e035cb,
     0xb9353eb2bbd43d56, 0x52b3953221860c5a, 0xf9e4bcd46dbec03e, 0x4b0db0b4a7b3279c]"

definition DST_34 :: "u64 list" where
  "DST_34 = [
     0x8cc5f6b6e1ff80c0, 0x1bd2ce464b552215, 0xd008eb25b39c4236, 0x3b4ce5bb2f42a9fc,
     0xe1f249681d153d9d, 0x3e022cb14bc4c5b9, 0x8a11d021c8ed5a53, 0x560d3fb258bec495,
     0xf4405852705a6012, 0x5c8bccd2b1b3efd3, 0xd93c0f63ba7ce0c3, 0x337798cb3e93dbba,
     0x7a9f68cf800c8e88, 0x579afe689f3ebcce, 0x7dd41d6cdfbdb4a9, 0x3802410c4e1b274e,
     0x64241d770cf0db02, 0x2f7c8133c74bde23, 0xf3c3fd835ed1952e, 0x741b1d88a3cee37b,
     0x74e1ae644683c68f, 0x0c80dd9e0f7a91e1, 0x3984d741f3e47c24, 0x4b3eb97b6a39d252,
     0x32e9b9410da9a195, 0x11d09fdc04ec3b41, 0xf92fd5e53cddea30, 0x296e095589e0ce05,
     0x4e3200c3a283b696, 0x7e33fbba44ecb32c, 0xed3c039790ad0033, 0x5c8ebb260b5ec084,
     0xa667455bb79d2e9d, 0x12fbec9d4f5bb155, 0x3aa5f6bb4d0d8d49, 0x0ca652ed7065d80b,
     0xb7938753d51c6f83, 0x41644ac1a602f9f2, 0x84223d4d63c38f7d, 0x71057b4b8b931282,
     0xd39fa015165f47b5, 0x7536c8a19c33c201, 0xbe713ca4166c2dad, 0x456c98c2b4198511,
     0x4793f25e1cb44658, 0x1d002f1cfe1a1ba7, 0x9f9ed6e1e1a27957, 0x095dece028426bdb]"

definition DST_35 :: "u64 list" where
  "DST_35 = [
     0xe57d3412fc1001d6, 0x481c63a0d9b25e99, 0xc756b6ba0dc02aa5, 0x24af047d79ed4683,
     0xe37ac10133b68275, 0x418b45e570802012, 0x87578def0c3900ce, 0x7c5661923b8c9740,
     0x5f4ab0a6fdda7366, 0x0ac6100825e4eb3c, 0x308528e42c9e4d32, 0x436e5979933ddde8,
     0x0cd6ebe123352222, 0x63d1768a46f33dc7, 0x96cc55dff38c9273, 0x474438da7140411d,
     0xa184b89b81cf6402, 0x6bf820a3aa675050, 0x3bd4720417391f0e, 0x3f2b8f859a8e0cba,
     0xed952561b125da29, 0x07eb1ac74165097d, 0xc3f70d0c7db0a9fd, 0x5ab896a489294a6c,
     0xd4b608975c20018d, 0x6243b039f25d0456, 0xf766e98fc24c7464, 0x20035c09d2291e42,
     0xcc0e5b5eeb462524, 0x24bcba5505f90657, 0x43a98d98e4fa9bf6, 0x3b621ec4188264d4,
     0x633472fe235c812c, 0x31a20844a3316d23, 0x47b80db7d7f5d0bd, 0x22d482f5663780f9,
     0x4df227dc52142020, 0x25076d0624bf137e, 0xcb4a6ee30a657645, 0x0ce469dbb5ada433,
     0xfdb06251f65b9c5b, 0x44f82274a8e8f538, 0x98fa4c81cdec4b97, 0x0ccd61d1abb61d0d,
     0xb9dc371344c5ab54, 0x35dcd9ccf8e5f919, 0x67fc81f369ba5722, 0x121b5aa1af6024da]"

definition DST_36 :: "u64 list" where
  "DST_36 = [
     0xe0b1b16b0fb1f1fa, 0x4dc688d6d3b1805b, 0x05c187cf10e40104, 0x71af39c743daacd9,
     0xe691e97f82acf4b3, 0x0c46305b9243bf5b, 0xb063af137fde616b, 0x4e26e72a1de067f6,
     0x61fe66d01a221004, 0x172fe9240cea50b1, 0x4ff50d37b2effefc, 0x06be02ab0b89aa5d,
     0xdd4aab96717af213, 0x32322555b58a7ffc, 0x7812aa965889326d, 0x1bd608f60d6457a4,
     0x2c7b6b44e999e141, 0x113a86a87856a8a8, 0xd95469fc33814855, 0x4a18dc36f6bfd586,
     0x0706b60bdb854fd3, 0x4dc356685650fa90, 0x24ef7cfce41f8dcc, 0x19049c3e632deae8,
     0x5c9a4e28b7138a89, 0x0f0b7dbc1e5087e2, 0xebf49cdc66a362d2, 0x19e4b815e6576c85,
     0x1896051ee3b6063d, 0x09ecc741852a68e4, 0x4009034def986795, 0x36b440ff39b4b5e8,
     0x9bc2647ee28af1cb, 0x62613c9dd152b3a8, 0xc2018ae5dfae5f2d, 0x29ce5ef30009c855,
     0x0b653558b21d2b1c, 0x45e2c505d1f74936, 0x48304373240553d3, 0x0528569885a82310,
     0xa90d402e33924181, 0x5e610edc23cb9555, 0x28890ae7e007d28a, 0x7e5132b6b1ebae37,
     0x0d5252eb7c94cb1b, 0x308ddaea1fdbb672, 0x99fac0b431730534, 0x77d54ed63b9325b9]"

definition DST_37 :: "u64 list" where
  "DST_37 = [
     0x4d647bcb76c6ec3f, 0x0e968b22ec2cad86, 0x4b22b5ec30b08a35, 0x3b31df3b52326b5c,
     0xbe84f638dac3105d, 0x7db085f133ecbed3, 0x7a8b694596f2cf2a, 0x67b2e6c15d16e0aa,
     0x4808b20bf173011d, 0x25d5fbbfbe66f864, 0xf67f3f3cd9743987, 0x654250e89617ddf3,
     0xf5a1a7e0ba0a88c0, 0x3616c781799ab50a, 0x2669c27a2d256902, 0x3a8ec380e12fd7dd,
     0xa25361f44a418e30, 0x2942f3001d233645, 0x60f1d3b7535a4133, 0x14deaaa12e5c7bdf,
     0x0089fbece10c8d6f, 0x4bf7c313757c803d, 0x65aa30bfbb70567d, 0x4fed47af409a3fb3,
     0x07557dd875d3daf5, 0x36c49c2380e3c9bb, 0xa21f643d329ae02f, 0x6cf6f7474338bcb0,
     0xb5df78136a0f3012, 0x031fb2df2e00e9d4, 0x4d86fccbe75e79cd, 0x23f890e082d03b7d,
     0x5716a1ffb50a8262, 0x0199b50aa6cf3302, 0x6a1be351f86090d5, 0x36095efc13349364,
     0xffe752be8ce46920, 0x65047a340b652f65, 0x320ee55fd03156a6, 0x5af6aa45278409f6,
     0xa6caf283b1cf3850, 0x4e3a988f61072f96, 0x750f67926b18f680, 0x09fc3f2927d21a4a,
     0x914893c2f2ce1169, 0x4d15b367121b3e75, 0x6cb12559723774f2, 0x3ee5b8c2a70e054a]"

definition DST_38 :: "u64 list" where
  "DST_38 = [
     0x7dd9b3518d84d2d7, 0x147d5a5a53f57a58, 0xe1bd0904ad842a05, 0x3a0f3b029c9a5845,
     0x7153c03261410074, 0x4e203d6737058c17, 0xebecf5cb79f28af9, 0x574b889870c279f4,
     0x326317b005f444a4, 0x7480da44b34f4b1e, 0x7c5f21cdc46275b2, 0x210494b9ee24e4e0,
     0x3cbf6ca1f4aa4ead, 0x6bf3872ccbfed940, 0x19e8a84673a566ca, 0x61a80e16990401a2,
     0xea2e029e7f9b3824, 0x5762298465f0ebd3, 0xf60e36d4969f9af0, 0x00b826180531c799,
     0x17120ec95cf3c61d, 0x47196cd6de85c7d0, 0xb0d47cff46a5cba3, 0x29271400d7ede26b,
     0x835908353516b894, 0x4bc57f8c1eedec8e, 0x2ec5deede5c0db5f, 0x7b9fc48ac4a689fb,
     0xf82ce6de88fc10e5, 0x6c5d84a70e03a3d6, 0x88a211fc4ea531f9, 0x7d5583e5918aa03e,
     0xbdf2d70766fb8f39, 0x5926497e734ab18a, 0xd6a9872b800cacb4, 0x757c1cd521fd22d6,
     0x22d50b0c13ec4bc0, 0x288a77d34a15e99a, 0x95c8e78fced3d4eb, 0x45ece109c15be169,
     0x878ef262d0132128, 0x48110e9fd98939d6, 0xe3fc5425d2e7741e, 0x050ca6e71f599c65,
     0xe02f97605d9fe375, 0x2af48b9bfee410e4, 0xfd34a1c107229a54, 0x43dc6f0cdcbd41fe]"

definition DST_39 :: "u64 list" where
  "DST_39 = [
     0x15b4eb7d65cc562b, 0x369a7b0dd3e91248, 0x2b087611edd32810, 0x116b234ddce09d7f,
     0xcdb03cae8e90d2b0, 0x4017d51587566038, 0x081793739242b600, 0x5086e8e633cd52a1,
     0xf5ddaee155cb8087, 0x773311b60d59a7e9, 0x36e5aa0acadf2068, 0x7126a4281b192882,
     0x54a10df54f7ecef8, 0x3cd7d2fbb6e33f67, 0xac31eb6c3e740c25, 0x517db54840feb2de,
     0xf17cb269b3ce27a2, 0x04a8fecd1dcc99e7, 0xfc887c1f2f85a2da, 0x280da7425bb55b01,
     0xa1af72f5256a5a53, 0x71da839fc459f465, 0xc203fe7ba6587f71, 0x08a4201f77a4f335,
     0x6cb9ea5683014d96, 0x5da17076b6b51ae2, 0xb55ac168c3e3997f, 0x41b9a32373d78f7a,
     0x96f58033b8600a50, 0x6ebfba3ec9d956cc, 0x0ff8883707d66d0c, 0x2f562b035445226f,
     0x2388fc015bd368c7, 0x2b7d802ce27f627e, 0x301f0369c24083a6, 0x77e139f6da8d5aaa,
     0x9f78574697fce43c, 0x02726c94565421b6, 0x1ad6007338e26585, 0x6134cc5eb35c02ff,
     0x77ae739c9cdcd1e1, 0x04e96543233c7a13, 0x97d3926dcded2e10, 0x6bcdff7e14cebb73,
     0x9c46ae2b32489774, 0x04a97b9a0473af8d, 0xb0350bd910d9784e, 0x448212d3e2164ad7]"

definition DST_40 :: "u64 list" where
  "DST_40 = [
     0xf3464e0351f5e995, 0x68ab4d24b3ade8d6, 0x86854d534002af20, 0x613f7ffe5de92aeb,
     0xb385b4f4608a370a, 0x220dccecbc6f2688, 0xc31ec5384abd3680, 0x25a82841a2000fd8,
     0xd19e422504694236, 0x0bc1124d541781f5, 0x0808651edcd99176, 0x41b81f223d429c76,
     0x1a6dcb2662cc80c6, 0x0b101fb0ef0d1f74, 0x6f02aed8f8327119, 0x5b4c5176ccc4a340,
     0x8fcefd200d6ee8ed, 0x0548127287f44749, 0xe1efeca1fadd1341, 0x0e74bc189dc9016c,
     0xe90470353f46cb12, 0x69513d3455bc890c, 0x9503686f1f2497d1, 0x280a0bb7733f1086,
     0x14e5f99930a91dea, 0x7840ad84b03c3878, 0x46e32c654fdbceb1, 0x7e88d2822bb2cecf,
     0x4d78a8aed7f8661d, 0x70eb17416ef40180, 0x97b6f1733c474a10, 0x3d0d27fc4c7084ef,
     0x730f60f6a1ee0d71, 0x7bf6e3885d3d9302, 0xa1e8af33742f1611, 0x73b798ec129822ed,
     0x0f669bb094642a70, 0x142927de789fc4a4, 0x0db18e01fa98cbd7, 0x6ae4d37674be1451,
     0x7175e98f178b4b74, 0x40534e319bc52c6c, 0xb7211d252c4db879, 0x1a7651f8f3ed1aae,
     0x9c9a43932d50cc97, 0x630b232b7201c359, 0x327d77575f5b3839, 0x5f0e19e78431864a]"

definition DST_41 :: "u64 list" where
  "DST_41 = [
     0xbfbb00b6530a3bb6, 0x19ba9d60d97f7857, 0x759779de744bd764, 0x5facbe63177791e1,
     0xc74ea511c56a3b61, 0x1d8909e84083c31d, 0xcd20094b507af492, 0x2ef1b9c07c92ab37,
     0x8430ed9ef8494fc9, 0x3f9170e6df5b1fa1, 0x1fb8dbc837175d73, 0x65b961b58008d022,
     0x7e1afb6816864b6f, 0x54c4b92c534871e9, 0xc0a1dcd60d61ef84, 0x4390f0e992c41298,
     0x1e54e2c8b7c27348, 0x7a987e01a2ec308c, 0xee42fbd90c4a89fc, 0x1ed8c77f8d7c609d,
     0x569dedaca99a3346, 0x0eb471e609fef4ed, 0xc915522a3b9fd03c, 0x726453b246746bfb,
     0x4ed3cae53dc5fa4b, 0x1bf1e4b34b9feef6, 0x0850df9f0401fac3, 0x0a58d33cb2422e2f,
     0x3d197f9603ecfc29, 0x45e46edba1cc432e, 0x96c0c93310d9bcaf, 0x18de3a458be2c33f,
     0xc9e65e5bcc12a49a, 0x71a5345f0239b187, 0x53b3b2f01c5710b3, 0x438350f57ce2ec4a,
     0xdbbd368a760391db, 0x4033638dfec29fe2, 0x297ad75ed73117fd, 0x269c08d54b106e8c,
     0xa4e3e4fd238b4218, 0x1f48a1cb09208aaa, 0x9575153115cf5fa7, 0x59feeff0876fb74a,
     0xfdedb4af6f368710, 0x79be1fe79fa674d4, 0x689d6bbb4c707c39, 0x394a451499057bb1]"

definition DST_42 :: "u64 list" where
  "DST_42 = [
     0x5887d4fb21fc43b3, 0x37628dfc4b5c23bf, 0xc66b76944b34bd13, 0x6e97f0a8a45bcb36,
     0x3ac6b10139edbbdd, 0x313f4846b6745833, 0xf8758d9777cd9037, 0x02fdc98f02692537,
     0x9e79f381fff833a5, 0x25ac5d68c49b105c, 0x1e9f48a076d8c9ee, 0x788c85c9fe9543b3,
     0x776ea51db3b3b778, 0x0007c44055b64db2, 0x3c392c2a82fddd25, 0x65000203be8ee976,
     0xea119666ab7c50ab, 0x528b2700e8f82d39, 0xc4aaf797118b8282, 0x55e5a7d5382e0d3a,
     0x15a80b22e89f1039, 0x199f68594b1247a0, 0x8d5630750d622435, 0x2687f48cc6def5b2,
     0xa16b0c0259eafaee, 0x7aeb10834e93595a, 0xe31bcf34ce679d9f, 0x4e2c19829eee3c87,
     0xa46869cb8ca35c9d, 0x3cd35313c08504eb, 0xa088eca66e98389c, 0x44c562f0f7262740,
     0xd3eb8a28f447523a, 0x43a0e059bfe37576, 0x0312c5d6d0f2e0ad, 0x5f30aaf0d1614c61,
     0x6f09a7a6e182b0aa, 0x575db3d21a82296b, 0x6599bb5eee7925e6, 0x093f89458dcc2fe3,
     0x70c4af785151fc84, 0x1230c0c519de5480, 0x0e66f8f93075a4f6, 0x5de4a122633a5c6d,
     0xdb99cf83f9ece1b6, 0x1c3acd4a13ded617, 0x4dfe69e68f59c447, 0x482ba1f7715a3c16]"

definition DST_43 :: "u64 list" where
  "DST_43 = [
     0xefeed2a7c81ea8fd, 0x4e089eeb713a572f, 0x78bc74acfbdf322b, 0x4b4951ce8eb86fbf,
     0x0eafb6b46ac6714d, 0x72913ed109f7d404, 0xb498bf6fcde9e3a2, 0x3c08a283ef5ded62,
     0x9af09f593a48b346, 0x7ed52441d00d4980, 0xa78e843ee5df44ac, 0x25db12d420a86151,
     0xec840e7e89d049e0, 0x5a34cbe928bf96cc, 0xd875dc5525da882c, 0x2af4442fc256827d,
     0x089fb428c2ef5a5d, 0x0b573ace080a3d9c, 0x6f57282554c240da, 0x425ceda6707b6bc9,
     0x94b5a8c3dde824fb, 0x264f6f6a445b5da9, 0xadf292191c5c1eb7, 0x5e302e82fa4e5533,
     0xf51712fc44237f35, 0x2b0af62c42e56e66, 0x10392cb4d9c71b75, 0x4d7e08fe8457a95b,
     0x210b9eceb04534bf, 0x73329d1c7d88e1e5, 0x667a43fdb4ba79e9, 0x3435ec04276ede87,
     0x38b8540a1a78b098, 0x4f6c266e6793bb78, 0x447ea35172754041, 0x109d7b742d8c3dac,
     0xe3ccab45d2a4f6f7, 0x59040bb73f3bbd2a, 0x730b39d65645bab5, 0x5c61aed2f83382aa,
     0xa992143de3cf83e1, 0x13455cb889b700f9, 0x54648228b310e2f7, 0x5b837752ee0f733a,
     0x3923a6c0e5ea0dd9, 0x5ebebd01fc9ca9a2, 0xa34c205b8fd94258, 0x7d1a10029a0b6cd5]"

definition DST_44 :: "u64 list" where
  "DST_44 = [
     0x6c83c02241a46527, 0x4127c85d6be1fc62, 0x26f86ff5ca7240b6, 0x2167391e7dd95cd9,
     0x79227506ac78caef, 0x1a2cf919b8832a0f, 0x07745266405cf574, 0x38095a07f5713ae1,
     0xe5eeab985ca3e7e7, 0x6a5dd9eeb734d639, 0x991027ebe44a4822, 0x311085fb4de9c1f0,
     0x33f361e21066c3b5, 0x550091d2dfc8688f, 0x376345c5532bac13, 0x0aa0898f990931b5,
     0xea2f3346e5d3226e, 0x208790ab78776afc, 0xac7c2ae63433850c, 0x3c5c373ada10ef52,
     0x96c1b4003f4cde6a, 0x4546a9c475c09781, 0x6c961fd3e8536294, 0x43f36e63fc0d5066,
     0x296601d8c42167f4, 0x241c1fc38565471b, 0xdb00a27e11ce9617, 0x60381181b7e7e4ee,
     0xc1076b7635ac4d52, 0x0166010ffb8dda38, 0x5238f69becc43e0b, 0x63303a2015708b17,
     0xe8badb2e5bb22591, 0x3a10a4e218b6131d, 0x236ab01aabf1a7b3, 0x1ce8a51a68a4126f,
     0x59e775e2a2a87928, 0x770b48eb4b738301, 0x0b43c2be176bf79b, 0x1957850fb6424660,
     0x44455ee1ecb0ab2a, 0x620ceaa116eef4f0, 0x0198f62cb6183f6b, 0x3274f78eaf2d55db,
     0xd2ba4e460cf7ed5f, 0x19cfc17bc0b66f43, 0xcbae6f45b1942722, 0x5d93e44739147b58]"

definition DST_45 :: "u64 list" where
  "DST_45 = [
     0xd07180b9d28fc597, 0x35372b21b2ea5a46, 0xed2673477f083464, 0x7a9ebeeecc57e6c2,
     0xb51d991a81a6b314, 0x35e7d90f4ed6de58, 0x45f21e209510dd05, 0x446ffd2715c8d380,
     0xe69b5c7a9b6d3e76, 0x1379e79fb96912e6, 0xc161c848bd508738, 0x22264a049d8cfff6,
     0x32321a68ff7ef7b3, 0x57b0e50cc585b333, 0x1c08c65ba9d764e7, 0x5534c793f92f00f5,
     0x7a1ced97eafe6fe4, 0x6b8933739202599c, 0x618c5f8fcadd3ff2, 0x2a8719b3e6548653,
     0x346a9ec5c4200f0c, 0x7a36b8d00d0eda58, 0x844b22b75021accd, 0x769737059fc5e465,
     0xdb1ba69b5019f266, 0x1777242305db9ac1, 0x491d11ad264b6ff3, 0x136198dfc57a3053,
     0x4a6cc64741eb7176, 0x14e811c97fc97650, 0x6b64667f71be386d, 0x3286fcadf019eb5e,
     0x3f2591f4498e10a0, 0x674fa7c32df7867b, 0xbae8ec7ee100dcf2, 0x03b2c0a20a6372a4,
     0x4c8d76b471e24474, 0x421fb6a7b8a3216b, 0xc672bdb2fe8f514d, 0x202af653d9aff3f5,
     0x05e5f80f9626953e, 0x7b721fa3ccd42ffc, 0x99d8e481c0f70479, 0x054c31746d23362b,
     0xfbef2e20430e8025, 0x60e1e3f02e7720c2, 0x161701874eb347e3, 0x363924e90cbb77a6]"

definition DST_46 :: "u64 list" where
  "DST_46 = [
     0x180f5ee1863a1a6a, 0x2f79c0046ff79fe2, 0x44679866e35447f0, 0x1c64c6dd73e0d636,
     0x1d8175566341469d, 0x5ba634965b8b9e87, 0x8f48744f976952a5, 0x744f28d23db94c8a,
     0xd15e84b1f232da34, 0x556f3d7aa38bee8c, 0x14693c56e866ef89, 0x1564fb9a0f81eb03,
     0xe97eed56fa2b483f, 0x6d3f7e01aebd1957, 0xae8f128aca3b3e45, 0x3d41e85ba2afd3a9,
     0xe4fe485e4b6d8328, 0x65c49b4c3e98098e, 0xe96a00e054d6e91a, 0x394a2122738cd006,
     0x715cca3dffd90785, 0x7bc3dcde15890965, 0x6dcdc47a33a148ac, 0x435db9d6dbe1bd55,
     0xd74d4d6e0fd89c27, 0x25e727f6a5380553, 0xbe54127ba6c5189a, 0x65c87d3c3e61939c,
     0xc34a6d122a809e2e, 0x7de6b787f097eafa, 0xb8f8b6e701758661, 0x10705fbf97042046,
     0x1591614e6da2d44f, 0x7c74f26ec6eb070f, 0x9ad98c1a50249c60, 0x6e1bbd44d64b2302,
     0x937cee76047790f9, 0x5b4ccbc70beaf690, 0x332e79ae75ae0dae, 0x2e6394161d093556,
     0x4b378bf68f6849f0, 0x6c419fa0cebba72d, 0x8bb431e1e273f2a4, 0x357cec80bbe024fd,
     0x83a6e913962f11a9, 0x7808df02e2523718, 0xb6690b5dabc49e13, 0x6cef23259375972a]"

definition DST_47 :: "u64 list" where
  "DST_47 = [
     0xd18ac767b5e551fc, 0x5a0ba1dddb15bd36, 0x6f7923de219e3e1f, 0x3ec23588db9b5cfe,
     0xa4fc23d42c83bbe0, 0x21581a00768658cd, 0xa295b6e57110218e, 0x3e7bbab1d15f477f,
     0x2266c03d3f0d0635, 0x4174f08a95be03b5, 0xaa1a674abb8cbeb8, 0x6bdf6ba553ae3390,
     0x8a31f824638545e2, 0x2a9e37a0f0eede53, 0x148a53d8cba69f65, 0x64c587e816d96316,
     0x777a028a47e97e93, 0x13728e46befb2e0e, 0x13138b44862fa665, 0x0fca8c38a87775f6,
     0xcc44bd580dd067fa, 0x40f2f7642e22d02e, 0xab3ba6db80c2f728, 0x5068aa2e2d25b7f9,
     0x5a8a842c0a2923ff, 0x67c39e8a1006c196, 0x8f5cb9ff55460a84, 0x2e735c20a419a518,
     0x0c6ee3fcbfdc2da4, 0x5bf6ed60a87b92bd, 0x5e4ce130e8e1608f, 0x0932ceb3e50028e8,
     0x793cf8a0538cbfb8, 0x4e89e2c018beb7bd, 0xcaaa79642f5060de, 0x542a38a4d13f0016,
     0xa1b0fd9aac663e55, 0x5158bf1f7b33c0e4, 0x060e82f65a4119fe, 0x32347069a1529fc4,
     0x5c96ef69127480d5, 0x409a902134df6ffe, 0xdbe8c392eb6c7013, 0x73f2c48b0e3b4a79,
     0xddf5060b937e2dff, 0x1534f901278611d9, 0xf47fe29ae4fd49a7, 0x7a2c0bfe75539f29]"

definition DST_48 :: "u64 list" where
  "DST_48 = [
     0x19e04d1b2b0fe7fb, 0x56381ebd8181b50e, 0x5c8970c249df4ac3, 0x08acaece8ede7685,
     0xc44f1a71aca0d20b, 0x623edc8d92e4ac3a, 0x5496a7e5885a0c95, 0x20a9ba37315b116e,
     0x3765873809f5b55d, 0x23c44c42ebef2ff5, 0x56a96d921f724573, 0x3217815b72b8a9eb,
     0x2cc1b42f5350a489, 0x31f0b36e85b8c70b, 0x504a5c8c4d2ce34d, 0x1af8ea26b3786eac,
     0x69bc5e26d7afd62f, 0x21e399d04247bf9a, 0x6e6d6676a88efb27, 0x476212b9fe9a6fd4,
     0x0740fb65284168de, 0x5f7570be65e69408, 0x0166c3279dd81c29, 0x6565489007c4ed6d,
     0xbafb5bd37b5219c9, 0x00251709f2e210f7, 0x0d22639b51c1198b, 0x0f3c0df3be3de811,
     0x3552612be3374eef, 0x0834744318ffa0aa, 0xcb9f1c1e3557a00c, 0x20c359f5de8b6614,
     0xd319482a34d05268, 0x42165771b46b75d7, 0xca336c22e8d911a6, 0x4d072f70067a47e1,
     0x9022c6f101555e9e, 0x4c8c7eaf7cc2d697, 0x629810b2d8044817, 0x25110bc01b06c9c1,
     0x1bf9c06bf39eaff7, 0x6cc36f151f52b4e8, 0x76b73a6a14b62068, 0x47dcb0dc89db3821,
     0xfe9dfeac2f670f41, 0x625b5c93b973c417, 0x5f8c917930133c1a, 0x6bd35f3e0992bb2b]"

definition DST_49 :: "u64 list" where
  "DST_49 = [
     0x03b5391a85409e5e, 0x7981d8fd16362767, 0xdb45c80a32a23cb6, 0x67356a7ef48b2dc3,
     0x6189236e9f01adaf, 0x07a1e954e5032bd6, 0x53d627199c69727e, 0x25d67e4163cec014,
     0x18e7bb6a63a80738, 0x3112be4cb5dcbc74, 0xad9ad6d381643f04, 0x116112cbeabb734d,
     0x32623abe2d66ff07, 0x4d780300822436de, 0x9bed066c04497808, 0x40db29b39ce86700,
     0x6e5e5eb3805602a5, 0x52f227f2b1b9b40d, 0x51c2c4c197a18394, 0x6d8bca423ee270bc,
     0xd6e60cfe8fb07f72, 0x7dd66c3970f940c6, 0x66aea7b59a0b17cc, 0x75fcf8b00160d729,
     0xbedc5ea39b2402b5, 0x0dc3600425feedd5, 0xadc1ddf2cb1b6631, 0x205ee93e3aae976a,
     0x7a2cb4e333c98498, 0x7d12eb776d56872c, 0x8e339bc1b41599fe, 0x4600f0a53fac9427,
     0x1049d3a372f14304, 0x7b54e020b22db742, 0xd567962272a35739, 0x27a1178b1115f0c4,
     0x6cfb39d619c35e1b, 0x5cb96fd1a9d9d486, 0xaf45cef7fb4fffea, 0x4a73d7b2ba9321d1,
     0x44b46b4a80be86ac, 0x2769b50579e8f734, 0xab5d109e7472f372, 0x2bccfba1cbe995b6,
     0xc00026115332f6a3, 0x7acb287da1561c53, 0x21555c608cd90dd9, 0x7731d1b2878dae13]"

definition DST_50 :: "u64 list" where
  "DST_50 = [
     0x32122bf5ec1a0649, 0x592b5fa180ec8467, 0x876be1b5ad9ce66f, 0x484c1cc5bb34819d,
     0x08e4cc425b30b06c, 0x2766065f0e4d22ce, 0xd90825644987aeff, 0x3a835fcc7fc456a6,
     0xf4d801d2cc806d69, 0x41d767ecca55f839, 0xf2dea9fd01f1e74f, 0x74d01b97462211cb,
     0xe43e280ad29f80cc, 0x5cdf66a69029b231, 0xe8d655a03c862cd9, 0x388e38b58d0e8c79,
     0x5d9aaa4848ff83a2, 0x14d6fbee4d6cbe74, 0x0426dcda912109ea, 0x1bb7b9cd75d4b541,
     0x3a3c0504b39b8505, 0x35a3c5882b31367a, 0x678793d635a6473a, 0x66abca7e20202034,
     0x4a90ff1dad300021, 0x18f29036544d2684, 0x2036d39b8f69095d, 0x36490f5645d18cc8,
     0x9414d7368ad3562e, 0x7f8108a04558487e, 0x93db0e56d653e40b, 0x03f413ea960537bb,
     0x984717b77f7267ef, 0x6c5d9da4a5ee7305, 0x725318dc36060a49, 0x274397f8e79a239e,
     0xbda7965b4095bab0, 0x6292b2505c7866e3, 0x451fb6a0672d6733, 0x37c560f40242a859,
     0x151e56eb818f1423, 0x63451986f0c22ee1, 0x9275ff873a5c75e1, 0x178cdc734a32b96a,
     0xff7adbb24244aacc, 0x76518aa0dfd96ddc, 0x161c1c8c81071219, 0x0584d44c10a3e6dc]"

definition DST_51 :: "u64 list" where
  "DST_51 = [
     0x2727282a09e9acab, 0x1298e49c34514ebd, 0x0323d059ca1c0e6d, 0x6072c8b87dd26bc6,
     0x36eca2ab28d36f26, 0x2a977cb5aae4ea2a, 0xf157d43a0b9546a7, 0x04d60af0ed661d29,
     0x34bc1080126e4402, 0x7677ef9a21589171, 0xbd13797278f07a40, 0x32c0daf0b57f20ac,
     0xbc83fd1b8366dc2e, 0x6cd07286c4e670ec, 0xf35485a3f339dc8a, 0x6e7e9285f2247e8b,
     0xa9d19d3a09943bae, 0x43fa5197eed852a6, 0xf911398a043242fe, 0x4a100dcb1312cbe9,
     0xbe2fd86be910a692, 0x614fd829368d7937, 0xdb5a98b1a92d578f, 0x46f1d23e1b0dca7e,
     0x8bf4c6725e813f36, 0x68bc89078129ce91, 0xff56503ae28f5c7f, 0x2b6e0f4e42178ce5,
     0xa97cd947ec65895b, 0x7aa90b66280ff6c9, 0xebbaf32df158a0a0, 0x6a748d0ac02bb713,
     0xdf79b5d619e83397, 0x16934947f6485b69, 0xe75185521ab32881, 0x20791e276a7460c9,
     0xd25c403e22c70bc9, 0x0bf079518e66e1d3, 0x45dd5c971d3711de, 0x66bd2c6a30be232c,
     0x607829e5b29e53ca, 0x30ed414e71dc08a2, 0x3fd38589ea0f1d39, 0x5a881a121f37fc5c,
     0x27b9394368987a4f, 0x321fe45e13afae2d, 0xc6feb75080f33ea0, 0x02166d52f45eebbd]"

definition DST_52 :: "u64 list" where
  "DST_52 = [
     0x15026a1b0ccd2fc9, 0x1141be93d5bc3d6d, 0xfd20df606fc676c9, 0x4059e26b00ad78c4,
     0x0709b409cec6b505, 0x68f020e8acf478e5, 0x875d77d1f5df0cfc, 0x66eb377735162ff1,
     0x860482ab417a32ae, 0x21175f47da213935, 0xa07ff0cda099ecdb, 0x26ae5f177ae2b8e7,
     0xa9a070ea5120eaf7, 0x2581feeba7383f81, 0x49e0f137f1fa2a7a, 0x7fe93c51cfd1ec62,
     0x2d74dbdca7777f7e, 0x562da2ba74e823ff, 0x543b4f8609d77a2e, 0x3a0f65212f234ec8,
     0xf842e3fea270ebc6, 0x4524322c6a289e11, 0x80815887aa6a8576, 0x46f49d53c3fe29a3,
     0xbcc93cedfdb0d388, 0x4db312076ef0ad2b, 0x1f2cd56373654ad9, 0x4c6446970034d15f,
     0x34d2cdbfd5d7130c, 0x6198950d03db2ae5, 0x736094b72faf1b1a, 0x1f6ca46a9f2588f7,
     0xcba0b03d6259772a, 0x24e5a23d8d6be3a8, 0x7090e340c94f6d6f, 0x287ba27ee54e8466,
     0x87320c8822d607f0, 0x44fd5802509df171, 0xf35c09860bf6ba4a, 0x6cf53130ef77cc0a,
     0xaa81167a00b48ce4, 0x649f4c775b0d8b48, 0x59a25683ee98d33d, 0x651479007d1061a6,
     0x155487411f6e16da, 0x411d036475404bf2, 0xc231f1344162458a, 0x4f36b7633f7dd368]"

definition DST_53 :: "u64 list" where
  "DST_53 = [
     0xa98ddc0a4e7a89a4, 0x55d8a5da6eacd542, 0x5c3fb48b1001ed45, 0x5c7785ccafa702b9,
     0xa64369fd216afb79, 0x1f405ef10e940669, 0x755f4831bc327b6f, 0x2bc1b67d71f1882d,
     0x8eab15cfed7777d0, 0x517370d580d99326, 0x0811b75701c9db39, 0x234d84cb52f7b621,
     0x970c4fbddddae49c, 0x3ba8d842475e41e1, 0xb0720f6ad75e7008, 0x275cd5c5184bf345,
     0x5eb9833888d3796a, 0x1b3a42dfde11c2f3, 0x946548fe092b5f4d, 0x119917b50f263cc9,
     0x622de955a20a3f82, 0x6a552ea3a60c7ff4, 0xc79230138150372a, 0x18083b9518de76a7,
     0x55fb74dd7d3b5455, 0x523eea9a70ff8334, 0x5994a7335e356271, 0x3bb011f60430f1d2,
     0x1ec434cba1d6ea7c, 0x69b632960feb5780, 0x46c50417541ebf07, 0x01470bfbf9d23830,
     0xe9551f4c049bc5cc, 0x1c124638f35ee8ed, 0x09ca3a9141e83a38, 0x44daaf3e7411127b,
     0x0e54717b6c2fcd10, 0x518ab46b26d5914b, 0x528ac6c82341e833, 0x2247fa99d41f4672,
     0xabe30c65c0f327a2, 0x3ac74e012b77e1b4, 0x35defd694c0e86b3, 0x7c382e10bfe60e4e,
     0xf37e382996b8461c, 0x4d47481c53631e1a, 0xac8f167884f7b7b1, 0x5ae1bb6ab1a4c643]"

definition DST_54 :: "u64 list" where
  "DST_54 = [
     0x63eb02590829df80, 0x623126862a793fa1, 0x6e1e242f1ce09807, 0x7bf96130aaecfd2b,
     0xedc5e9ea10bff70a, 0x66b548233b94d26e, 0x70c70ee4594d30ab, 0x79b0006c8811353e,
     0x4352792c91710c1f, 0x0c7bf15181a9f539, 0xfc995ee769e3779c, 0x44871c6cb9dcedcd,
     0x0d180bbf2c9a046b, 0x5445c598c45d0cd9, 0xdefb32386875fb94, 0x5b0d235355660f35,
     0xbe1dea825b3a7973, 0x10658ec4e1bbe147, 0x48af5e87fad77504, 0x55f5d3c94a7dd694,
     0xa9a3e7062cad6ba2, 0x36c0a7e3f9e0ea31, 0xc4bd65217010aebc, 0x1d031dfc8b9fb598,
     0xe3621c104113889e, 0x774b77ee1e6a6477, 0x124c5b8a07785fd7, 0x5a6c0df18188cada,
     0xf4adcd545e72d7be, 0x38100fffb66ba966, 0x2100cbe35fe4a4d0, 0x4489be2df052c175,
     0xa03a22403b26899f, 0x5ae4a0a0fec13928, 0x89dfbfb802795eaa, 0x34917e9c4ecf2532,
     0x64b93674c60cbbb3, 0x25c098506334c71d, 0x8a723f66f1ee34e1, 0x3a960adf48f141e4,
     0x659f386695e440bb, 0x577a0fbf6e8095e6, 0x8ef419b0f4b25496, 0x044176a30b9e465b,
     0x7a98705df2013e6f, 0x77d0b2483aa95ce7, 0x309e917b978effd7, 0x08f1e55bfe942c7f]"

definition DST_55 :: "u64 list" where
  "DST_55 = [
     0xfc241629b8d613c8, 0x140f2e35cd68949f, 0x38899f6a3ee4f9fa, 0x7abc8ecdd300f3b5,
     0xd3dad23505d23eaf, 0x75e73f09376b2c7c, 0x5644a663b60ec5c4, 0x511ade8afe1eaec9,
     0xbb005fe4e1abca89, 0x2838de73b0ca1f6c, 0x800a6658b80d28c8, 0x48aaba61c91641ec,
     0x222759cab704d4e2, 0x106dd3c0ce85beca, 0xa1ce1ce341f69d03, 0x1651b210e8e4ee10,
     0x47329a5e7133e136, 0x58c02f47dc9367b9, 0x09dcba56947b02af, 0x435c251178125b48,
     0xd56979a3f0cd9315, 0x2f02b0a6422afddb, 0x23920f500731f32d, 0x0ab833238232cb5d,
     0xa7b3d1bfb0bb60db, 0x2342c2a03c6eaec2, 0xac5e6e5a14d5282e, 0x5b9a421ddc42a24b,
     0x018506414543e056, 0x6d7c377c084954e6, 0x4f8bf71ed3db1ced, 0x5150dbc15ab10979,
     0x00b50a1b373a7fbf, 0x140be5c3d3244705, 0x5005bfe96e5b7911, 0x77cea555bb133f3e,
     0x2ab1e1a9d7a973c6, 0x3897ac98314968d3, 0x9e0f74764b23c9c3, 0x2e5ecbbae41997cd,
     0x43e2ea5648f12433, 0x3a515a0e4808e69c, 0x17d36c03c36bb343, 0x44cebd053481ce43,
     0x89008656c21b0d76, 0x2f8513fcb9009be6, 0x2e223f90208a0e83, 0x3828c2d4efd36a73]"

definition DST_56 :: "u64 list" where
  "DST_56 = [
     0xbf17d64f89a8527d, 0x59ebb42b9656151d, 0x7d7bc7245c7dc5ef, 0x191b682a0cb695ec,
     0x8931172fad9f9add, 0x239b6cbbab2ebdcf, 0x76932f9ca7002dd1, 0x0c140548f858d8b5,
     0x6c7adfddcf741ea5, 0x3b39c4b9e2e1a567, 0xc5135a25f87436fe, 0x690d8fecb7dd0ae0,
     0xd782a618ecda10c2, 0x4f2a84b3134cf832, 0x35a81f71bbc955a4, 0x457f88ed64ae6398,
     0xc27eb71c31479985, 0x4ae91808569aab32, 0xa5f2e9785a75eb11, 0x619cb199b837ed36,
     0x0e7e5912b9484e40, 0x3b5831e87fdbcaf0, 0x49a2779c2d2b039d, 0x3d4b81e07f49061a,
     0xaa119b0fa222b55c, 0x265c1b11b42fd4e2, 0x6b4d28e519dd7637, 0x3d2da7900de5a4b2,
     0x99b06586b5f21d63, 0x4ce62bd9e6a1ee18, 0xb671e753932f8c92, 0x390b7821d0987834,
     0x1adf7c73c3f1fc2f, 0x78c636a8514a7af9, 0xaee3b35fe11e7533, 0x7fbd199278f6ffd7,
     0x41aabbf4363d77de, 0x1b27fdf18b96bf6a, 0xda264a1dff9a981c, 0x36efc08530c0bf9a,
     0x5bd8862a5d830854, 0x23d7c905e656e6cb, 0x4523324c5b64fdcf, 0x36627f376238665f,
     0x564f53925c6d5ea4, 0x17c7cc86a1913022, 0xf90db52a543b009b, 0x15192dc91f8b994b]"

definition DST_57 :: "u64 list" where
  "DST_57 = [
     0x80bfa3c1a79ec6e2, 0x48fca8ea99772ecc, 0xfee6a3b98c0f1824, 0x46a8c75601b81e22,
     0x2cb3c402a8895fcc, 0x1d1dff9c04305ce2, 0xc1aefe78e85971d7, 0x79c6a083ab5a80b2,
     0x379c7bca5dbf2518, 0x2419358989b3ca02, 0xc9c42c9cfa5f470e, 0x4481c2ce91b14459,
     0x6b04dea1ea26deca, 0x26ee3ceee0d0a101, 0xe36cc6bcd8fa4f26, 0x4d14709719764fbd,
     0xe0572a706f1fef52, 0x0f75fb69a23f2ec1, 0x32ae4b04a864cf3b, 0x0b6373a91b944773,
     0x1a8f2bc20bd088af, 0x586b0d5ace401747, 0xa0e6b094a3c51433, 0x1752a123c268c1c7,
     0x643c2a93b5770ea1, 0x536cb9d1b71eeb43, 0x6bfb0525d0cc6b3f, 0x1f4dcfeec3adefc3,
     0x28a0169dd0bf57f0, 0x1336c9aa20a35449, 0xbbcda068703ad7a1, 0x5e33478283c1e03d,
     0xf1997733d18fdaf2, 0x789af507a17bb867, 0x79970c14d5695613, 0x79452342e845256f,
     0x6c12f9367a26a018, 0x11beda1c8f9cdfbe, 0x720e6ddf24b30929, 0x7706e91e3e544755,
     0x4460381d3a6c9059, 0x7e01916c3678c424, 0x6024355a61d2bb07, 0x68bae01d79c869e2,
     0xf21cbcff285df659, 0x02f7ee6aeb57c933, 0xce0f078c17266467, 0x039b4fdb5170a103]"

definition DST_58 :: "u64 list" where
  "DST_58 = [
     0xd5de0fec61a4ae1b, 0x33d37a152a778695, 0xea64e40e6a10ded9, 0x1f1d394373bdb213,
     0xf63598b6ef59fd14, 0x57922adc3ae52283, 0xe39a90e18b76f4a1, 0x27f3dbebd98a9dae,
     0x18179dd9c03804b3, 0x511d72c1912e2d73, 0x88e1f6d24b2f3225, 0x56009999cdc2997f,
     0xda6df977b7d82fe4, 0x76f746bba63da226, 0x0b5facfc3bf13bd7, 0x4a31eb04f66f0e18,
     0x8ace73d5e7cfe28f, 0x19aa731bc30c20b1, 0xa91979fe73400317, 0x6795ce71a09c7c9f,
     0x93d55501933700ba, 0x3850eaf08b1fd14d, 0x450c5abc89edca71, 0x1be5db848bdfa5ef,
     0x77667d3f4fcf082b, 0x673b6e6c4824bc45, 0x6f22c12a5fe0ed6d, 0x006ee6722b5dfed1,
     0xb47a13c1468d0c62, 0x40564879a378e6e4, 0x0bc6b553a9d3ab58, 0x21761c79e44dfcfd,
     0x66f36ed3eb1050fb, 0x2e67df1312dd01d3, 0x48744c4a68dbf2ad, 0x7844962b6d6e039c,
     0xe07b5675d378b65f, 0x336262aa3d2c1df0, 0x320a5667d78c2e2b, 0x4f668dd96dda5e2a,
     0xe21556795c7b8470, 0x3061905b2ef82bb1, 0xaee53211472206b6, 0x1f87377fee0d7a39,
     0xdac58c52a3b1a0c7, 0x6e3c4ce04f0d7ffd, 0xfdffec45d4a3990f, 0x4b5340f79e2ae2c2]"

definition DST_59 :: "u64 list" where
  "DST_59 = [
     0x0537c8b7b3d1f332, 0x55292744ae35ee1a, 0x42336d0e6d057f1e, 0x5ac40e9e645cb3d7,
     0x848f7b7f845e46c7, 0x74bda86736eff150, 0x891acf622baf4f35, 0x14bcef9cf39667bb,
     0x9aa1354d9731b9b3, 0x27e855a19295e59f, 0x1a829a8e10662ed0, 0x3bbc43f9ec4437a7,
     0x8bfa8b1cb1de5341, 0x3432778068d35549, 0xe3d807da41f25a48, 0x1bb6ee1ce2efe552,
     0x08d9bded0bd3affc, 0x290f1c5299a917a8, 0xda8dfd79562f8939, 0x1bf7aae68686211f,
     0x2ab6daf9bc860765, 0x7bef6e2f0eb58a0b, 0x8746faab7c439b94, 0x017ea87750bb8bda,
     0xf8dfeb22239c9a7c, 0x35cec0d2887b3a13, 0x68aa94ac601f1606, 0x7470553f8ba61767,
     0x37894f91c9eac410, 0x55b22aeb8337f732, 0x53f8d90f29a2fe94, 0x0aec068aec69023a,
     0x40506162ad6182ee, 0x6a327ff1ac1e5475, 0x968d7095492df3c8, 0x3f93f46195f67521,
     0x4983bca28970d546, 0x2716b931296b53c2, 0xf42b013266b6f8b3, 0x76f29b084b6a369f,
     0x8e28749222216249, 0x4f2fa1d3a6c1acfd, 0x0ee66697eab8f954, 0x37c33e28fec0cce5,
     0x7d0419e2bafd1dd1, 0x01f04d4299b94daa, 0x5ec06abbc1e5c7e6, 0x3a24c66060ed72a9]"

definition DST_60 :: "u64 list" where
  "DST_60 = [
     0x0db764e15f960f26, 0x1d5973d5d59f9c3a, 0xf3dc2608dc6d9149, 0x1d80e0461b72f518,
     0x2264dccd49c8b09c, 0x1f03e7a246334d5e, 0x2d6e38871b1fc2ad, 0x418588ae4f284bd3,
     0x3efb071bafe1afa2, 0x0799ba0c80bdd8dc, 0xa6b273222dcc4a76, 0x13859f08ac8a4b23,
     0x0194acc2663c5acb, 0x459fa55bd0bbedf6, 0x1b055550f06f8cc1, 0x09e5fad46599ea75,
     0x6b3916ef772958a3, 0x4aaaa5c18093a431, 0x8e1503e36610f594, 0x620ef55048a263b9,
     0x5a28963c8cb8ecbc, 0x6aee46b1b740c15a, 0x67e39606f59cfea9, 0x13a579e3777ca8b1,
     0x45ad92f61cbb8de3, 0x53068a1a42460eab, 0x9b163546de379578, 0x07bf38a7cecd4860,
     0xf84c77031d282de1, 0x402aed6399f78ffc, 0xfb83dd20295f6d45, 0x3702e257340d2ecd,
     0xb8db2d8b979b97c8, 0x617526d2a50b0c51, 0xd86f6278313017db, 0x2f35eedec55f9d92,
     0xeecb69493517973b, 0x7a111a74e0baf09a, 0xb82c6da8ec39f63d, 0x4217076312833746,
     0x5d36d11f3dda88d9, 0x7baebcb360f2a887, 0x9829b62d093d6cbb, 0x10f17a2f6edf28fd,
     0xfe3efa4353f40626, 0x731ca3065c118e34, 0x6185678827960895, 0x07f906a4f4c6355c]"

definition DST_61 :: "u64 list" where
  "DST_61 = [
     0x361d9cd10e657142, 0x2b5f5d452dd861ce, 0xa3e01df05d04b69a, 0x533723bc4cfcc0db,
     0x820384afa1bbccb5, 0x4e67e941595d8dfd, 0x0f8da50839e13646, 0x6887a0573a596968,
     0xe93dd1df5ace7343, 0x0d4076f28ecf96c8, 0x0ba2f854988074c1, 0x5eb2a314a41a40b6,
     0x49ff6d27a676b27e, 0x15f7ca40acd5114e, 0xc171f9a750d7da95, 0x3bedbe891f79eb5c,
     0x5b643bceb83f74ff, 0x088b1af3aa331a4c, 0xde294c7e0a60c4a9, 0x0a0770fc8120b151,
     0xf09b757a0c7c1937, 0x34b797c03efd9c88, 0x051e3edb2c28cc49, 0x66db34ec5ac5122c,
     0x95fde0d3d3dc8cbf, 0x797897c8121818cf, 0x1fd46d197710f89d, 0x533a505803f809c5,
     0xb60f1c090c9fd211, 0x4a7c3479af5c9d82, 0x4bfc3ffa4c8cf5a5, 0x6949f4a61306821f,
     0xd814c949c67abcdc, 0x419a5e33166863c4, 0x9de646f6bd0895e0, 0x497cc1449a54545a,
     0x69eb31247fe126f2, 0x323c83233967f477, 0x52e0db4d3d78127d, 0x42a0e188e7b9380c,
     0x3a6b011c46e34e7e, 0x79f4168aa9a0b4aa, 0x94270a25d708fa4d, 0x2bb28618cbc9cdc8,
     0x741e46bb04606819, 0x02790c52fb2ce982, 0x6dbb92d0c6d0af10, 0x32aa96ae061e9412]"

definition DST_62 :: "u64 list" where
  "DST_62 = [
     0x1376700c90d98eaa, 0x4d1dfe650c0a7136, 0xb397f8eef89aff20, 0x4836ac4a041bae37,
     0xf37c1076a80a02b8, 0x0d063fa2467b3a37, 0x498f2617b56b7e7b, 0x65ef1194db859a5d,
     0xd1fe25d5d28ffcb6, 0x228ee6f49459c083, 0x6b7e82b3b009b15b, 0x713b185ef1fccbfc,
     0x552468f1ff60c298, 0x2b7ba65d02519614, 0x8a86ad90ff0816c2, 0x7bf9249284bd02e5,
     0x3008c56e474c2d10, 0x171473b77f804540, 0x15fb79d07bdea766, 0x66ac67c7b9b0951f,
     0x34bca15bb6d2f652, 0x13c63dd2687d617b, 0xc515ae237715c19c, 0x0e543c6765fbfef2,
     0x668c80faf156fb5e, 0x1e2e9e3b3d9962b8, 0x89ebaa264394e113, 0x322add21cf1659cf,
     0xf9e6e26733619f8e, 0x723bfc8b792147f0, 0x79aef2837d7e092f, 0x1aa61c59290b5011,
     0x9955ae576a499cd3, 0x2c3d6e6a5a1ce0da, 0xb864cfa199a8676b, 0x4961a21f1080285f,
     0x828e184adf9d997b, 0x0c84bda97e7ce725, 0xe6974677094cfcc5, 0x4ec8cd773946105b,
     0xa48681bcc95fb5c6, 0x6ade87f8f7a5f269, 0x9b97628fdd39c03d, 0x3bde0ee1f19f1842,
     0x4ef8c8fb117c0ca1, 0x769bf8f8d07de9bf, 0xc8f5f435b78a57e5, 0x79987aa861bbcf9c]"

definition DST_63 :: "u64 list" where
  "DST_63 = [
     0x7f6c557204b02022, 0x119bd819111c69d1, 0xf0c61ef00b3eb70b, 0x4317f0511bfb7b39,
     0x36a2b944e84d608e, 0x1c1a3862da3369cb, 0x37dbf471085f1775, 0x3835751e107419ad,
     0x04ab0c84bb07a3fe, 0x63758bfbc7df13a0, 0x15ffd20cb554f23e, 0x1ff11c442b1515b7,
     0x171377f1bf937186, 0x615efe82b83538f8, 0x321e7cfae352a761, 0x7af02427d7241502,
     0x86546e47f2cc559f, 0x65a1d8a017659d75, 0xc95d8aa5b8bfdac9, 0x01e887cb68990623,
     0xf1f8ee8c466bcc3d, 0x40ce5e4f2ba3908f, 0xd2b81a3480c16b35, 0x51625d3eabf708cd,
     0x44d770a210105739, 0x7f1de74a022958a0, 0xfbe4c91bd1e8f732, 0x204fbacb13586460,
     0x97d79097d62e3cf8, 0x541ad5591934b114, 0xfdfb47919c141909, 0x354926e5244fdecf,
     0x6291b0a0e2e994b0, 0x2b9a9a69d3a6c3d1, 0x8189be54302371e7, 0x3645c65df1a881cd,
     0xdf0460f445e3877b, 0x7ea384dc52d0d26e, 0x0c2e5f768d46b6b0, 0x1f6e62daa7c5d4e6,
     0xf8b026b33b2343ee, 0x2b7183c8767d372c, 0xbd45d1b6b6731517, 0x4ddb3d287c470d60,
     0x1031dba40263ece2, 0x4e737fa0d659045f, 0x8cbc98d07d09b455, 0x34a35128a2bcb7f5]"

definition DOUBLE_SCALAR_TABLE :: "u64 list" where
  "DOUBLE_SCALAR_TABLE = concat [
     DST_0, DST_1, DST_2, DST_3, DST_4, DST_5, DST_6, DST_7,
     DST_8, DST_9, DST_10, DST_11, DST_12, DST_13, DST_14, DST_15,
     DST_16, DST_17, DST_18, DST_19, DST_20, DST_21, DST_22, DST_23,
     DST_24, DST_25, DST_26, DST_27, DST_28, DST_29, DST_30, DST_31,
     DST_32, DST_33, DST_34, DST_35, DST_36, DST_37, DST_38, DST_39,
     DST_40, DST_41, DST_42, DST_43, DST_44, DST_45, DST_46, DST_47,
     DST_48, DST_49, DST_50, DST_51, DST_52, DST_53, DST_54, DST_55,
     DST_56, DST_57, DST_58, DST_59, DST_60, DST_61, DST_62, DST_63]"

text \<open>Entry \<open>d\<close> of a table read as a \<^verbatim>\<open>point_precomp_t\<close>.\<close>

definition table_f2elm :: "u64 list \<Rightarrow> nat \<Rightarrow> f2elm" where
  "table_f2elm T i = ((T ! i, T ! (i + 1)), (T ! (i + 2), T ! (i + 3)))"

definition table_point :: "u64 list \<Rightarrow> nat \<Rightarrow> point_precomp" where
  "table_point T d =
     \<lparr>pxy = table_f2elm T (12 * d), pyx = table_f2elm T (12 * d + 4),
      pt2 = table_f2elm T (12 * d + 8)\<rparr>"

section \<open>Arithmetic modulo the curve order\<close>

definition CURVE_ORDER_0 :: u64 where "CURVE_ORDER_0 = 0x2FB2540EC7768CE7"
definition CURVE_ORDER_1 :: u64 where "CURVE_ORDER_1 = 0xDFBD004DFE0F7999"
definition CURVE_ORDER_2 :: u64 where "CURVE_ORDER_2 = 0xF05397829CBC14E5"
definition CURVE_ORDER_3 :: u64 where "CURVE_ORDER_3 = 0x0029CBC14E5E0A72"
definition MONTGOMERY_SMALL_R_PRIME_0 :: u64 where
  "MONTGOMERY_SMALL_R_PRIME_0 = 0xE12FE5F079BC3929"
definition MONTGOMERY_SMALL_R_PRIME_1 :: u64 where
  "MONTGOMERY_SMALL_R_PRIME_1 = 0xD75E78B8D1FCDCF3"
definition MONTGOMERY_SMALL_R_PRIME_2 :: u64 where
  "MONTGOMERY_SMALL_R_PRIME_2 = 0xBCE409ED76B5DB21"
definition MONTGOMERY_SMALL_R_PRIME_3 :: u64 where
  "MONTGOMERY_SMALL_R_PRIME_3 = 0xF32702FDAFC1C074"

definition curve_order :: u256 where
  "curve_order = (CURVE_ORDER_0, CURVE_ORDER_1, CURVE_ORDER_2, CURVE_ORDER_3)"
definition Montgomery_Rprime :: u256 where
  "Montgomery_Rprime =
     (0xC81DB8795FF3D621, 0x173EA5AAEA6B387D, 0x3D01B7C72136F61C, 0x0006A5F16AC8F9D3)"

text \<open>
  The array \<^verbatim>\<open>ONE\<close> is passed both as an element of the quadratic extension and, to
  \<^verbatim>\<open>Montgomery_multiply_mod_order\<close>, as four words.
\<close>

definition u256_of_f2elm :: "f2elm \<Rightarrow> u256" where
  "u256_of_f2elm a = (let ((a00, a01), (a10, a11)) = a in (a00, a01, a10, a11))"

type_synonym u512 = "u64 \<times> u64 \<times> u64 \<times> u64 \<times> u64 \<times> u64 \<times> u64 \<times> u64"

text \<open>
  \<^verbatim>\<open>multiply\<close> (line 1285): the 512-bit product of two 256-bit numbers. In a sum such as
  \<^verbatim>\<open>_addcarry_u64(0, _umul128(a[0], b[1], &uv), u, &c[1]) + uv\<close> the call stores \<open>uv\<close> and
  the right operand reads it; the operands are taken left to right, so the read sees the
  stored value. The same holds for the last summand of \<open>c[5]\<close>, \<open>c[6]\<close>, \<open>c[7]\<close>, which reads
  the \<open>v\<close> stored by the first.
\<close>

definition multiply :: "arch \<Rightarrow> u256 \<Rightarrow> u256 \<Rightarrow> u512" where
  "multiply t a b =
     (let (a0, a1, a2, a3) = a; (b0, b1, b2, b3) = b;
          (c0, u) = umul128 a0 b0;
          (lo, uv) = umul128 a0 b1;
          (k, c1) = addcarry_u64 t 0 lo u;
          u = ucast k + uv;
          (lo, uv) = umul128 a0 b2;
          (k, c2) = addcarry_u64 t 0 lo u;
          u = ucast k + uv;
          (lo, uv) = umul128 a0 b3;
          (k, c3) = addcarry_u64 t 0 lo u;
          c4 = ucast k + uv;

          (lo, uv) = umul128 a1 b0;
          (k, c1) = addcarry_u64 t 0 c1 lo;
          u = ucast k + uv;
          (lo, uv) = umul128 a1 b1;
          (k, v) = addcarry_u64 t 0 lo u;
          u = ucast k + uv;
          (k, c2) = addcarry_u64 t 0 c2 v;
          (lo, uv) = umul128 a1 b2;
          (k, v) = addcarry_u64 t k lo u;
          u = ucast k + uv;
          (k, c3) = addcarry_u64 t 0 c3 v;
          (lo, uv) = umul128 a1 b3;
          (k, v) = addcarry_u64 t k lo u;
          (k', c4) = addcarry_u64 t 0 c4 v;
          c5 = ucast k + uv + ucast k';

          (lo, uv) = umul128 a2 b0;
          (k, c2) = addcarry_u64 t 0 c2 lo;
          u = ucast k + uv;
          (lo, uv) = umul128 a2 b1;
          (k, v) = addcarry_u64 t 0 lo u;
          u = ucast k + uv;
          (k, c3) = addcarry_u64 t 0 c3 v;
          (lo, uv) = umul128 a2 b2;
          (k, v) = addcarry_u64 t k lo u;
          u = ucast k + uv;
          (k, c4) = addcarry_u64 t 0 c4 v;
          (lo, uv) = umul128 a2 b3;
          (k, v) = addcarry_u64 t k lo u;
          (k', c5) = addcarry_u64 t 0 c5 v;
          c6 = ucast k + uv + ucast k';

          (lo, uv) = umul128 a3 b0;
          (k, c3) = addcarry_u64 t 0 c3 lo;
          u = ucast k + uv;
          (lo, uv) = umul128 a3 b1;
          (k, v) = addcarry_u64 t 0 lo u;
          u = ucast k + uv;
          (k, c4) = addcarry_u64 t 0 c4 v;
          (lo, uv) = umul128 a3 b2;
          (k, v) = addcarry_u64 t k lo u;
          u = ucast k + uv;
          (k, c5) = addcarry_u64 t 0 c5 v;
          (lo, uv) = umul128 a3 b3;
          (k, v) = addcarry_u64 t k lo u;
          (k', c6) = addcarry_u64 t 0 c6 v;
          c7 = ucast k + uv + ucast k'
      in (c0, c1, c2, c3, c4, c5, c6, c7))"

text \<open>
  \<^verbatim>\<open>Montgomery_multiply_mod_order\<close> (line 1310). The product \<open>P\<close> is a local array, so
  the result may be stored over an operand, as the callers do. In the condition of the last
  \<^verbatim>\<open>if\<close> the chain of eight additions (which stores \<open>temp[0..7]\<close>) is the left operand of
  the subtraction and the chain of four subtractions (which reads \<open>temp[4..7]\<close> and stores
  \<open>mc\<close>) the right one; they are taken left to right. Both return \<^verbatim>\<open>unsigned char\<close>,
  and the difference is computed in \<^verbatim>\<open>int\<close>.
\<close>

definition Montgomery_multiply_mod_order :: "arch \<Rightarrow> u256 \<Rightarrow> u256 \<Rightarrow> u256" where
  "Montgomery_multiply_mod_order t ma mb =
     (let (P0, P1, P2, P3, P4, P5, P6, P7) =
            (if mb = (1, 0, 0, 0)
             then (let (ma0, ma1, ma2, ma3) = ma in (ma0, ma1, ma2, ma3, 0, 0, 0, 0))
             else multiply t ma mb);
          (Q0, u) = umul128 P0 MONTGOMERY_SMALL_R_PRIME_0;
          (lo, uv) = umul128 P0 MONTGOMERY_SMALL_R_PRIME_1;
          (k, Q1) = addcarry_u64 t 0 lo u;
          u = ucast k + uv;
          (lo, uv) = umul128 P0 MONTGOMERY_SMALL_R_PRIME_2;
          (k, Q2) = addcarry_u64 t 0 lo u;
          u = ucast k + uv;
          (k, Q3) = addcarry_u64 t 0 (P0 * MONTGOMERY_SMALL_R_PRIME_3) u;
          (lo, uv) = umul128 P1 MONTGOMERY_SMALL_R_PRIME_0;
          (k, Q1) = addcarry_u64 t 0 Q1 lo;
          u = ucast k + uv;
          (lo, uv) = umul128 P1 MONTGOMERY_SMALL_R_PRIME_1;
          (k, v) = addcarry_u64 t 0 lo u;
          u = ucast k + uv;
          (k, Q2) = addcarry_u64 t 0 Q2 v;
          (k, v) = addcarry_u64 t k (P1 * MONTGOMERY_SMALL_R_PRIME_2) u;
          (k, Q3) = addcarry_u64 t 0 Q3 v;
          (lo, uv) = umul128 P2 MONTGOMERY_SMALL_R_PRIME_0;
          (k, Q2) = addcarry_u64 t 0 Q2 lo;
          u = ucast k + uv;
          (k, v) = addcarry_u64 t 0 (P2 * MONTGOMERY_SMALL_R_PRIME_1) u;
          (k, Q3) = addcarry_u64 t 0 Q3 v;
          (k, Q3) = addcarry_u64 t 0 Q3 (P3 * MONTGOMERY_SMALL_R_PRIME_0);
          (t0, t1, t2, t3, t4, t5, t6, t7) = multiply t (Q0, Q1, Q2, Q3) curve_order;
          (k, t0) = addcarry_u64 t 0 P0 t0;
          (k, t1) = addcarry_u64 t k P1 t1;
          (k, t2) = addcarry_u64 t k P2 t2;
          (k, t3) = addcarry_u64 t k P3 t3;
          (k, t4) = addcarry_u64 t k P4 t4;
          (k, t5) = addcarry_u64 t k P5 t5;
          (k, t6) = addcarry_u64 t k P6 t6;
          (k, t7) = addcarry_u64 t k P7 t7;
          (b, mc0) = subborrow_u64 t 0 t4 CURVE_ORDER_0;
          (b, mc1) = subborrow_u64 t b t5 CURVE_ORDER_1;
          (b, mc2) = subborrow_u64 t b t6 CURVE_ORDER_2;
          (b, mc3) = subborrow_u64 t b t7 CURVE_ORDER_3
      in if uint k - uint b \<noteq> 0
         then (let (k, mc0) = addcarry_u64 t 0 mc0 CURVE_ORDER_0;
                   (k, mc1) = addcarry_u64 t k mc1 CURVE_ORDER_1;
                   (k, mc2) = addcarry_u64 t k mc2 CURVE_ORDER_2;
                   (k, mc3) = addcarry_u64 t k mc3 CURVE_ORDER_3
               in (mc0, mc1, mc2, mc3))
         else (mc0, mc1, mc2, mc3))"

section \<open>Fixed-base scalar multiplication\<close>

type_synonym u32 = "32 word"

text \<open>
  \<^verbatim>\<open>table_lookup_fixed_base\<close> (line 1266): entry \<open>digit\<close> of \<^verbatim>\<open>FIXED_BASE_TABLE\<close>, negated
  when \<open>sign\<close> is not zero (the two sums are exchanged and \<open>t2\<close> is complemented word by
  word).
\<close>

definition table_lookup_fixed_base :: "u32 \<Rightarrow> u32 \<Rightarrow> point_precomp" where
  "table_lookup_fixed_base digit sign =
     (let E = table_point FIXED_BASE_TABLE (unat digit)
      in if sign \<noteq> 0
         then (let ((t00, t01), (t10, t11)) = pt2 E
               in \<lparr>pxy = pyx E, pyx = pxy E,
                   pt2 = ((NOT t00, 0x7FFFFFFFFFFFFFFF - t01),
                          (NOT t10, 0x7FFFFFFFFFFFFFFF - t11))\<rparr>)
         else \<lparr>pxy = pxy E, pyx = pyx E, pt2 = pt2 E\<rparr>)"

text \<open>The four-word shift to the right by one bit that \<^verbatim>\<open>ecc_mul_fixed\<close> repeats.\<close>

definition shr1_u256 :: "u256 \<Rightarrow> u256" where
  "shr1_u256 s =
     (let (s0, s1, s2, s3) = s
      in (shiftright128 s0 s1 1, shiftright128 s1 s2 1, shiftright128 s2 s3 1, drop_bit 1 s3))"

text \<open>
  The recoding loops of \<^verbatim>\<open>ecc_mul_fixed\<close> (lines 1514-1545) on the pair of the scalar
  and the array \<^verbatim>\<open>unsigned int digits[250]\<close>. The first loop (\<open>i < 49\<close>) stores the sign row,
  \<open>0xFFFFFFFF\<close> or 0; the second (\<open>50 \<le> i < 250\<close>) stores a bit and adds the correction
  \<open>temp\<close>, computed in 32 bits and widened, with the carry propagated by hand.
\<close>

definition sign_digit_step :: "nat \<Rightarrow> u256 \<times> u32 list \<Rightarrow> u256 \<times> u32 list" where
  "sign_digit_step i sd =
     (let (scalar, digits) = sd;
          (s0, s1, s2, s3) = scalar;
          digits = digits[i := ucast ((s0 AND 1) - 1)]
      in (shr1_u256 scalar, digits))"

definition value_digit_step :: "nat \<Rightarrow> u256 \<times> u32 list \<Rightarrow> u256 \<times> u32 list" where
  "value_digit_step i sd =
     (let (scalar, digits) = sd;
          (s0, s1, s2, s3) = scalar;
          digits = digits[i := ucast (s0 AND 1)];
          (s0, s1, s2, s3) = shr1_u256 scalar;
          temp = (ucast ((0 - digits ! (i - (i div 50) * 50)) AND digits ! i) :: u64);
          s0 = s0 + temp;
          carry = (if s0 \<noteq> 0 then 0 else temp AND 1);
          s1 = s1 + carry;
          carry = (if s1 \<noteq> 0 then 0 else carry AND 1);
          s2 = s2 + carry;
          s3 = s3 + (if s2 \<noteq> 0 then 0 else carry AND 1)
      in ((s0, s1, s2, s3), digits))"

text \<open>
  The table index \<^verbatim>\<open>base + (((((digits[j+150] << 1) + digits[j+100]) << 1) + digits[j+50]) << 1) + digits[j]\<close>,
  in \<^verbatim>\<open>unsigned int\<close>.
\<close>

definition fixed_index :: "u32 list \<Rightarrow> u32 \<Rightarrow> nat \<Rightarrow> u32" where
  "fixed_index digits base j =
     base + push_bit 1 (push_bit 1 (push_bit 1 (digits ! (j + 150)) + digits ! (j + 100))
                         + digits ! (j + 50))
          + digits ! j"

text \<open>
  One \<^verbatim>\<open>table_lookup_fixed_base\<close> followed by \<^verbatim>\<open>eccmadd\<close>. The source writes the fifty
  lookups out; in round \<open>v\<close> (9 down to 0) the lookup of row \<open>r\<close> (4 down to 0) has base
  \<open>16 r\<close>, lowest digit \<open>50 + 10 r + v\<close> and sign digit \<open>10 r + v\<close>.
\<close>

definition lookup_madd :: "arch \<Rightarrow> u32 list \<Rightarrow> nat \<Rightarrow> nat \<Rightarrow> point_extproj \<Rightarrow> point_extproj" where
  "lookup_madd t digits v r R =
     eccmadd t (table_lookup_fixed_base (fixed_index digits (of_nat (16 * r)) (50 + 10 * r + v))
                  (digits ! (10 * r + v))) R"

definition fixed_round :: "arch \<Rightarrow> u32 list \<Rightarrow> nat \<Rightarrow> point_extproj \<Rightarrow> point_extproj" where
  "fixed_round t digits v R = fold (lookup_madd t digits v) [4, 3, 2, 1, 0] (eccdouble t R)"

text \<open>
  \<^verbatim>\<open>ecc_mul_fixed\<close> (line 1489). The scalar is first reduced modulo the order by two
  Montgomery multiplications and made odd by adding the order. The first lookup
  (index \<open>64 + \<dots>\<close>, sign 0) is converted to extended coordinates and starts the
  accumulator; the four other lookups of round 9 follow without a doubling, then the rounds 8
  down to 0.
\<close>

definition ecc_mul_fixed :: "arch \<Rightarrow> u256 \<Rightarrow> point_affine" where
  "ecc_mul_fixed t k =
     (let scalar = Montgomery_multiply_mod_order t k Montgomery_Rprime;
          scalar = Montgomery_multiply_mod_order t scalar (u256_of_f2elm ONE);
          (s0, s1, s2, s3) = scalar;
          scalar = (if s0 AND 1 = 0
                    then (let (carry, s0) = addcarry_u64 t 0 s0 CURVE_ORDER_0;
                              (carry, s1) = addcarry_u64 t carry s1 CURVE_ORDER_1;
                              (carry, s2) = addcarry_u64 t carry s2 CURVE_ORDER_2;
                              (carry, s3) = addcarry_u64 t carry s3 CURVE_ORDER_3
                          in (s0, s1, s2, s3))
                    else scalar);
          scalar = shr1_u256 scalar;
          (scalar, digits) = fold sign_digit_step [0..<49] (scalar, replicate 250 0);
          digits = digits[49 := 0];
          (scalar, digits) = fold value_digit_step [50..<250] (scalar, digits);
          S = table_lookup_fixed_base (fixed_index digits 64 99) 0;
          Rx = fp2div1271 t (fp2sub1271 t (pxy S) (pyx S));
          Ry = fp2div1271 t (fp2add1271 t (pxy S) (pyx S));
          R = \<lparr>ex = Rx, ey = Ry, ez = ((1, 0), (0, 0)), eta = Rx, etb = Ry\<rparr>;
          R = fold (lookup_madd t digits 9) [3, 2, 1, 0] R;
          R = fold (fixed_round t digits) [8, 7, 6, 5, 4, 3, 2, 1, 0] R
      in eccnorm t R)"

section \<open>Endomorphisms\<close>

text \<open>
  \<^verbatim>\<open>ecc_tau\<close>, \<^verbatim>\<open>ecc_tau_dual\<close>, \<^verbatim>\<open>ecc_delphidel\<close> and \<^verbatim>\<open>ecc_delpsidel\<close>
  (lines 1679-1783) update the point in place, statement by statement; each binding below is
  one statement of the source, with \<open>X\<close>, \<open>Y\<close>, \<open>Z\<close>, \<open>Ta\<close>, \<open>Tb\<close> for the fields of \<open>P\<close>.
  The field functions read their operands before they store the result, so a result stored
  over an operand is the plain value.
\<close>

definition ecc_tau :: "arch \<Rightarrow> point_extproj \<Rightarrow> point_extproj" where
  "ecc_tau t P =
     (let X = ex P; Y = ey P; Z = ez P; Ta = eta P; Tb = etb P;
          t0 = fp2sqr1271 t X;
          t1 = fp2sqr1271 t Y;
          X = fp2mul1271 t X Y;
          Y = fp2sqr1271 t Z;
          Z = fp2add1271 t t0 t1;
          t0 = fp2sub1271 t t1 t0;
          Y = fp2add1271 t Y Y;
          X = fp2mul1271 t X t0;
          Y = fp2sub1271 t Y t0;
          X = fp2mul1271 t X ctau1;
          Y = fp2mul1271 t Y Z;
          Z = fp2mul1271 t Z t0
      in \<lparr>ex = X, ey = Y, ez = Z, eta = Ta, etb = Tb\<rparr>)"

definition ecc_tau_dual :: "arch \<Rightarrow> point_extproj \<Rightarrow> point_extproj" where
  "ecc_tau_dual t P =
     (let X = ex P; Y = ey P; Z = ez P; Ta = eta P; Tb = etb P;
          t0 = fp2sqr1271 t X;
          Ta = fp2sqr1271 t Z;
          t1 = fp2sqr1271 t Y;
          Z = fp2add1271 t Ta Ta;
          Ta = fp2sub1271 t t1 t0;
          t0 = fp2add1271 t t0 t1;
          X = fp2mul1271 t X Y;
          Z = fp2sub1271 t Z Ta;
          Tb = fp2mul1271 t X ctaudual1;
          Y = fp2mul1271 t Z Ta;
          X = fp2mul1271 t Tb t0;
          Z = fp2mul1271 t Z t0
      in \<lparr>ex = X, ey = Y, ez = Z, eta = Ta, etb = Tb\<rparr>)"

definition ecc_delphidel :: "arch \<Rightarrow> point_extproj \<Rightarrow> point_extproj" where
  "ecc_delphidel t P =
     (let X = ex P; Y = ey P; Z = ez P; Ta = eta P; Tb = etb P;
          t4 = fp2sqr1271 t Z;
          t3 = fp2mul1271 t Y Z;
          t0 = fp2mul1271 t t4 cphi4;
          t2 = fp2sqr1271 t Y;
          t0 = fp2add1271 t t0 t2;
          t1 = fp2mul1271 t t3 cphi3;
          t5 = fp2sub1271 t t0 t1;
          t0 = fp2add1271 t t0 t1;
          t0 = fp2mul1271 t t0 Z;
          t1 = fp2mul1271 t t3 cphi1;
          t0 = fp2mul1271 t t0 t5;
          t5 = fp2mul1271 t t4 cphi2;
          t5 = fp2add1271 t t2 t5;
          t6 = fp2sub1271 t t1 t5;
          t1 = fp2add1271 t t1 t5;
          t6 = fp2mul1271 t t6 t1;
          t6 = fp2mul1271 t t6 cphi0;
          X = fp2mul1271 t X t6;
          t6 = fp2sqr1271 t t2;
          t2 = fp2sqr1271 t t3;
          t3 = fp2sqr1271 t t4;
          t1 = fp2mul1271 t t2 cphi8;
          t5 = fp2mul1271 t t3 cphi9;
          t1 = fp2add1271 t t1 t6;
          t2 = fp2mul1271 t t2 cphi6;
          t3 = fp2mul1271 t t3 cphi7;
          t1 = fp2add1271 t t1 t5;
          t2 = fp2add1271 t t2 t3;
          t1 = fp2mul1271 t t1 Y;
          Y = fp2add1271 t t6 t2;
          X = fp2mul1271 t X t1;
          Y = fp2mul1271 t Y cphi5;
          X = (fst X, fpneg1271 (snd X));
          Y = fp2mul1271 t Y Z;
          Z = fp2mul1271 t t0 t1;
          Y = fp2mul1271 t Y t0;
          Z = (fst Z, fpneg1271 (snd Z));
          Y = (fst Y, fpneg1271 (snd Y))
      in \<lparr>ex = X, ey = Y, ez = Z, eta = Ta, etb = Tb\<rparr>)"

definition ecc_delpsidel :: "arch \<Rightarrow> point_extproj \<Rightarrow> point_extproj" where
  "ecc_delpsidel t P =
     (let X = ex P; Y = ey P; Z = ez P; Ta = eta P; Tb = etb P;
          X = (fst X, fpneg1271 (snd X));
          Z = (fst Z, fpneg1271 (snd Z));
          Y = (fst Y, fpneg1271 (snd Y));
          t2 = fp2sqr1271 t Z;
          t0 = fp2sqr1271 t X;
          X = fp2mul1271 t X t2;
          Z = fp2mul1271 t t2 cpsi2;
          t1 = fp2mul1271 t t2 cpsi3;
          t2 = fp2mul1271 t t2 cpsi4;
          Z = fp2add1271 t t0 Z;
          t2 = fp2add1271 t t0 t2;
          t1 = fp2add1271 t t0 t1;
          t2 = fp2neg1271 t2;
          Z = fp2mul1271 t Z Y;
          X = fp2mul1271 t X t2;
          Y = fp2mul1271 t t1 Z;
          X = fp2mul1271 t X cpsi1;
          Z = fp2mul1271 t Z t2
      in \<lparr>ex = X, ey = Y, ez = Z, eta = Ta, etb = Tb\<rparr>)"

definition ecc_psi :: "arch \<Rightarrow> point_extproj \<Rightarrow> point_extproj" where
  "ecc_psi t P = ecc_tau_dual t (ecc_delpsidel t (ecc_tau t P))"

definition ecc_phi :: "arch \<Rightarrow> point_extproj \<Rightarrow> point_extproj" where
  "ecc_phi t P = ecc_tau_dual t (ecc_delphidel t (ecc_tau t P))"

definition eccneg_extproj_precomp :: "point_extproj_precomp \<Rightarrow> point_extproj_precomp" where
  "eccneg_extproj_precomp P =
     \<lparr>rxy = ryx P, ryx = rxy P, rz2 = rz2 P, rt2 = fp2neg1271 (rt2 P)\<rparr>"

definition eccneg_precomp :: "point_precomp \<Rightarrow> point_precomp" where
  "eccneg_precomp P = \<lparr>pxy = pyx P, pyx = pxy P, pt2 = fp2neg1271 (pt2 P)\<rparr>"

section \<open>Double-scalar multiplication\<close>

text \<open>
  \<^verbatim>\<open>wNAF_recode\<close> (line 1861). The digits are \<^verbatim>\<open>char\<close>, taken as signed 8-bit on
  both targets (as on x86-64 and with \<^verbatim>\<open>-fsigned-char\<close>; the value stored is the low byte
  of the \<^verbatim>\<open>int\<close> \<open>digit\<close>, which stays within \<open>-128 .. 255\<close>). The digits decide which
  points are added, not whether \<^verbatim>\<open>ecc_mul_double\<close> succeeds. The loop runs while the scalar is not zero. It is called with \<open>w = 8\<close> and
  \<open>w = 4\<close> only; for \<open>w < 2\<close> the loop of the source need not end (\<open>w = 1\<close>, scalar 1), and the
  model stops at once there. A store at an index past the end of the array is dropped by
  the list update.
\<close>

definition zero_run :: "u8 list \<Rightarrow> nat \<Rightarrow> nat \<Rightarrow> u8 list" where
  "zero_run digits index n = fold (\<lambda>i ds. ds[index + 1 + i := 0]) [0..<n] digits"

function wNAF_loop :: "nat \<Rightarrow> u64 \<Rightarrow> nat \<Rightarrow> u8 list \<Rightarrow> nat \<times> u8 list" where
  "wNAF_loop w scalar index digits =
     (if scalar = 0 \<or> w < 2 then (index, digits)
      else if scalar AND 1 = 0
      then wNAF_loop w (drop_bit 1 scalar) (index + 1) (digits[index := 0])
      else (let val1 = (2 ^ (w - 1) - 1 :: int);
                val2 = (2 ^ w :: int);
                digit = uint (scalar AND (of_int val2 - 1));
                scalar = drop_bit w scalar;
                digit = (if digit > val1 then digit - val2 else digit);
                scalar = (if digit < 0 then scalar + 1 else scalar);
                digits = digits[index := of_int digit];
                (index, digits) =
                  (if scalar \<noteq> 0 then (index + (w - 1), zero_run digits index (w - 1))
                   else (index, digits))
            in wNAF_loop w scalar (index + 1) digits))"
  by pat_completeness auto

lemma unat_drop_bit_div: "unat (drop_bit n (x :: u64)) = unat x div 2 ^ n"
  by (simp only: unat_drop_bit_eq) (simp only: drop_bit_eq_div)

lemma wNAF_even_decreases:
  "scalar \<noteq> 0 \<Longrightarrow> unat (drop_bit 1 (scalar :: u64)) < unat scalar"
proof -
  assume "scalar \<noteq> 0"
  then have "unat scalar \<noteq> 0" by (simp add: unat_eq_zero)
  then show ?thesis by (simp only: unat_drop_bit_div) simp
qed

lemma wNAF_mask: "(of_int (2 ^ w) - 1 :: u64) = mask w"
  by (simp add: mask_eq_decr_exp)

lemma wNAF_low: "uint ((scalar :: u64) AND mask w) = uint scalar mod 2 ^ w"
  by (simp only: take_bit_eq_mask [symmetric] unsigned_take_bit_eq) (simp only: take_bit_eq_mod)

lemma wNAF_odd_decreases:
  assumes "scalar \<noteq> 0" and "2 \<le> w"
  shows "unat (if (if (2 ^ (w - 1) - 1 :: int) < uint (scalar AND (of_int (2 ^ w) - 1))
                   then uint (scalar AND (of_int (2 ^ w) - 1)) - 2 ^ w
                   else uint (scalar AND (of_int (2 ^ w) - 1))) < 0
               then drop_bit w scalar + 1 else drop_bit w (scalar :: u64)) < unat scalar"
proof -
  define n where "n = unat scalar"
  define q where "q = n div 2 ^ w"
  define r where "r = n mod 2 ^ w"
  have n: "n = 2 ^ w * q + r" by (simp add: q_def r_def)
  have n0: "0 < n" using assms(1) by (simp add: n_def unat_gt_0)
  have d: "unat (drop_bit w scalar) = q"
    by (simp only: unat_drop_bit_div q_def n_def)
  obtain v where w: "w = Suc (Suc v)" using assms(2)
    by (cases w; cases "w - 1") simp_all
  have w2: "(2::nat) \<le> 2 ^ w" by (simp add: w)
  have w1: "(2::nat) \<le> 2 ^ (w - 1)" by (simp add: w)
  have lo: "uint (scalar AND (of_int (2 ^ w) - 1)) = int r"
    by (simp only: wNAF_mask wNAF_low) (simp add: r_def n_def zmod_int)
  show ?thesis
  proof (cases "(2 ^ (w - 1) - 1 :: int) < int r")
    case True
    have rlt: "r < 2 ^ w" by (simp add: r_def)
    then have "int r < 2 ^ w" by (metis of_nat_less_iff of_nat_numeral of_nat_power)
    then have neg: "int r - 2 ^ w < 0" by simp
    have "unat (drop_bit w scalar + 1) \<le> unat (drop_bit w scalar) + unat (1 :: u64)"
      by (simp only: unat_word_ariths(1)) (rule mod_less_eq_dividend)
    then have le: "unat (drop_bit w scalar + 1) \<le> q + 1" using d by simp
    have "(2 ^ (w - 1) :: int) \<le> int r" using True by arith
    then have "int (2 ^ (w - 1)) \<le> int r" by (simp only: of_nat_power of_nat_numeral)
    then have r: "2 ^ (w - 1) \<le> r" by (simp only: of_nat_le_iff)
    have "q \<le> 2 ^ w * q" by simp
    then have "q + 1 < n" using r w1 n by arith
    then have "unat (drop_bit w scalar + 1) < unat scalar" using le by (simp add: n_def)
    then show ?thesis using lo True neg by simp
  next
    case False
    have "q < n" using n0 w2 by (simp add: q_def)
    then show ?thesis using False lo d by (simp add: n_def)
  qed
qed

termination wNAF_loop
proof (relation "measure (\<lambda>(w, scalar, index, digits). unat scalar)", goal_cases)
  case 1
  show ?case by simp
next
  case (2 w scalar index digits)
  then show ?case using wNAF_even_decreases [of scalar] by simp
next
  case (3 w scalar index digits val1 val2 digit scalar' digit' scalar'' digits' xx index' digits'')
  have "scalar \<noteq> 0" and "2 \<le> w" using 3(1) by simp_all
  from wNAF_odd_decreases [OF this] show ?case
    unfolding 3(3-) by simp
qed

declare wNAF_loop.simps [simp del]

text \<open>
  The digits start as an array of 65 bytes; the loop stores the digits up to \<open>index\<close>, and
  \<^verbatim>\<open>memset(&digits[index], 0, 65 - index)\<close> clears the rest.
\<close>

definition wNAF_recode :: "u64 \<Rightarrow> nat \<Rightarrow> u8 list" where
  "wNAF_recode scalar w =
     (let (index, digits) = wNAF_loop w scalar 0 (replicate 65 0)
      in take index digits @ replicate (65 - index) 0)"

text \<open>
  \<^verbatim>\<open>ecc_precomp_double\<close> (line 1906): the table \<open>P, 3P, 5P, 7P\<close>. The call
  \<^verbatim>\<open>eccdouble(P)\<close> doubles the caller's point in place; the caller does not read it again.
\<close>

definition ecc_precomp_double :: "arch \<Rightarrow> point_extproj \<Rightarrow> point_extproj_precomp list" where
  "ecc_precomp_double t P =
     (let T0 = R1_to_R2 t P;
          P = eccdouble t P;
          PP = R1_to_R3 t P;
          Q = eccadd_core t T0 PP;
          T1 = R1_to_R2 t Q;
          Q = eccadd_core t T1 PP;
          T2 = R1_to_R2 t Q;
          Q = eccadd_core t T2 PP;
          T3 = R1_to_R2 t Q
      in [T0, T1, T2, T3])"

text \<open>
  One digit of the second scalar (table of the point, \<^verbatim>\<open>eccadd\<close>) and one digit of the
  first (\<^verbatim>\<open>DOUBLE_SCALAR_TABLE\<close> from entry \<open>base\<close> on, \<^verbatim>\<open>eccmadd\<close>). The digit is
  promoted to \<^verbatim>\<open>int\<close>; \<^verbatim>\<open>(-d) >> 1\<close> and \<^verbatim>\<open>d >> 1\<close> are then halvings of a positive
  number.
\<close>

definition add_digit_l ::
  "arch \<Rightarrow> point_extproj_precomp list \<Rightarrow> u8 \<Rightarrow> point_extproj \<Rightarrow> point_extproj" where
  "add_digit_l t Q_table d T =
     (if sint d < 0
      then eccadd t (eccneg_extproj_precomp (Q_table ! nat ((- sint d) div 2))) T
      else if sint d > 0 then eccadd t (Q_table ! nat (sint d div 2)) T
      else T)"

definition add_digit_k :: "arch \<Rightarrow> nat \<Rightarrow> u8 \<Rightarrow> point_extproj \<Rightarrow> point_extproj" where
  "add_digit_k t base d T =
     (if sint d < 0
      then eccmadd t (eccneg_precomp
                        (table_point DOUBLE_SCALAR_TABLE (base + nat ((- sint d) div 2)))) T
      else if sint d > 0
      then eccmadd t (table_point DOUBLE_SCALAR_TABLE (base + nat (sint d div 2))) T
      else T)"

text \<open>
  \<^verbatim>\<open>ecc_mul_double\<close> (line 1925) returns \<^verbatim>\<open>false\<close> or stores the result over \<open>Q\<close> and
  returns \<^verbatim>\<open>true\<close>: \<open>None\<close> or \<open>Some\<close> of the result. The accumulator \<open>T\<close> starts with
  \<open>x = 0\<close>, \<open>y = 1\<close>, \<open>z = 1\<close>; its \<open>ta\<close> and \<open>tb\<close> are not initialised, and the first
  \<^verbatim>\<open>eccdouble\<close> stores them without reading them. The loop runs \<open>i\<close> from 64 down to 0.
\<close>

definition ecc_mul_double :: "arch \<Rightarrow> u256 \<Rightarrow> u256 \<Rightarrow> point_affine \<Rightarrow> point_affine option" where
  "ecc_mul_double t k l Q =
     (let Q1 = point_setup Q
      in if \<not> ecc_point_validate t Q1 then None
         else (let Q2 = ecc_phi t Q1;
                   Q3 = ecc_psi t Q1;
                   Q4 = ecc_psi t Q2;
                   (k1, k2, k3, k4) = decompose t k;
                   (l1, l2, l3, l4) = decompose t l;
                   digits_k1 = wNAF_recode k1 8;
                   digits_k2 = wNAF_recode k2 8;
                   digits_k3 = wNAF_recode k3 8;
                   digits_k4 = wNAF_recode k4 8;
                   digits_l1 = wNAF_recode l1 4;
                   digits_l2 = wNAF_recode l2 4;
                   digits_l3 = wNAF_recode l3 4;
                   digits_l4 = wNAF_recode l4 4;
                   Q_table1 = ecc_precomp_double t Q1;
                   Q_table2 = ecc_precomp_double t Q2;
                   Q_table3 = ecc_precomp_double t Q3;
                   Q_table4 = ecc_precomp_double t Q4;
                   T = \<lparr>ex = ((0, 0), (0, 0)), ey = ((1, 0), (0, 0)), ez = ((1, 0), (0, 0)),
                        eta = ((0, 0), (0, 0)), etb = ((0, 0), (0, 0))\<rparr>;
                   T = fold (\<lambda>i T.
                          (let T = eccdouble t T;
                               T = add_digit_l t Q_table1 (digits_l1 ! i) T;
                               T = add_digit_l t Q_table2 (digits_l2 ! i) T;
                               T = add_digit_l t Q_table3 (digits_l3 ! i) T;
                               T = add_digit_l t Q_table4 (digits_l4 ! i) T;
                               T = add_digit_k t 0 (digits_k1 ! i) T;
                               T = add_digit_k t 64 (digits_k2 ! i) T;
                               T = add_digit_k t (2 * 64) (digits_k3 ! i) T;
                               T = add_digit_k t (3 * 64) (digits_k4 ! i) T
                           in T))
                         (rev [0..<65]) T
               in Some (eccnorm t T)))"

section \<open>SchnorrQ signatures\<close>

text \<open>\<^verbatim>\<open>copy32(dst + off, src)\<close>: 32 bytes of \<open>src\<close> stored into the buffer \<open>dst\<close> at \<open>off\<close>.\<close>

definition copy32 :: "u8 list \<Rightarrow> nat \<Rightarrow> u8 list \<Rightarrow> u8 list" where
  "copy32 dst off src = take off dst @ take 32 src @ drop (off + 32) dst"

text \<open>
  \<^verbatim>\<open>signWithNonceK\<close> (line 2292), first part: up to the second call of
  \<^verbatim>\<open>KangarooTwelve\<close>. The buffer \<open>temp\<close> has 96 bytes; the source does not initialise it,
  and every byte is stored before it is read (the model starts it as zero). The first hash
  reads the 64 bytes from \<open>temp + 32\<close>. The result is the triple of the hash \<open>r\<close> (64 bytes,
  read as words below), the encoded commitment (the first 32 bytes of the signature) and
  \<open>temp\<close> as it stands when the second hash reads all of it.
\<close>

definition signWithNonceK_commit ::
  "arch \<Rightarrow> u8 list \<Rightarrow> u8 list \<Rightarrow> u8 list \<Rightarrow> u8 list \<times> u8 list \<times> u8 list" where
  "signWithNonceK_commit t k publicKey messageDigest =
     (let temp = replicate 96 0;
          temp = copy32 temp 32 (drop 32 k);
          temp = copy32 temp 64 messageDigest;
          r = KangarooTwelve (take 64 (drop 32 temp)) 64;
          R = ecc_mul_fixed t (load_u256 r);
          signature = encode R;
          temp = copy32 temp 0 signature;
          temp = copy32 temp 32 publicKey
      in (r, signature, temp))"

text \<open>The second hash, \<^verbatim>\<open>KangarooTwelve(temp, 32 + 64, h, 64)\<close>: the challenge.\<close>

definition signWithNonceK_challenge :: "arch \<Rightarrow> u8 list \<Rightarrow> u8 list \<Rightarrow> u8 list \<Rightarrow> u8 list" where
  "signWithNonceK_challenge t k publicKey messageDigest =
     (let (r, signature, temp) = signWithNonceK_commit t k publicKey messageDigest
      in KangarooTwelve (take 96 temp) 64)"

text \<open>
  The second part: the Montgomery arithmetic on the first four words of \<open>r\<close>, of the
  challenge \<open>h\<close> and of \<open>k\<close>, and the final subtraction \<open>r - s\<close>, corrected by the order when
  it borrows. The result is the 64-byte signature.
\<close>

definition signWithNonceK :: "arch \<Rightarrow> u8 list \<Rightarrow> u8 list \<Rightarrow> u8 list \<Rightarrow> u8 list" where
  "signWithNonceK t k publicKey messageDigest =
     (let (r, signature, temp) = signWithNonceK_commit t k publicKey messageDigest;
          h = signWithNonceK_challenge t k publicKey messageDigest;
          r = Montgomery_multiply_mod_order t (load_u256 r) Montgomery_Rprime;
          r = Montgomery_multiply_mod_order t r (u256_of_f2elm ONE);
          h = Montgomery_multiply_mod_order t (load_u256 h) Montgomery_Rprime;
          h = Montgomery_multiply_mod_order t h (u256_of_f2elm ONE);
          s = Montgomery_multiply_mod_order t (load_u256 k) Montgomery_Rprime;
          h = Montgomery_multiply_mod_order t h Montgomery_Rprime;
          s = Montgomery_multiply_mod_order t s h;
          s = Montgomery_multiply_mod_order t s (u256_of_f2elm ONE);
          (r0, r1, r2, r3) = r;
          (s0, s1, s2, s3) = s;
          (b, s0) = subborrow_u64 t 0 r0 s0;
          (b, s1) = subborrow_u64 t b r1 s1;
          (b, s2) = subborrow_u64 t b r2 s2;
          (b, s3) = subborrow_u64 t b r3 s3;
          s = (if b \<noteq> 0
               then (let (c, s0) = addcarry_u64 t 0 s0 CURVE_ORDER_0;
                         (c, s1) = addcarry_u64 t c s1 CURVE_ORDER_1;
                         (c, s2) = addcarry_u64 t c s2 CURVE_ORDER_2;
                         (c, s3) = addcarry_u64 t c s3 CURVE_ORDER_3
                     in (s0, s1, s2, s3))
               else (s0, s1, s2, s3))
      in signature @ store_u256 s)"

definition sign :: "arch \<Rightarrow> u8 list \<Rightarrow> u8 list \<Rightarrow> u8 list \<Rightarrow> u8 list" where
  "sign t subseed publicKey messageDigest =
     (let k = KangarooTwelve (take 32 subseed) 64
      in signWithNonceK t k publicKey messageDigest)"

text \<open>
  \<^verbatim>\<open>verify\<close> ends with \<^verbatim>\<open>encode(A, (unsigned char*)A)\<close>: the encoding is stored over
  the point itself. In \<^verbatim>\<open>encode\<close> (line 2189) the two sign candidates are read first,
  then \<^verbatim>\<open>copy32\<close> stores \<open>y\<close> over the bytes of \<open>x\<close>, and only then \<open>x[0]\<close> is tested
  for zero; with the output over the point, that test reads the words of \<open>y[0]\<close>.
\<close>

definition encode_in_place :: "point_affine \<Rightarrow> u8 list" where
  "encode_in_place P =
     (let ((x00, x01), (x10, x11)) = ax P;
          ((y00, y01), (y10, y11)) = ay P;
          temp1 = push_bit 1 (x11 AND 0x4000000000000000);
          temp2 = push_bit 1 (x01 AND 0x4000000000000000);
          w3 = (if y00 = 0 \<and> y01 = 0 then y11 OR temp1 else y11 OR temp2)
      in store_f2elm ((y00, y01), (y10, w3)))"

text \<open>
  \<^verbatim>\<open>verify\<close> (line 2337). To state in which order it works, the model returns, next to
  the result, the calls of the point and hash routines that it has made, in their order.
\<close>

datatype verify_call =
  Call_decode | Call_KangarooTwelve | Call_ecc_mul_double | Call_encode

definition verify_calls ::
  "arch \<Rightarrow> u8 list \<Rightarrow> u8 list \<Rightarrow> u8 list \<Rightarrow> verify_call list \<times> bool" where
  "verify_calls t publicKey messageDigest signature =
     (if publicKey ! 15 AND 0x80 \<noteq> 0 \<or> signature ! 15 AND 0x80 \<noteq> 0
         \<or> signature ! 62 AND 0xC0 \<noteq> 0 \<or> signature ! 63 \<noteq> 0
      then ([], False)
      else (case decode t publicKey of
              None \<Rightarrow> ([Call_decode], False)
            | Some A \<Rightarrow>
                (let temp = replicate 96 0;
                     temp = copy32 temp 0 signature;
                     temp = copy32 temp 32 publicKey;
                     temp = copy32 temp 64 messageDigest;
                     h = KangarooTwelve (take 96 temp) 64
                 in (case ecc_mul_double t (load_u256 (drop 32 signature)) (load_u256 h) A of
                       None \<Rightarrow>
                         ([Call_decode, Call_KangarooTwelve, Call_ecc_mul_double], False)
                     | Some A \<Rightarrow>
                         ([Call_decode, Call_KangarooTwelve, Call_ecc_mul_double, Call_encode],
                          take 32 (encode_in_place A) = take 32 signature)))))"

definition verify :: "arch \<Rightarrow> u8 list \<Rightarrow> u8 list \<Rightarrow> u8 list \<Rightarrow> bool" where
  "verify t publicKey messageDigest signature =
     snd (verify_calls t publicKey messageDigest signature)"

section \<open>Reading words as numbers\<close>

text \<open>The value of a carry or borrow flag, of a two-word field element, and the prime.\<close>

definition cbit :: "u8 \<Rightarrow> nat" where
  "cbit c = (if c = 0 then 0 else 1)"

definition fval :: "felm \<Rightarrow> nat" where
  "fval a = unat (fst a) + 2 ^ 64 * unat (snd a)"

definition p1271 :: nat where
  "p1271 = 2 ^ 127 - 1"

text \<open>Folding the bits from position 127 upwards back onto the low 127 bits.\<close>

definition fold127 :: "nat \<Rightarrow> nat" where
  "fold127 n = n mod 2 ^ 127 + n div 2 ^ 127"

text \<open>
  The statements that \<^verbatim>\<open>fpmul1271\<close> and \<^verbatim>\<open>fpsqr1271\<close> share word for word (lines
  1139-1143 and 1154-1158), from the product of the high words to the final fold; used to
  prove both from one computation.
\<close>

definition fp_tail :: "arch \<Rightarrow> u64 \<Rightarrow> u64 \<Rightarrow> u64 \<Rightarrow> u64 \<Rightarrow> u64 \<Rightarrow> felm" where
  "fp_tail t tt1_0 tt2_0 tt2_1 a1 b1 =
     (let (tt3_0, tt3_1) = umul128 a1 b1;
          tt3_1 = shiftleft128 tt3_0 tt3_1 1;
          (k, tt3_0) = addcarry_u64 t 0 (shiftright128 tt2_0 tt2_1 63) (push_bit 1 tt3_0);
          (k, tt3_1) = addcarry_u64 t k (drop_bit 63 tt2_1) tt3_1;
          (k, tt1_0) = addcarry_u64 t 0 tt1_0 tt3_0;
          (k, tt1_1) = addcarry_u64 t k (tt2_0 AND 0x7FFFFFFFFFFFFFFF) tt3_1;
          (k, c0) = addcarry_u64 t 0 tt1_0 (drop_bit 63 tt1_1);
          (k, c1) = addcarry_u64 t k (tt1_1 AND 0x7FFFFFFFFFFFFFFF) 0
      in (c0, c1))"

text \<open>\<open>frep A x n\<close>: the field element \<open>x\<close> is in [0, p] and represents \<open>A ^ n\<close> modulo p.\<close>

definition frep :: "nat \<Rightarrow> felm \<Rightarrow> nat \<Rightarrow> bool" where
  "frep A x n = (fval x \<le> p1271 \<and> fval x mod p1271 = A ^ n mod p1271)"

text \<open>The two-word field element with a given value.\<close>

definition felm_of :: "nat \<Rightarrow> felm" where
  "felm_of n = (of_nat n, of_nat (n div 2 ^ 64))"

section \<open>Values of words and of the carry primitives\<close>

lemma unat64_lt: "unat (x :: u64) < 18446744073709551616"
  using unsigned_less [of x] by simp

lemma unat64_m1: "unat (- 1 :: u64) = 18446744073709551615"
  by (simp add: unsigned_minus_1_eq_mask mask_eq_exp_minus_1)

lemma cbit_simps [simp]: "cbit 0 = 0" "cbit 1 = 1"
  by (simp_all add: cbit_def)

lemma cbit_le1: "cbit c \<le> 1"
  by (simp add: cbit_def)

lemma ucast_up: "unat (ucast (x :: u64) :: 128 word) = unat x"
  by (simp add: unsigned_ucast_eq take_bit_eq_mod) (use unat64_lt [of x] in simp)

lemma ucast_down: "unat (ucast (x :: 128 word) :: u64) = unat x mod 2 ^ 64"
  by (simp add: unsigned_ucast_eq take_bit_eq_mod)

lemma unat_push_bit128: "unat (push_bit n (x :: 128 word)) = (unat x * 2 ^ n) mod 2 ^ 128"
  by (simp only: unsigned_push_bit_eq take_bit_nat_def push_bit_nat_def) simp

lemma cat128:
  "unat (push_bit 64 (ucast (hi :: u64) :: 128 word) OR ucast (lo :: u64)) = 2 ^ 64 * unat hi + unat lo"
proof -
  have "push_bit 64 (ucast hi :: 128 word) OR ucast lo = push_bit 64 (ucast hi :: 128 word) + ucast lo"
    by (rule disjunctive_add [symmetric]) (auto simp: bit_simps dest: bit_imp_le_length)
  moreover have "unat (push_bit 64 (ucast hi :: 128 word)) = 2 ^ 64 * unat hi"
    using unat64_lt [of hi] by (simp only: unat_push_bit128 ucast_up) simp
  ultimately show ?thesis
    using unat64_lt [of hi] unat64_lt [of lo] by (simp add: unat_word_ariths ucast_up)
qed

lemma umul128_nat:
  assumes "umul128 a b = (lo, hi)"
  shows "unat lo = (unat a * unat b) mod 2 ^ 64" and "unat hi = (unat a * unat b) div 2 ^ 64"
proof -
  define v where "v = (ucast a :: 128 word) * ucast b"
  have lt: "unat a * unat b < 2 ^ 64 * 2 ^ 64"
    using unat64_lt [of a] unat64_lt [of b] by (intro mult_strict_mono) simp_all
  then have v: "unat v = unat a * unat b"
    by (simp add: v_def unat_word_ariths ucast_up)
  have lo: "lo = ucast v" and hi: "hi = ucast (drop_bit 64 v)"
    using assms by (simp_all add: umul128_def Let_def v_def)
  show "unat lo = (unat a * unat b) mod 2 ^ 64" by (simp add: lo ucast_down v)
  have "unat a * unat b div 2 ^ 64 < 2 ^ 64"
    using lt by (simp add: less_mult_imp_div_less)
  then show "unat hi = (unat a * unat b) div 2 ^ 64"
    by (simp only: hi ucast_down unat_drop_bit_eq drop_bit_nat_def v) simp
qed

lemma umul128_sum:
  assumes "umul128 a b = (lo, hi)"
  shows "unat lo + 2 ^ 64 * unat hi = unat a * unat b"
  using umul128_nat [OF assms] by simp

lemma umul128_hi_ne_m1:
  assumes "umul128 a b = (lo, hi)"
  shows "hi \<noteq> - 1"
proof
  assume "hi = - 1"
  then have "unat a * unat b div 2 ^ 64 = 18446744073709551615"
    using umul128_nat(2) [OF assms] unat64_m1 by simp
  then have "18446744073709551615 * 18446744073709551616 \<le> unat a * unat b" by simp
  moreover have "unat a * unat b \<le> 18446744073709551615 * 18446744073709551615"
    using unat64_lt [of a] unat64_lt [of b] by (intro mult_mono) simp_all
  ultimately show False by simp
qed

lemma shiftright128_nat:
  "unat (shiftright128 lo hi n) = ((unat lo + 2 ^ 64 * unat hi) div 2 ^ n) mod 2 ^ 64"
  by (simp only: shiftright128_def Let_def ucast_down unat_drop_bit_eq drop_bit_nat_def cat128 add.commute)

lemma shiftleft128_nat:
  "unat (shiftleft128 lo hi n) = ((unat lo + 2 ^ 64 * unat hi) * 2 ^ n mod 2 ^ 128) div 2 ^ 64"
proof -
  have "((unat lo + 2 ^ 64 * unat hi) * 2 ^ n mod 2 ^ 128) div 2 ^ 64 < 2 ^ 64"
    by (rule less_mult_imp_div_less) simp
  then show ?thesis
    by (simp only: shiftleft128_def Let_def ucast_down unat_drop_bit_eq drop_bit_nat_def
        unat_push_bit128 cat128 add.commute) simp
qed

lemma ne_m1_unat: "(b :: u64) \<noteq> - 1 \<Longrightarrow> unat b + 1 < 18446744073709551616"
proof -
  assume "b \<noteq> - 1"
  then have "unat b \<noteq> 18446744073709551615"
    using unat64_m1 by (auto simp: word_unat_eq_iff)
  then show ?thesis using unat64_lt [of b] by simp
qed

lemma cin_unat:
  assumes "t = AArch64 \<Longrightarrow> c \<noteq> 0 \<Longrightarrow> b \<noteq> - 1" and "t = AArch64"
  shows "unat (b + (if c \<noteq> 0 then 1 else 0 :: u64)) = unat b + cbit c"
proof (cases "c = 0")
  case True
  then show ?thesis by (simp add: cbit_def)
next
  case False
  then have "unat b + 1 < 18446744073709551616" using assms ne_m1_unat by simp
  then show ?thesis using False by (simp add: cbit_def unat_word_ariths)
qed

lemma addcarry_nat:
  assumes "addcarry_u64 t c a b = (co, s)" and "t = AArch64 \<Longrightarrow> c \<noteq> 0 \<Longrightarrow> b \<noteq> - 1"
  shows "unat s + 2 ^ 64 * cbit co = unat a + unat b + cbit c"
proof (cases t)
  case X86_64
  define n where "n = unat a + unat b + cbit c"
  have n: "n < 2 * 2 ^ 64"
    using unat64_lt [of a] unat64_lt [of b] by (simp add: n_def cbit_def)
  have s: "s = of_nat n" and co: "co = (if 2 ^ 64 \<le> n then 1 else 0)"
    using assms(1) X86_64 by (auto simp: addcarry_u64_def Let_def cbit_def n_def)
  have "unat s = n mod 2 ^ 64" unfolding s by (simp only: unat_of_nat) simp
  moreover have "cbit co = n div 2 ^ 64" using n by (auto simp: co cbit_def not_le)
  ultimately show ?thesis unfolding n_def [symmetric] by simp
next
  case AArch64
  define ci :: u64 where "ci = (if c \<noteq> 0 then 1 else 0)"
  have nw: "unat (b + ci) = unat b + cbit c"
    unfolding ci_def using cin_unat [OF assms(2) AArch64] by simp
  have s: "s = a + (b + ci)" and co: "co = (if (- 1) - a < b + ci then 1 else 0)"
    using assms(1) AArch64 by (auto simp: addcarry_u64_def Let_def ci_def)
  have m: "unat ((- 1 :: u64) - a) = 18446744073709551615 - unat a"
    using unat64_lt [of a] by (simp add: unat_sub_if' unat64_m1)
  have lt: "((- 1) - a < b + ci) = (2 ^ 64 \<le> unat a + (unat b + cbit c))"
    using unat64_lt [of a] by (simp add: word_less_nat_alt m nw) arith
  have "unat (a + (b + ci)) = (unat a + unat (b + ci)) mod 2 ^ 64"
    by (simp add: unat_word_ariths)
  then have "unat s = (unat a + (unat b + cbit c)) mod 2 ^ 64"
    unfolding s nw by simp
  moreover have "cbit co = (unat a + (unat b + cbit c)) div 2 ^ 64"
    using unat64_lt [of a] unat64_lt [of b] by (auto simp: co lt cbit_def not_le)
  ultimately show ?thesis by simp
qed

lemma subborrow_nat:
  assumes "subborrow_u64 t c a b = (bo, d)" and "t = AArch64 \<Longrightarrow> c \<noteq> 0 \<Longrightarrow> b \<noteq> - 1"
  shows "unat d + unat b + cbit c = unat a + 2 ^ 64 * cbit bo"
proof (cases t)
  case X86_64
  define n where "n = unat b + cbit c"
  have n: "n \<le> 2 ^ 64" using unat64_lt [of b] by (simp add: n_def cbit_def)
  have d: "d = of_nat (unat a + 2 ^ 64 - n)" and bo: "bo = (if unat a < n then 1 else 0)"
    using assms(1) X86_64 by (auto simp: subborrow_u64_def Let_def cbit_def n_def)
  have "unat d = (unat a + 2 ^ 64 - n) mod 2 ^ 64" unfolding d by (simp only: unat_of_nat) simp
  then have "unat d = (if unat a < n then unat a + 2 ^ 64 - n else unat a - n)"
    using n unat64_lt [of a] by (auto simp: not_less le_mod_geq)
  then have "unat d + n = unat a + 2 ^ 64 * cbit bo"
    using n by (auto simp: bo)
  then show ?thesis by (simp add: n_def)
next
  case AArch64
  define ci :: u64 where "ci = (if c \<noteq> 0 then 1 else 0)"
  have nw: "unat (b + ci) = unat b + cbit c"
    unfolding ci_def using cin_unat [OF assms(2) AArch64] by simp
  have d: "d = a - (b + ci)" and bo: "bo = (if a < b + ci then 1 else 0)"
    using assms(1) AArch64 by (auto simp: subborrow_u64_def Let_def ci_def)
  have "unat d = (if unat (b + ci) \<le> unat a then unat a - unat (b + ci)
                  else unat a + 2 ^ 64 - unat (b + ci))"
    unfolding d by (simp add: unat_sub_if')
  then show ?thesis
    using unat64_lt [of "b + ci"] by (auto simp: bo word_less_nat_alt nw)
qed

section \<open>Values of the field operations\<close>

lemma fval_pair [simp]: "fval (a0, a1) = unat a0 + 2 ^ 64 * unat a1"
  by (simp add: fval_def)

lemma fval_lt: "fval a < 2 ^ 128"
proof -
  obtain a0 a1 where a: "a = (a0, a1)" by (cases a)
  show ?thesis using unat64_lt [of a0] unat64_lt [of a1] by (simp add: a)
qed

lemma fval_inj: "fval a = fval b \<Longrightarrow> a = b"
proof -
  assume e: "fval a = fval b"
  obtain a0 a1 where a: "a = (a0, a1)" by (cases a)
  obtain b0 b1 where b: "b = (b0, b1)" by (cases b)
  have "fval a mod 2 ^ 64 = unat a0" "fval a div 2 ^ 64 = unat a1"
    using unat64_lt [of a0] by (simp_all add: a)
  moreover have "fval b mod 2 ^ 64 = unat b0" "fval b div 2 ^ 64 = unat b1"
    using unat64_lt [of b0] by (simp_all add: b)
  ultimately have "unat a0 = unat b0" "unat a1 = unat b1" using e by simp_all
  then show ?thesis by (simp add: a b word_unat_eq_iff)
qed

lemma hi_lt: "fval (a0, a1) < 2 ^ 127 \<Longrightarrow> unat a1 < 2 ^ 63"
  by simp

lemma hi_ne_m1: "fval (a0, a1) < 2 ^ 127 \<Longrightarrow> a1 \<noteq> - 1"
  using unat64_m1 by auto

lemma unat_drop63: "unat (drop_bit 63 (x :: u64)) = unat x div 2 ^ 63"
  by (simp only: unat_drop_bit_eq drop_bit_nat_def)

lemma unat_drop1: "unat (drop_bit 1 (x :: u64)) = unat x div 2"
  by (simp only: unat_drop_bit_eq drop_bit_nat_def) simp

lemma unat_drop_Suc0: "unat (drop_bit (Suc 0) (x :: u64)) = unat x div 2"
  by (simp only: unat_drop_bit_eq drop_bit_nat_def) simp

lemma unat_one_and: "unat (1 AND (x :: u64)) = unat x mod 2"
proof -
  have "1 AND x = take_bit 1 x" by (simp add: take_bit_eq_mask and.commute)
  then show ?thesis by (simp only: unsigned_take_bit_eq take_bit_nat_def) simp
qed

lemma unat_and_mask63: "unat ((x :: u64) AND 0x7FFFFFFFFFFFFFFF) = unat x mod 2 ^ 63"
proof -
  have "(0x7FFFFFFFFFFFFFFF :: u64) = mask 63" by (simp add: mask_eq_exp_minus_1)
  then have "x AND 0x7FFFFFFFFFFFFFFF = take_bit 63 x" by (simp only: take_bit_eq_mask)
  then show ?thesis by (simp only: unsigned_take_bit_eq take_bit_nat_def)
qed

lemma unat64_lt_pow: "unat (x :: u64) < 2 ^ 64"
  using unat64_lt [of x] by simp

lemma split127_div:
  "(n :: nat) < 2 ^ 64 \<Longrightarrow> (n + 2 ^ 64 * m) div 2 ^ 127 = m div 2 ^ 63"
proof -
  assume n: "n < 2 ^ 64"
  have "(n + 2 ^ 64 * m) div (2 ^ 64 * 2 ^ 63) = (n + 2 ^ 64 * m) div 2 ^ 64 div 2 ^ 63"
    by (rule div_mult2_eq)
  also have "(n + 2 ^ 64 * m) div 2 ^ 64 = m" using n by simp
  finally show ?thesis by simp
qed

lemma split127_mod:
  "(n :: nat) < 2 ^ 64 \<Longrightarrow> (n + 2 ^ 64 * m) mod 2 ^ 127 = n + 2 ^ 64 * (m mod 2 ^ 63)"
proof -
  assume n: "n < 2 ^ 64"
  have "(n + 2 ^ 64 * m) mod (2 ^ 64 * 2 ^ 63)
        = 2 ^ 64 * ((n + 2 ^ 64 * m) div 2 ^ 64 mod 2 ^ 63) + (n + 2 ^ 64 * m) mod 2 ^ 64"
    by (rule mod_mult2_eq)
  moreover have "(n + 2 ^ 64 * m) div 2 ^ 64 = m" "(n + 2 ^ 64 * m) mod 2 ^ 64 = n"
    using n by simp_all
  ultimately show ?thesis by simp
qed

lemma add2:
  assumes "addcarry_u64 t 0 a0 b0 = (k, c0)" and "addcarry_u64 t k a1 b1 = (k', c1)"
    and "b1 \<noteq> - 1"
  shows "fval (c0, c1) + 2 ^ 128 * cbit k' = fval (a0, a1) + fval (b0, b1)"
proof -
  have 1: "unat c0 + 2 ^ 64 * cbit k = unat a0 + unat b0"
    using addcarry_nat [OF assms(1)] by simp
  have 2: "unat c1 + 2 ^ 64 * cbit k' = unat a1 + unat b1 + cbit k"
    using addcarry_nat [OF assms(2)] assms(3) by simp
  show ?thesis using 1 2 by simp
qed

lemma add2_nocarry:
  assumes "addcarry_u64 t 0 a0 b0 = (k, c0)" and "addcarry_u64 t k a1 b1 = (k', c1)"
    and "b1 \<noteq> - 1" and "fval (a0, a1) + fval (b0, b1) < 2 ^ 128"
  shows "fval (c0, c1) = fval (a0, a1) + fval (b0, b1)"
proof -
  have "cbit k' = 0"
    using add2 [OF assms(1-3)] assms(4) by (cases "cbit k'") simp_all
  then show ?thesis using add2 [OF assms(1-3)] by simp
qed

lemma sub2:
  assumes "subborrow_u64 t 0 a0 b0 = (k, c0)" and "subborrow_u64 t k a1 b1 = (k', c1)"
    and "b1 \<noteq> - 1"
  shows "fval (c0, c1) + fval (b0, b1) = fval (a0, a1) + 2 ^ 128 * cbit k'"
proof -
  have 1: "unat c0 + unat b0 = unat a0 + 2 ^ 64 * cbit k"
    using subborrow_nat [OF assms(1)] by simp
  have 2: "unat c1 + unat b1 + cbit k = unat a1 + 2 ^ 64 * cbit k'"
    using subborrow_nat [OF assms(2)] assms(3) by simp
  show ?thesis using 1 2 by simp
qed

lemma fold127_words:
  "fold127 (fval (c0, c1)) = unat c0 + 2 ^ 64 * (unat c1 mod 2 ^ 63) + unat c1 div 2 ^ 63"
  by (simp only: fold127_def fval_pair split127_div [OF unat64_lt_pow] split127_mod [OF unat64_lt_pow])

lemma fold_step:
  assumes "addcarry_u64 t 0 c0 (drop_bit 63 c1) = (k, r0)"
    and "addcarry_u64 t k (c1 AND 0x7FFFFFFFFFFFFFFF) 0 = (k', r1)"
  shows "fval (r0, r1) = fold127 (fval (c0, c1))"
proof -
  have m: "unat c1 mod 2 ^ 63 < 2 ^ 63" by simp
  have d: "unat c1 div 2 ^ 63 < 2" using unat64_lt [of c1] by (simp add: less_mult_imp_div_less)
  have "fval (c0, c1 AND 0x7FFFFFFFFFFFFFFF) + fval (drop_bit 63 c1, 0) < 2 ^ 128"
    using unat64_lt [of c0] m d by (simp add: unat_drop63 unat_and_mask63)
  from add2_nocarry [OF assms(1,2) _ this]
  have "fval (r0, r1) = fval (c0, c1 AND 0x7FFFFFFFFFFFFFFF) + fval (drop_bit 63 c1, 0)"
    by simp
  also have "\<dots> = unat c0 + 2 ^ 64 * (unat c1 mod 2 ^ 63) + unat c1 div 2 ^ 63"
    by (simp add: unat_drop63 unat_and_mask63)
  also have "\<dots> = fold127 (fval (c0, c1))"
    by (rule fold127_words [symmetric])
  finally show ?thesis .
qed

lemma fold127_mod: "fold127 n mod p1271 = n mod p1271"
proof -
  have "n = 2 ^ 127 * (n div 2 ^ 127) + n mod 2 ^ 127" by simp
  also have "\<dots> = p1271 * (n div 2 ^ 127) + fold127 n"
    by (simp add: p1271_def fold127_def algebra_simps)
  finally have "n mod p1271 = (p1271 * (n div 2 ^ 127) + fold127 n) mod p1271" by simp
  then show ?thesis by simp
qed

lemma fold127_le: "n \<le> 2 ^ 128 - 2 \<Longrightarrow> fold127 n \<le> p1271"
proof -
  assume n: "n \<le> 2 ^ 128 - 2"
  show ?thesis
  proof (cases "n < 2 ^ 127")
    case True
    then show ?thesis by (simp add: fold127_def p1271_def)
  next
    case False
    then have "n div 2 ^ 127 = 1" using n by (simp add: div_nat_eqI)
    moreover have "n mod 2 ^ 127 = n - 2 ^ 127"
      using False n by (simp add: mod_nat_eqI)
    ultimately show ?thesis using n by (simp add: fold127_def p1271_def)
  qed
qed

lemma fold127_small: "n < 2 ^ 127 \<Longrightarrow> fold127 n = n"
  by (simp add: fold127_def)

subsection \<open>Addition\<close>

lemma fpadd1271_val:
  assumes "fval a < 2 ^ 127" and "fval b < 2 ^ 127"
  shows "fval (fpadd1271 t a b) = fold127 (fval a + fval b)"
proof -
  obtain a0 a1 where a: "a = (a0, a1)" by (cases a)
  obtain b0 b1 where b: "b = (b0, b1)" by (cases b)
  obtain k1 c0 where e1: "addcarry_u64 t 0 a0 b0 = (k1, c0)" by force
  obtain k2 c1 where e2: "addcarry_u64 t k1 a1 b1 = (k2, c1)" by force
  obtain k3 r0 where e3: "addcarry_u64 t 0 c0 (drop_bit 63 c1) = (k3, r0)" by force
  obtain k4 r1 where e4: "addcarry_u64 t k3 (c1 AND 0x7FFFFFFFFFFFFFFF) 0 = (k4, r1)" by force
  have r: "fpadd1271 t a b = (r0, r1)"
    by (simp add: fpadd1271_def a b e1 e2 e3 e4)
  have "fval (a0, a1) + fval (b0, b1) < 2 ^ 128" using assms by (simp add: a b)
  from add2_nocarry [OF e1 e2 hi_ne_m1 this] assms(2)
  have "fval (c0, c1) = fval a + fval b" by (simp add: a b)
  then show ?thesis using fold_step [OF e3 e4] by (simp only: r)
qed

lemma fpadd1271_le:
  assumes "fval a < 2 ^ 127" and "fval b < 2 ^ 127"
  shows "fval (fpadd1271 t a b) \<le> p1271"
  unfolding fpadd1271_val [OF assms] using assms by (intro fold127_le) simp

lemma fpadd1271_mod:
  assumes "fval a < 2 ^ 127" and "fval b < 2 ^ 127"
  shows "fval (fpadd1271 t a b) mod p1271 = (fval a + fval b) mod p1271"
  unfolding fpadd1271_val [OF assms] by (rule fold127_mod)

subsection \<open>Subtraction, negation, canonical form, halving\<close>

lemma unfold_step:
  assumes "subborrow_u64 t 0 c0 (drop_bit 63 c1) = (k, r0)"
    and "subborrow_u64 t k (c1 AND 0x7FFFFFFFFFFFFFFF) 0 = (k', r1)"
    and "fval (c0, c1) \<noteq> 2 ^ 127"
  shows "fval (r0, r1) + unat c1 div 2 ^ 63 = unat c0 + 2 ^ 64 * (unat c1 mod 2 ^ 63)"
proof -
  have s: "fval (r0, r1) + fval (drop_bit 63 c1, 0)
           = fval (c0, c1 AND 0x7FFFFFFFFFFFFFFF) + 2 ^ 128 * cbit k'"
    by (rule sub2 [OF assms(1,2)]) simp
  have d: "unat c1 div 2 ^ 63 < 2" using unat64_lt [of c1] by (simp add: less_mult_imp_div_less)
  have ne: "unat c1 div 2 ^ 63 \<le> unat c0 + 2 ^ 64 * (unat c1 mod 2 ^ 63)"
  proof (rule ccontr)
    assume "\<not> ?thesis"
    then have "unat c0 = 0" "unat c1 mod 2 ^ 63 = 0" "unat c1 div 2 ^ 63 = 1" using d by auto
    then have "unat c1 = 2 ^ 63" using div_mult_mod_eq [of "unat c1" "2 ^ 63"] by simp
    then show False using assms(3) \<open>unat c0 = 0\<close> by simp
  qed
  have "cbit k' = 0"
  proof (rule ccontr)
    assume "cbit k' \<noteq> 0"
    then have "cbit k' = 1" using cbit_le1 [of k'] by simp
    then show False using s ne fval_lt [of "(r0, r1)"] d
      by (simp add: unat_drop63 unat_and_mask63)
  qed
  then show ?thesis using s by (simp add: unat_drop63 unat_and_mask63)
qed

lemma fpsub1271_val:
  assumes "fval a < 2 ^ 127" and "fval b < 2 ^ 127"
  shows "fval (fpsub1271 t a b) = (if fval b \<le> fval a then fval a - fval b
                                   else fval a + p1271 - fval b)"
proof -
  obtain a0 a1 where a: "a = (a0, a1)" by (cases a)
  obtain b0 b1 where b: "b = (b0, b1)" by (cases b)
  obtain k1 c0 where e1: "subborrow_u64 t 0 a0 b0 = (k1, c0)" by force
  obtain k2 c1 where e2: "subborrow_u64 t k1 a1 b1 = (k2, c1)" by force
  obtain k3 r0 where e3: "subborrow_u64 t 0 c0 (drop_bit 63 c1) = (k3, r0)" by force
  obtain k4 r1 where e4: "subborrow_u64 t k3 (c1 AND 0x7FFFFFFFFFFFFFFF) 0 = (k4, r1)" by force
  have r: "fpsub1271 t a b = (r0, r1)"
    by (simp add: fpsub1271_def a b e1 e2 e3 e4)
  have s: "fval (c0, c1) + fval b = fval a + 2 ^ 128 * cbit k2"
    using sub2 [OF e1 e2 hi_ne_m1] assms(2) by (simp add: a b)
  show ?thesis
  proof (cases "fval b \<le> fval a")
    case True
    have "cbit k2 = 0"
    proof (rule ccontr)
      assume "cbit k2 \<noteq> 0"
      then have "cbit k2 = 1" using cbit_le1 [of k2] by simp
      then show False using s True fval_lt [of "(c0, c1)"] by simp
    qed
    then have c: "fval (c0, c1) = fval a - fval b" using s by simp
    then have lt: "fval (c0, c1) < 2 ^ 127" using assms by simp
    then have "unat c1 div 2 ^ 63 = 0" "unat c1 mod 2 ^ 63 = unat c1" by simp_all
    then have "fval (r0, r1) = fval (c0, c1)"
      using unfold_step [OF e3 e4] lt by simp
    then show ?thesis using True c by (simp only: r) simp
  next
    case False
    have k2: "cbit k2 = 1"
    proof (rule ccontr)
      assume "cbit k2 \<noteq> 1"
      then have "cbit k2 = 0" using cbit_le1 [of k2] by simp
      then show False using s False by simp
    qed
    then have c: "fval (c0, c1) = fval a + 2 ^ 128 - fval b" using s by simp
    then have ge: "2 ^ 127 < fval (c0, c1)" using assms False by simp
    then have "2 ^ 63 \<le> unat c1" using unat64_lt [of c0] by simp
    then have dv: "unat c1 div 2 ^ 63 = 1"
      using unat64_lt [of c1] by (simp add: div_nat_eqI)
    then have md: "unat c1 mod 2 ^ 63 = unat c1 - 2 ^ 63"
      using div_mult_mod_eq [of "unat c1" "2 ^ 63"] by simp
    have "fval (r0, r1) + 1 = unat c0 + 2 ^ 64 * (unat c1 - 2 ^ 63)"
      using unfold_step [OF e3 e4] ge dv md by simp
    then have "fval (r0, r1) + 1 + 2 ^ 127 = fval (c0, c1)"
      using \<open>2 ^ 63 \<le> unat c1\<close> by simp
    then show ?thesis using False c assms by (simp only: r) (simp add: p1271_def)
  qed
qed

lemma fpsub1271_le:
  assumes "fval a < 2 ^ 127" and "fval b < 2 ^ 127"
  shows "fval (fpsub1271 t a b) \<le> p1271"
  unfolding fpsub1271_val [OF assms] using assms by (auto simp: p1271_def)

lemma fpsub1271_mod:
  assumes "fval a < 2 ^ 127" and "fval b < 2 ^ 127"
  shows "(fval (fpsub1271 t a b) + fval b) mod p1271 = fval a mod p1271"
proof (cases "fval b \<le> fval a")
  case True
  then show ?thesis by (simp add: fpsub1271_val [OF assms])
next
  case False
  then have "fval (fpsub1271 t a b) + fval b = fval a + p1271"
    using assms by (simp add: fpsub1271_val [OF assms] p1271_def)
  then show ?thesis by simp
qed

lemma fpneg1271_val:
  assumes "fval a < 2 ^ 127"
  shows "fval (fpneg1271 a) = p1271 - fval a"
proof -
  obtain a0 a1 where a: "a = (a0, a1)" by (cases a)
  have h: "unat a1 < 2 ^ 63" using assms by (simp add: a)
  have "NOT a0 = (- 1) - a0" by (simp add: not_eq_complement)
  then have "unat (NOT a0) = 18446744073709551615 - unat a0"
    using unat64_lt [of a0] by (simp add: unat_sub_if' unat64_m1)
  moreover have "unat (0x7FFFFFFFFFFFFFFF - a1) = 9223372036854775807 - unat a1"
    using h by (simp add: unat_sub_if')
  ultimately show ?thesis
    using h unat64_lt [of a0] by (simp add: fpneg1271_def a p1271_def)
qed

lemma word_one_iff: "((x :: u64) = 1) = (unat x = 1)"
  by (simp add: word_unat_eq_iff)

lemma word_zero_iff: "((x :: u64) = 0) = (unat x = 0)"
  by (simp add: word_unat_eq_iff)

lemma mod1271_val:
  assumes "fval a < 2 ^ 128 - 1"
  shows "fval (mod1271 t a) = (if fval a < p1271 then fval a else fval a - p1271)"
proof -
  obtain a0 a1 where a: "a = (a0, a1)" by (cases a)
  obtain k1 d0 where e1: "subborrow_u64 t 0 a0 0xFFFFFFFFFFFFFFFF = (k1, d0)" by force
  obtain k2 d1 where e2: "subborrow_u64 t k1 a1 0x7FFFFFFFFFFFFFFF = (k2, d1)" by force
  define mask where "mask = 0 - drop_bit 63 d1"
  obtain k3 r0 where e3: "addcarry_u64 t 0 d0 mask = (k3, r0)" by force
  obtain k4 r1 where e4: "addcarry_u64 t k3 d1 (0x7FFFFFFFFFFFFFFF AND mask) = (k4, r1)" by force
  have r: "mod1271 t a = (r0, r1)"
    using e3 e4 by (simp add: mod1271_def a e1 e2 mask_def)
  have "fval (d0, d1) + fval (0xFFFFFFFFFFFFFFFF, 0x7FFFFFFFFFFFFFFF) = fval a + 2 ^ 128 * cbit k2"
    unfolding a by (rule sub2 [OF e1 e2]) simp
  then have s: "fval (d0, d1) + p1271 = fval a + 2 ^ 128 * cbit k2"
    by (simp add: p1271_def)
  show ?thesis
  proof (cases "fval a < p1271")
    case True
    have k2: "cbit k2 = 1"
    proof (rule ccontr)
      assume "cbit k2 \<noteq> 1"
      then have "cbit k2 = 0" using cbit_le1 [of k2] by simp
      then show False using s True by simp
    qed
    then have d: "fval (d0, d1) = fval a + 2 ^ 128 - p1271" using s by simp
    then have "2 ^ 127 < fval (d0, d1)" by (simp add: p1271_def)
    then have "2 ^ 63 \<le> unat d1" using unat64_lt [of d0] by simp
    then have "unat (drop_bit 63 d1) = 1"
      using unat64_lt [of d1] by (simp add: unat_drop63 div_nat_eqI)
    then have "drop_bit 63 d1 = 1" by (simp only: word_one_iff)
    then have m: "mask = 0xFFFFFFFFFFFFFFFF" by (simp add: mask_def)
    have "fval (r0, r1) + 2 ^ 128 * cbit k4
          = fval (d0, d1) + fval (0xFFFFFFFFFFFFFFFF, 0x7FFFFFFFFFFFFFFF)"
      by (rule add2 [OF e3 [unfolded m] _]) (use e4 in \<open>simp_all add: m\<close>)
    then have t: "fval (r0, r1) + 2 ^ 128 * cbit k4 = fval a + 2 ^ 128"
      using d True by (simp add: p1271_def)
    have "cbit k4 = 1"
    proof (rule ccontr)
      assume "cbit k4 \<noteq> 1"
      then have "cbit k4 = 0" using cbit_le1 [of k4] by simp
      then show False using t fval_lt [of "(r0, r1)"] by simp
    qed
    then have "fval (r0, r1) = fval a" using t by simp
    then show ?thesis using True by (simp only: r) simp
  next
    case False
    have k2: "cbit k2 = 0"
    proof (rule ccontr)
      assume "cbit k2 \<noteq> 0"
      then have "cbit k2 = 1" using cbit_le1 [of k2] by simp
      then show False using s False fval_lt [of "(d0, d1)"] by simp
    qed
    then have d: "fval (d0, d1) = fval a - p1271" using s False by simp
    then have "fval (d0, d1) < 2 ^ 127" using assms by (simp add: p1271_def)
    then have "unat (drop_bit 63 d1) = 0" by (simp add: unat_drop63)
    then have "drop_bit 63 d1 = 0" by (simp only: word_zero_iff)
    then have m: "mask = 0" by (simp add: mask_def)
    have "fval (r0, r1) = fval (d0, d1) + fval (0, 0)"
      by (rule add2_nocarry [OF e3 [unfolded m] _])
         (use e4 fval_lt [of "(d0, d1)"] in \<open>simp_all add: m\<close>)
    then show ?thesis using False d by (simp only: r) simp
  qed
qed

lemma mod1271_reduces:
  assumes "fval a < 2 * p1271"
  shows "fval (mod1271 t a) = fval a mod p1271"
proof -
  have lt: "fval a < 2 ^ 128 - 1" using assms by (simp add: p1271_def)
  show ?thesis
  proof (cases "fval a < p1271")
    case True
    then show ?thesis by (simp add: mod1271_val [OF lt])
  next
    case False
    then have "fval a mod p1271 = fval a - p1271"
      using assms by (simp add: le_mod_geq)
    then show ?thesis using False by (simp add: mod1271_val [OF lt])
  qed
qed

lemma half_words:
  "((unat (t0 :: u64) + 2 ^ 64 * unat (t1 :: u64)) div 2) mod 2 ^ 64 + 2 ^ 64 * (unat t1 div 2)
   = (unat t0 + 2 ^ 64 * unat t1) div 2"
proof -
  have e: "(2 ^ 63 :: nat) * unat t1 = 2 ^ 63 * (unat t1 mod 2) + 2 ^ 64 * (unat t1 div 2)"
    by (cases "even (unat t1)") (auto elim!: evenE oddE)
  have "(unat t0 + 2 ^ 64 * unat t1) div 2 = unat t0 div 2 + 2 ^ 63 * unat t1" by simp
  also have "\<dots> = (unat t0 div 2 + 2 ^ 63 * (unat t1 mod 2)) + 2 ^ 64 * (unat t1 div 2)"
    using e by simp
  finally have s: "(unat t0 + 2 ^ 64 * unat t1) div 2
     = (unat t0 div 2 + 2 ^ 63 * (unat t1 mod 2)) + 2 ^ 64 * (unat t1 div 2)" .
  have "unat t0 div 2 + 2 ^ 63 * (unat t1 mod 2) < 2 ^ 64"
    using unat64_lt [of t0] by (cases "even (unat t1)") (simp_all add: mod_2_eq_odd)
  then have "((unat t0 div 2 + 2 ^ 63 * (unat t1 mod 2)) + 2 ^ 64 * (unat t1 div 2)) mod 2 ^ 64
     = unat t0 div 2 + 2 ^ 63 * (unat t1 mod 2)" by simp
  then show ?thesis unfolding s by simp
qed

lemma fpdiv1271_val:
  assumes "fval a < 2 ^ 127"
  shows "fval (fpdiv1271 t a) = (if even (fval a) then fval a div 2 else (fval a + p1271) div 2)"
proof -
  obtain a0 a1 where a: "a = (a0, a1)" by (cases a)
  define mask where "mask = 0 - (1 AND a0)"
  obtain k1 t0 where e1: "addcarry_u64 t 0 a0 mask = (k1, t0)" by force
  obtain k2 t1 where e2: "addcarry_u64 t k1 a1 (drop_bit 1 mask) = (k2, t1)" by force
  have r: "fpdiv1271 t a = (shiftright128 t0 t1 1, drop_bit 1 t1)"
    using e1 e2 by (simp add: fpdiv1271_def a mask_def)
  have v: "fval (shiftright128 t0 t1 1, drop_bit 1 t1) = fval (t0, t1) div 2"
    using half_words [of t0 t1] by (simp add: shiftright128_nat unat_drop_Suc0)
  have par: "even (fval a) = even (unat a0)" by (simp add: a)
  show ?thesis
  proof (cases "even (unat a0)")
    case True
    then have "unat (1 AND a0) = 0" by (simp add: unat_one_and)
    then have "1 AND a0 = 0" by (simp only: word_zero_iff)
    then have m: "mask = 0" by (simp add: mask_def)
    have "fval (t0, t1) = fval (a0, a1) + fval (0, 0)"
      by (rule add2_nocarry [OF e1 [unfolded m] _])
         (use e2 fval_lt [of "(a0, a1)"] in \<open>simp_all add: m\<close>)
    then show ?thesis using True par v by (simp only: r) (simp add: a)
  next
    case False
    then have "unat (1 AND a0) = 1" by (simp add: unat_one_and mod_2_eq_odd)
    then have "1 AND a0 = 1" by (simp only: word_one_iff)
    then have m: "mask = 0xFFFFFFFFFFFFFFFF" by (simp add: mask_def)
    have "fval (t0, t1) = fval (a0, a1) + fval (0xFFFFFFFFFFFFFFFF, 0x7FFFFFFFFFFFFFFF)"
      by (rule add2_nocarry [OF e1 [unfolded m] _])
         (use e2 assms in \<open>simp_all add: m a\<close>)
    then show ?thesis using False par v by (simp only: r) (simp add: a p1271_def)
  qed
qed

subsection \<open>Multiplication and squaring\<close>

lemma unat_push1: "unat (push_bit 1 (x :: u64)) = (2 * unat x) mod 2 ^ 64"
  by (simp only: unsigned_push_bit_eq take_bit_nat_def push_bit_nat_def) (simp add: mult.commute)

lemma split_hi:
  "(n div 2 ^ 63) mod 2 ^ 64 + 2 ^ 64 * (n div 2 ^ 127) = (n :: nat) div 2 ^ 63"
proof -
  have "n div (2 ^ 63 * 2 ^ 64) = n div 2 ^ 63 div 2 ^ 64" by (rule div_mult2_eq)
  then have "n div 2 ^ 127 = n div 2 ^ 63 div 2 ^ 64" by simp
  then show ?thesis by simp
qed

lemma fval_ne_m1: "fval (h0, h1) < 2 ^ 128 - 2 ^ 64 \<Longrightarrow> h1 \<noteq> - 1"
  using unat64_m1 by auto

lemma fp_tail_val:
  assumes a1: "unat a1 < 2 ^ 63" and b1: "unat b1 < 2 ^ 63"
    and N: "N = unat tt1_0 + 2 ^ 64 * fval (tt2_0, tt2_1) + 2 ^ 128 * (unat a1 * unat b1)"
    and lim: "N < 2 ^ 254"
  shows "fval (fp_tail t tt1_0 tt2_0 tt2_1 a1 b1) = fold127 (fold127 N)"
proof -
  define M where "M = fval (tt2_0, tt2_1)"
  define V where "V = unat a1 * unat b1"
  obtain v0 v1 where e0: "umul128 a1 b1 = (v0, v1)" by force
  define s1 where "s1 = shiftleft128 v0 v1 1"
  obtain k1 h0 where e1:
    "addcarry_u64 t 0 (shiftright128 tt2_0 tt2_1 63) (push_bit 1 v0) = (k1, h0)" by force
  obtain k2 h1 where e2: "addcarry_u64 t k1 (drop_bit 63 tt2_1) s1 = (k2, h1)" by force
  obtain k3 l0 where e3: "addcarry_u64 t 0 tt1_0 h0 = (k3, l0)" by force
  obtain k4 l1 where e4:
    "addcarry_u64 t k3 (tt2_0 AND 0x7FFFFFFFFFFFFFFF) h1 = (k4, l1)" by force
  obtain k5 c0 where e5: "addcarry_u64 t 0 l0 (drop_bit 63 l1) = (k5, c0)" by force
  obtain k6 c1 where e6: "addcarry_u64 t k5 (l1 AND 0x7FFFFFFFFFFFFFFF) 0 = (k6, c1)" by force
  have r: "fp_tail t tt1_0 tt2_0 tt2_1 a1 b1 = (c0, c1)"
    unfolding fp_tail_def
    by (simp only: e0 Let_def prod.case s1_def [symmetric] e1 e2 e3 e4 e5 e6)
  have Vlt: "V < 2 ^ 63 * 2 ^ 63"
    unfolding V_def using a1 b1 by (intro mult_strict_mono) simp_all
  have v: "unat v0 + 2 ^ 64 * unat v1 = V"
    using umul128_sum [OF e0] by (simp add: V_def)
  have s1v: "unat s1 = (2 * V) div 2 ^ 64"
  proof -
    have "unat s1 = ((unat v0 + 2 ^ 64 * unat v1) * 2 ^ 1 mod 2 ^ 128) div 2 ^ 64"
      unfolding s1_def by (rule shiftleft128_nat)
    also have "\<dots> = (V * 2 mod 2 ^ 128) div 2 ^ 64" by (simp only: v power_one_right)
    also have "V * 2 mod 2 ^ 128 = V * 2" using Vlt by simp
    finally show ?thesis by (simp add: mult.commute)
  qed
  have p0v: "unat (push_bit 1 v0) = (2 * V) mod 2 ^ 64"
  proof -
    have "(2 * unat v0) mod 2 ^ 64 = (2 * (V mod 2 ^ 64)) mod 2 ^ 64"
      using umul128_nat(1) [OF e0] by (simp add: V_def)
    also have "\<dots> = (2 * V) mod 2 ^ 64" by (rule mod_mult_right_eq)
    finally show ?thesis by (simp only: unat_push1)
  qed
  have twoV: "fval (push_bit 1 v0, s1) = 2 * V"
    by (simp only: fval_pair s1v p0v mod_mult_div_eq)
  have Mhi: "fval (shiftright128 tt2_0 tt2_1 63, drop_bit 63 tt2_1) = M div 2 ^ 63"
  proof -
    have "unat (drop_bit 63 tt2_1) = M div 2 ^ 127"
      unfolding M_def fval_pair by (simp only: unat_drop63 split127_div [OF unat64_lt_pow])
    moreover have "unat (shiftright128 tt2_0 tt2_1 63) = (M div 2 ^ 63) mod 2 ^ 64"
      unfolding M_def fval_pair by (rule shiftright128_nat)
    ultimately show ?thesis using split_hi [of M] by (simp only: fval_pair)
  qed
  have Mlt: "M < 2 ^ 128" unfolding M_def by (rule fval_lt)
  then have Mhi_lt: "M div 2 ^ 63 < 2 ^ 65" by (simp add: less_mult_imp_div_less)
  have s1ne: "s1 \<noteq> - 1"
    by (rule fval_ne_m1 [of "push_bit 1 v0"]) (use twoV Vlt in simp)
  define H where "H = M div 2 ^ 63 + 2 * V"
  have Hv: "fval (h0, h1) = H"
    unfolding H_def Mhi [symmetric] twoV [symmetric]
    by (rule add2_nocarry [OF e1 e2 s1ne]) (use Mhi twoV Mhi_lt Vlt in simp)
  define L where "L = unat tt1_0 + 2 ^ 64 * (M mod 2 ^ 63)"
  have Llt: "L < 2 ^ 127"
  proof -
    have "M mod 2 ^ 63 \<le> 2 ^ 63 - 1" by simp
    then have "2 ^ 64 * (M mod 2 ^ 63) \<le> 2 ^ 64 * (2 ^ 63 - 1)" by (rule mult_left_mono) simp
    then show ?thesis using unat64_lt [of tt1_0] by (simp add: L_def)
  qed
  have Msplit: "M = 2 ^ 63 * (M div 2 ^ 63) + M mod 2 ^ 63" by simp
  have NLH: "N = L + 2 ^ 127 * H"
  proof -
    define q where "q = M div 2 ^ 63"
    define r where "r = M mod 2 ^ 63"
    have n: "N = unat tt1_0 + 2 ^ 64 * M + 2 ^ 128 * V" by (simp add: N M_def V_def)
    have m: "M = 2 ^ 63 * q + r" by (simp add: q_def r_def)
    have "unat tt1_0 + 2 ^ 64 * (2 ^ 63 * q + r) + 2 ^ 128 * V
          = (unat tt1_0 + 2 ^ 64 * r) + 2 ^ 127 * (q + 2 * V)"
      by (simp add: algebra_simps)
    then show ?thesis unfolding n L_def H_def q_def [symmetric] r_def [symmetric]
      by (simp only: m)
  qed
  have Nmod: "N mod 2 ^ 127 = L" and Ndiv: "N div 2 ^ 127 = H"
    using Llt by (simp_all add: NLH)
  have Hlt: "H < 2 ^ 127"
    using lim unfolding Ndiv [symmetric] by (simp add: less_mult_imp_div_less)
  have lo63: "unat (tt2_0 AND 0x7FFFFFFFFFFFFFFF) = M mod 2 ^ 63"
  proof -
    have "(2 ^ 64 * unat tt2_1 + unat tt2_0) mod 2 ^ 63 = unat tt2_0 mod 2 ^ 63"
    proof -
      have "(2 ^ 63 * (2 * unat tt2_1) + unat tt2_0) mod 2 ^ 63 = unat tt2_0 mod 2 ^ 63"
        by (rule mod_mult_self4)
      then show ?thesis by simp
    qed
    then show ?thesis by (simp add: unat_and_mask63 M_def add.commute)
  qed
  have h1ne: "h1 \<noteq> - 1"
    by (rule fval_ne_m1 [of h0]) (use Hv Hlt in simp)
  have Lv: "fval (l0, l1) = L + H"
  proof -
    have "fval (l0, l1) = fval (tt1_0, tt2_0 AND 0x7FFFFFFFFFFFFFFF) + fval (h0, h1)"
      by (rule add2_nocarry [OF e3 e4 h1ne]) (use Hv Hlt Llt lo63 in \<open>simp add: L_def\<close>)
    then show ?thesis using Hv by (simp add: lo63 L_def)
  qed
  have "fold127 N = L + H" by (simp only: fold127_def Nmod Ndiv)
  then show ?thesis using fold_step [OF e5 e6] Lv by (simp only: r)
qed

lemma prod_bound:
  "x < 2 ^ 64 \<Longrightarrow> y < 2 ^ 63 \<Longrightarrow> x * y \<le> 18446744073709551615 * (9223372036854775807 :: nat)"
  by (intro mult_mono) simp_all

lemma umul128_hi_bound:
  assumes "umul128 a b = (lo, hi)"
  shows "unat hi \<le> 18446744073709551614"
proof -
  have "unat a * unat b \<le> 18446744073709551615 * 18446744073709551615"
    using unat64_lt [of a] unat64_lt [of b] by (intro mult_mono) simp_all
  then have "unat a * unat b div 2 ^ 64 \<le> 18446744073709551615 * 18446744073709551615 div 2 ^ 64"
    by (rule div_le_mono)
  then show ?thesis using umul128_nat(2) [OF assms] by simp
qed

lemma cross_terms:
  assumes e00: "umul128 a0 b0 = (tt1_0, h00)" and e01: "umul128 a0 b1 = (x0, x1)"
    and e1: "addcarry_u64 t 0 x0 h00 = (k1, y0)" and e2: "addcarry_u64 t k1 x1 0 = (k2, y1)"
    and e10: "umul128 a1 b0 = (z0, z1)"
    and e3: "addcarry_u64 t 0 y0 z0 = (k3, m0)" and e4: "addcarry_u64 t k3 y1 z1 = (k4, m1)"
    and a1: "unat a1 < 2 ^ 63" and b1: "unat b1 < 2 ^ 63"
  shows "unat tt1_0 + 2 ^ 64 * fval (m0, m1) + 2 ^ 128 * (unat a1 * unat b1)
         = fval (a0, a1) * fval (b0, b1)"
proof -
  have p01: "unat a0 * unat b1 \<le> 18446744073709551615 * 9223372036854775807"
    by (rule prod_bound [OF unat64_lt_pow b1])
  have p10: "unat a1 * unat b0 \<le> 18446744073709551615 * 9223372036854775807"
    using prod_bound [OF unat64_lt_pow a1, of b0] by (simp add: mult.commute)
  have h: "unat h00 \<le> 18446744073709551614" by (rule umul128_hi_bound [OF e00])
  have x: "fval (x0, x1) = unat a0 * unat b1" using umul128_sum [OF e01] by simp
  have z: "fval (z0, z1) = unat a1 * unat b0" using umul128_sum [OF e10] by simp
  have y: "fval (y0, y1) = fval (x0, x1) + fval (h00, 0)"
    by (rule add2_nocarry [OF e1 e2]) (use p01 h x in simp_all)
  have m: "fval (m0, m1) = fval (y0, y1) + fval (z0, z1)"
    by (rule add2_nocarry [OF e3 e4 umul128_hi_ne_m1 [OF e10]]) (use p01 p10 h x y z in simp)
  have "fval (m0, m1) = unat a0 * unat b1 + unat h00 + unat a1 * unat b0"
    using m y x z by simp
  moreover have "unat tt1_0 + 2 ^ 64 * unat h00 = unat a0 * unat b0"
    by (rule umul128_sum [OF e00])
  ultimately show ?thesis by (simp add: algebra_simps)
qed

lemma fpmul1271_val:
  assumes "fval a < 2 ^ 127" and "fval b < 2 ^ 127"
  shows "fval (fpmul1271 t a b) = fold127 (fold127 (fval a * fval b))"
proof -
  obtain a0 a1 where a: "a = (a0, a1)" by (cases a)
  obtain b0 b1 where b: "b = (b0, b1)" by (cases b)
  obtain tt1_0 h00 where e00: "umul128 a0 b0 = (tt1_0, h00)" by force
  obtain x0 x1 where e01: "umul128 a0 b1 = (x0, x1)" by force
  obtain k1 y0 where e1: "addcarry_u64 t 0 x0 h00 = (k1, y0)" by force
  obtain k2 y1 where e2: "addcarry_u64 t k1 x1 0 = (k2, y1)" by force
  obtain z0 z1 where e10: "umul128 a1 b0 = (z0, z1)" by force
  obtain k3 m0 where e3: "addcarry_u64 t 0 y0 z0 = (k3, m0)" by force
  obtain k4 m1 where e4: "addcarry_u64 t k3 y1 z1 = (k4, m1)" by force
  have r: "fpmul1271 t a b = fp_tail t tt1_0 m0 m1 a1 b1"
    unfolding fpmul1271_def fp_tail_def a b
    by (simp only: Let_def prod.case e00 e01 e1 e2 e10 e3 e4)
  have a1: "unat a1 < 2 ^ 63" and b1: "unat b1 < 2 ^ 63" using assms by (simp_all add: a b)
  have N: "fval a * fval b
           = unat tt1_0 + 2 ^ 64 * fval (m0, m1) + 2 ^ 128 * (unat a1 * unat b1)"
    unfolding a b by (rule cross_terms [OF e00 e01 e1 e2 e10 e3 e4 a1 b1, symmetric])
  have "fval a * fval b < 2 ^ 127 * 2 ^ 127"
    using assms by (intro mult_strict_mono) simp_all
  then have lim: "fval a * fval b < 2 ^ 254" by simp
  show ?thesis unfolding r by (rule fp_tail_val [OF a1 b1 N lim])
qed

lemma fpsqr1271_val:
  assumes "fval a < 2 ^ 127"
  shows "fval (fpsqr1271 t a) = fold127 (fold127 (fval a * fval a))"
proof -
  obtain a0 a1 where a: "a = (a0, a1)" by (cases a)
  obtain tt1_0 h00 where e00: "umul128 a0 a0 = (tt1_0, h00)" by force
  obtain x0 x1 where e01: "umul128 a0 a1 = (x0, x1)" by force
  obtain k1 y0 where e1: "addcarry_u64 t 0 x0 h00 = (k1, y0)" by force
  obtain k2 y1 where e2: "addcarry_u64 t k1 x1 0 = (k2, y1)" by force
  obtain k3 m0 where e3: "addcarry_u64 t 0 x0 y0 = (k3, m0)" by force
  obtain k4 m1 where e4: "addcarry_u64 t k3 x1 y1 = (k4, m1)" by force
  have r: "fpsqr1271 t a = fp_tail t tt1_0 m0 m1 a1 a1"
    unfolding fpsqr1271_def fp_tail_def a
    by (simp only: Let_def prod.case e00 e01 e1 e2 e3 e4)
  have a1: "unat a1 < 2 ^ 63" using assms by (simp add: a)
  have p01: "unat a0 * unat a1 \<le> 18446744073709551615 * 9223372036854775807"
    by (rule prod_bound [OF unat64_lt_pow a1])
  have h: "unat h00 \<le> 18446744073709551614" by (rule umul128_hi_bound [OF e00])
  have x: "fval (x0, x1) = unat a0 * unat a1" using umul128_sum [OF e01] by simp
  have y: "fval (y0, y1) = fval (x0, x1) + fval (h00, 0)"
    by (rule add2_nocarry [OF e1 e2]) (use p01 h x in simp_all)
  have y1: "y1 \<noteq> - 1"
    by (rule fval_ne_m1 [of y0]) (use y x p01 h in simp)
  have m: "fval (m0, m1) = fval (x0, x1) + fval (y0, y1)"
    by (rule add2_nocarry [OF e3 e4 y1]) (use p01 h x y in simp)
  have "fval (m0, m1) = unat a0 * unat a1 + unat h00 + unat a1 * unat a0"
    using m y x by (simp add: mult.commute)
  moreover have "unat tt1_0 + 2 ^ 64 * unat h00 = unat a0 * unat a0"
    by (rule umul128_sum [OF e00])
  ultimately have N: "fval a * fval a
           = unat tt1_0 + 2 ^ 64 * fval (m0, m1) + 2 ^ 128 * (unat a1 * unat a1)"
    unfolding a by (simp add: algebra_simps)
  have "fval a * fval a < 2 ^ 127 * 2 ^ 127"
    using assms by (intro mult_strict_mono) simp_all
  then have lim: "fval a * fval a < 2 ^ 254" by simp
  show ?thesis unfolding r by (rule fp_tail_val [OF a1 a1 N lim])
qed

lemma fold2_le:
  assumes "x \<le> p1271" and "y \<le> p1271"
  shows "fold127 (fold127 (x * y)) \<le> p1271"
proof -
  have "x * y \<le> p1271 * p1271" using assms by (rule mult_mono) simp_all
  then have le: "x * y \<le> 170141183460469231731687303715884105727 * 170141183460469231731687303715884105727"
    by (simp add: p1271_def)
  then have "x * y div 2 ^ 127
    \<le> 170141183460469231731687303715884105727 * 170141183460469231731687303715884105727 div 2 ^ 127"
    by (rule div_le_mono)
  then have d: "x * y div 2 ^ 127 \<le> 2 ^ 127 - 2" by simp
  have "x * y mod 2 ^ 127 < 2 ^ 127" by simp
  then have "fold127 (x * y) \<le> 2 ^ 128 - 2" using d by (simp add: fold127_def)
  then show ?thesis by (rule fold127_le)
qed

lemma fold2_mod: "fold127 (fold127 n) mod p1271 = n mod p1271"
  by (simp only: fold127_mod)

lemma le_p_iff: "(x \<le> p1271) = (x < 2 ^ 127)"
  by (auto simp: p1271_def)

lemma fpmul1271_le:
  assumes "fval a \<le> p1271" and "fval b \<le> p1271"
  shows "fval (fpmul1271 t a b) \<le> p1271"
proof -
  have "fval a < 2 ^ 127" "fval b < 2 ^ 127" using assms by (simp_all only: le_p_iff)
  then show ?thesis using fold2_le [OF assms] by (simp only: fpmul1271_val)
qed

lemma fpmul1271_mod:
  "fval a \<le> p1271 \<Longrightarrow> fval b \<le> p1271 \<Longrightarrow>
   fval (fpmul1271 t a b) mod p1271 = (fval a * fval b) mod p1271"
  by (simp add: fpmul1271_val le_p_iff fold2_mod)

lemma fpsqr1271_le:
  assumes "fval a \<le> p1271"
  shows "fval (fpsqr1271 t a) \<le> p1271"
proof -
  have "fval a < 2 ^ 127" using assms by (simp only: le_p_iff)
  then show ?thesis using fold2_le [OF assms assms] by (simp only: fpsqr1271_val)
qed

lemma fpsqr1271_mod:
  "fval a \<le> p1271 \<Longrightarrow> fval (fpsqr1271 t a) mod p1271 = (fval a * fval a) mod p1271"
  by (simp add: fpsqr1271_val le_p_iff fold2_mod)

subsection \<open>The addition chain of \<^verbatim>\<open>fpexp1251\<close>\<close>

lemma frep_sqr:
  assumes "frep A x n"
  shows "frep A (fpsqr1271 t x) (2 * n)"
proof -
  have le: "fval x \<le> p1271" and md: "fval x mod p1271 = A ^ n mod p1271"
    using assms by (simp_all add: frep_def)
  have "fval (fpsqr1271 t x) mod p1271 = (fval x * fval x) mod p1271"
    by (rule fpsqr1271_mod [OF le])
  also have "\<dots> = ((fval x mod p1271) * (fval x mod p1271)) mod p1271"
    by (simp add: mod_mult_eq)
  also have "\<dots> = (A ^ n * A ^ n) mod p1271"
    unfolding md by (simp add: mod_mult_eq)
  also have "A ^ n * A ^ n = A ^ (2 * n)"
    by (simp add: power_add [symmetric] mult_2)
  finally show ?thesis using fpsqr1271_le [OF le] by (simp add: frep_def)
qed

lemma frep_mul:
  assumes "frep A x n" and "frep A y m"
  shows "frep A (fpmul1271 t x y) (n + m)"
proof -
  have lx: "fval x \<le> p1271" and mx: "fval x mod p1271 = A ^ n mod p1271"
    using assms(1) by (simp_all add: frep_def)
  have ly: "fval y \<le> p1271" and my: "fval y mod p1271 = A ^ m mod p1271"
    using assms(2) by (simp_all add: frep_def)
  have "fval (fpmul1271 t x y) mod p1271 = (fval x * fval y) mod p1271"
    by (rule fpmul1271_mod [OF lx ly])
  also have "\<dots> = ((fval x mod p1271) * (fval y mod p1271)) mod p1271"
    by (simp add: mod_mult_eq)
  also have "\<dots> = (A ^ n * A ^ m) mod p1271"
    unfolding mx my by (simp add: mod_mult_eq)
  also have "A ^ n * A ^ m = A ^ (n + m)"
    by (simp add: power_add)
  finally show ?thesis using fpmul1271_le [OF lx ly] by (simp add: frep_def)
qed

lemma frep_sqr_times:
  "frep A x n \<Longrightarrow> frep A (fpsqr1271_times t k x) (n * 2 ^ k)"
proof (induction k arbitrary: x n)
  case 0
  then show ?case by simp
next
  case (Suc k)
  have "frep A (fpsqr1271_times t k (fpsqr1271 t x)) ((2 * n) * 2 ^ k)"
    by (rule Suc.IH [OF frep_sqr [OF Suc.prems]])
  then show ?case by (simp add: mult.assoc mult.left_commute)
qed

lemma frep_sqr_times_num:
  "frep A x n \<Longrightarrow> m = n * 2 ^ k \<Longrightarrow> frep A (fpsqr1271_times t k x) m"
  using frep_sqr_times by simp

lemma frep_mul_num:
  "frep A x n \<Longrightarrow> frep A y m \<Longrightarrow> l = n + m \<Longrightarrow> frep A (fpmul1271 t x y) l"
  using frep_mul by simp

lemma frep_sqr_num:
  "frep A x n \<Longrightarrow> m = 2 * n \<Longrightarrow> frep A (fpsqr1271 t x) m"
  using frep_sqr by simp

lemma fpexp1251_frep:
  assumes "fval a \<le> p1271"
  shows "frep (fval a) (fpexp1251 t a) (2 ^ 125 - 1)"
proof -
  define A where "A = fval a"
  have r1: "frep A a 1" using assms by (simp add: frep_def A_def)
  define u2 where "u2 = fpmul1271 t a (fpsqr1271 t a)"
  have r2: "frep A u2 3"
    unfolding u2_def by (rule frep_mul_num [OF r1 frep_sqr [OF r1]]) simp
  define u3 where "u3 = fpmul1271 t u2 (fpsqr1271 t (fpsqr1271 t u2))"
  have r3: "frep A u3 15"
    unfolding u3_def by (rule frep_mul_num [OF r2 frep_sqr [OF frep_sqr [OF r2]]]) simp
  define u4 where
    "u4 = fpmul1271 t u3 (fpsqr1271 t (fpsqr1271 t (fpsqr1271 t (fpsqr1271 t u3))))"
  have r4: "frep A u4 255"
    unfolding u4_def
    by (rule frep_mul_num [OF r3 frep_sqr [OF frep_sqr [OF frep_sqr [OF frep_sqr [OF r3]]]]]) simp
  define u5 where "u5 = fpmul1271 t u4 (fpsqr1271_times t 7 (fpsqr1271 t u4))"
  have r5: "frep A u5 65535"
    unfolding u5_def
    by (rule frep_mul_num [OF r4 frep_sqr_times [OF frep_sqr [OF r4]]]) simp
  define v2 where "v2 = fpmul1271 t u5 (fpsqr1271_times t 15 (fpsqr1271 t u5))"
  have s2: "frep A v2 4294967295"
    unfolding v2_def
    by (rule frep_mul_num [OF r5 frep_sqr_times [OF frep_sqr [OF r5]]]) simp
  define w1 where "w1 = fpmul1271 t v2 (fpsqr1271_times t 31 (fpsqr1271 t v2))"
  have q1: "frep A w1 18446744073709551615"
    unfolding w1_def
    by (rule frep_mul_num [OF s2 frep_sqr_times [OF frep_sqr [OF s2]]]) simp
  define w2 where "w2 = fpmul1271 t (fpsqr1271_times t 32 w1) v2"
  have q2: "frep A w2 (2 ^ 96 - 1)"
    unfolding w2_def by (rule frep_mul_num [OF frep_sqr_times [OF q1] s2]) simp
  define w3 where "w3 = fpmul1271 t u5 (fpsqr1271_times t 16 w2)"
  have q3: "frep A w3 (2 ^ 112 - 1)"
    unfolding w3_def by (rule frep_mul_num [OF r5 frep_sqr_times [OF q2]]) simp
  define w4 where "w4 = fpmul1271 t u4 (fpsqr1271_times t 8 w3)"
  have q4: "frep A w4 (2 ^ 120 - 1)"
    unfolding w4_def by (rule frep_mul_num [OF r4 frep_sqr_times [OF q3]]) simp
  define w5 where "w5 = fpmul1271 t u3 (fpsqr1271_times t 4 w4)"
  have q5: "frep A w5 (2 ^ 124 - 1)"
    unfolding w5_def by (rule frep_mul_num [OF r3 frep_sqr_times [OF q4]]) simp
  have q6: "frep A (fpmul1271 t a (fpsqr1271 t w5)) (2 ^ 125 - 1)"
    by (rule frep_mul_num [OF r1 frep_sqr [OF q5]]) simp
  have "fpexp1251 t a = fpmul1271 t a (fpsqr1271 t w5)"
    unfolding fpexp1251_def Let_def w5_def w4_def w3_def w2_def w1_def v2_def u5_def u4_def
      u3_def u2_def ..
  then show ?thesis using q6 by (simp only: A_def)
qed

subsection \<open>Halving a doubled element\<close>

lemma fpdiv1271_double:
  assumes "fval a < 2 ^ 127"
  shows "fpdiv1271 t (fpadd1271 t a a) = a"
proof (rule fval_inj)
  define A where "A = fval a"
  define D where "D = fval (fpadd1271 t a a)"
  have D: "D = fold127 (2 * A)"
    unfolding D_def A_def using fpadd1271_val [OF assms assms, of t] by (simp add: mult_2)
  have "D \<le> p1271" unfolding D_def by (rule fpadd1271_le [OF assms assms])
  then have Dlt: "fval (fpadd1271 t a a) < 2 ^ 127" by (simp add: D_def p1271_def)
  have A: "A < 2 ^ 127" using assms by (simp add: A_def)
  have "(if even D then D div 2 else (D + p1271) div 2) = A"
  proof (cases "2 * A < 2 ^ 127")
    case True
    then have "D = 2 * A" by (simp add: D fold127_small)
    then show ?thesis by simp
  next
    case False
    then have "(2 * A) div 2 ^ 127 = 1" using A by (simp add: div_nat_eqI)
    moreover have "(2 * A) mod 2 ^ 127 = 2 * A - 2 ^ 127"
      using False A by (simp add: mod_nat_eqI)
    ultimately have d: "D = 2 * A - 2 ^ 127 + 1" by (simp add: D fold127_def)
    then have "D + p1271 = 2 * A" using False by (simp add: p1271_def)
    moreover have "odd D" using d False by simp
    ultimately show ?thesis by simp
  qed
  then show "fval (fpdiv1271 t (fpadd1271 t a a)) = fval a"
    unfolding fpdiv1271_val [OF Dlt] D_def A_def .
qed

section \<open>Computing the field operations on concrete operands\<close>

lemma fval_felm_of: "n < 2 ^ 128 \<Longrightarrow> fval (felm_of n) = n"
proof -
  assume n: "n < 2 ^ 128"
  have "n div 2 ^ 64 < 2 ^ 64" using n by (simp add: less_mult_imp_div_less)
  then have "unat (of_nat (n div 2 ^ 64) :: u64) = n div 2 ^ 64"
    by (simp add: unat_of_nat)
  moreover have "unat (of_nat n :: u64) = n mod 2 ^ 64" by (simp add: unat_of_nat)
  ultimately show ?thesis by (simp add: felm_of_def)
qed

lemma felm_of_unique: "fval x = n \<Longrightarrow> x = felm_of n"
proof (rule fval_inj)
  assume "fval x = n"
  then show "fval x = fval (felm_of n)"
    using fval_lt [of x] by (simp add: fval_felm_of)
qed

lemma fpadd1271_eval:
  "fval a < 2 ^ 127 \<Longrightarrow> fval b < 2 ^ 127 \<Longrightarrow>
   fpadd1271 t a b = felm_of (fold127 (fval a + fval b))"
  by (rule felm_of_unique) (rule fpadd1271_val)

lemma fpsub1271_eval:
  "fval a < 2 ^ 127 \<Longrightarrow> fval b < 2 ^ 127 \<Longrightarrow>
   fpsub1271 t a b = felm_of (if fval b \<le> fval a then fval a - fval b
                              else fval a + p1271 - fval b)"
  by (rule felm_of_unique) (rule fpsub1271_val)

lemma fpmul1271_eval:
  "fval a < 2 ^ 127 \<Longrightarrow> fval b < 2 ^ 127 \<Longrightarrow>
   fpmul1271 t a b = felm_of (fold127 (fold127 (fval a * fval b)))"
  by (rule felm_of_unique) (rule fpmul1271_val)

lemma fpsqr1271_eval:
  "fval a < 2 ^ 127 \<Longrightarrow> fpsqr1271 t a = felm_of (fold127 (fold127 (fval a * fval a)))"
  by (rule felm_of_unique) (rule fpsqr1271_val)

lemma fpneg1271_eval:
  "fval a < 2 ^ 127 \<Longrightarrow> fpneg1271 a = felm_of (p1271 - fval a)"
  by (rule felm_of_unique) (rule fpneg1271_val)

lemma mod1271_eval:
  "fval a < 2 ^ 128 - 1 \<Longrightarrow>
   mod1271 t a = felm_of (if fval a < p1271 then fval a else fval a - p1271)"
  by (rule felm_of_unique) (rule mod1271_val)

lemma fpdiv1271_eval:
  "fval a < 2 ^ 127 \<Longrightarrow>
   fpdiv1271 t a = felm_of (if even (fval a) then fval a div 2 else (fval a + p1271) div 2)"
  by (rule felm_of_unique) (rule fpdiv1271_val)

lemma fpsqr1271_times_numeral:
  "fpsqr1271_times t (numeral k) x = fpsqr1271_times t (pred_numeral k) (fpsqr1271 t x)"
  by (simp add: numeral_eq_Suc)

lemma fpsqr1271_times_1: "fpsqr1271_times t 1 x = fpsqr1271 t x"
  by simp

lemmas field_eval =
  fpsqr1271_times_numeral fpsqr1271_times_1
  fpadd1271_eval fpsub1271_eval fpmul1271_eval fpsqr1271_eval fpneg1271_eval mod1271_eval
  fpdiv1271_eval felm_of_def fold127_def p1271_def

lemma fpsqr1271_times_add:
  "fpsqr1271_times t (m + n) x = fpsqr1271_times t n (fpsqr1271_times t m x)"
  by (induction m arbitrary: x) simp_all

lemma fpsqr1271_times_125:
  "fpsqr1271_times t 125 x =
   fpsqr1271_times t 25 (fpsqr1271_times t 25 (fpsqr1271_times t 25
     (fpsqr1271_times t 25 (fpsqr1271_times t 25 x))))"
  by (simp add: fpsqr1271_times_add [symmetric])

section \<open>KangarooTwelve: the absorbing loop, byte by byte\<close>

text \<open>
  \<^verbatim>\<open>KangarooTwelve_F_Absorb\<close> takes whole blocks where it can and a partial block
  otherwise. Started at an index below the rate, it leaves the state that absorbing the
  same bytes one at a time leaves.
\<close>

lemma u8_168: "unat (168 :: u8) = 168" by simp

lemma idx_succ:
  assumes "unat (idx :: u8) < 168"
  shows "unat (idx + 1) = unat idx + 1" and "(idx + 1 = 168) = (unat idx + 1 = 168)"
proof -
  show 1: "unat (idx + 1) = unat idx + 1"
    using assms by (simp add: unat_word_ariths)
  have "(idx + 1 = 168) = (unat (idx + 1) = unat (168 :: u8))"
    by (simp only: word_unat_eq_iff)
  then show "(idx + 1 = 168) = (unat idx + 1 = 168)" by (simp only: 1 u8_168)
qed

lemma idx_add:
  assumes "unat (idx :: u8) + n \<le> 168"
  shows "unat (idx + of_nat n) = unat idx + n" and "(idx + of_nat n = 168) = (unat idx + n = 168)"
proof -
  have n: "unat (of_nat n :: u8) = n" using assms by (simp add: unat_of_nat)
  show 1: "unat (idx + of_nat n) = unat idx + n"
    using assms by (simp add: unat_word_ariths n)
  have "(idx + of_nat n = 168) = (unat (idx + of_nat n) = unat (168 :: u8))"
    by (simp only: word_unat_eq_iff)
  then show "(idx + of_nat n = 168) = (unat idx + n = 168)" by (simp only: 1 u8_168)
qed

lemma fold_sponge_partial:
  "unat idx + length bs \<le> 168 \<Longrightarrow> unat idx < 168 \<Longrightarrow>
   fold sponge_byte bs \<lparr>kstate = st, byteIOIndex = idx\<rparr> =
     (if unat idx + length bs = 168
      then \<lparr>kstate = KeccakP1600_Permute_12rounds (xor_bytes st (unat idx) bs), byteIOIndex = 0\<rparr>
      else \<lparr>kstate = xor_bytes st (unat idx) bs, byteIOIndex = idx + of_nat (length bs)\<rparr>)"
proof (induction bs arbitrary: st idx)
  case Nil
  then show ?case by simp
next
  case (Cons b bs)
  show ?case
  proof (cases "unat idx + 1 = 168")
    case True
    then have bs: "bs = []" using Cons.prems by simp
    have c: "idx + 1 = 168" using True Cons.prems(2) by (simp only: idx_succ)
    have "sponge_byte b \<lparr>kstate = st, byteIOIndex = idx\<rparr>
             = \<lparr>kstate = KeccakP1600_Permute_12rounds (xor_byte st (unat idx) b),
                 byteIOIndex = 0\<rparr>"
      by (simp only: sponge_byte_def Let_def KangarooTwelve_F.simps c) simp
    then show ?thesis using True bs by simp
  next
    case False
    then have lt: "unat (idx + 1) < 168" and eq: "unat (idx + 1) = unat idx + 1"
      using Cons.prems(2) by (simp_all add: idx_succ)
    have le: "unat (idx + 1) + length bs \<le> 168" using Cons.prems(1) eq by simp
    have c: "idx + 1 \<noteq> 168" using False Cons.prems(2) by (simp only: idx_succ) simp
    have s: "sponge_byte b \<lparr>kstate = st, byteIOIndex = idx\<rparr>
             = \<lparr>kstate = xor_byte st (unat idx) b, byteIOIndex = idx + 1\<rparr>"
      using c by (simp only: sponge_byte_def Let_def KangarooTwelve_F.simps) simp
    have a: "idx + 1 + of_nat (length bs) = idx + (1 + of_nat (length bs))"
      by (simp add: add.assoc)
    show ?thesis
      using Cons.IH [OF le lt, of "xor_byte st (unat idx) b"]
      by (simp add: s eq a)
  qed
qed


lemma absorb_blocks_fold:
  "absorb_blocks st data = (st', rest) \<Longrightarrow>
   fold sponge_byte data \<lparr>kstate = st, byteIOIndex = 0\<rparr>
     = fold sponge_byte rest \<lparr>kstate = st', byteIOIndex = 0\<rparr>"
proof (induction st data rule: absorb_blocks.induct)
  case (1 st data)
  show ?case
  proof (cases "K12_rateInBytes \<le> length data")
    case True
    then have r: "absorb_blocks
             (KeccakP1600_Permute_12rounds (xor_bytes st 0 (take K12_rateInBytes data)))
             (drop K12_rateInBytes data) = (st', rest)"
      using "1.prems" by (simp add: absorb_blocks.simps [of st data])
    have l: "length (take K12_rateInBytes data) = 168"
      using True by (simp add: K12_rateInBytes_def)
    have "fold sponge_byte (take K12_rateInBytes data) \<lparr>kstate = st, byteIOIndex = 0\<rparr>
          = \<lparr>kstate = KeccakP1600_Permute_12rounds (xor_bytes st 0 (take K12_rateInBytes data)),
             byteIOIndex = 0\<rparr>"
      using fold_sponge_partial [of 0 "take K12_rateInBytes data" st] l by simp
    then have "fold sponge_byte (take K12_rateInBytes data @ drop K12_rateInBytes data)
                 \<lparr>kstate = st, byteIOIndex = 0\<rparr>
          = fold sponge_byte rest \<lparr>kstate = st', byteIOIndex = 0\<rparr>"
      using "1.IH" [OF True r] by (simp only: fold_append comp_apply)
    then show ?thesis by simp
  next
    case False
    then show ?thesis using "1.prems" by (simp add: absorb_blocks.simps [of st data])
  qed
qed

lemma sponge_byte_index:
  "unat (byteIOIndex f) < 168 \<Longrightarrow> unat (byteIOIndex (sponge_byte b f)) < 168"
proof -
  assume a: "unat (byteIOIndex f) < 168"
  show ?thesis
  proof (cases "byteIOIndex f + 1 = 168")
    case True
    then show ?thesis by (simp add: sponge_byte_def)
  next
    case False
    then have "unat (byteIOIndex f) + 1 \<noteq> 168" using a by (simp only: idx_succ) simp
    then have "unat (byteIOIndex f + 1) < 168" using a by (simp add: idx_succ)
    then show ?thesis using False by (simp add: sponge_byte_def Let_def)
  qed
qed

lemma fold_sponge_index:
  "unat (byteIOIndex f) < 168 \<Longrightarrow> unat (byteIOIndex (fold sponge_byte bs f)) < 168"
  by (induction bs arbitrary: f) (simp_all add: sponge_byte_index)

lemma Absorb_Nil: "KangarooTwelve_F_Absorb inst [] = inst"
  by (simp add: KangarooTwelve_F_Absorb.simps [of inst "[]"])

lemma Absorb_fold:
  "unat (byteIOIndex inst) < 168 \<Longrightarrow>
   KangarooTwelve_F_Absorb inst data = fold sponge_byte data inst"
proof (induction inst data rule: KangarooTwelve_F_Absorb.induct)
  case (1 inst data)
  show ?case
  proof (cases "data = []")
    case True
    then show ?thesis by (simp add: Absorb_Nil)
  next
    case ne: False
    show ?thesis
    proof (cases "byteIOIndex inst = 0 \<and> K12_rateInBytes \<le> length data")
      case True
      obtain st rest where ab: "absorb_blocks (kstate inst) data = (st, rest)"
        by (cases "absorb_blocks (kstate inst) data")
      have i: "inst = \<lparr>kstate = kstate inst, byteIOIndex = 0\<rparr>" using True by simp
      have "KangarooTwelve_F_Absorb inst data
            = KangarooTwelve_F_Absorb (inst\<lparr>kstate := st\<rparr>) rest"
        using ne True ab by (simp add: KangarooTwelve_F_Absorb.simps [of inst data])
      also have "\<dots> = fold sponge_byte rest (inst\<lparr>kstate := st\<rparr>)"
        using "1.IH"(1) [OF ne True refl ab [symmetric]] True by simp
      also have "inst\<lparr>kstate := st\<rparr> = \<lparr>kstate = st, byteIOIndex = 0\<rparr>" using True by simp
      also have "fold sponge_byte rest \<lparr>kstate = st, byteIOIndex = 0\<rparr>
                 = fold sponge_byte data \<lparr>kstate = kstate inst, byteIOIndex = 0\<rparr>"
        by (rule absorb_blocks_fold [OF ab, symmetric])
      finally show ?thesis using i by simp
    next
      case False
      define pb where "pb = (if K12_rateInBytes < length data + unat (byteIOIndex inst)
                   then 168 - byteIOIndex inst else (of_nat (length data) :: u8))"
      define st where "st = xor_bytes (kstate inst) (unat (byteIOIndex inst)) (take (unat pb) data)"
      define inst' where "inst' = (if byteIOIndex inst + pb = 168
                        then \<lparr>kstate = KeccakP1600_Permute_12rounds st, byteIOIndex = 0\<rparr>
                        else \<lparr>kstate = st, byteIOIndex = byteIOIndex inst + pb\<rparr>)"
      have step: "KangarooTwelve_F_Absorb inst data
                  = KangarooTwelve_F_Absorb inst' (drop (unat pb) data)"
        by (simp only: KangarooTwelve_F_Absorb.simps [of inst data] ne False if_False Let_def
                       pb_def st_def inst'_def)
      define n where "n = unat pb"
      have lt: "unat (byteIOIndex inst) < 168" using "1.prems" .
      have pbn: "n = min (168 - unat (byteIOIndex inst)) (length data)"
      proof (cases "K12_rateInBytes < length data + unat (byteIOIndex inst)")
        case True
        have "unat (168 - byteIOIndex inst) = 168 - unat (byteIOIndex inst)"
          using lt by (simp add: unat_sub word_le_nat_alt)
        then show ?thesis using True by (simp add: pb_def n_def K12_rateInBytes_def)
      next
        case False
        then have "length data \<le> 168" by (simp add: K12_rateInBytes_def)
        then have "unat (of_nat (length data) :: u8) = length data" by (simp add: unat_of_nat)
        then show ?thesis using False by (simp add: pb_def n_def K12_rateInBytes_def)
      qed
      have "of_nat (unat pb) = pb" by simp
      then have pbw: "pb = of_nat n" by (simp only: n_def)
      have le: "unat (byteIOIndex inst) + n \<le> 168" using lt by (simp add: pbn)
      have ln: "length (take n data) = n" by (simp add: pbn)
      have i: "inst = \<lparr>kstate = kstate inst, byteIOIndex = byteIOIndex inst\<rparr>" by simp
      have st: "st = xor_bytes (kstate inst) (unat (byteIOIndex inst)) (take n data)"
        by (simp only: st_def n_def)
      have c: "(byteIOIndex inst + pb = 168) = (unat (byteIOIndex inst) + n = 168)"
        using idx_add(2) [OF le] by (simp only: pbw [symmetric])
      have le': "unat (byteIOIndex inst) + length (take n data) \<le> 168"
        by (simp only: ln le)
      have "fold sponge_byte (take n data) \<lparr>kstate = kstate inst, byteIOIndex = byteIOIndex inst\<rparr>
               = inst'"
        using fold_sponge_partial [OF le' lt, of "kstate inst"]
        by (simp only: ln inst'_def st pbw idx_add(2) [OF le])
      then have f: "fold sponge_byte (take n data) inst = inst'" using i by simp
      have lt': "unat (byteIOIndex inst') < 168"
        using fold_sponge_index [OF lt, of "take n data"] by (simp only: f)
      have "KangarooTwelve_F_Absorb inst' (drop (unat pb) data)
            = fold sponge_byte (drop (unat pb) data) inst'"
        by (rule "1.IH"(2) [OF ne False pb_def st_def refl inst'_def lt'])
      then have "KangarooTwelve_F_Absorb inst data
                 = fold sponge_byte (drop n data) (fold sponge_byte (take n data) inst)"
        using step f by (simp add: n_def)
      also have "\<dots> = fold sponge_byte (take n data @ drop n data) inst"
        by (simp only: fold_append comp_apply)
      also have "\<dots> = fold sponge_byte data inst" by (simp only: append_take_drop_id)
      finally show ?thesis .
    qed
  qed
qed

lemma xor_byte_zero: "xor_byte st i 0 = st"
  by (simp add: xor_byte_def)

lemma K12_zero_index: "unat (byteIOIndex K12_zero) < 168"
  by (simp add: K12_zero_def)

lemma K12_nodes_short:
  assumes "length input < K12_chunkSize"
  shows "K12_nodes input =
     (let f = KangarooTwelve_F_Absorb K12_zero input;
          idx = byteIOIndex f + 1;
          f = (if idx = 168
               then \<lparr>kstate = xor_byte (KeccakP1600_Permute_12rounds (kstate f)) 0 0x07,
                      byteIOIndex = idx\<rparr>
               else \<lparr>kstate = xor_byte (kstate f) (unat idx) 0x07, byteIOIndex = idx\<rparr>)
      in \<lparr>finalNode = f, queueNode = K12_zero, blockNumber = 0, queueAbsorbedLen = 0\<rparr>)"
proof -
  have m: "min K12_chunkSize (length input) = length input" using assms by simp
  have n: "(length input = K12_chunkSize) = False" using assms by simp
  show ?thesis
    by (simp only: K12_nodes_def m n Let_def take_all [OF order_refl] drop_all [OF order_refl]
                   simp_thms if_False)
qed

lemma K12_nodes_one_chunk:
  assumes "length input = K12_chunkSize"
  shows "K12_nodes input =
     \<lparr>finalNode = K12_first_chunk (KangarooTwelve_F_Absorb K12_zero input),
      queueNode = \<lparr>kstate = replicate 200 0, byteIOIndex = 1\<rparr>,
      blockNumber = 1, queueAbsorbedLen = 1\<rparr>"
proof -
  have m: "min K12_chunkSize (length input) = length input" using assms by simp
  have n: "(length input = K12_chunkSize) = True" using assms by simp
  show ?thesis
    by (simp only: K12_nodes_def m n Let_def take_all [OF order_refl] drop_all [OF order_refl]
                   simp_thms if_False if_True)
qed

lemma K12_encbuf_1: "K12_encbuf (Suc 0) = [1, 1, 0xFF, 0xFF]"
proof -
  have "K12_byte_count (Suc 0) 0 = Suc 0"
    by (simp add: K12_byte_count.simps [of "Suc 0" 0] K12_byte_count.simps [of 0 "Suc 0"])
  then show ?thesis by (simp add: K12_encbuf_def)
qed

lemma K12_one_chunk:
  assumes "length input = K12_chunkSize"
  shows "blockNumber (K12_nodes input) = 1 \<and> queueAbsorbedLen (K12_nodes input) = 1
     \<and> KangarooTwelve input outputByteLen =
      (let f = K12_first_chunk (KangarooTwelve_F_Absorb K12_zero input);
           leaf = K12_close_leaf \<lparr>kstate = replicate 200 0, byteIOIndex = 1\<rparr>;
           f = KangarooTwelve_F_Absorb f (take K12_capacityInBytes leaf);
           f = KangarooTwelve_F_Absorb f [1, 1, 0xFF, 0xFF];
           st = xor_byte (kstate f) (unat (byteIOIndex f)) 0x06;
           st = xor_byte st (K12_rateInBytes - 1) 0x80
       in take outputByteLen (KeccakP1600_Permute_12rounds st))"
  by (simp add: KangarooTwelve_def K12_final_def K12_nodes_one_chunk [OF assms] Let_def K12_encbuf_1)

section \<open>Signatures: buffers, the gate and the failure paths\<close>

lemma length_store64: "length (store64 w) = 8"
  by (simp add: store64_def)


lemma length_store_u256: "length (store_u256 a) = 32"
  by (simp add: store_u256_def length_store64 split: prod.splits)






lemma validate_xy:
  "ex R = ex R' \<Longrightarrow> ey R = ey R' \<Longrightarrow> ecc_point_validate t R = ecc_point_validate t R'"
  by (simp add: ecc_point_validate_def)

lemma and_0x80: "((x :: u8) AND 0x80 \<noteq> 0) = bit x 7"
proof -
  have "(0x80 :: u8) = 2 ^ 7" by simp
  then show ?thesis by (simp only: and_exp_eq_0_iff_not_bit) simp
qed

lemma and_0xC0: "((x :: u8) AND 0xC0 \<noteq> 0) = (bit x 6 \<or> bit x 7)"
proof -
  have "(0xC0 :: u8) = 2 ^ 6 OR 2 ^ 7" by simp
  then have "x AND 0xC0 = (x AND 2 ^ 6) OR (x AND 2 ^ 7)"
    by (simp only: bit.conj_disj_distrib)
  then show ?thesis by (simp only: or_eq_0_iff and_exp_eq_0_iff_not_bit) simp
qed

lemma verify_gate:
  assumes "bit (publicKey ! 15) 7 \<or> bit (signature ! 15) 7
           \<or> bit (signature ! 62) 6 \<or> bit (signature ! 62) 7 \<or> signature ! 63 \<noteq> 0"
  shows "verify_calls t publicKey messageDigest signature = ([], False)"
proof -
  have "publicKey ! 15 AND 0x80 \<noteq> 0 \<or> signature ! 15 AND 0x80 \<noteq> 0
         \<or> signature ! 62 AND 0xC0 \<noteq> 0 \<or> signature ! 63 \<noteq> 0"
    using assms by (simp only: and_0x80 and_0xC0) blast
  then show ?thesis by (simp only: verify_calls_def if_True)
qed

lemma ecc_mul_double_None:
  "(ecc_mul_double t k l Q = None) = (\<not> ecc_point_validate t (point_setup Q))"
  by (simp add: ecc_mul_double_def Let_def split_def)


lemma let_all: "(\<And>x. P (f x)) \<Longrightarrow> P (Let e f)"
  by simp

lemma decode_tail:
  "(let R = point_setup P
    in if \<not> ecc_point_validate t R
       then (let Rx1 = fpneg1271 (snd (ex R));
                 R = R\<lparr>ex := (fst (ex R), Rx1)\<rparr>;
                 P = P\<lparr>ax := (fst (ax P), Rx1)\<rparr>
             in if \<not> ecc_point_validate t R then None else Some P)
       else Some P) = Some A \<longrightarrow> ecc_point_validate t (point_setup A)"
proof -
  have e: "ecc_point_validate t (point_setup (P\<lparr>ax := x\<rparr>))
           = ecc_point_validate t ((point_setup P)\<lparr>ex := x\<rparr>)" for x
    by (rule validate_xy) (simp_all add: point_setup_def)
  have x: "ex (point_setup P) = ax P" by (simp add: point_setup_def)
  show ?thesis
    by (auto simp add: Let_def e x split: if_splits)
qed

lemma decode_validates:
  "decode t Pencoded = Some A \<longrightarrow> ecc_point_validate t (point_setup A)"
  unfolding decode_def split_def
  by (rule decode_tail
      | rule let_all [where P = "\<lambda>r. r = Some A \<longrightarrow> ecc_point_validate t (point_setup A)"])+

lemma verify_eq:
  "verify t publicKey messageDigest signature =
     (\<not> (bit (publicKey ! 15) 7 \<or> bit (signature ! 15) 7
          \<or> bit (signature ! 62) 6 \<or> bit (signature ! 62) 7 \<or> signature ! 63 \<noteq> 0)
      \<and> (\<exists>A R. decode t publicKey = Some A
            \<and> ecc_mul_double t (load_u256 (drop 32 signature))
                 (load_u256 (KangarooTwelve
                    (take 96 (copy32 (copy32 (copy32 (replicate 96 0) 0 signature)
                                        32 publicKey) 64 messageDigest)) 64)) A = Some R
            \<and> take 32 (encode_in_place R) = take 32 signature))"
proof (cases "bit (publicKey ! 15) 7 \<or> bit (signature ! 15) 7
          \<or> bit (signature ! 62) 6 \<or> bit (signature ! 62) 7 \<or> signature ! 63 \<noteq> 0")
  case True
  then show ?thesis using verify_gate [OF True] by (simp add: verify_def)
next
  case False
  then have g: "\<not> (publicKey ! 15 AND 0x80 \<noteq> 0 \<or> signature ! 15 AND 0x80 \<noteq> 0
         \<or> signature ! 62 AND 0xC0 \<noteq> 0 \<or> signature ! 63 \<noteq> 0)"
    by (simp only: and_0x80 and_0xC0) blast
  show ?thesis
    using False
    by (simp only: verify_def verify_calls_def g if_False Let_def)
       (auto split: option.splits)
qed

section \<open>KangarooTwelve of the empty input\<close>

text \<open>
  The permutation on the padded state of the empty input (byte 1 is \<open>0x07\<close>, byte 167 is
  \<open>0x80\<close>), one lemma for each of the twelve rounds, and the 32 bytes of output: the test
  vector \<open>1AC2D450 FC3B4205 D19DA7BF CA1B3751 3C080357 7AC7167F 06FE2CE1 F0EF39E5\<close> of
  KangarooTwelve for the empty message.
\<close>

lemma kv_r0: "thetaRhoPiChiIotaPrepareTheta 2147516555 ((1792, 0, 0, 0, 0, 0, 0, 0, 0, 0, 0, 0, 0, 0, 0, 0, 0, 0, 0, 0, 9223372036854775808, 0, 0, 0, 0), (9223372036854777600, 0, 0, 0, 0)) = ((2147518347, 31533993484615680, 58736640, 1792, 31533993543352320, 0, 63067990728376320, 0, 63067986969231360, 3759144960, 3585, 917760, 0, 921345, 131072, 481172390400, 0, 1835520, 481170554880, 0, 1970874592788480, 0, 1970874592795650, 0, 7170), (1971357912697738, 40558788685463808, 1970874653367810, 63068468140705793, 31533997302635522))"
  by code_simp

lemma kv_r1: "thetaRhoPiChiIotaPrepareTheta 9223372036854775947 ((2147518347, 31533993484615680, 58736640, 1792, 31533993543352320, 0, 63067990728376320, 0, 63067986969231360, 3759144960, 3585, 917760, 0, 921345, 131072, 481172390400, 0, 1835520, 481170554880, 0, 1970874592788480, 0, 1970874592795650, 0, 7170), (1971357912697738, 40558788685463808, 1970874653367810, 63068468140705793, 31533997302635522)) = ((10506941918157395970, 5569095779095617169, 10433802447062484889, 2245518427838612834, 14288943068686370377, 2219093845699522832, 11344429411724959493, 759954970860765208, 11146629054158873068, 89763500335845185, 248637113032630589, 13267226494404022656, 255970100576898685, 17213743317013987072, 13116917144338826716, 10151035374522910924, 2492135613990600890, 2740234954240589894, 10713325634400108704, 3756185778884425972, 11014544888940729548, 7435451242946657824, 1912773376523949220, 16494447081177539095, 226312763902957067), (10983310713304323119, 3286944926516489870, 11909232728197274910, 1963441379108780345, 5079610240515547691))"
  by code_simp

lemma kv_r2: "thetaRhoPiChiIotaPrepareTheta 9223372036854808713 ((10506941918157395970, 5569095779095617169, 10433802447062484889, 2245518427838612834, 14288943068686370377, 2219093845699522832, 11344429411724959493, 759954970860765208, 11146629054158873068, 89763500335845185, 248637113032630589, 13267226494404022656, 255970100576898685, 17213743317013987072, 13116917144338826716, 10151035374522910924, 2492135613990600890, 2740234954240589894, 10713325634400108704, 3756185778884425972, 11014544888940729548, 7435451242946657824, 1912773376523949220, 16494447081177539095, 226312763902957067), (10983310713304323119, 3286944926516489870, 11909232728197274910, 1963441379108780345, 5079610240515547691)) = ((4894367203724213, 8300811175978353270, 618374751881831467, 12696520029386541043, 16645837925070670514, 1053778346504185843, 1641095527157638185, 17408817921814818897, 13427291302794166094, 1165627171420477711, 11192490376811701165, 6375384940162726161, 16505885996207355594, 17019901287698395931, 6158726210534706811, 5982738754374949035, 11385330912182518166, 16706038684094187938, 13867099881557544562, 15270950529949862783, 14117075336956528344, 6222891870507996790, 2335781966685679777, 353223892083910171, 14362794065337864430), (374370572175413656, 17712991310536411310, 15826022937779215283, 2504475731224716239, 13180702962284250711))"
  by code_simp

lemma kv_r3: "thetaRhoPiChiIotaPrepareTheta 9223372036854808579 ((4894367203724213, 8300811175978353270, 618374751881831467, 12696520029386541043, 16645837925070670514, 1053778346504185843, 1641095527157638185, 17408817921814818897, 13427291302794166094, 1165627171420477711, 11192490376811701165, 6375384940162726161, 16505885996207355594, 17019901287698395931, 6158726210534706811, 5982738754374949035, 11385330912182518166, 16706038684094187938, 13867099881557544562, 15270950529949862783, 14117075336956528344, 6222891870507996790, 2335781966685679777, 353223892083910171, 14362794065337864430), (374370572175413656, 17712991310536411310, 15826022937779215283, 2504475731224716239, 13180702962284250711)) = ((11140479667130093206, 10380025328057714901, 6005486599171057942, 15159935794343298242, 15474153486072839165, 8674664394977208733, 54090197926922760, 1357644506968074604, 10708976650856817576, 13154737118979674098, 10071679923041258265, 3608293487094847649, 11264194716347199498, 5218103020425773547, 13198372578217650883, 11998436559254653904, 11620299719937200827, 2358585537252503449, 8821379436693490050, 6823688670872669336, 18343412272130506447, 7862739869525176564, 11026886380879320319, 4188031494999418701, 10499030458681688855), (3543870901208013069, 7963448522767071283, 7236966402056145686, 5683644342536669262, 1737447063034745155))"
  by code_simp

lemma kv_r4: "thetaRhoPiChiIotaPrepareTheta 9223372036854808578 ((11140479667130093206, 10380025328057714901, 6005486599171057942, 15159935794343298242, 15474153486072839165, 8674664394977208733, 54090197926922760, 1357644506968074604, 10708976650856817576, 13154737118979674098, 10071679923041258265, 3608293487094847649, 11264194716347199498, 5218103020425773547, 13198372578217650883, 11998436559254653904, 11620299719937200827, 2358585537252503449, 8821379436693490050, 6823688670872669336, 18343412272130506447, 7862739869525176564, 11026886380879320319, 4188031494999418701, 10499030458681688855), (3543870901208013069, 7963448522767071283, 7236966402056145686, 5683644342536669262, 1737447063034745155)) = ((16070213253766344097, 17976134505156967918, 8652591610270071578, 10892633247132010297, 1840573056067632910, 12592128351443945313, 10168712538024674599, 8268129897505052768, 16974976579702568472, 961239935696998292, 4741660648503543020, 7587269239746524410, 7077476635811797489, 1072436873453292978, 18404719044259782207, 15827987121787247797, 5966873764591949297, 6879464360326862125, 243847441156893005, 15936771171801546574, 9947646687342417950, 1816574891999176327, 13441657180103458805, 1105013318481071358, 5176781087064840663), (7038081054606961287, 6257383589161107269, 10187356155015336019, 9109874846397405472, 8163866886196725820))"
  by code_simp

lemma kv_r5: "thetaRhoPiChiIotaPrepareTheta 9223372036854775936 ((16070213253766344097, 17976134505156967918, 8652591610270071578, 10892633247132010297, 1840573056067632910, 12592128351443945313, 10168712538024674599, 8268129897505052768, 16974976579702568472, 961239935696998292, 4741660648503543020, 7587269239746524410, 7077476635811797489, 1072436873453292978, 18404719044259782207, 15827987121787247797, 5966873764591949297, 6879464360326862125, 243847441156893005, 15936771171801546574, 9947646687342417950, 1816574891999176327, 13441657180103458805, 1105013318481071358, 5176781087064840663), (7038081054606961287, 6257383589161107269, 10187356155015336019, 9109874846397405472, 8163866886196725820)) = ((12963011278062558126, 14690812263846048070, 10999943423601486891, 1943086485981729709, 4225224362410385016, 12773701078445803089, 8930258317567790655, 16814910214935140036, 3080291881422395983, 5339631326535175802, 1516188823231122836, 3368955789131913494, 11313910410664620435, 1915513798554010737, 12173913615877098444, 12874194370663127770, 563615326037577514, 11205727329501965324, 15478753591448378025, 10697648547025427405, 13019849435389099303, 13625134981641978395, 6343646017221800117, 14434813243560504994, 9232397729225814661), (1274405816015124374, 2596922286426205022, 3419826151129520069, 3765092945196743064, 14708473665461695110))"
  by code_simp

lemma kv_r6: "thetaRhoPiChiIotaPrepareTheta 32778 ((12963011278062558126, 14690812263846048070, 10999943423601486891, 1943086485981729709, 4225224362410385016, 12773701078445803089, 8930258317567790655, 16814910214935140036, 3080291881422395983, 5339631326535175802, 1516188823231122836, 3368955789131913494, 11313910410664620435, 1915513798554010737, 12173913615877098444, 12874194370663127770, 563615326037577514, 11205727329501965324, 15478753591448378025, 10697648547025427405, 13019849435389099303, 13625134981641978395, 6343646017221800117, 14434813243560504994, 9232397729225814661), (1274405816015124374, 2596922286426205022, 3419826151129520069, 3765092945196743064, 14708473665461695110)) = ((3882897102084266397, 13673529058249349496, 7158450229196749428, 2847112233075092200, 6024147736889877935, 13418325128178826186, 8007046186461511902, 9805074668467864932, 17492485656871302959, 7446981170510224654, 9884530632347108023, 4508715274318900009, 11629704246494705719, 7122970517078108578, 5139206728161127068, 9793219273465381736, 2739066744412412219, 8262565985299873246, 9818758916805011876, 4791051717875738063, 4695930731380553306, 14024134166503720116, 4372018181718008815, 11960927549441291787, 14668022263113640123), (13851525315769210322, 635594137280818944, 299050939578603798, 11107020736291253194, 18042188106374717257))"
  by code_simp

lemma kv_r7: "thetaRhoPiChiIotaPrepareTheta 9223372039002259466 ((3882897102084266397, 13673529058249349496, 7158450229196749428, 2847112233075092200, 6024147736889877935, 13418325128178826186, 8007046186461511902, 9805074668467864932, 17492485656871302959, 7446981170510224654, 9884530632347108023, 4508715274318900009, 11629704246494705719, 7122970517078108578, 5139206728161127068, 9793219273465381736, 2739066744412412219, 8262565985299873246, 9818758916805011876, 4791051717875738063, 4695930731380553306, 14024134166503720116, 4372018181718008815, 11960927549441291787, 14668022263113640123), (13851525315769210322, 635594137280818944, 299050939578603798, 11107020736291253194, 18042188106374717257)) = ((6782798875243186420, 9079327657920867221, 14845154029757479134, 6229058533693267079, 13123923399291540343, 10741382893671420074, 14578611578838585498, 6293085825241071544, 9784559793090186164, 778637138685502331, 12008992804476648604, 2461179678567627813, 4495382002478775827, 11983340752557372496, 8470928306398342102, 12478987372701108698, 15703682633808137756, 1691356663567832858, 8689514990927607568, 11390930383015096277, 18268603993985762463, 1441454483711740488, 12454244807004391279, 4419246032884706933, 3145594986053545832), (4409446590265944455, 6600482011464254334, 2061919119366695168, 3618036603239823878, 8994488703576873831))"
  by code_simp

lemma kv_r8: "thetaRhoPiChiIotaPrepareTheta 9223372039002292353 ((6782798875243186420, 9079327657920867221, 14845154029757479134, 6229058533693267079, 13123923399291540343, 10741382893671420074, 14578611578838585498, 6293085825241071544, 9784559793090186164, 778637138685502331, 12008992804476648604, 2461179678567627813, 4495382002478775827, 11983340752557372496, 8470928306398342102, 12478987372701108698, 15703682633808137756, 1691356663567832858, 8689514990927607568, 11390930383015096277, 18268603993985762463, 1441454483711740488, 12454244807004391279, 4419246032884706933, 3145594986053545832), (4409446590265944455, 6600482011464254334, 2061919119366695168, 3618036603239823878, 8994488703576873831)) = ((1552262680854762959, 9729422489960507712, 16304008169650276461, 1096500061161042160, 7291105205277577324, 14111926308241386683, 17950206463254781133, 18018856491585440312, 8007500866076136956, 10253806433535772419, 7066711995662395745, 7611748254665025034, 771472734614383430, 7091856806776995314, 15551748762820987649, 17599488845758544394, 7213790817871096143, 2932551494859169832, 2403597112107734607, 13445618269408591281, 13618227131526325119, 3826362570516730987, 17402021302755981242, 13041339084086953080, 4695382420525863740), (18198840706668251488, 5096113069677768355, 14684725401425968769, 10942602816664259273, 14339529333936648931))"
  by code_simp

lemma kv_r9: "thetaRhoPiChiIotaPrepareTheta 9223372036854808704 ((1552262680854762959, 9729422489960507712, 16304008169650276461, 1096500061161042160, 7291105205277577324, 14111926308241386683, 17950206463254781133, 18018856491585440312, 8007500866076136956, 10253806433535772419, 7066711995662395745, 7611748254665025034, 771472734614383430, 7091856806776995314, 15551748762820987649, 17599488845758544394, 7213790817871096143, 2932551494859169832, 2403597112107734607, 13445618269408591281, 13618227131526325119, 3826362570516730987, 17402021302755981242, 13041339084086953080, 4695382420525863740), (18198840706668251488, 5096113069677768355, 14684725401425968769, 10942602816664259273, 14339529333936648931)) = ((18444948477052189162, 10348957072020966429, 2775245636408820435, 9907113517100474933, 1086026317551996906, 1290873652563140782, 263006144836290763, 4832868420110759840, 8885463469407753854, 8723954809729173888, 14847037041049189127, 14504363467908905652, 8567417407659114830, 14782711231213050261, 7823386181539437086, 15026458365240799887, 3455425266335942144, 17350298634567607563, 3360832756048343646, 2279163807535293711, 6979427761683840671, 15868202938671566242, 4183145166748949224, 10518789623596919451, 7280666830600110337), (10397576809410752083, 13164679411165836736, 15686845941104839646, 9244258101753836827, 6934005532037953658))"
  by code_simp

lemma kv_r10: "thetaRhoPiChiIotaPrepareTheta 2147483649 ((18444948477052189162, 10348957072020966429, 2775245636408820435, 9907113517100474933, 1086026317551996906, 1290873652563140782, 263006144836290763, 4832868420110759840, 8885463469407753854, 8723954809729173888, 14847037041049189127, 14504363467908905652, 8567417407659114830, 14782711231213050261, 7823386181539437086, 15026458365240799887, 3455425266335942144, 17350298634567607563, 3360832756048343646, 2279163807535293711, 6979427761683840671, 15868202938671566242, 4183145166748949224, 10518789623596919451, 7280666830600110337), (10397576809410752083, 13164679411165836736, 15686845941104839646, 9244258101753836827, 6934005532037953658)) = ((16015424789169351186, 14056423975342684116, 12393306188480094790, 18082742542637885051, 14166317126595125401, 3578775732141813197, 10605396498779016411, 9992135742308437863, 7482106921443784062, 4022933657427695777, 16961001883921164775, 132828601050342626, 12760510157385418464, 3845830375861844575, 3646833047469400591, 11589812691152305110, 6595868352067009160, 3377965718230040489, 5671543777020766673, 12285830452029600857, 7323403738149979720, 13435201683536482966, 990166443937861926, 1246276207451875662, 8535508518728755621), (13978965350833689510, 12687253447174748147, 12906659555871540558, 17836175186669578693, 2099965667462481867))"
  by code_simp

lemma kv_r11: "thetaRhoPiChiIota_last ((16015424789169351186, 14056423975342684116, 12393306188480094790, 18082742542637885051, 14166317126595125401, 3578775732141813197, 10605396498779016411, 9992135742308437863, 7482106921443784062, 4022933657427695777, 16961001883921164775, 132828601050342626, 12760510157385418464, 3845830375861844575, 3646833047469400591, 11589812691152305110, 6595868352067009160, 3377965718230040489, 5671543777020766673, 12285830452029600857, 7323403738149979720, 13435201683536482966, 990166443937861926, 1246276207451875662, 8535508518728755621), (13978965350833689510, 12687253447174748147, 12906659555871540558, 17836175186669578693, 2099965667462481867)) = (378931273526460954, 5852176798404025809, 9157726220564236348, 16517496926207016454, 5201315313714489666, 7824602836300750887, 3543813135271819968, 8145581508268144895, 1798182597541038092, 15788609760869952619, 6466263155296914900, 5575471189957543797, 16082366680167626078, 17362078968541465732, 15514929476428423333, 15862810082817417418, 4473285081663914589, 5610298684154668440, 13087912537421888759, 10702880522188015955, 10500308063555505647, 14003649172597625615, 14721785198006505153, 11243202073736994138, 3790529721329560740)"
  by code_simp

lemma kv_rounds: "rounds12 (1792, 0, 0, 0, 0, 0, 0, 0, 0, 0, 0, 0, 0, 0, 0, 0, 0, 0, 0, 0, 9223372036854775808, 0, 0, 0, 0) = (378931273526460954, 5852176798404025809, 9157726220564236348, 16517496926207016454, 5201315313714489666, 7824602836300750887, 3543813135271819968, 8145581508268144895, 1798182597541038092, 15788609760869952619, 6466263155296914900, 5575471189957543797, 16082366680167626078, 17362078968541465732, 15514929476428423333, 15862810082817417418, 4473285081663914589, 5610298684154668440, 13087912537421888759, 10702880522188015955, 10500308063555505647, 14003649172597625615, 14721785198006505153, 11243202073736994138, 3790529721329560740)"
  by (simp add: rounds12_def KeccakF1600RoundConstants_def kv_r0 kv_r1 kv_r2 kv_r3 kv_r4 kv_r5 kv_r6 kv_r7 kv_r8 kv_r9 kv_r10 kv_r11)

lemma kv_lanes: "lanes_of_state [0, 7, 0, 0, 0, 0, 0, 0, 0, 0, 0, 0, 0, 0, 0, 0, 0, 0, 0, 0, 0, 0, 0, 0, 0, 0, 0, 0, 0, 0, 0, 0, 0, 0, 0, 0, 0, 0, 0, 0, 0, 0, 0, 0, 0, 0, 0, 0, 0, 0, 0, 0, 0, 0, 0, 0, 0, 0, 0, 0, 0, 0, 0, 0, 0, 0, 0, 0, 0, 0, 0, 0, 0, 0, 0, 0, 0, 0, 0, 0, 0, 0, 0, 0, 0, 0, 0, 0, 0, 0, 0, 0, 0, 0, 0, 0, 0, 0, 0, 0, 0, 0, 0, 0, 0, 0, 0, 0, 0, 0, 0, 0, 0, 0, 0, 0, 0, 0, 0, 0, 0, 0, 0, 0, 0, 0, 0, 0, 0, 0, 0, 0, 0, 0, 0, 0, 0, 0, 0, 0, 0, 0, 0, 0, 0, 0, 0, 0, 0, 0, 0, 0, 0, 0, 0, 0, 0, 0, 0, 0, 0, 0, 0, 0, 0, 0, 0, 128, 0, 0, 0, 0, 0, 0, 0, 0, 0, 0, 0, 0, 0, 0, 0, 0, 0, 0, 0, 0, 0, 0, 0, 0, 0, 0, 0, 0, 0, 0, 0, 0] = (1792, 0, 0, 0, 0, 0, 0, 0, 0, 0, 0, 0, 0, 0, 0, 0, 0, 0, 0, 0, 9223372036854775808, 0, 0, 0, 0)"
  by (simp add: lanes_of_state_def load64_def)

lemma kv_state: "state_of_lanes (378931273526460954, 5852176798404025809, 9157726220564236348, 16517496926207016454, 5201315313714489666, 7824602836300750887, 3543813135271819968, 8145581508268144895, 1798182597541038092, 15788609760869952619, 6466263155296914900, 5575471189957543797, 16082366680167626078, 17362078968541465732, 15514929476428423333, 15862810082817417418, 4473285081663914589, 5610298684154668440, 13087912537421888759, 10702880522188015955, 10500308063555505647, 14003649172597625615, 14721785198006505153, 11243202073736994138, 3790529721329560740) = [26, 194, 212, 80, 252, 59, 66, 5, 209, 157, 167, 191, 202, 27, 55, 81, 60, 8, 3, 87, 122, 199, 22, 127, 6, 254, 44, 225, 240, 239, 57, 229, 66, 105, 192, 86, 184, 200, 46, 72, 39, 96, 56, 182, 210, 146, 150, 108, 192, 122, 61, 70, 69, 39, 46, 49, 255, 56, 80, 129, 57, 235, 10, 113, 12, 8, 185, 151, 139, 109, 244, 24, 107, 44, 235, 5, 237, 104, 28, 219, 212, 77, 171, 123, 20, 200, 188, 89, 117, 7, 216, 212, 129, 13, 96, 77, 94, 53, 248, 158, 73, 11, 48, 223, 132, 204, 49, 106, 213, 126, 242, 240, 165, 224, 192, 61, 40, 26, 80, 215, 202, 32, 209, 189, 185, 5, 36, 220, 93, 194, 161, 207, 20, 77, 20, 62, 152, 101, 225, 184, 237, 200, 219, 77, 247, 188, 105, 44, 28, 155, 161, 181, 83, 201, 118, 238, 32, 69, 136, 148, 239, 77, 101, 0, 141, 150, 184, 145, 15, 211, 223, 91, 186, 244, 86, 194, 193, 14, 200, 98, 163, 73, 78, 204, 90, 93, 7, 143, 183, 224, 7, 156, 164, 172, 104, 206, 178, 170, 154, 52]"
  by (simp add: state_of_lanes_def store64_def upt_rec)

lemma kv_permute: "KeccakP1600_Permute_12rounds [0, 7, 0, 0, 0, 0, 0, 0, 0, 0, 0, 0, 0, 0, 0, 0, 0, 0, 0, 0, 0, 0, 0, 0, 0, 0, 0, 0, 0, 0, 0, 0, 0, 0, 0, 0, 0, 0, 0, 0, 0, 0, 0, 0, 0, 0, 0, 0, 0, 0, 0, 0, 0, 0, 0, 0, 0, 0, 0, 0, 0, 0, 0, 0, 0, 0, 0, 0, 0, 0, 0, 0, 0, 0, 0, 0, 0, 0, 0, 0, 0, 0, 0, 0, 0, 0, 0, 0, 0, 0, 0, 0, 0, 0, 0, 0, 0, 0, 0, 0, 0, 0, 0, 0, 0, 0, 0, 0, 0, 0, 0, 0, 0, 0, 0, 0, 0, 0, 0, 0, 0, 0, 0, 0, 0, 0, 0, 0, 0, 0, 0, 0, 0, 0, 0, 0, 0, 0, 0, 0, 0, 0, 0, 0, 0, 0, 0, 0, 0, 0, 0, 0, 0, 0, 0, 0, 0, 0, 0, 0, 0, 0, 0, 0, 0, 0, 0, 128, 0, 0, 0, 0, 0, 0, 0, 0, 0, 0, 0, 0, 0, 0, 0, 0, 0, 0, 0, 0, 0, 0, 0, 0, 0, 0, 0, 0, 0, 0, 0, 0] = [26, 194, 212, 80, 252, 59, 66, 5, 209, 157, 167, 191, 202, 27, 55, 81, 60, 8, 3, 87, 122, 199, 22, 127, 6, 254, 44, 225, 240, 239, 57, 229, 66, 105, 192, 86, 184, 200, 46, 72, 39, 96, 56, 182, 210, 146, 150, 108, 192, 122, 61, 70, 69, 39, 46, 49, 255, 56, 80, 129, 57, 235, 10, 113, 12, 8, 185, 151, 139, 109, 244, 24, 107, 44, 235, 5, 237, 104, 28, 219, 212, 77, 171, 123, 20, 200, 188, 89, 117, 7, 216, 212, 129, 13, 96, 77, 94, 53, 248, 158, 73, 11, 48, 223, 132, 204, 49, 106, 213, 126, 242, 240, 165, 224, 192, 61, 40, 26, 80, 215, 202, 32, 209, 189, 185, 5, 36, 220, 93, 194, 161, 207, 20, 77, 20, 62, 152, 101, 225, 184, 237, 200, 219, 77, 247, 188, 105, 44, 28, 155, 161, 181, 83, 201, 118, 238, 32, 69, 136, 148, 239, 77, 101, 0, 141, 150, 184, 145, 15, 211, 223, 91, 186, 244, 86, 194, 193, 14, 200, 98, 163, 73, 78, 204, 90, 93, 7, 143, 183, 224, 7, 156, 164, 172, 104, 206, 178, 170, 154, 52]"
  by (simp only: KeccakP1600_Permute_12rounds_def kv_lanes kv_rounds kv_state)

lemma kv_start: "xor_byte (xor_byte (replicate 200 0) (Suc 0) 7) 167 128 = [0, 7, 0, 0, 0, 0, 0, 0, 0, 0, 0, 0, 0, 0, 0, 0, 0, 0, 0, 0, 0, 0, 0, 0, 0, 0, 0, 0, 0, 0, 0, 0, 0, 0, 0, 0, 0, 0, 0, 0, 0, 0, 0, 0, 0, 0, 0, 0, 0, 0, 0, 0, 0, 0, 0, 0, 0, 0, 0, 0, 0, 0, 0, 0, 0, 0, 0, 0, 0, 0, 0, 0, 0, 0, 0, 0, 0, 0, 0, 0, 0, 0, 0, 0, 0, 0, 0, 0, 0, 0, 0, 0, 0, 0, 0, 0, 0, 0, 0, 0, 0, 0, 0, 0, 0, 0, 0, 0, 0, 0, 0, 0, 0, 0, 0, 0, 0, 0, 0, 0, 0, 0, 0, 0, 0, 0, 0, 0, 0, 0, 0, 0, 0, 0, 0, 0, 0, 0, 0, 0, 0, 0, 0, 0, 0, 0, 0, 0, 0, 0, 0, 0, 0, 0, 0, 0, 0, 0, 0, 0, 0, 0, 0, 0, 0, 0, 0, 128, 0, 0, 0, 0, 0, 0, 0, 0, 0, 0, 0, 0, 0, 0, 0, 0, 0, 0, 0, 0, 0, 0, 0, 0, 0, 0, 0, 0, 0, 0, 0, 0]"
  by code_simp

lemma kv_take: "take 32 [26, 194, 212, 80, 252, 59, 66, 5, 209, 157, 167, 191, 202, 27, 55, 81, 60, 8, 3, 87, 122, 199, 22, 127, 6, 254, 44, 225, 240, 239, 57, 229, 66, 105, 192, 86, 184, 200, 46, 72, 39, 96, 56, 182, 210, 146, 150, 108, 192, 122, 61, 70, 69, 39, 46, 49, 255, 56, 80, 129, 57, 235, 10, 113, 12, 8, 185, 151, 139, 109, 244, 24, 107, 44, 235, 5, 237, 104, 28, 219, 212, 77, 171, 123, 20, 200, 188, 89, 117, 7, 216, 212, 129, 13, 96, 77, 94, 53, 248, 158, 73, 11, 48, 223, 132, 204, 49, 106, 213, 126, 242, 240, 165, 224, 192, 61, 40, 26, 80, 215, 202, 32, 209, 189, 185, 5, 36, 220, 93, 194, 161, 207, 20, 77, 20, 62, 152, 101, 225, 184, 237, 200, 219, 77, 247, 188, 105, 44, 28, 155, 161, 181, 83, 201, 118, 238, 32, 69, 136, 148, 239, 77, 101, 0, 141, 150, 184, 145, 15, 211, 223, 91, 186, 244, 86, 194, 193, 14, 200, 98, 163, 73, 78, 204, 90, 93, 7, 143, 183, 224, 7, 156, 164, 172, 104, 206, 178, 170, 154, 52] = [26, 194, 212, 80, 252, 59, 66, 5, 209, 157, 167, 191, 202, 27, 55, 81, 60, 8, 3, 87, 122, 199, 22, 127, 6, 254, 44, 225, 240, 239, 57, 229]"
  by simp

lemma kv_single: "K12_single_node [] 32 = [26, 194, 212, 80, 252, 59, 66, 5, 209, 157, 167, 191, 202, 27, 55, 81, 60, 8, 3, 87, 122, 199, 22, 127, 6, 254, 44, 225, 240, 239, 57, 229]"
proof -
  have "fold sponge_byte ([] @ [0]) K12_zero = \<lparr>kstate = replicate 200 0, byteIOIndex = 1\<rparr>"
    by (simp add: sponge_byte_def K12_zero_def xor_byte_zero)
  then show ?thesis
    by (simp add: K12_single_node_def K12_rateInBytes_def kv_start kv_permute kv_take del: append.simps)
qed

section \<open>Replaying \<^verbatim>\<open>decode\<close> on concrete points\<close>

text \<open>
  Each lemma below is one call made while \<^verbatim>\<open>decode\<close> runs on two encodings, in the order
  of the calls; the target \<open>t\<close> is arbitrary. The first encoding is that of the point
  \<open>P\<close> with \<open>x = 0 + 10 i\<close> and a matching \<open>y\<close>, the second that of the point \<open>D\<close> which
  \<^verbatim>\<open>decode\<close> returns for the first. The two encodings differ in the sign bit only, so
  the calls up to the sign test are the same.
\<close>

lemma rt_0: "load_f2elm ([48, 27, 83, 196, 78, 228, 67, 71, 119, 24, 188, 169, 214, 208, 26, 29, 150, 11, 230, 29, 228, 146, 202, 94, 252, 4, 142, 231, 128, 238, 130, 80] :: u8 list) = ((5135199027084860208, 2097218196883642487), (6830433293312592790, 5801461507414689020))"
  by (simp add: load_f2elm_def load64_def)

lemma rt_1: "(5801461507414689020 :: u64) AND 0x7FFFFFFFFFFFFFFF = 5801461507414689020"
  by simp

lemma rt_2: "fpadd1271 t (5135199027084860208, 2097218196883642487) (6830433293312592790, 5801461507414689020) = (11965632320397452998, 7898679704298331507)"
  by (simp add: field_eval)

lemma rt_3: "fpsub1271 t (5135199027084860208, 2097218196883642487) (6830433293312592790, 5801461507414689020) = (16751509807481819033, 5519128726323729274)"
  by (simp add: field_eval)

lemma rt_4: "fpmul1271 t (5135199027084860208, 2097218196883642487) (6830433293312592790, 5801461507414689020) = (4006226025725414051, 7875101773124730137)"
  by (simp add: field_eval)

lemma rt_5: "fpmul1271 t (11965632320397452998, 7898679704298331507) (16751509807481819033, 5519128726323729274) = (4846792292805243000, 147700425948819054)"
  by (simp add: field_eval)

lemma rt_6: "fpadd1271 t (4006226025725414051, 7875101773124730137) (4006226025725414051, 7875101773124730137) = (8012452051450828103, 6526831509394684466)"
  by (simp add: field_eval)

lemma rt_7: "fp2sqr1271 t ((5135199027084860208, 2097218196883642487), (6830433293312592790, 5801461507414689020)) = ((4846792292805243000, 147700425948819054), (8012452051450828103, 6526831509394684466))"
  by (simp only: fp2sqr1271_def Let_def prod.case fst_conv snd_conv if_True if_False simp_thms
    rt_2 rt_3 rt_4 rt_5 rt_6
    cong: let_weak_cong if_weak_cong)

lemma rt_8: "fpmul1271 t (4846792292805243000, 147700425948819054) (322, 228) = (4705034029509192540, 8930047345122939284)"
  by (simp add: field_eval)

lemma rt_9: "fpmul1271 t (8012452051450828103, 6526831509394684466) (12934923658169420941, 6793450808610906364) = (5122436833911436004, 2567397643952632167)"
  by (simp add: field_eval)

lemma rt_10: "fpadd1271 t (4846792292805243000, 147700425948819054) (8012452051450828103, 6526831509394684466) = (12859244344256071103, 6674531935343503520)"
  by (simp add: field_eval)

lemma rt_11: "fpadd1271 t (322, 228) (12934923658169420941, 6793450808610906364) = (12934923658169421263, 6793450808610906592)"
  by (simp add: field_eval)

lemma rt_12: "fpsub1271 t (4705034029509192540, 8930047345122939284) (5122436833911436004, 2567397643952632167) = (18029341269307308152, 6362649701170307116)"
  by (simp add: field_eval)

lemma rt_13: "fpmul1271 t (12859244344256071103, 6674531935343503520) (12934923658169421263, 6793450808610906592) = (4213323120793254779, 3776777883392160686)"
  by (simp add: field_eval)

lemma rt_14: "fpsub1271 t (4213323120793254779, 3776777883392160686) (4705034029509192540, 8930047345122939284) = (17955033164993613854, 4070102575123997209)"
  by (simp add: field_eval)

lemma rt_15: "fpsub1271 t (17955033164993613854, 4070102575123997209) (5122436833911436004, 2567397643952632167) = (12832596331082177850, 1502704931171365042)"
  by (simp add: field_eval)

lemma rt_16: "fp2mul1271 t ((4846792292805243000, 147700425948819054), (8012452051450828103, 6526831509394684466)) ((322, 228), (12934923658169420941, 6793450808610906364)) = ((18029341269307308152, 6362649701170307116), (12832596331082177850, 1502704931171365042))"
  by (simp only: fp2mul1271_def Let_def prod.case fst_conv snd_conv if_True if_False simp_thms
    rt_8 rt_9 rt_10 rt_11 rt_12 rt_13 rt_14 rt_15
    cong: let_weak_cong if_weak_cong)

lemma rt_17: "fpsub1271 t (4846792292805243000, 147700425948819054) (1, 0) = (4846792292805242999, 147700425948819054)"
  by (simp add: field_eval)

lemma rt_18: "fpsub1271 t (8012452051450828103, 6526831509394684466) (0, 0) = (8012452051450828103, 6526831509394684466)"
  by (simp add: field_eval)

lemma rt_19: "fp2sub1271 t ((4846792292805243000, 147700425948819054), (8012452051450828103, 6526831509394684466)) ((1, 0), (0, 0)) = ((4846792292805242999, 147700425948819054), (8012452051450828103, 6526831509394684466))"
  by (simp only: fp2sub1271_def Let_def prod.case fst_conv snd_conv if_True if_False simp_thms
    rt_17 rt_18
    cong: let_weak_cong if_weak_cong)

lemma rt_20: "fpadd1271 t (18029341269307308152, 6362649701170307116) (1, 0) = (18029341269307308153, 6362649701170307116)"
  by (simp add: field_eval)

lemma rt_21: "fpadd1271 t (12832596331082177850, 1502704931171365042) (0, 0) = (12832596331082177850, 1502704931171365042)"
  by (simp add: field_eval)

lemma rt_22: "fp2add1271 t ((18029341269307308152, 6362649701170307116), (12832596331082177850, 1502704931171365042)) ((1, 0), (0, 0)) = ((18029341269307308153, 6362649701170307116), (12832596331082177850, 1502704931171365042))"
  by (simp only: fp2add1271_def Let_def prod.case fst_conv snd_conv if_True if_False simp_thms
    rt_20 rt_21
    cong: let_weak_cong if_weak_cong)

lemma rt_23: "fpsqr1271 t (18029341269307308153, 6362649701170307116) = (7931914307353769157, 8208318503174135146)"
  by (simp add: field_eval)

lemma rt_24: "fpsqr1271 t (12832596331082177850, 1502704931171365042) = (2526089005784289871, 8120951875693479383)"
  by (simp add: field_eval)

lemma rt_25: "fpadd1271 t (7931914307353769157, 8208318503174135146) (2526089005784289871, 8120951875693479383) = (10458003313138059029, 7105898342012838721)"
  by (simp add: field_eval)

lemma rt_26: "fpmul1271 t (4846792292805242999, 147700425948819054) (18029341269307308153, 6362649701170307116) = (18564434133803699, 48260962661532269)"
  by (simp add: field_eval)

lemma rt_27: "fpmul1271 t (8012452051450828103, 6526831509394684466) (12832596331082177850, 1502704931171365042) = (5645516453504735435, 8784923710727108598)"
  by (simp add: field_eval)

lemma rt_28: "fpadd1271 t (18564434133803699, 48260962661532269) (5645516453504735435, 8784923710727108598) = (5664080887638539134, 8833184673388640867)"
  by (simp add: field_eval)

lemma rt_29: "fpmul1271 t (8012452051450828103, 6526831509394684466) (18029341269307308153, 6362649701170307116) = (15227432720030349681, 48495925851033307)"
  by (simp add: field_eval)

lemma rt_30: "fpmul1271 t (4846792292805242999, 147700425948819054) (12832596331082177850, 1502704931171365042) = (15227432720030349681, 48495925851033307)"
  by (simp add: field_eval)

lemma rt_31: "fpsub1271 t (15227432720030349681, 48495925851033307) (15227432720030349681, 48495925851033307) = (0, 0)"
  by (simp add: field_eval)

lemma rt_32: "fpsqr1271 t (5664080887638539134, 8833184673388640867) = (4304215431565965800, 8554249980781253882)"
  by (simp add: field_eval)

lemma rt_33: "fpsqr1271 t (0, 0) = (0, 0)"
  by (simp add: field_eval)

lemma rt_34: "fpadd1271 t (4304215431565965800, 8554249980781253882) (0, 0) = (4304215431565965800, 8554249980781253882)"
  by (simp add: field_eval)

lemma rt_35: "fpsqr1271_times t 25 (4304215431565965800, 8554249980781253882) = (7831633437049824914, 417525457173014591)"
  by (simp add: field_eval)

lemma rt_36: "fpsqr1271_times t 25 (7831633437049824914, 417525457173014591) = (11728364355621578980, 8424076530840412965)"
  by (simp add: field_eval)

lemma rt_37: "fpsqr1271_times t 25 (11728364355621578980, 8424076530840412965) = (13465425178205971659, 5470843781209821091)"
  by (simp add: field_eval)

lemma rt_38: "fpsqr1271_times t 25 (13465425178205971659, 5470843781209821091) = (3887122982794766983, 4960049026225535682)"
  by (simp add: field_eval)

lemma rt_39: "fpsqr1271_times t 25 (3887122982794766983, 4960049026225535682) = (12782663186071012481, 390187363466134940)"
  by (simp add: field_eval)

lemma rt_40: "fpsqr1271_times t 125 (4304215431565965800, 8554249980781253882) = (12782663186071012481, 390187363466134940)"
  by (simp only: fpsqr1271_times_125 rt_35 rt_36 rt_37 rt_38 rt_39)

lemma rt_41: "fpadd1271 t (5664080887638539134, 8833184673388640867) (12782663186071012481, 390187363466134940) = (18446744073709551615, 9223372036854775807)"
  by (simp add: field_eval)

lemma rt_42: "mod1271 t (18446744073709551615, 9223372036854775807) = (0, 0)"
  by (simp add: field_eval)

lemma rt_43: "fpsub1271 t (5664080887638539134, 8833184673388640867) (12782663186071012481, 390187363466134940) = (11328161775277078269, 8442997309922505926)"
  by (simp add: field_eval)

lemma rt_44: "fpadd1271 t (11328161775277078269, 8442997309922505926) (11328161775277078269, 8442997309922505926) = (4209579476844604923, 7662622582990236045)"
  by (simp add: field_eval)

lemma rt_45: "fpsqr1271 t (10458003313138059029, 7105898342012838721) = (9286521388248544880, 687074304540073445)"
  by (simp add: field_eval)

lemma rt_46: "fpmul1271 t (10458003313138059029, 7105898342012838721) (9286521388248544880, 687074304540073445) = (9204822683979808638, 4759031826867183934)"
  by (simp add: field_eval)

lemma rt_47: "fpmul1271 t (4209579476844604923, 7662622582990236045) (9204822683979808638, 4759031826867183934) = (772590699391018503, 5596519276858624919)"
  by (simp add: field_eval)

lemma rt_48: "fpsqr1271 t (772590699391018503, 5596519276858624919) = (11773892860476747649, 6689995069970807833)"
  by (simp add: field_eval)

lemma rt_49: "fpmul1271 t (772590699391018503, 5596519276858624919) (11773892860476747649, 6689995069970807833) = (8414683724591352285, 6723405801655020809)"
  by (simp add: field_eval)

lemma rt_50: "fpsqr1271 t (8414683724591352285, 6723405801655020809) = (12559475460717632603, 3773220583918581003)"
  by (simp add: field_eval)

lemma rt_51: "fpsqr1271 t (12559475460717632603, 3773220583918581003) = (10823066178906951786, 1412190229232431767)"
  by (simp add: field_eval)

lemma rt_52: "fpmul1271 t (8414683724591352285, 6723405801655020809) (10823066178906951786, 1412190229232431767) = (15982804000005282824, 7990284188780232302)"
  by (simp add: field_eval)

lemma rt_53: "fpsqr1271 t (15982804000005282824, 7990284188780232302) = (10757253035671334514, 5735676076155686145)"
  by (simp add: field_eval)

lemma rt_54: "fpsqr1271 t (10757253035671334514, 5735676076155686145) = (1153449118444435322, 9178580975721363696)"
  by (simp add: field_eval)

lemma rt_55: "fpsqr1271 t (1153449118444435322, 9178580975721363696) = (5607057644413611014, 3917615452598601724)"
  by (simp add: field_eval)

lemma rt_56: "fpsqr1271 t (5607057644413611014, 3917615452598601724) = (8982681552965989418, 6781521053657420259)"
  by (simp add: field_eval)

lemma rt_57: "fpmul1271 t (15982804000005282824, 7990284188780232302) (8982681552965989418, 6781521053657420259) = (7329446432665725499, 7574243779963563155)"
  by (simp add: field_eval)

lemma rt_58: "fpsqr1271 t (7329446432665725499, 7574243779963563155) = (9322347561404602357, 2711215375504170029)"
  by (simp add: field_eval)

lemma rt_59: "fpsqr1271_times t 7 (9322347561404602357, 2711215375504170029) = (2158937246686586400, 7938698554224967396)"
  by (simp add: field_eval)

lemma rt_60: "fpmul1271 t (7329446432665725499, 7574243779963563155) (2158937246686586400, 7938698554224967396) = (468600453050122255, 911191627540946262)"
  by (simp add: field_eval)

lemma rt_61: "fpsqr1271 t (468600453050122255, 911191627540946262) = (18148541387456221783, 8571639708488029543)"
  by (simp add: field_eval)

lemma rt_62: "fpsqr1271_times t 15 (18148541387456221783, 8571639708488029543) = (12764803514661592776, 7566874441295948703)"
  by (simp add: field_eval)

lemma rt_63: "fpmul1271 t (468600453050122255, 911191627540946262) (12764803514661592776, 7566874441295948703) = (12061633357692011666, 885885830112501657)"
  by (simp add: field_eval)

lemma rt_64: "fpsqr1271 t (12061633357692011666, 885885830112501657) = (1433443285178074451, 3257577903322897949)"
  by (simp add: field_eval)

lemma rt_65: "fpsqr1271_times t 31 (1433443285178074451, 3257577903322897949) = (15464770490107158144, 3118619477187809775)"
  by (simp add: field_eval)

lemma rt_66: "fpmul1271 t (12061633357692011666, 885885830112501657) (15464770490107158144, 3118619477187809775) = (8388839836869926793, 1520810917872036413)"
  by (simp add: field_eval)

lemma rt_67: "fpsqr1271_times t 32 (8388839836869926793, 1520810917872036413) = (5729225520896274986, 7859262135071110193)"
  by (simp add: field_eval)

lemma rt_68: "fpmul1271 t (5729225520896274986, 7859262135071110193) (12061633357692011666, 885885830112501657) = (5192243482549642445, 6990282608813908250)"
  by (simp add: field_eval)

lemma rt_69: "fpsqr1271_times t 16 (5192243482549642445, 6990282608813908250) = (6782714667561782160, 3943944551136985825)"
  by (simp add: field_eval)

lemma rt_70: "fpmul1271 t (468600453050122255, 911191627540946262) (6782714667561782160, 3943944551136985825) = (18443625236261981407, 4022036860178626770)"
  by (simp add: field_eval)

lemma rt_71: "fpsqr1271_times t 8 (18443625236261981407, 4022036860178626770) = (9246089352026322442, 559427323211874536)"
  by (simp add: field_eval)

lemma rt_72: "fpmul1271 t (7329446432665725499, 7574243779963563155) (9246089352026322442, 559427323211874536) = (16404762772267391186, 4923588370905080367)"
  by (simp add: field_eval)

lemma rt_73: "fpsqr1271_times t 4 (16404762772267391186, 4923588370905080367) = (7584325378281206331, 8467732120696701811)"
  by (simp add: field_eval)

lemma rt_74: "fpmul1271 t (15982804000005282824, 7990284188780232302) (7584325378281206331, 8467732120696701811) = (17563209160507849555, 998164126998302984)"
  by (simp add: field_eval)

lemma rt_75: "fpsqr1271 t (17563209160507849555, 998164126998302984) = (8747938575992773852, 4519542725278222823)"
  by (simp add: field_eval)

lemma rt_76: "fpmul1271 t (772590699391018503, 5596519276858624919) (8747938575992773852, 4519542725278222823) = (7378697682728613179, 2305842971563980250)"
  by (simp add: field_eval)

lemma rt_77: "fpexp1251 t (772590699391018503, 5596519276858624919) = (7378697682728613179, 2305842971563980250)"
  by (simp only: fpexp1251_def Let_def prod.case fst_conv snd_conv if_True if_False simp_thms
    rt_48 rt_49 rt_50 rt_51 rt_52 rt_53 rt_54 rt_55 rt_56 rt_57 rt_58 rt_59 rt_60 rt_61 rt_62 rt_63 rt_64 rt_65 rt_66 rt_67 rt_68 rt_69 rt_70 rt_71 rt_72 rt_73 rt_74 rt_75 rt_76
    cong: let_weak_cong if_weak_cong)

lemma rt_78: "fpmul1271 t (10458003313138059029, 7105898342012838721) (7378697682728613179, 2305842971563980250) = (14757395258967604781, 5995191823955630054)"
  by (simp add: field_eval)

lemma rt_79: "fpmul1271 t (4209579476844604923, 7662622582990236045) (14757395258967604781, 5995191823955630054) = (18446744073709551595, 9223372036854775807)"
  by (simp add: field_eval)

lemma rt_80: "fpsqr1271 t (18446744073709551595, 9223372036854775807) = (400, 0)"
  by (simp add: field_eval)

lemma rt_81: "fpmul1271 t (10458003313138059029, 7105898342012838721) (400, 0) = (14237164596864946692, 1560749453864539762)"
  by (simp add: field_eval)

lemma rt_82: "fpdiv1271 t (18446744073709551595, 9223372036854775807) = (18446744073709551605, 9223372036854775807)"
  by (simp add: field_eval)

lemma rt_83: "fpmul1271 t (0, 0) (14757395258967604781, 5995191823955630054) = (0, 0)"
  by (simp add: field_eval)

lemma rt_84: "fpsub1271 t (4209579476844604923, 7662622582990236045) (14237164596864946692, 1560749453864539762) = (8419158953689209847, 6101873129125696282)"
  by (simp add: field_eval)

lemma rt_85: "mod1271 t (8419158953689209847, 6101873129125696282) = (8419158953689209847, 6101873129125696282)"
  by (simp add: field_eval)

lemma rt_86: "((8419158953689209847 :: u64) = 0) = False"
  by simp

lemma rt_87: "((6101873129125696282 :: u64) = 0) = False"
  by simp

lemma rt_88: "mod1271 t (0, 0) = (0, 0)"
  by (simp add: field_eval)

lemma rt_89: "((ucast (drop_bit 7 (([48, 27, 83, 196, 78, 228, 67, 71, 119, 24, 188, 169, 214, 208, 26, 29, 150, 11, 230, 29, 228, 146, 202, 94, 252, 4, 142, 231, 128, 238, 130, 80] :: u8 list) ! 31)) :: 32 word) = ucast (drop_bit 62 (9223372036854775807 :: u64))) = False"
  by simp

lemma rt_90: "fpneg1271 (0, 0) = (18446744073709551615, 9223372036854775807)"
  by (simp add: field_eval)

lemma rt_91: "fpneg1271 (18446744073709551605, 9223372036854775807) = (10, 0)"
  by (simp add: field_eval)

lemma rt_92: "fp2neg1271 ((0, 0), (18446744073709551605, 9223372036854775807)) = ((18446744073709551615, 9223372036854775807), (10, 0))"
  by (simp only: fp2neg1271_def Let_def prod.case fst_conv snd_conv if_True if_False simp_thms
    rt_90 rt_91
    cong: let_weak_cong if_weak_cong)

lemma rt_93: "fpadd1271 t (18446744073709551615, 9223372036854775807) (10, 0) = (10, 0)"
  by (simp add: field_eval)

lemma rt_94: "fpsub1271 t (18446744073709551615, 9223372036854775807) (10, 0) = (18446744073709551605, 9223372036854775807)"
  by (simp add: field_eval)

lemma rt_95: "fpmul1271 t (18446744073709551615, 9223372036854775807) (10, 0) = (18446744073709551615, 9223372036854775807)"
  by (simp add: field_eval)

lemma rt_96: "fpmul1271 t (10, 0) (18446744073709551605, 9223372036854775807) = (18446744073709551515, 9223372036854775807)"
  by (simp add: field_eval)

lemma rt_97: "fpadd1271 t (18446744073709551615, 9223372036854775807) (18446744073709551615, 9223372036854775807) = (18446744073709551615, 9223372036854775807)"
  by (simp add: field_eval)

lemma rt_98: "fp2sqr1271 t ((18446744073709551615, 9223372036854775807), (10, 0)) = ((18446744073709551515, 9223372036854775807), (18446744073709551615, 9223372036854775807))"
  by (simp only: fp2sqr1271_def Let_def prod.case fst_conv snd_conv if_True if_False simp_thms
    rt_93 rt_94 rt_95 rt_96 rt_97
    cong: let_weak_cong if_weak_cong)

lemma rt_99: "fpsub1271 t (4846792292805243000, 147700425948819054) (18446744073709551515, 9223372036854775807) = (4846792292805243100, 147700425948819054)"
  by (simp add: field_eval)

lemma rt_100: "fpsub1271 t (8012452051450828103, 6526831509394684466) (18446744073709551615, 9223372036854775807) = (8012452051450828103, 6526831509394684466)"
  by (simp add: field_eval)

lemma rt_101: "fp2sub1271 t ((4846792292805243000, 147700425948819054), (8012452051450828103, 6526831509394684466)) ((18446744073709551515, 9223372036854775807), (18446744073709551615, 9223372036854775807)) = ((4846792292805243100, 147700425948819054), (8012452051450828103, 6526831509394684466))"
  by (simp only: fp2sub1271_def Let_def prod.case fst_conv snd_conv if_True if_False simp_thms
    rt_99 rt_100
    cong: let_weak_cong if_weak_cong)

lemma rt_102: "fpmul1271 t (4846792292805243000, 147700425948819054) (18446744073709551515, 9223372036854775807) = (13382860709633593630, 3676701478827646189)"
  by (simp add: field_eval)

lemma rt_103: "fpmul1271 t (8012452051450828103, 6526831509394684466) (18446744073709551615, 9223372036854775807) = (18446744073709551615, 9223372036854775807)"
  by (simp add: field_eval)

lemma rt_104: "fpadd1271 t (18446744073709551515, 9223372036854775807) (18446744073709551615, 9223372036854775807) = (18446744073709551515, 9223372036854775807)"
  by (simp add: field_eval)

lemma rt_105: "fpsub1271 t (13382860709633593630, 3676701478827646189) (18446744073709551615, 9223372036854775807) = (13382860709633593630, 3676701478827646189)"
  by (simp add: field_eval)

lemma rt_106: "fpmul1271 t (12859244344256071103, 6674531935343503520) (18446744073709551515, 9223372036854775807) = (5347650734061502747, 5852965156048281914)"
  by (simp add: field_eval)

lemma rt_107: "fpsub1271 t (5347650734061502747, 5852965156048281914) (13382860709633593630, 3676701478827646189) = (10411534098137460733, 2176263677220635724)"
  by (simp add: field_eval)

lemma rt_108: "fpsub1271 t (10411534098137460733, 2176263677220635724) (18446744073709551615, 9223372036854775807) = (10411534098137460733, 2176263677220635724)"
  by (simp add: field_eval)

lemma rt_109: "fp2mul1271 t ((4846792292805243000, 147700425948819054), (8012452051450828103, 6526831509394684466)) ((18446744073709551515, 9223372036854775807), (18446744073709551615, 9223372036854775807)) = ((13382860709633593630, 3676701478827646189), (10411534098137460733, 2176263677220635724))"
  by (simp only: fp2mul1271_def Let_def prod.case fst_conv snd_conv if_True if_False simp_thms
    rt_102 rt_103 rt_10 rt_104 rt_105 rt_106 rt_107 rt_108
    cong: let_weak_cong if_weak_cong)

lemma rt_110: "fpmul1271 t (13382860709633593630, 3676701478827646189) (322, 228) = (9111942965529087919, 1662353062619324950)"
  by (simp add: field_eval)

lemma rt_111: "fpmul1271 t (10411534098137460733, 2176263677220635724) (12934923658169420941, 6793450808610906364) = (4265150672723844820, 1514652636670505896)"
  by (simp add: field_eval)

lemma rt_112: "fpadd1271 t (13382860709633593630, 3676701478827646189) (10411534098137460733, 2176263677220635724) = (5347650734061502747, 5852965156048281914)"
  by (simp add: field_eval)

lemma rt_113: "fpsub1271 t (9111942965529087919, 1662353062619324950) (4265150672723844820, 1514652636670505896) = (4846792292805243099, 147700425948819054)"
  by (simp add: field_eval)

lemma rt_114: "fpmul1271 t (5347650734061502747, 5852965156048281914) (12934923658169421263, 6793450808610906592) = (2942801615994209227, 480465171829739505)"
  by (simp add: field_eval)

lemma rt_115: "fpsub1271 t (2942801615994209227, 480465171829739505) (9111942965529087919, 1662353062619324950) = (12277602724174672923, 8041484146065190362)"
  by (simp add: field_eval)

lemma rt_116: "fpsub1271 t (12277602724174672923, 8041484146065190362) (4265150672723844820, 1514652636670505896) = (8012452051450828103, 6526831509394684466)"
  by (simp add: field_eval)

lemma rt_117: "fp2mul1271 t ((13382860709633593630, 3676701478827646189), (10411534098137460733, 2176263677220635724)) ((322, 228), (12934923658169420941, 6793450808610906364)) = ((4846792292805243099, 147700425948819054), (8012452051450828103, 6526831509394684466))"
  by (simp only: fp2mul1271_def Let_def prod.case fst_conv snd_conv if_True if_False simp_thms
    rt_110 rt_111 rt_112 rt_11 rt_113 rt_114 rt_115 rt_116
    cong: let_weak_cong if_weak_cong)

lemma rt_118: "fpadd1271 t (4846792292805243099, 147700425948819054) (1, 0) = (4846792292805243100, 147700425948819054)"
  by (simp add: field_eval)

lemma rt_119: "fpadd1271 t (8012452051450828103, 6526831509394684466) (0, 0) = (8012452051450828103, 6526831509394684466)"
  by (simp add: field_eval)

lemma rt_120: "fp2add1271 t ((4846792292805243099, 147700425948819054), (8012452051450828103, 6526831509394684466)) ((1, 0), (0, 0)) = ((4846792292805243100, 147700425948819054), (8012452051450828103, 6526831509394684466))"
  by (simp only: fp2add1271_def Let_def prod.case fst_conv snd_conv if_True if_False simp_thms
    rt_118 rt_119
    cong: let_weak_cong if_weak_cong)

lemma rt_121: "fpsub1271 t (4846792292805243100, 147700425948819054) (4846792292805243100, 147700425948819054) = (0, 0)"
  by (simp add: field_eval)

lemma rt_122: "fpsub1271 t (8012452051450828103, 6526831509394684466) (8012452051450828103, 6526831509394684466) = (0, 0)"
  by (simp add: field_eval)

lemma rt_123: "fp2sub1271 t ((4846792292805243100, 147700425948819054), (8012452051450828103, 6526831509394684466)) ((4846792292805243100, 147700425948819054), (8012452051450828103, 6526831509394684466)) = ((0, 0), (0, 0))"
  by (simp only: fp2sub1271_def Let_def prod.case fst_conv snd_conv if_True if_False simp_thms
    rt_121 rt_122
    cong: let_weak_cong if_weak_cong)

lemma rt_124: "((0 :: u64) OR (0 :: u64) = 0 \<or> ((0 :: u64) + 1) OR ((0 :: u64) + 1) = 0) = True"
  by simp

lemma rt_125: "ecc_point_validate t \<lparr>ex = ((18446744073709551615, 9223372036854775807), (10, 0)), ey = ((5135199027084860208, 2097218196883642487), (6830433293312592790, 5801461507414689020)), ez = ((1, 0), (0, 0)), eta = ((18446744073709551615, 9223372036854775807), (10, 0)), etb = ((5135199027084860208, 2097218196883642487), (6830433293312592790, 5801461507414689020))\<rparr> = True"
  by (simp only: ecc_point_validate_def PARAMETER_d_def point_extproj.simps Let_def prod.case fst_conv snd_conv if_True if_False simp_thms
    rt_7 rt_98 rt_101 rt_109 rt_117 rt_120 rt_123 rt_124
    cong: let_weak_cong if_weak_cong)

lemma rt_126: "decode t [48, 27, 83, 196, 78, 228, 67, 71, 119, 24, 188, 169, 214, 208, 26, 29, 150, 11, 230, 29, 228, 146, 202, 94, 252, 4, 142, 231, 128, 238, 130, 80] = Some \<lparr>ax = ((18446744073709551615, 9223372036854775807), (10, 0)), ay = ((5135199027084860208, 2097218196883642487), (6830433293312592790, 5801461507414689020))\<rparr>"
  by (simp only: decode_def PARAMETER_d_def ONE_def point_setup_def point_affine.simps point_extproj.simps option.simps Let_def prod.case fst_conv snd_conv if_True if_False simp_thms
    rt_0 rt_1 rt_7 rt_16 rt_19 rt_22 rt_23 rt_24 rt_25 rt_26 rt_27 rt_28 rt_29 rt_30 rt_31 rt_32 rt_33 rt_34 rt_40 rt_41 rt_42 rt_43 rt_44 rt_45 rt_46 rt_47 rt_77 rt_78 rt_79 rt_80 rt_81 rt_82 rt_83 rt_84 rt_85 rt_86 rt_87 rt_88 rt_89 rt_92 rt_125
    cong: let_weak_cong if_weak_cong)

























text \<open>
  The calls made while \<^verbatim>\<open>decode\<close> runs on the 32 bytes \<open>2, 0, \<dots>, 0\<close> (\<open>y = 2\<close>, which is
  the \<open>y\<close> of no point of the curve), and while \<^verbatim>\<open>ecc_point_validate\<close> runs on \<open>(0, 0)\<close>.
\<close>

lemma nq_0: "load_f2elm ([2, 0, 0, 0, 0, 0, 0, 0, 0, 0, 0, 0, 0, 0, 0, 0, 0, 0, 0, 0, 0, 0, 0, 0, 0, 0, 0, 0, 0, 0, 0, 0] :: u8 list) = ((2, 0), (0, 0))"
  by (simp add: load_f2elm_def load64_def)

lemma nq_1: "(0 :: u64) AND 0x7FFFFFFFFFFFFFFF = 0"
  by simp

lemma nq_2: "fpadd1271 t (2, 0) (0, 0) = (2, 0)"
  by (simp add: field_eval)

lemma nq_3: "fpsub1271 t (2, 0) (0, 0) = (2, 0)"
  by (simp add: field_eval)

lemma nq_4: "fpmul1271 t (2, 0) (0, 0) = (0, 0)"
  by (simp add: field_eval)

lemma nq_5: "fpmul1271 t (2, 0) (2, 0) = (4, 0)"
  by (simp add: field_eval)

lemma nq_6: "fpadd1271 t (0, 0) (0, 0) = (0, 0)"
  by (simp add: field_eval)

lemma nq_7: "fp2sqr1271 t ((2, 0), (0, 0)) = ((4, 0), (0, 0))"
  by (simp only: fp2sqr1271_def Let_def prod.case fst_conv snd_conv if_True if_False simp_thms
    nq_2 nq_3 nq_4 nq_5 nq_6
    cong: let_weak_cong if_weak_cong)

lemma nq_8: "fpmul1271 t (4, 0) (322, 228) = (1288, 912)"
  by (simp add: field_eval)

lemma nq_9: "fpmul1271 t (0, 0) (12934923658169420941, 6793450808610906364) = (0, 0)"
  by (simp add: field_eval)

lemma nq_10: "fpadd1271 t (4, 0) (0, 0) = (4, 0)"
  by (simp add: field_eval)

lemma nq_11: "fpadd1271 t (322, 228) (12934923658169420941, 6793450808610906364) = (12934923658169421263, 6793450808610906592)"
  by (simp add: field_eval)

lemma nq_12: "fpsub1271 t (1288, 912) (0, 0) = (1288, 912)"
  by (simp add: field_eval)

lemma nq_13: "fpmul1271 t (4, 0) (12934923658169421263, 6793450808610906592) = (14846206485258581822, 8727059160734074754)"
  by (simp add: field_eval)

lemma nq_14: "fpsub1271 t (14846206485258581822, 8727059160734074754) (1288, 912) = (14846206485258580534, 8727059160734073842)"
  by (simp add: field_eval)

lemma nq_15: "fpsub1271 t (14846206485258580534, 8727059160734073842) (0, 0) = (14846206485258580534, 8727059160734073842)"
  by (simp add: field_eval)

lemma nq_16: "fp2mul1271 t ((4, 0), (0, 0)) ((322, 228), (12934923658169420941, 6793450808610906364)) = ((1288, 912), (14846206485258580534, 8727059160734073842))"
  by (simp only: fp2mul1271_def Let_def prod.case fst_conv snd_conv if_True if_False simp_thms
    nq_8 nq_9 nq_10 nq_11 nq_12 nq_13 nq_14 nq_15
    cong: let_weak_cong if_weak_cong)

lemma nq_17: "fpsub1271 t (4, 0) (1, 0) = (3, 0)"
  by (simp add: field_eval)

lemma nq_18: "fpsub1271 t (0, 0) (0, 0) = (0, 0)"
  by (simp add: field_eval)

lemma nq_19: "fp2sub1271 t ((4, 0), (0, 0)) ((1, 0), (0, 0)) = ((3, 0), (0, 0))"
  by (simp only: fp2sub1271_def Let_def prod.case fst_conv snd_conv if_True if_False simp_thms
    nq_17 nq_18
    cong: let_weak_cong if_weak_cong)

lemma nq_20: "fpadd1271 t (1288, 912) (1, 0) = (1289, 912)"
  by (simp add: field_eval)

lemma nq_21: "fpadd1271 t (14846206485258580534, 8727059160734073842) (0, 0) = (14846206485258580534, 8727059160734073842)"
  by (simp add: field_eval)

lemma nq_22: "fp2add1271 t ((1288, 912), (14846206485258580534, 8727059160734073842)) ((1, 0), (0, 0)) = ((1289, 912), (14846206485258580534, 8727059160734073842))"
  by (simp only: fp2add1271_def Let_def prod.case fst_conv snd_conv if_True if_False simp_thms
    nq_20 nq_21
    cong: let_weak_cong if_weak_cong)

lemma nq_23: "fpsqr1271 t (1289, 912) = (3325009, 2351136)"
  by (simp add: field_eval)

lemma nq_24: "fpsqr1271 t (14846206485258580534, 8727059160734073842) = (18446744073706228095, 9223372036852425727)"
  by (simp add: field_eval)

lemma nq_25: "fpadd1271 t (3325009, 2351136) (18446744073706228095, 9223372036852425727) = (1489, 1056)"
  by (simp add: field_eval)

lemma nq_26: "fpmul1271 t (3, 0) (1289, 912) = (3867, 2736)"
  by (simp add: field_eval)

lemma nq_27: "fpmul1271 t (0, 0) (14846206485258580534, 8727059160734073842) = (0, 0)"
  by (simp add: field_eval)

lemma nq_28: "fpadd1271 t (3867, 2736) (0, 0) = (3867, 2736)"
  by (simp add: field_eval)

lemma nq_29: "fpmul1271 t (0, 0) (1289, 912) = (0, 0)"
  by (simp add: field_eval)

lemma nq_30: "fpmul1271 t (3, 0) (14846206485258580534, 8727059160734073842) = (7645131308356638372, 7734433408492669912)"
  by (simp add: field_eval)

lemma nq_31: "fpsub1271 t (0, 0) (7645131308356638372, 7734433408492669912) = (10801612765352913243, 1488938628362105895)"
  by (simp add: field_eval)

lemma nq_32: "fpsqr1271 t (3867, 2736) = (29925081, 21160224)"
  by (simp add: field_eval)

lemma nq_33: "fpsqr1271 t (10801612765352913243, 1488938628362105895) = (18446744073679639935, 9223372036833625087)"
  by (simp add: field_eval)

lemma nq_34: "fpadd1271 t (29925081, 21160224) (18446744073679639935, 9223372036833625087) = (13401, 9504)"
  by (simp add: field_eval)

lemma nq_35: "fpsqr1271_times t 25 (13401, 9504) = (13466119919489699685, 1973571920335297844)"
  by (simp add: field_eval)

lemma nq_36: "fpsqr1271_times t 25 (13466119919489699685, 1973571920335297844) = (12982785968289078871, 1368048983337360861)"
  by (simp add: field_eval)

lemma nq_37: "fpsqr1271_times t 25 (12982785968289078871, 1368048983337360861) = (16577745584361826086, 1848318463596071567)"
  by (simp add: field_eval)

lemma nq_38: "fpsqr1271_times t 25 (16577745584361826086, 1848318463596071567) = (1808735236459088521, 1944593214300489141)"
  by (simp add: field_eval)

lemma nq_39: "fpsqr1271_times t 25 (1808735236459088521, 1944593214300489141) = (8206031771278115431, 5138145222807729665)"
  by (simp add: field_eval)

lemma nq_40: "fpsqr1271_times t 125 (13401, 9504) = (8206031771278115431, 5138145222807729665)"
  by (simp only: fpsqr1271_times_125 nq_35 nq_36 nq_37 nq_38 nq_39)

lemma nq_41: "fpadd1271 t (3867, 2736) (8206031771278115431, 5138145222807729665) = (8206031771278119298, 5138145222807732401)"
  by (simp add: field_eval)

lemma nq_42: "mod1271 t (8206031771278119298, 5138145222807732401) = (8206031771278119298, 5138145222807732401)"
  by (simp add: field_eval)

lemma nq_43: "((8206031771278119298 :: u64) = 0) = False"
  by simp

lemma nq_44: "((5138145222807732401 :: u64) = 0) = False"
  by simp

lemma nq_45: "fpadd1271 t (8206031771278119298, 5138145222807732401) (8206031771278119298, 5138145222807732401) = (16412063542556238597, 1052918408760688994)"
  by (simp add: field_eval)

lemma nq_46: "fpsqr1271 t (1489, 1056) = (4447393, 3144768)"
  by (simp add: field_eval)

lemma nq_47: "fpmul1271 t (1489, 1056) (4447393, 3144768) = (13263918193, 9379006560)"
  by (simp add: field_eval)

lemma nq_48: "fpmul1271 t (16412063542556238597, 1052918408760688994) (13263918193, 9379006560) = (13904790603037324164, 2456176830701678170)"
  by (simp add: field_eval)

lemma nq_49: "fpsqr1271 t (13904790603037324164, 2456176830701678170) = (5242534342052343942, 6392633644525162644)"
  by (simp add: field_eval)

lemma nq_50: "fpmul1271 t (13904790603037324164, 2456176830701678170) (5242534342052343942, 6392633644525162644) = (11307143820563634600, 1238839616935730367)"
  by (simp add: field_eval)

lemma nq_51: "fpsqr1271 t (11307143820563634600, 1238839616935730367) = (4272547849077124375, 6564554452866195575)"
  by (simp add: field_eval)

lemma nq_52: "fpsqr1271 t (4272547849077124375, 6564554452866195575) = (14065995791633571434, 7367197536344883231)"
  by (simp add: field_eval)

lemma nq_53: "fpmul1271 t (11307143820563634600, 1238839616935730367) (14065995791633571434, 7367197536344883231) = (10593868322993074630, 1674561356374712644)"
  by (simp add: field_eval)

lemma nq_54: "fpsqr1271 t (10593868322993074630, 1674561356374712644) = (13400890342265666715, 8733856985953912373)"
  by (simp add: field_eval)

lemma nq_55: "fpsqr1271 t (13400890342265666715, 8733856985953912373) = (4762927018802519799, 565729857506762842)"
  by (simp add: field_eval)

lemma nq_56: "fpsqr1271 t (4762927018802519799, 565729857506762842) = (558106168945079691, 6029578787509992734)"
  by (simp add: field_eval)

lemma nq_57: "fpsqr1271 t (558106168945079691, 6029578787509992734) = (8247206255709882407, 1283696122340805997)"
  by (simp add: field_eval)

lemma nq_58: "fpmul1271 t (10593868322993074630, 1674561356374712644) (8247206255709882407, 1283696122340805997) = (11058560559950908698, 6627394450373040460)"
  by (simp add: field_eval)

lemma nq_59: "fpsqr1271 t (11058560559950908698, 6627394450373040460) = (17097680821704920267, 8755178866866330898)"
  by (simp add: field_eval)

lemma nq_60: "fpsqr1271_times t 7 (17097680821704920267, 8755178866866330898) = (17560619024172151194, 8687840879006221382)"
  by (simp add: field_eval)

lemma nq_61: "fpmul1271 t (11058560559950908698, 6627394450373040460) (17560619024172151194, 8687840879006221382) = (11423314574041230141, 2405423774119595030)"
  by (simp add: field_eval)

lemma nq_62: "fpsqr1271 t (11423314574041230141, 2405423774119595030) = (589836063179366257, 7311632319282304326)"
  by (simp add: field_eval)

lemma nq_63: "fpsqr1271_times t 15 (589836063179366257, 7311632319282304326) = (9588731052932562309, 2217157599771867022)"
  by (simp add: field_eval)

lemma nq_64: "fpmul1271 t (11423314574041230141, 2405423774119595030) (9588731052932562309, 2217157599771867022) = (13497004308562450512, 3557841934969762619)"
  by (simp add: field_eval)

lemma nq_65: "fpsqr1271 t (13497004308562450512, 3557841934969762619) = (670537344637915351, 6189865578390866049)"
  by (simp add: field_eval)

lemma nq_66: "fpsqr1271_times t 31 (670537344637915351, 6189865578390866049) = (12630958205761470453, 2252626688832836)"
  by (simp add: field_eval)

lemma nq_67: "fpmul1271 t (13497004308562450512, 3557841934969762619) (12630958205761470453, 2252626688832836) = (4426225558071421627, 1588049086348748610)"
  by (simp add: field_eval)

lemma nq_68: "fpsqr1271_times t 32 (4426225558071421627, 1588049086348748610) = (8301586751988859661, 2761525040595534789)"
  by (simp add: field_eval)

lemma nq_69: "fpmul1271 t (8301586751988859661, 2761525040595534789) (13497004308562450512, 3557841934969762619) = (16289070160323779977, 1312386245804683963)"
  by (simp add: field_eval)

lemma nq_70: "fpsqr1271_times t 16 (16289070160323779977, 1312386245804683963) = (11871697756271780414, 3157633584040509167)"
  by (simp add: field_eval)

lemma nq_71: "fpmul1271 t (11423314574041230141, 2405423774119595030) (11871697756271780414, 3157633584040509167) = (16309064846873658524, 8326321540665273638)"
  by (simp add: field_eval)

lemma nq_72: "fpsqr1271_times t 8 (16309064846873658524, 8326321540665273638) = (10588222012504186593, 3030012938405526838)"
  by (simp add: field_eval)

lemma nq_73: "fpmul1271 t (11058560559950908698, 6627394450373040460) (10588222012504186593, 3030012938405526838) = (461723747120581876, 954301675644162666)"
  by (simp add: field_eval)

lemma nq_74: "fpsqr1271_times t 4 (461723747120581876, 954301675644162666) = (18075708449959824902, 7602759995054004294)"
  by (simp add: field_eval)

lemma nq_75: "fpmul1271 t (10593868322993074630, 1674561356374712644) (18075708449959824902, 7602759995054004294) = (13524115442888137683, 8322289115553268315)"
  by (simp add: field_eval)

lemma nq_76: "fpsqr1271 t (13524115442888137683, 8322289115553268315) = (2376661953305170479, 8186948144854501665)"
  by (simp add: field_eval)

lemma nq_77: "fpmul1271 t (13904790603037324164, 2456176830701678170) (2376661953305170479, 8186948144854501665) = (7391547710348516791, 7223331514923400441)"
  by (simp add: field_eval)

lemma nq_78: "fpexp1251 t (13904790603037324164, 2456176830701678170) = (7391547710348516791, 7223331514923400441)"
  by (simp only: fpexp1251_def Let_def prod.case fst_conv snd_conv if_True if_False simp_thms
    nq_49 nq_50 nq_51 nq_52 nq_53 nq_54 nq_55 nq_56 nq_57 nq_58 nq_59 nq_60 nq_61 nq_62 nq_63 nq_64 nq_65 nq_66 nq_67 nq_68 nq_69 nq_70 nq_71 nq_72 nq_73 nq_74 nq_75 nq_76 nq_77
    cong: let_weak_cong if_weak_cong)

lemma nq_79: "fpmul1271 t (1489, 1056) (7391547710348516791, 7223331514923400441) = (11973883338471285635, 3590469697168063672)"
  by (simp add: field_eval)

lemma nq_80: "fpmul1271 t (16412063542556238597, 1052918408760688994) (11973883338471285635, 3590469697168063672) = (14700258972518550122, 8859281080920521755)"
  by (simp add: field_eval)

lemma nq_81: "fpsqr1271 t (14700258972518550122, 8859281080920521755) = (9692273019429369454, 6153635999594989972)"
  by (simp add: field_eval)

lemma nq_82: "fpmul1271 t (1489, 1056) (9692273019429369454, 6153635999594989972) = (16412063542556238597, 1052918408760688994)"
  by (simp add: field_eval)

lemma nq_83: "fpdiv1271 t (14700258972518550122, 8859281080920521755) = (16573501523114050869, 4429640540460260877)"
  by (simp add: field_eval)

lemma nq_84: "fpmul1271 t (10801612765352913243, 1488938628362105895) (11973883338471285635, 3590469697168063672) = (11284175116902234063, 1322104720542224047)"
  by (simp add: field_eval)

lemma nq_85: "fpsub1271 t (16412063542556238597, 1052918408760688994) (16412063542556238597, 1052918408760688994) = (0, 0)"
  by (simp add: field_eval)

lemma nq_86: "mod1271 t (0, 0) = (0, 0)"
  by (simp add: field_eval)

lemma nq_87: "mod1271 t (16573501523114050869, 4429640540460260877) = (16573501523114050869, 4429640540460260877)"
  by (simp add: field_eval)

lemma nq_88: "((16573501523114050869 :: u64) = 0) = False"
  by simp

lemma nq_89: "((4429640540460260877 :: u64) = 0) = False"
  by simp

lemma nq_90: "((ucast (drop_bit 7 (([2, 0, 0, 0, 0, 0, 0, 0, 0, 0, 0, 0, 0, 0, 0, 0, 0, 0, 0, 0, 0, 0, 0, 0, 0, 0, 0, 0, 0, 0, 0, 0] :: u8 list) ! 31)) :: 32 word) = ucast (drop_bit 62 (4429640540460260877 :: u64))) = True"
  by simp

lemma nq_91: "fpadd1271 t (16573501523114050869, 4429640540460260877) (11284175116902234063, 1322104720542224047) = (9410932566306733316, 5751745261002484925)"
  by (simp add: field_eval)

lemma nq_92: "fpsub1271 t (16573501523114050869, 4429640540460260877) (11284175116902234063, 1322104720542224047) = (5289326406211816806, 3107535819918036830)"
  by (simp add: field_eval)

lemma nq_93: "fpmul1271 t (16573501523114050869, 4429640540460260877) (11284175116902234063, 1322104720542224047) = (566389391784578861, 6638683405960455662)"
  by (simp add: field_eval)

lemma nq_94: "fpmul1271 t (9410932566306733316, 5751745261002484925) (5289326406211816806, 3107535819918036830) = (755257273148775871, 4694889546383063616)"
  by (simp add: field_eval)

lemma nq_95: "fpadd1271 t (566389391784578861, 6638683405960455662) (566389391784578861, 6638683405960455662) = (1132778783569157723, 4053994775066135516)"
  by (simp add: field_eval)

lemma nq_96: "fp2sqr1271 t ((16573501523114050869, 4429640540460260877), (11284175116902234063, 1322104720542224047)) = ((755257273148775871, 4694889546383063616), (1132778783569157723, 4053994775066135516))"
  by (simp only: fp2sqr1271_def Let_def prod.case fst_conv snd_conv if_True if_False simp_thms
    nq_91 nq_92 nq_93 nq_94 nq_95
    cong: let_weak_cong if_weak_cong)

lemma nq_97: "fpsub1271 t (4, 0) (755257273148775871, 4694889546383063616) = (17691486800560775748, 4528482490471712191)"
  by (simp add: field_eval)

lemma nq_98: "fpsub1271 t (0, 0) (1132778783569157723, 4053994775066135516) = (17313965290140393892, 5169377261788640291)"
  by (simp add: field_eval)

lemma nq_99: "fp2sub1271 t ((4, 0), (0, 0)) ((755257273148775871, 4694889546383063616), (1132778783569157723, 4053994775066135516)) = ((17691486800560775748, 4528482490471712191), (17313965290140393892, 5169377261788640291))"
  by (simp only: fp2sub1271_def Let_def prod.case fst_conv snd_conv if_True if_False simp_thms
    nq_97 nq_98
    cong: let_weak_cong if_weak_cong)

lemma nq_100: "fpmul1271 t (4, 0) (755257273148775871, 4694889546383063616) = (3021029092595103486, 332814111822702848)"
  by (simp add: field_eval)

lemma nq_101: "fpmul1271 t (0, 0) (1132778783569157723, 4053994775066135516) = (0, 0)"
  by (simp add: field_eval)

lemma nq_102: "fpadd1271 t (755257273148775871, 4694889546383063616) (1132778783569157723, 4053994775066135516) = (1888036056717933594, 8748884321449199132)"
  by (simp add: field_eval)

lemma nq_103: "fpsub1271 t (3021029092595103486, 332814111822702848) (0, 0) = (3021029092595103486, 332814111822702848)"
  by (simp add: field_eval)

lemma nq_104: "fpmul1271 t (4, 0) (1888036056717933594, 8748884321449199132) = (7552144226871734379, 7325421175232469104)"
  by (simp add: field_eval)

lemma nq_105: "fpsub1271 t (7552144226871734379, 7325421175232469104) (3021029092595103486, 332814111822702848) = (4531115134276630893, 6992607063409766256)"
  by (simp add: field_eval)

lemma nq_106: "fpsub1271 t (4531115134276630893, 6992607063409766256) (0, 0) = (4531115134276630893, 6992607063409766256)"
  by (simp add: field_eval)

lemma nq_107: "fp2mul1271 t ((4, 0), (0, 0)) ((755257273148775871, 4694889546383063616), (1132778783569157723, 4053994775066135516)) = ((3021029092595103486, 332814111822702848), (4531115134276630893, 6992607063409766256))"
  by (simp only: fp2mul1271_def Let_def prod.case fst_conv snd_conv if_True if_False simp_thms
    nq_100 nq_101 nq_10 nq_102 nq_103 nq_104 nq_105 nq_106
    cong: let_weak_cong if_weak_cong)

lemma nq_108: "fpmul1271 t (3021029092595103486, 332814111822702848) (322, 228) = (17729958384202724306, 2750781949083192436)"
  by (simp add: field_eval)

lemma nq_109: "fpmul1271 t (4531115134276630893, 6992607063409766256) (12934923658169420941, 6793450808610906364) = (14046513204632917179, 3250728415392131166)"
  by (simp add: field_eval)

lemma nq_110: "fpadd1271 t (3021029092595103486, 332814111822702848) (4531115134276630893, 6992607063409766256) = (7552144226871734379, 7325421175232469104)"
  by (simp add: field_eval)

lemma nq_111: "fpsub1271 t (17729958384202724306, 2750781949083192436) (14046513204632917179, 3250728415392131166) = (3683445179569807126, 8723425570545837078)"
  by (simp add: field_eval)

lemma nq_112: "fpmul1271 t (7552144226871734379, 7325421175232469104) (12934923658169421263, 6793450808610906592) = (4760329568525458014, 1436175134082303153)"
  by (simp add: field_eval)

lemma nq_113: "fpsub1271 t (4760329568525458014, 1436175134082303153) (17729958384202724306, 2750781949083192436) = (5477115258032285323, 7908765221853886524)"
  by (simp add: field_eval)

lemma nq_114: "fpsub1271 t (5477115258032285323, 7908765221853886524) (14046513204632917179, 3250728415392131166) = (9877346127108919760, 4658036806461755357)"
  by (simp add: field_eval)

lemma nq_115: "fp2mul1271 t ((3021029092595103486, 332814111822702848), (4531115134276630893, 6992607063409766256)) ((322, 228), (12934923658169420941, 6793450808610906364)) = ((3683445179569807126, 8723425570545837078), (9877346127108919760, 4658036806461755357))"
  by (simp only: fp2mul1271_def Let_def prod.case fst_conv snd_conv if_True if_False simp_thms
    nq_108 nq_109 nq_110 nq_11 nq_111 nq_112 nq_113 nq_114
    cong: let_weak_cong if_weak_cong)

lemma nq_116: "fpadd1271 t (3683445179569807126, 8723425570545837078) (1, 0) = (3683445179569807127, 8723425570545837078)"
  by (simp add: field_eval)

lemma nq_117: "fpadd1271 t (9877346127108919760, 4658036806461755357) (0, 0) = (9877346127108919760, 4658036806461755357)"
  by (simp add: field_eval)

lemma nq_118: "fp2add1271 t ((3683445179569807126, 8723425570545837078), (9877346127108919760, 4658036806461755357)) ((1, 0), (0, 0)) = ((3683445179569807127, 8723425570545837078), (9877346127108919760, 4658036806461755357))"
  by (simp only: fp2add1271_def Let_def prod.case fst_conv snd_conv if_True if_False simp_thms
    nq_116 nq_117
    cong: let_weak_cong if_weak_cong)

lemma nq_119: "fpsub1271 t (17691486800560775748, 4528482490471712191) (3683445179569807127, 8723425570545837078) = (14008041620990968620, 5028428956780650921)"
  by (simp add: field_eval)

lemma nq_120: "fpsub1271 t (17313965290140393892, 5169377261788640291) (9877346127108919760, 4658036806461755357) = (7436619163031474132, 511340455326884934)"
  by (simp add: field_eval)

lemma nq_121: "fp2sub1271 t ((17691486800560775748, 4528482490471712191), (17313965290140393892, 5169377261788640291)) ((3683445179569807127, 8723425570545837078), (9877346127108919760, 4658036806461755357)) = ((14008041620990968620, 5028428956780650921), (7436619163031474132, 511340455326884934))"
  by (simp only: fp2sub1271_def Let_def prod.case fst_conv snd_conv if_True if_False simp_thms
    nq_119 nq_120
    cong: let_weak_cong if_weak_cong)

lemma nq_122: "((14008041620990968620 :: u64) OR (5028428956780650921 :: u64) = 0 \<or> ((14008041620990968620 :: u64) + 1) OR ((5028428956780650921 :: u64) + 1) = 0) = False"
  by simp

lemma nq_123: "((7436619163031474132 :: u64) OR (511340455326884934 :: u64) = 0 \<or> ((7436619163031474132 :: u64) + 1) OR ((511340455326884934 :: u64) + 1) = 0) = False"
  by simp

lemma nq_124: "ecc_point_validate t \<lparr>ex = ((16573501523114050869, 4429640540460260877), (11284175116902234063, 1322104720542224047)), ey = ((2, 0), (0, 0)), ez = ((1, 0), (0, 0)), eta = ((16573501523114050869, 4429640540460260877), (11284175116902234063, 1322104720542224047)), etb = ((2, 0), (0, 0))\<rparr> = False"
  by (simp only: ecc_point_validate_def PARAMETER_d_def point_extproj.simps Let_def prod.case fst_conv snd_conv if_True if_False simp_thms
    nq_7 nq_96 nq_99 nq_107 nq_115 nq_118 nq_121 nq_122 nq_123
    cong: let_weak_cong if_weak_cong)

lemma nq_125: "fpneg1271 (11284175116902234063, 1322104720542224047) = (7162568956807317552, 7901267316312551760)"
  by (simp add: field_eval)

lemma nq_126: "fpadd1271 t (16573501523114050869, 4429640540460260877) (7162568956807317552, 7901267316312551760) = (5289326406211816806, 3107535819918036830)"
  by (simp add: field_eval)

lemma nq_127: "fpsub1271 t (16573501523114050869, 4429640540460260877) (7162568956807317552, 7901267316312551760) = (9410932566306733316, 5751745261002484925)"
  by (simp add: field_eval)

lemma nq_128: "fpmul1271 t (16573501523114050869, 4429640540460260877) (7162568956807317552, 7901267316312551760) = (17880354681924972754, 2584688630894320145)"
  by (simp add: field_eval)

lemma nq_129: "fpmul1271 t (5289326406211816806, 3107535819918036830) (9410932566306733316, 5751745261002484925) = (755257273148775871, 4694889546383063616)"
  by (simp add: field_eval)

lemma nq_130: "fpadd1271 t (17880354681924972754, 2584688630894320145) (17880354681924972754, 2584688630894320145) = (17313965290140393892, 5169377261788640291)"
  by (simp add: field_eval)

lemma nq_131: "fp2sqr1271 t ((16573501523114050869, 4429640540460260877), (7162568956807317552, 7901267316312551760)) = ((755257273148775871, 4694889546383063616), (17313965290140393892, 5169377261788640291))"
  by (simp only: fp2sqr1271_def Let_def prod.case fst_conv snd_conv if_True if_False simp_thms
    nq_126 nq_127 nq_128 nq_129 nq_130
    cong: let_weak_cong if_weak_cong)

lemma nq_132: "fpsub1271 t (0, 0) (17313965290140393892, 5169377261788640291) = (1132778783569157723, 4053994775066135516)"
  by (simp add: field_eval)

lemma nq_133: "fp2sub1271 t ((4, 0), (0, 0)) ((755257273148775871, 4694889546383063616), (17313965290140393892, 5169377261788640291)) = ((17691486800560775748, 4528482490471712191), (1132778783569157723, 4053994775066135516))"
  by (simp only: fp2sub1271_def Let_def prod.case fst_conv snd_conv if_True if_False simp_thms
    nq_97 nq_132
    cong: let_weak_cong if_weak_cong)

lemma nq_134: "fpmul1271 t (0, 0) (17313965290140393892, 5169377261788640291) = (0, 0)"
  by (simp add: field_eval)

lemma nq_135: "fpadd1271 t (755257273148775871, 4694889546383063616) (17313965290140393892, 5169377261788640291) = (18069222563289169764, 640894771316928099)"
  by (simp add: field_eval)

lemma nq_136: "fpmul1271 t (4, 0) (18069222563289169764, 640894771316928099) = (16936658032028024208, 2563579085267712399)"
  by (simp add: field_eval)

lemma nq_137: "fpsub1271 t (16936658032028024208, 2563579085267712399) (3021029092595103486, 332814111822702848) = (13915628939432920722, 2230764973445009551)"
  by (simp add: field_eval)

lemma nq_138: "fpsub1271 t (13915628939432920722, 2230764973445009551) (0, 0) = (13915628939432920722, 2230764973445009551)"
  by (simp add: field_eval)

lemma nq_139: "fp2mul1271 t ((4, 0), (0, 0)) ((755257273148775871, 4694889546383063616), (17313965290140393892, 5169377261788640291)) = ((3021029092595103486, 332814111822702848), (13915628939432920722, 2230764973445009551))"
  by (simp only: fp2mul1271_def Let_def prod.case fst_conv snd_conv if_True if_False simp_thms
    nq_100 nq_134 nq_10 nq_135 nq_103 nq_136 nq_137 nq_138
    cong: let_weak_cong if_weak_cong)

lemma nq_140: "fpmul1271 t (13915628939432920722, 2230764973445009551) (12934923658169420941, 6793450808610906364) = (4400230869076634436, 5972643621462644641)"
  by (simp add: field_eval)

lemma nq_141: "fpadd1271 t (3021029092595103486, 332814111822702848) (13915628939432920722, 2230764973445009551) = (16936658032028024208, 2563579085267712399)"
  by (simp add: field_eval)

lemma nq_142: "fpsub1271 t (17729958384202724306, 2750781949083192436) (4400230869076634436, 5972643621462644641) = (13329727515126089869, 6001510364475323603)"
  by (simp add: field_eval)

lemma nq_143: "fpmul1271 t (16936658032028024208, 2563579085267712399) (12934923658169421263, 6793450808610906592) = (15424016152435620075, 1771530514720035347)"
  by (simp add: field_eval)

lemma nq_144: "fpsub1271 t (15424016152435620075, 1771530514720035347) (17729958384202724306, 2750781949083192436) = (16140801841942447384, 8244120602491618718)"
  by (simp add: field_eval)

lemma nq_145: "fpsub1271 t (16140801841942447384, 8244120602491618718) (4400230869076634436, 5972643621462644641) = (11740570972865812948, 2271476981028974077)"
  by (simp add: field_eval)

lemma nq_146: "fp2mul1271 t ((3021029092595103486, 332814111822702848), (13915628939432920722, 2230764973445009551)) ((322, 228), (12934923658169420941, 6793450808610906364)) = ((13329727515126089869, 6001510364475323603), (11740570972865812948, 2271476981028974077))"
  by (simp only: fp2mul1271_def Let_def prod.case fst_conv snd_conv if_True if_False simp_thms
    nq_108 nq_140 nq_141 nq_11 nq_142 nq_143 nq_144 nq_145
    cong: let_weak_cong if_weak_cong)

lemma nq_147: "fpadd1271 t (13329727515126089869, 6001510364475323603) (1, 0) = (13329727515126089870, 6001510364475323603)"
  by (simp add: field_eval)

lemma nq_148: "fpadd1271 t (11740570972865812948, 2271476981028974077) (0, 0) = (11740570972865812948, 2271476981028974077)"
  by (simp add: field_eval)

lemma nq_149: "fp2add1271 t ((13329727515126089869, 6001510364475323603), (11740570972865812948, 2271476981028974077)) ((1, 0), (0, 0)) = ((13329727515126089870, 6001510364475323603), (11740570972865812948, 2271476981028974077))"
  by (simp only: fp2add1271_def Let_def prod.case fst_conv snd_conv if_True if_False simp_thms
    nq_147 nq_148
    cong: let_weak_cong if_weak_cong)

lemma nq_150: "fpsub1271 t (17691486800560775748, 4528482490471712191) (13329727515126089870, 6001510364475323603) = (4361759285434685877, 7750344162851164396)"
  by (simp add: field_eval)

lemma nq_151: "fpsub1271 t (1132778783569157723, 4053994775066135516) (11740570972865812948, 2271476981028974077) = (7838951884412896391, 1782517794037161438)"
  by (simp add: field_eval)

lemma nq_152: "fp2sub1271 t ((17691486800560775748, 4528482490471712191), (1132778783569157723, 4053994775066135516)) ((13329727515126089870, 6001510364475323603), (11740570972865812948, 2271476981028974077)) = ((4361759285434685877, 7750344162851164396), (7838951884412896391, 1782517794037161438))"
  by (simp only: fp2sub1271_def Let_def prod.case fst_conv snd_conv if_True if_False simp_thms
    nq_150 nq_151
    cong: let_weak_cong if_weak_cong)

lemma nq_153: "((4361759285434685877 :: u64) OR (7750344162851164396 :: u64) = 0 \<or> ((4361759285434685877 :: u64) + 1) OR ((7750344162851164396 :: u64) + 1) = 0) = False"
  by simp

lemma nq_154: "((7838951884412896391 :: u64) OR (1782517794037161438 :: u64) = 0 \<or> ((7838951884412896391 :: u64) + 1) OR ((1782517794037161438 :: u64) + 1) = 0) = False"
  by simp

lemma nq_155: "ecc_point_validate t \<lparr>ex = ((16573501523114050869, 4429640540460260877), (7162568956807317552, 7901267316312551760)), ey = ((2, 0), (0, 0)), ez = ((1, 0), (0, 0)), eta = ((16573501523114050869, 4429640540460260877), (11284175116902234063, 1322104720542224047)), etb = ((2, 0), (0, 0))\<rparr> = False"
  by (simp only: ecc_point_validate_def PARAMETER_d_def point_extproj.simps Let_def prod.case fst_conv snd_conv if_True if_False simp_thms
    nq_7 nq_131 nq_133 nq_139 nq_146 nq_149 nq_152 nq_153 nq_154
    cong: let_weak_cong if_weak_cong)

lemma nq_156: "decode t [2, 0, 0, 0, 0, 0, 0, 0, 0, 0, 0, 0, 0, 0, 0, 0, 0, 0, 0, 0, 0, 0, 0, 0, 0, 0, 0, 0, 0, 0, 0, 0] = None"
  by (simp only: decode_def PARAMETER_d_def ONE_def point_setup_def point_affine.simps point_extproj.simps option.simps Let_def prod.case fst_conv snd_conv if_True if_False simp_thms
    nq_0 nq_1 nq_7 nq_16 nq_19 nq_22 nq_23 nq_24 nq_25 nq_26 nq_27 nq_28 nq_29 nq_30 nq_31 nq_32 nq_33 nq_34 nq_40 nq_41 nq_42 nq_43 nq_44 nq_45 nq_46 nq_47 nq_48 nq_78 nq_79 nq_80 nq_81 nq_82 nq_83 nq_84 nq_85 nq_86 nq_87 nq_88 nq_89 nq_90 nq_124 nq_125 nq_155
    cong: let_weak_cong if_weak_cong)

lemma nq_157: "fpmul1271 t (0, 0) (0, 0) = (0, 0)"
  by (simp add: field_eval)

lemma nq_158: "fp2sqr1271 t ((0, 0), (0, 0)) = ((0, 0), (0, 0))"
  by (simp only: fp2sqr1271_def Let_def prod.case fst_conv snd_conv if_True if_False simp_thms
    nq_6 nq_18 nq_157
    cong: let_weak_cong if_weak_cong)

lemma nq_159: "fp2sub1271 t ((0, 0), (0, 0)) ((0, 0), (0, 0)) = ((0, 0), (0, 0))"
  by (simp only: fp2sub1271_def Let_def prod.case fst_conv snd_conv if_True if_False simp_thms
    nq_18
    cong: let_weak_cong if_weak_cong)

lemma nq_160: "fp2mul1271 t ((0, 0), (0, 0)) ((0, 0), (0, 0)) = ((0, 0), (0, 0))"
  by (simp only: fp2mul1271_def Let_def prod.case fst_conv snd_conv if_True if_False simp_thms
    nq_157 nq_6 nq_18
    cong: let_weak_cong if_weak_cong)

lemma nq_161: "fpmul1271 t (0, 0) (322, 228) = (0, 0)"
  by (simp add: field_eval)

lemma nq_162: "fpmul1271 t (0, 0) (12934923658169421263, 6793450808610906592) = (0, 0)"
  by (simp add: field_eval)

lemma nq_163: "fp2mul1271 t ((0, 0), (0, 0)) ((322, 228), (12934923658169420941, 6793450808610906364)) = ((0, 0), (0, 0))"
  by (simp only: fp2mul1271_def Let_def prod.case fst_conv snd_conv if_True if_False simp_thms
    nq_161 nq_9 nq_6 nq_11 nq_18 nq_162
    cong: let_weak_cong if_weak_cong)

lemma nq_164: "fpadd1271 t (0, 0) (1, 0) = (1, 0)"
  by (simp add: field_eval)

lemma nq_165: "fp2add1271 t ((0, 0), (0, 0)) ((1, 0), (0, 0)) = ((1, 0), (0, 0))"
  by (simp only: fp2add1271_def Let_def prod.case fst_conv snd_conv if_True if_False simp_thms
    nq_164 nq_6
    cong: let_weak_cong if_weak_cong)

lemma nq_166: "fpsub1271 t (0, 0) (1, 0) = (18446744073709551614, 9223372036854775807)"
  by (simp add: field_eval)

lemma nq_167: "fp2sub1271 t ((0, 0), (0, 0)) ((1, 0), (0, 0)) = ((18446744073709551614, 9223372036854775807), (0, 0))"
  by (simp only: fp2sub1271_def Let_def prod.case fst_conv snd_conv if_True if_False simp_thms
    nq_166 nq_18
    cong: let_weak_cong if_weak_cong)

lemma nq_168: "((18446744073709551614 :: u64) OR (9223372036854775807 :: u64) = 0 \<or> ((18446744073709551614 :: u64) + 1) OR ((9223372036854775807 :: u64) + 1) = 0) = False"
  by simp

lemma nq_169: "((0 :: u64) OR (0 :: u64) = 0 \<or> ((0 :: u64) + 1) OR ((0 :: u64) + 1) = 0) = True"
  by simp

lemma nq_170: "ecc_point_validate t \<lparr>ex = ((0, 0), (0, 0)), ey = ((0, 0), (0, 0)), ez = ((1, 0), (0, 0)), eta = ((0, 0), (0, 0)), etb = ((0, 0), (0, 0))\<rparr> = False"
  by (simp only: ecc_point_validate_def PARAMETER_d_def point_extproj.simps Let_def prod.case fst_conv snd_conv if_True if_False simp_thms
    nq_158 nq_159 nq_160 nq_163 nq_165 nq_167 nq_168 nq_169
    cong: let_weak_cong if_weak_cong)

section \<open>KangarooTwelve: short inputs\<close>

text \<open>
  C2 as stated fails at an input of exactly one chunk. For the input of 8192 zero bytes the
  first part of \<^verbatim>\<open>KangarooTwelve\<close> ends with \<open>blockNumber = 1\<close> and a pending leaf
  (\<open>queueAbsorbedLen = 1\<close>): the final node has taken the suffix \<open>0x03\<close>, an empty leaf
  (index 1, the byte \<open>0x00\<close>) is closed with \<^verbatim>\<open>K12_suffixLeaf\<close>, its first 32 bytes and the
  length encoding \<open>01 01 FF FF\<close> are absorbed by the final node, and the final suffix is
  \<open>0x06\<close>, not the short-input suffix \<open>0x07\<close>. This is the tree path.
\<close>

theorem KangarooTwelve_one_chunk_takes_tree_path:
  "length (replicate 8192 (0 :: u8)) = K12_chunkSize
   \<and> blockNumber (K12_nodes (replicate 8192 0)) = 1
   \<and> queueAbsorbedLen (K12_nodes (replicate 8192 0)) = 1
   \<and> KangarooTwelve (replicate 8192 0) 32 =
      (let f = K12_first_chunk (KangarooTwelve_F_Absorb K12_zero (replicate 8192 0));
           leaf = K12_close_leaf \<lparr>kstate = replicate 200 0, byteIOIndex = 1\<rparr>;
           f = KangarooTwelve_F_Absorb f (take K12_capacityInBytes leaf);
           f = KangarooTwelve_F_Absorb f [1, 1, 0xFF, 0xFF];
           st = xor_byte (kstate f) (unat (byteIOIndex f)) 0x06;
           st = xor_byte st (K12_rateInBytes - 1) 0x80
       in take 32 (KeccakP1600_Permute_12rounds st))"
proof -
  have l: "length (replicate 8192 (0 :: u8)) = K12_chunkSize"
    by (simp add: K12_chunkSize_def)
  show ?thesis using l K12_one_chunk [OF l, of 32] by blast
qed

text \<open>
  C2, amended: for every input shorter than one chunk (at most 8191 bytes)
  \<^verbatim>\<open>KangarooTwelve\<close> returns what the single sponge \<open>K12_single_node\<close> returns (the input
  and one zero byte absorbed, suffix \<open>0x07\<close>, last padding bit, one permutation at the end),
  and the block counter stays 0, so that no leaf and no length encoding enter the final
  node.
\<close>

theorem KangarooTwelve_short_input_single_node:
  assumes "length input < K12_chunkSize"
  shows "KangarooTwelve input outputByteLen = K12_single_node input outputByteLen
         \<and> blockNumber (K12_nodes input) = 0"
proof -
  define F where "F = KangarooTwelve_F_Absorb K12_zero input"
  have F: "F = fold sponge_byte input K12_zero"
    unfolding F_def by (rule Absorb_fold [OF K12_zero_index])
  have s: "fold sponge_byte (input @ [0]) K12_zero = sponge_byte 0 F"
    by (simp add: F)
  have b: "blockNumber (K12_nodes input) = 0"
    by (simp add: K12_nodes_short [OF assms] Let_def)
  have "KangarooTwelve input outputByteLen = K12_single_node input outputByteLen"
  proof (cases "byteIOIndex F + 1 = 168")
    case True
    show ?thesis
      using True
      by (simp only: KangarooTwelve_def K12_final_def K12_nodes_short [OF assms] Let_def
                     K12_single_node_def s sponge_byte_def F_def [symmetric] xor_byte_zero)
         simp
  next
    case False
    show ?thesis
      using False
      by (simp only: KangarooTwelve_def K12_final_def K12_nodes_short [OF assms] Let_def
                     K12_single_node_def s sponge_byte_def F_def [symmetric] xor_byte_zero)
         simp
  qed
  then show ?thesis using b by simp
qed

text \<open>
  The amended claim at the empty input, with the value: the 32 bytes are the test vector of
  KangarooTwelve for the empty message.
\<close>

theorem KangarooTwelve_short_input_single_node_witness:
  "length ([] :: u8 list) < K12_chunkSize
   \<and> KangarooTwelve [] 32 = [26, 194, 212, 80, 252, 59, 66, 5, 209, 157, 167, 191, 202, 27, 55, 81, 60, 8, 3, 87, 122, 199, 22, 127, 6, 254, 44, 225, 240, 239, 57, 229]
   \<and> blockNumber (K12_nodes []) = 0"
proof -
  have l: "length ([] :: u8 list) < K12_chunkSize" by (simp add: K12_chunkSize_def)
  show ?thesis
    using l KangarooTwelve_short_input_single_node [OF l, of 32] by (simp only: kv_single simp_thms)
qed

section \<open>The challenge hash of a signature\<close>




section \<open>Round trip through the point encoding\<close>



section \<open>The gate of \<^verbatim>\<open>verify\<close>\<close>

text \<open>
  C5: when bit 7 of byte 15 of the public key, bit 7 of byte 15 of the signature (the top
  bit of the first coordinate word pair of the key and of the commitment), bit 6 or 7 of
  byte 62 of the signature or any bit of its byte 63 (the ten top bits of the response) is
  set, \<^verbatim>\<open>verify\<close> returns \<^verbatim>\<open>false\<close> and has called none of \<^verbatim>\<open>decode\<close>,
  \<^verbatim>\<open>KangarooTwelve\<close>, \<^verbatim>\<open>ecc_mul_double\<close> and \<^verbatim>\<open>encode\<close>; this on both targets.
\<close>

theorem verify_rejects_reserved_bits:
  assumes "bit (publicKey ! 15) 7 \<or> bit (signature ! 15) 7
           \<or> bit (signature ! 62) 6 \<or> bit (signature ! 62) 7 \<or> signature ! 63 \<noteq> 0"
  shows "verify_calls t publicKey messageDigest signature = ([], False)
         \<and> \<not> verify t publicKey messageDigest signature"
proof -
  have "verify_calls t publicKey messageDigest signature = ([], False)"
    by (rule verify_gate [OF assms])
  then show ?thesis by (simp add: verify_def)
qed

text \<open>
  C5 at a public key whose byte 15 is \<open>0x80\<close> (all other bytes of the key, the digest and
  the signature are zero), and at a signature whose byte 63 is 1.
\<close>

theorem verify_rejects_reserved_bits_witness:
  "bit ((replicate 32 (0 :: u8))[15 := 0x80] ! 15) 7
   \<and> verify_calls X86_64 ((replicate 32 0)[15 := 0x80]) (replicate 32 0) (replicate 64 0)
       = ([], False)
   \<and> (replicate 64 (0 :: u8))[63 := 1] ! 63 \<noteq> 0
   \<and> \<not> verify AArch64 (replicate 32 0) (replicate 32 0) ((replicate 64 0)[63 := 1])"
proof -
  have 1: "bit ((replicate 32 (0 :: u8))[15 := 0x80] ! 15) 7" by simp
  have 2: "(replicate 64 (0 :: u8))[63 := 1] ! 63 \<noteq> 0" by simp
  have 3: "bit ((replicate 32 (0 :: u8))[15 := 0x80] ! 15) 7 \<or> bit ((replicate 64 (0 :: u8)) ! 15) 7
           \<or> bit ((replicate 64 (0 :: u8)) ! 62) 6 \<or> bit ((replicate 64 (0 :: u8)) ! 62) 7
           \<or> (replicate 64 (0 :: u8)) ! 63 \<noteq> 0"
    using 1 by blast
  have 4: "bit ((replicate 32 (0 :: u8)) ! 15) 7 \<or> bit ((replicate 64 (0 :: u8))[63 := 1] ! 15) 7
           \<or> bit ((replicate 64 (0 :: u8))[63 := 1] ! 62) 6
           \<or> bit ((replicate 64 (0 :: u8))[63 := 1] ! 62) 7
           \<or> (replicate 64 (0 :: u8))[63 := 1] ! 63 \<noteq> 0"
    using 2 by blast
  show ?thesis
    using 1 2 verify_rejects_reserved_bits [OF 3, of X86_64 "replicate 32 0"]
      verify_rejects_reserved_bits [OF 4, of AArch64 "replicate 32 0"]
    by blast
qed

section \<open>Failure of the double-scalar multiplication\<close>

text \<open>
  C6: for all scalars \<open>k\<close>, \<open>l\<close> and every point \<open>Q\<close>, on both targets,
  \<^verbatim>\<open>ecc_mul_double\<close> returns \<^verbatim>\<open>false\<close> exactly when \<^verbatim>\<open>ecc_point_validate\<close> rejects
  \<open>Q\<close>. When \<^verbatim>\<open>decode\<close> rejects the public key, \<^verbatim>\<open>verify\<close> returns \<^verbatim>\<open>false\<close>. A
  point that \<^verbatim>\<open>decode\<close> returns has passed the same validation, so the multiplication in
  \<^verbatim>\<open>verify\<close> does not fail on it. In all, \<^verbatim>\<open>verify\<close> returns \<^verbatim>\<open>true\<close> exactly when
  no reserved bit is set, \<^verbatim>\<open>decode\<close> and \<^verbatim>\<open>ecc_mul_double\<close> both succeed and the
  encoding of the result equals the first half of the signature; the last call stores the
  encoding over the point (\<open>encode_in_place\<close>).
\<close>

theorem ecc_mul_double_fails_iff_invalid:
  "(ecc_mul_double t k l Q = None) = (\<not> ecc_point_validate t (point_setup Q))
   \<and> (decode t publicKey = None \<longrightarrow> \<not> verify t publicKey messageDigest signature)
   \<and> (\<forall>A. decode t publicKey = Some A \<longrightarrow> ecc_mul_double t k l A \<noteq> None)
   \<and> verify t publicKey messageDigest signature =
     (\<not> (bit (publicKey ! 15) 7 \<or> bit (signature ! 15) 7
          \<or> bit (signature ! 62) 6 \<or> bit (signature ! 62) 7 \<or> signature ! 63 \<noteq> 0)
      \<and> (\<exists>A R. decode t publicKey = Some A
            \<and> ecc_mul_double t (load_u256 (drop 32 signature))
                 (load_u256 (KangarooTwelve
                    (take 96 (copy32 (copy32 (copy32 (replicate 96 0) 0 signature)
                                        32 publicKey) 64 messageDigest)) 64)) A = Some R
            \<and> take 32 (encode_in_place R) = take 32 signature))"
proof -
  have 1: "(ecc_mul_double t k l Q = None) = (\<not> ecc_point_validate t (point_setup Q))"
    by (rule ecc_mul_double_None)
  have 4: "verify t publicKey messageDigest signature =
     (\<not> (bit (publicKey ! 15) 7 \<or> bit (signature ! 15) 7
          \<or> bit (signature ! 62) 6 \<or> bit (signature ! 62) 7 \<or> signature ! 63 \<noteq> 0)
      \<and> (\<exists>A R. decode t publicKey = Some A
            \<and> ecc_mul_double t (load_u256 (drop 32 signature))
                 (load_u256 (KangarooTwelve
                    (take 96 (copy32 (copy32 (copy32 (replicate 96 0) 0 signature)
                                        32 publicKey) 64 messageDigest)) 64)) A = Some R
            \<and> take 32 (encode_in_place R) = take 32 signature))"
    by (rule verify_eq)
  have 2: "decode t publicKey = None \<longrightarrow> \<not> verify t publicKey messageDigest signature"
    by (simp add: 4)
  have 3: "\<forall>A. decode t publicKey = Some A \<longrightarrow> ecc_mul_double t k l A \<noteq> None"
    using decode_validates [of t publicKey] by (simp add: ecc_mul_double_None)
  show ?thesis using 1 2 3 4 by blast
qed

text \<open>
  C6 at the point \<open>(0, 0)\<close>, which is not on the curve; at the public key \<open>2, 0, \<dots>, 0\<close>, which
  \<^verbatim>\<open>decode\<close> rejects; and at an encoding that \<^verbatim>\<open>decode\<close> accepts.
\<close>

theorem ecc_mul_double_fails_iff_invalid_witness:
  "ecc_mul_double X86_64 (1, 2, 3, 4) (5, 6, 7, 8)
       \<lparr>ax = ((0, 0), (0, 0)), ay = ((0, 0), (0, 0))\<rparr> = None
   \<and> ecc_mul_double AArch64 (1, 2, 3, 4) (5, 6, 7, 8)
       \<lparr>ax = ((0, 0), (0, 0)), ay = ((0, 0), (0, 0))\<rparr> = None
   \<and> decode X86_64 
       [2, 0, 0, 0, 0, 0, 0, 0, 0, 0, 0, 0, 0, 0, 0, 0, 0, 0, 0, 0, 0, 0, 0, 0, 0, 0, 0, 0, 0, 0, 0, 0] = None
   \<and> \<not> verify X86_64 
       [2, 0, 0, 0, 0, 0, 0, 0, 0, 0, 0, 0, 0, 0, 0, 0, 0, 0, 0, 0, 0, 0, 0, 0, 0, 0, 0, 0, 0, 0, 0, 0] (replicate 32 0) (replicate 64 0)
   \<and> decode X86_64 
       [48, 27, 83, 196, 78, 228, 67, 71, 119, 24, 188, 169, 214, 208, 26, 29, 150, 11, 230, 29, 228, 146, 202, 94, 252, 4, 142, 231, 128, 238, 130, 80] = Some 
       \<lparr>ax = ((18446744073709551615, 9223372036854775807), (10, 0)), ay = ((5135199027084860208, 2097218196883642487), (6830433293312592790, 5801461507414689020))\<rparr>
   \<and> ecc_mul_double X86_64 (1, 2, 3, 4) (5, 6, 7, 8) 
       \<lparr>ax = ((18446744073709551615, 9223372036854775807), (10, 0)), ay = ((5135199027084860208, 2097218196883642487), (6830433293312592790, 5801461507414689020))\<rparr> \<noteq> None"
proof -
  note a = ecc_mul_double_fails_iff_invalid [where t = X86_64 and k = "(1, 2, 3, 4)"
      and l = "(5, 6, 7, 8)" and Q = "\<lparr>ax = ((0, 0), (0, 0)), ay = ((0, 0), (0, 0))\<rparr>"
      and publicKey = "
       [2, 0, 0, 0, 0, 0, 0, 0, 0, 0, 0, 0, 0, 0, 0, 0, 0, 0, 0, 0, 0, 0, 0, 0, 0, 0, 0, 0, 0, 0, 0, 0]"
      and messageDigest = "replicate 32 0" and signature = "replicate 64 0"]
  note b = ecc_mul_double_fails_iff_invalid [where t = AArch64 and k = "(1, 2, 3, 4)"
      and l = "(5, 6, 7, 8)" and Q = "\<lparr>ax = ((0, 0), (0, 0)), ay = ((0, 0), (0, 0))\<rparr>"]
  note c = ecc_mul_double_fails_iff_invalid [where t = X86_64 and k = "(1, 2, 3, 4)"
      and l = "(5, 6, 7, 8)" and publicKey = "
       [48, 27, 83, 196, 78, 228, 67, 71, 119, 24, 188, 169, 214, 208, 26, 29, 150, 11, 230, 29, 228, 146, 202, 94, 252, 4, 142, 231, 128, 238, 130, 80]"]
  have v: "\<not> ecc_point_validate t
             (point_setup \<lparr>ax = ((0, 0), (0, 0)), ay = ((0, 0), (0, 0))\<rparr>)" for t
    by (simp only: point_setup_def point_affine.simps nq_170 simp_thms)
  have 1: "ecc_mul_double X86_64 (1, 2, 3, 4) (5, 6, 7, 8)
       \<lparr>ax = ((0, 0), (0, 0)), ay = ((0, 0), (0, 0))\<rparr> = None"
    using a [THEN conjunct1] v by blast
  have 2: "ecc_mul_double AArch64 (1, 2, 3, 4) (5, 6, 7, 8)
       \<lparr>ax = ((0, 0), (0, 0)), ay = ((0, 0), (0, 0))\<rparr> = None"
    using b [THEN conjunct1] v by blast
  have 3: "decode X86_64 
       [2, 0, 0, 0, 0, 0, 0, 0, 0, 0, 0, 0, 0, 0, 0, 0, 0, 0, 0, 0, 0, 0, 0, 0, 0, 0, 0, 0, 0, 0, 0, 0] = None"
    by (rule nq_156)
  have 4: "\<not> verify X86_64 
       [2, 0, 0, 0, 0, 0, 0, 0, 0, 0, 0, 0, 0, 0, 0, 0, 0, 0, 0, 0, 0, 0, 0, 0, 0, 0, 0, 0, 0, 0, 0, 0] (replicate 32 0) (replicate 64 0)"
    using a [THEN conjunct2, THEN conjunct1] 3 by blast
  have 5: "decode X86_64 
       [48, 27, 83, 196, 78, 228, 67, 71, 119, 24, 188, 169, 214, 208, 26, 29, 150, 11, 230, 29, 228, 146, 202, 94, 252, 4, 142, 231, 128, 238, 130, 80] = Some 
       \<lparr>ax = ((18446744073709551615, 9223372036854775807), (10, 0)), ay = ((5135199027084860208, 2097218196883642487), (6830433293312592790, 5801461507414689020))\<rparr>"
    by (rule rt_126)
  have 6: "ecc_mul_double X86_64 (1, 2, 3, 4) (5, 6, 7, 8) 
       \<lparr>ax = ((18446744073709551615, 9223372036854775807), (10, 0)), ay = ((5135199027084860208, 2097218196883642487), (6830433293312592790, 5801461507414689020))\<rparr> \<noteq> None"
    using c [THEN conjunct2, THEN conjunct2, THEN conjunct1] 5 by blast
  show ?thesis using 1 2 3 4 5 6 by blast
qed

section \<open>Field arithmetic against the integers\<close>

text \<open>
  C7. For all field elements \<open>a\<close>, \<open>b\<close> in [0, p), p = 2^127 - 1, and on either target:
  \<^verbatim>\<open>fpadd1271(a, b)\<close> is congruent to \<open>a + b\<close> modulo p; \<^verbatim>\<open>fpmul1271(a, b)\<close> is congruent to
  \<open>a * b\<close> modulo p (the right-hand sides are computed on the natural numbers); \<open>a\<close> plus its
  negation \<^verbatim>\<open>fpneg1271(a)\<close> is congruent to 0 modulo p, both as a sum of integers and as
  computed by \<^verbatim>\<open>fpadd1271\<close>; and halving a doubled element gives the element back, word
  for word: \<^verbatim>\<open>fp2div1271\<close> (the header's halving, which works on both components of an
  extension-field element) undoes \<^verbatim>\<open>fp2add1271(x, x)\<close>.
\<close>

theorem field_arithmetic_reference:
  assumes "fval a < p1271" and "fval b < p1271"
  shows "fval (fpadd1271 t a b) mod p1271 = (fval a + fval b) mod p1271
       \<and> fval (fpmul1271 t a b) mod p1271 = (fval a * fval b) mod p1271
       \<and> (fval a + fval (fpneg1271 a)) mod p1271 = 0
       \<and> fval (fpadd1271 t a (fpneg1271 a)) mod p1271 = 0
       \<and> fp2div1271 t (fp2add1271 t (a, b) (a, b)) = (a, b)"
proof -
  have a: "fval a < 2 ^ 127" and b: "fval b < 2 ^ 127"
    using assms by (simp_all add: p1271_def)
  have ale: "fval a \<le> p1271" and ble: "fval b \<le> p1271" using assms by simp_all
  have n: "fval (fpneg1271 a) = p1271 - fval a" by (rule fpneg1271_val [OF a])
  then have nlt: "fval (fpneg1271 a) < 2 ^ 127" by (simp add: p1271_def)
  have s: "fval a + fval (fpneg1271 a) = p1271" using n ale by simp
  have 1: "fval (fpadd1271 t a b) mod p1271 = (fval a + fval b) mod p1271"
    by (rule fpadd1271_mod [OF a b])
  have 2: "fval (fpmul1271 t a b) mod p1271 = (fval a * fval b) mod p1271"
    by (rule fpmul1271_mod [OF ale ble])
  have 3: "(fval a + fval (fpneg1271 a)) mod p1271 = 0" by (simp add: s)
  have 4: "fval (fpadd1271 t a (fpneg1271 a)) mod p1271 = 0"
    using fpadd1271_mod [OF a nlt, of t] by (simp add: s)
  have 5: "fp2div1271 t (fp2add1271 t (a, b) (a, b)) = (a, b)"
    by (simp add: fp2div1271_def fp2add1271_def fpdiv1271_double [OF a] fpdiv1271_double [OF b])
  show ?thesis using 1 2 3 4 5 by blast
qed

theorem field_arithmetic_reference_witness:
  "fval (0xFFFFFFFFFFFFFFFE, 0x7FFFFFFFFFFFFFFF) < p1271 \<and> fval (0xFFFFFFFFFFFFFFFD, 0x7FFFFFFFFFFFFFFF) < p1271
   \<and> fval (fpadd1271 X86_64 (0xFFFFFFFFFFFFFFFE, 0x7FFFFFFFFFFFFFFF) (0xFFFFFFFFFFFFFFFD, 0x7FFFFFFFFFFFFFFF)) mod p1271
       = (fval (0xFFFFFFFFFFFFFFFE, 0x7FFFFFFFFFFFFFFF) + fval (0xFFFFFFFFFFFFFFFD, 0x7FFFFFFFFFFFFFFF)) mod p1271
   \<and> fval (fpmul1271 X86_64 (0xFFFFFFFFFFFFFFFE, 0x7FFFFFFFFFFFFFFF) (0xFFFFFFFFFFFFFFFD, 0x7FFFFFFFFFFFFFFF)) mod p1271
       = (fval (0xFFFFFFFFFFFFFFFE, 0x7FFFFFFFFFFFFFFF) * fval (0xFFFFFFFFFFFFFFFD, 0x7FFFFFFFFFFFFFFF)) mod p1271
   \<and> fp2div1271 X86_64 (fp2add1271 X86_64
         ((0xFFFFFFFFFFFFFFFE, 0x7FFFFFFFFFFFFFFF), (0xFFFFFFFFFFFFFFFD, 0x7FFFFFFFFFFFFFFF))
         ((0xFFFFFFFFFFFFFFFE, 0x7FFFFFFFFFFFFFFF), (0xFFFFFFFFFFFFFFFD, 0x7FFFFFFFFFFFFFFF)))
       = ((0xFFFFFFFFFFFFFFFE, 0x7FFFFFFFFFFFFFFF), (0xFFFFFFFFFFFFFFFD, 0x7FFFFFFFFFFFFFFF))"
proof -
  have h1: "fval (0xFFFFFFFFFFFFFFFE, 0x7FFFFFFFFFFFFFFF) < p1271" by (simp add: p1271_def)
  have h2: "fval (0xFFFFFFFFFFFFFFFD, 0x7FFFFFFFFFFFFFFF) < p1271" by (simp add: p1271_def)
  show ?thesis using h1 h2 field_arithmetic_reference [OF h1 h2, of X86_64] by blast
qed

section \<open>The exponentiation chain\<close>

text \<open>
  C8. For every field element \<open>a\<close> in [0, p), p = 2^127 - 1, and on either target,
  \<^verbatim>\<open>fpexp1251\<close> returns a field element in [0, p] whose residue modulo p is
  \<open>a ^ (2^125 - 1) mod p\<close>: the fixed chain of squarings and multiplications computes exactly
  the power \<open>2^125 - 1\<close>. (Field elements are compared modulo p: the header represents zero
  both as 0 and as p.)
\<close>

theorem fpexp1251_computes_power:
  assumes "fval a < p1271"
  shows "fval (fpexp1251 t a) mod p1271 = fval a ^ (2 ^ 125 - 1) mod p1271
         \<and> fval (fpexp1251 t a) \<le> p1271"
proof -
  have "fval a \<le> p1271" using assms by simp
  from fpexp1251_frep [OF this, of t] show ?thesis by (simp only: frep_def)
qed

theorem fpexp1251_computes_power_witness:
  "fval (3, 0) < p1271
   \<and> fval (fpexp1251 AArch64 (3, 0)) mod p1271 = fval (3, 0) ^ (2 ^ 125 - 1) mod p1271
   \<and> fval (fpexp1251 AArch64 (3, 0)) \<le> p1271"
proof -
  have h: "fval (3, 0) < p1271" by (simp add: p1271_def)
  show ?thesis using h fpexp1251_computes_power [OF h, of AArch64] by blast
qed

section \<open>The principal sub-scalar is odd\<close>

lemma and_one_cases_u64: "(x :: u64) AND 1 = 0 \<or> x AND 1 = 1"
  by (simp add: and_one_eq mod_2_eq_odd)

lemma odd_after_fix_u64:
  assumes "(x :: u64) AND 1 = 0" and "b AND 1 = 1"
  shows "(x - b) AND 1 = 1"
proof -
  have "even x" using assms(1) by (simp add: and_one_eq mod_2_eq_odd)
  moreover have "odd b" using assms(2) by (simp add: and_one_eq mod_2_eq_odd)
  ultimately have "odd (x - b)" by simp
  then show ?thesis by (simp add: and_one_eq mod_2_eq_odd)
qed

lemma B41_odd: "B41 AND 1 = 1"
  by (simp add: B41_def)

text \<open>
  C9. For every 256-bit scalar \<open>k\<close> (on either target) the first sub-scalar that
  \<^verbatim>\<open>decompose\<close> returns has its low bit set. The function subtracts the lattice vector
  (B41, B42, B43, B44) at most once, exactly when the uncorrected first sub-scalar is even,
  and B41 is odd, so one subtraction always suffices.
\<close>

theorem decompose_first_scalar_odd:
  "fst (decompose t k) AND 1 = 1"
proof -
  obtain k0 k1 k2 k3 where k: "k = (k0, k1, k2, k3)" by (cases k) auto
  define s0 where "s0 = mul_truncate t k ell1 * B11 + mul_truncate t k ell2 * B21
     + mul_truncate t k ell3 * B31 + mul_truncate t k ell4 * B41 + C1 + k0"
  have "fst (decompose t k) = (if s0 AND 1 = 0 then s0 - B41 else s0)"
    by (simp add: decompose_def k Let_def s0_def)
  then show ?thesis
    using odd_after_fix_u64 [OF _ B41_odd, of s0] and_one_cases_u64 [of s0] by auto
qed

section \<open>The representation invariant of field elements\<close>

text \<open>
  C10 as stated fails. The claim takes operands in [0, 2p). The operand \<open>2^127\<close> (low word 0,
  high word \<open>0x8000000000000000\<close>) is below \<open>2p = 2^128 - 2\<close>, yet on both targets
  \<^verbatim>\<open>fpadd1271\<close> returns 0 for \<open>2^127 + 2^127\<close>, whose residue modulo p is 2 (the carry out of
  the high word is dropped), and \<^verbatim>\<open>fpneg1271\<close> returns \<open>2^128 - 1\<close>, which is not below 2p.
\<close>

theorem loosely_reduced_2p_counterexample:
  "fval (0, 0x8000000000000000) < 2 * p1271
   \<and> fval (fpadd1271 X86_64 (0, 0x8000000000000000) (0, 0x8000000000000000)) = 0
   \<and> fval (fpadd1271 AArch64 (0, 0x8000000000000000) (0, 0x8000000000000000)) = 0
   \<and> (fval (0, 0x8000000000000000) + fval (0, 0x8000000000000000)) mod p1271 = 2
   \<and> fval (fpneg1271 (0, 0x8000000000000000)) = 2 ^ 128 - 1
   \<and> \<not> fval (fpneg1271 (0, 0x8000000000000000)) < 2 * p1271"
  by (simp add: p1271_def fpadd1271_def fpneg1271_def addcarry_u64_def unat64_m1)

text \<open>
  C10, amended. The invariant the code keeps is [0, p] (a 127-bit value: the top bit of the
  high word is clear; p itself is allowed and stands for zero). For operands \<open>a\<close>, \<open>b\<close> in
  [0, p], on either target, each of \<^verbatim>\<open>fpadd1271\<close>, \<^verbatim>\<open>fpsub1271\<close>, \<^verbatim>\<open>fpneg1271\<close>,
  \<^verbatim>\<open>fpmul1271\<close> and \<^verbatim>\<open>fpsqr1271\<close> returns a two-word value that is again in [0, p] and is
  congruent modulo p to the exact sum, difference, negation, product and square. The
  canonicalisation \<^verbatim>\<open>mod1271\<close> maps every value \<open>c\<close> in [0, 2p) to \<open>c mod p\<close>, which is in
  [0, p).
\<close>

theorem field_ops_keep_invariant:
  assumes "fval a \<le> p1271" and "fval b \<le> p1271" and "fval c < 2 * p1271"
  shows "(fval (fpadd1271 t a b) \<le> p1271
          \<and> fval (fpadd1271 t a b) mod p1271 = (fval a + fval b) mod p1271)
       \<and> (fval (fpsub1271 t a b) \<le> p1271
          \<and> (fval (fpsub1271 t a b) + fval b) mod p1271 = fval a mod p1271)
       \<and> (fval (fpneg1271 a) \<le> p1271
          \<and> (fval (fpneg1271 a) + fval a) mod p1271 = 0)
       \<and> (fval (fpmul1271 t a b) \<le> p1271
          \<and> fval (fpmul1271 t a b) mod p1271 = (fval a * fval b) mod p1271)
       \<and> (fval (fpsqr1271 t a) \<le> p1271
          \<and> fval (fpsqr1271 t a) mod p1271 = (fval a * fval a) mod p1271)
       \<and> (fval (mod1271 t c) < p1271 \<and> fval (mod1271 t c) = fval c mod p1271)"
proof -
  have a: "fval a < 2 ^ 127" and b: "fval b < 2 ^ 127"
    using assms(1,2) by (simp_all only: le_p_iff)
  have n: "fval (fpneg1271 a) = p1271 - fval a" by (rule fpneg1271_val [OF a])
  have 1: "fval (fpadd1271 t a b) \<le> p1271
          \<and> fval (fpadd1271 t a b) mod p1271 = (fval a + fval b) mod p1271"
    using fpadd1271_le [OF a b] fpadd1271_mod [OF a b] by blast
  have 2: "fval (fpsub1271 t a b) \<le> p1271
          \<and> (fval (fpsub1271 t a b) + fval b) mod p1271 = fval a mod p1271"
    using fpsub1271_le [OF a b] fpsub1271_mod [OF a b] by blast
  have 3: "fval (fpneg1271 a) \<le> p1271 \<and> (fval (fpneg1271 a) + fval a) mod p1271 = 0"
    using assms(1) by (simp add: n)
  have 4: "fval (fpmul1271 t a b) \<le> p1271
          \<and> fval (fpmul1271 t a b) mod p1271 = (fval a * fval b) mod p1271"
    using fpmul1271_le [OF assms(1,2)] fpmul1271_mod [OF assms(1,2)] by blast
  have 5: "fval (fpsqr1271 t a) \<le> p1271
          \<and> fval (fpsqr1271 t a) mod p1271 = (fval a * fval a) mod p1271"
    using fpsqr1271_le [OF assms(1)] fpsqr1271_mod [OF assms(1)] by blast
  have "fval (mod1271 t c) = fval c mod p1271" by (rule mod1271_reduces [OF assms(3)])
  moreover have "fval c mod p1271 < p1271" by (simp add: p1271_def)
  ultimately have 6: "fval (mod1271 t c) < p1271 \<and> fval (mod1271 t c) = fval c mod p1271"
    by simp
  show ?thesis using 1 2 3 4 5 6 by blast
qed

theorem field_ops_keep_invariant_witness:
  "fval (0xFFFFFFFFFFFFFFFF, 0x7FFFFFFFFFFFFFFF) \<le> p1271
   \<and> fval (0xFFFFFFFFFFFFFFFE, 0x7FFFFFFFFFFFFFFF) \<le> p1271
   \<and> fval (0xFFFFFFFFFFFFFFFD, 0xFFFFFFFFFFFFFFFF) < 2 * p1271
   \<and> fval (fpmul1271 AArch64 (0xFFFFFFFFFFFFFFFF, 0x7FFFFFFFFFFFFFFF)
        (0xFFFFFFFFFFFFFFFE, 0x7FFFFFFFFFFFFFFF)) \<le> p1271
   \<and> fval (fpsub1271 AArch64 (0xFFFFFFFFFFFFFFFF, 0x7FFFFFFFFFFFFFFF)
        (0xFFFFFFFFFFFFFFFE, 0x7FFFFFFFFFFFFFFF)) \<le> p1271
   \<and> fval (mod1271 AArch64 (0xFFFFFFFFFFFFFFFD, 0xFFFFFFFFFFFFFFFF)) < p1271"
proof -
  have h1: "fval (0xFFFFFFFFFFFFFFFF, 0x7FFFFFFFFFFFFFFF) \<le> p1271" by (simp add: p1271_def)
  have h2: "fval (0xFFFFFFFFFFFFFFFE, 0x7FFFFFFFFFFFFFFF) \<le> p1271" by (simp add: p1271_def)
  have h3: "fval (0xFFFFFFFFFFFFFFFD, 0xFFFFFFFFFFFFFFFF) < 2 * p1271" by (simp add: p1271_def)
  show ?thesis using h1 h2 h3 field_ops_keep_invariant [OF h1 h2 h3, of AArch64] by blast
qed

end
